(* ===== verification/Prelude.thy ===== *)
theory Prelude
  imports Main "HOL-Library.Sublist" "HOL-Library.Char_ord" "HOL-Library.List_Lexorder"
begin

text \<open>
  What every component shares: strings as the UTF-8 bytes Rust's \<open>str\<close> holds, with the
  \<open>str\<close> methods the source calls; time as chrono's \<open>DateTime<Utc>\<close>; results as sums; and the
  generic lemmas on lists the component proofs rest on.

  A string is a list of bytes (\<open>string\<close> is \<open>char list\<close> and a \<open>char\<close> is one byte), so
  \<open>length\<close> is \<open>str::len\<close>.  Methods that work on Unicode scalar values (\<open>trim\<close>,
  \<open>chars().take(n)\<close>) are written over the UTF-8 encoding.
\<close>

named_theorems str_simps \<open>evaluation of the string functions on symbolic arguments\<close>
named_theorems db_simps \<open>reading a table after a write\<close>

subsection \<open>Results\<close>

text \<open>\<open>Result<T, E>\<close> is \<open>'e + 'a\<close>: \<open>Inl\<close> is \<open>Err\<close>, \<open>Inr\<close> is \<open>Ok\<close>.  The \<open>?\<close>
  operator is \<open>bind_res\<close>.\<close>

definition bind_res :: "'e + 'a \<Rightarrow> ('a \<Rightarrow> 'e + 'b) \<Rightarrow> 'e + 'b" where
  "bind_res r f = (case r of Inl e \<Rightarrow> Inl e | Inr x \<Rightarrow> f x)"

lemma bind_res_simps [simp]:
  "bind_res (Inl e) f = Inl e"
  "bind_res (Inr x) f = f x"
  by (simp_all add: bind_res_def)

lemma bind_res_Inr_iff:
  "bind_res r f = Inr y \<longleftrightarrow> (\<exists>x. r = Inr x \<and> f x = Inr y)"
  by (cases r) auto

definition ok_or :: "'e \<Rightarrow> 'a option \<Rightarrow> 'e + 'a" where
  "ok_or e x = (case x of None \<Rightarrow> Inl e | Some v \<Rightarrow> Inr v)"

lemma ok_or_simps [simp]:
  "ok_or e None = Inl e"
  "ok_or e (Some v) = Inr v"
  by (simp_all add: ok_or_def)

lemma ok_or_Inr_iff [simp]: "ok_or e x = Inr y \<longleftrightarrow> x = Some y"
  by (cases x) simp_all

definition map_err :: "('e \<Rightarrow> 'f) \<Rightarrow> 'e + 'a \<Rightarrow> 'f + 'a" where
  "map_err g r = (case r of Inl e \<Rightarrow> Inl (g e) | Inr x \<Rightarrow> Inr x)"

lemma map_err_simps [simp]:
  "map_err g (Inl e) = Inl (g e)"
  "map_err g (Inr x) = Inr x"
  by (simp_all add: map_err_def)

lemma map_err_Inr_iff [simp]: "map_err g r = Inr x \<longleftrightarrow> r = Inr x"
  by (cases r) auto

subsection \<open>Iterators\<close>

fun find_map :: "('a \<Rightarrow> 'b option) \<Rightarrow> 'a list \<Rightarrow> 'b option" where
  "find_map f [] = None"
| "find_map f (x # xs) = (case f x of Some y \<Rightarrow> Some y | None \<Rightarrow> find_map f xs)"

lemma find_map_SomeD: "find_map f xs = Some y \<Longrightarrow> \<exists>x\<in>set xs. f x = Some y"
  by (induction xs) (auto split: option.splits)

lemma find_map_None_iff: "find_map f xs = None \<longleftrightarrow> (\<forall>x\<in>set xs. f x = None)"
  by (induction xs) (auto split: option.splits)

lemma in_map_filter_iff: "y \<in> set (List.map_filter f xs) \<longleftrightarrow> (\<exists>x\<in>set xs. f x = Some y)"
  by (induction xs) (auto simp: map_filter_simps split: option.split)

lemma find_SomeD: "find P xs = Some x \<Longrightarrow> x \<in> set xs \<and> P x"
  by (auto simp: find_Some_iff)

lemma find_None_all: "find P xs = None \<longleftrightarrow> (\<forall>x\<in>set xs. \<not> P x)"
  by (auto simp: find_None_iff)

text \<open>\<open>order by k desc limit 1\<close>.  The order of rows with equal keys, which SQL leaves open, is
  the order of the table.\<close>

fun latest_by :: "('a \<Rightarrow> 'k::linorder) \<Rightarrow> 'a list \<Rightarrow> 'a option" where
  "latest_by k [] = None"
| "latest_by k (x # xs) =
     (case latest_by k xs of None \<Rightarrow> Some x | Some y \<Rightarrow> if k y \<le> k x then Some x else Some y)"

lemma latest_by_None_iff [simp]: "latest_by k xs = None \<longleftrightarrow> xs = []"
  by (cases xs) (auto split: option.splits)

lemma latest_by_mem: "latest_by k xs = Some x \<Longrightarrow> x \<in> set xs"
  by (induction xs arbitrary: x) (auto split: option.splits if_splits)

lemma latest_by_max: "latest_by k xs = Some x \<Longrightarrow> y \<in> set xs \<Longrightarrow> k y \<le> k x"
proof (induction xs arbitrary: x)
  case (Cons a xs)
  show ?case
  proof (cases "latest_by k xs")
    case None
    with Cons.prems show ?thesis by auto
  next
    case (Some z)
    with Cons.IH[OF Some] Cons.prems show ?thesis
      by (auto split: if_splits dest: order_trans)
  qed
qed simp

subsection \<open>Characters\<close>

text \<open>A byte by its number, and the ASCII classes of \<open>u8\<close>/\<open>char\<close>.\<close>

definition code_of :: "char \<Rightarrow> nat" where
  "code_of c = of_char c"

lemma code_of_less [simp]: "code_of c < 256"
  by (simp add: code_of_def)

lemma code_of_eq_iff: "code_of c = code_of d \<longleftrightarrow> c = d"
  by (simp add: code_of_def)

definition is_digit :: "char \<Rightarrow> bool" where
  "is_digit c \<longleftrightarrow> 48 \<le> code_of c \<and> code_of c \<le> 57"

definition is_upper :: "char \<Rightarrow> bool" where
  "is_upper c \<longleftrightarrow> 65 \<le> code_of c \<and> code_of c \<le> 90"

definition is_lower :: "char \<Rightarrow> bool" where
  "is_lower c \<longleftrightarrow> 97 \<le> code_of c \<and> code_of c \<le> 122"

definition is_alnum :: "char \<Rightarrow> bool" where
  "is_alnum c \<longleftrightarrow> is_digit c \<or> is_upper c \<or> is_lower c"

definition lower_char :: "char \<Rightarrow> char" where
  "lower_char c = (if is_upper c then char_of (code_of c + 32) else c)"

text \<open>\<open>str::to_ascii_lowercase\<close>: bytes outside \<open>A..Z\<close> are kept, so it is exact on UTF-8.\<close>

definition to_ascii_lowercase :: "string \<Rightarrow> string" where
  "to_ascii_lowercase s = map lower_char s"

lemma code_of_lower_char: "code_of (lower_char c) = (if is_upper c then code_of c + 32 else code_of c)"
  by (simp add: lower_char_def code_of_def is_upper_def)

lemma lower_char_not_upper [simp]: "\<not> is_upper (lower_char c)"
  by (auto simp: is_upper_def code_of_lower_char)

lemma lower_char_id: "\<not> is_upper c \<Longrightarrow> lower_char c = c"
  by (simp add: lower_char_def)

lemma lower_char_idem [simp]: "lower_char (lower_char c) = lower_char c"
  by (rule lower_char_id) simp

lemma length_to_ascii_lowercase [simp]: "length (to_ascii_lowercase s) = length s"
  by (simp add: to_ascii_lowercase_def)

lemma to_ascii_lowercase_idem [simp]:
  "to_ascii_lowercase (to_ascii_lowercase s) = to_ascii_lowercase s"
  by (simp add: to_ascii_lowercase_def)

lemma to_ascii_lowercase_append [simp]:
  "to_ascii_lowercase (s @ t) = to_ascii_lowercase s @ to_ascii_lowercase t"
  by (simp add: to_ascii_lowercase_def)

lemma to_ascii_lowercase_Nil_iff [simp]: "to_ascii_lowercase s = [] \<longleftrightarrow> s = []"
  by (simp add: to_ascii_lowercase_def)

lemma set_to_ascii_lowercase_no_upper: "c \<in> set (to_ascii_lowercase s) \<Longrightarrow> \<not> is_upper c"
  by (auto simp: to_ascii_lowercase_def)

lemma to_ascii_lowercase_id: "\<forall>c\<in>set s. \<not> is_upper c \<Longrightarrow> to_ascii_lowercase s = s"
  by (simp add: to_ascii_lowercase_def lower_char_id map_idI)

subsection \<open>\<open>str::trim\<close>\<close>

text \<open>The length in bytes of the White_Space character a string starts with, 0 for none:
  U+0009..D, U+0020, U+0085, U+00A0, U+1680, U+2000..A, U+2028, U+2029, U+202F, U+205F, U+3000.
  \<open>ws_len_rev\<close> reads the string backwards.\<close>

definition ascii_ws :: "char \<Rightarrow> bool" where
  "ascii_ws c \<longleftrightarrow> (9 \<le> code_of c \<and> code_of c \<le> 13) \<or> code_of c = 32"

definition wide_ws :: "char \<Rightarrow> char \<Rightarrow> char \<Rightarrow> bool" where
  "wide_ws a b c \<longleftrightarrow>
     (let x = code_of a; y = code_of b; z = code_of c in
      (x = 225 \<and> y = 154 \<and> z = 128)
      \<or> (x = 226 \<and> y = 128 \<and> ((128 \<le> z \<and> z \<le> 138) \<or> z = 168 \<or> z = 169 \<or> z = 175))
      \<or> (x = 226 \<and> y = 129 \<and> z = 159)
      \<or> (x = 227 \<and> y = 128 \<and> z = 128))"

definition ws_len :: "string \<Rightarrow> nat" where
  "ws_len s = (case s of [] \<Rightarrow> 0
     | a # s' \<Rightarrow> if ascii_ws a then 1
       else (case s' of [] \<Rightarrow> 0
         | b # s'' \<Rightarrow> if code_of a = 194 \<and> (code_of b = 133 \<or> code_of b = 160) then 2
           else (case s'' of [] \<Rightarrow> 0 | c # _ \<Rightarrow> if wide_ws a b c then 3 else 0)))"

definition ws_len_rev :: "string \<Rightarrow> nat" where
  "ws_len_rev s = (case s of [] \<Rightarrow> 0
     | c # s' \<Rightarrow> if ascii_ws c then 1
       else (case s' of [] \<Rightarrow> 0
         | b # s'' \<Rightarrow> if code_of b = 194 \<and> (code_of c = 133 \<or> code_of c = 160) then 2
           else (case s'' of [] \<Rightarrow> 0 | a # _ \<Rightarrow> if wide_ws a b c then 3 else 0)))"

lemma ws_len_Nil [simp]: "ws_len [] = 0" and ws_len_rev_Nil [simp]: "ws_len_rev [] = 0"
  by (simp_all add: ws_len_def ws_len_rev_def)

function strip_ws :: "(string \<Rightarrow> nat) \<Rightarrow> string \<Rightarrow> string" where
  "strip_ws w s = (if w s = 0 \<or> s = [] then s else strip_ws w (drop (w s) s))"
  by pat_completeness auto
termination
  by (relation "measure (\<lambda>(w, s). length s)") auto

declare strip_ws.simps [simp del]

definition trim_start :: "string \<Rightarrow> string" where
  "trim_start s = strip_ws ws_len s"

definition trim_end :: "string \<Rightarrow> string" where
  "trim_end s = rev (strip_ws ws_len_rev (rev s))"

definition trim :: "string \<Rightarrow> string" where
  "trim s = trim_end (trim_start s)"

text \<open>A byte no White_Space character contains or is.\<close>

definition graphic :: "char \<Rightarrow> bool" where
  "graphic c \<longleftrightarrow> 33 \<le> code_of c \<and> code_of c \<le> 126"

lemma graphic_ws_len [simp]: "graphic c \<Longrightarrow> ws_len (c # s) = 0"
  by (auto simp: graphic_def ws_len_def ascii_ws_def wide_ws_def Let_def split: list.splits)

lemma graphic_ws_len_rev [simp]: "graphic c \<Longrightarrow> ws_len_rev (c # s) = 0"
  by (auto simp: graphic_def ws_len_rev_def ascii_ws_def wide_ws_def Let_def split: list.splits)

lemma strip_ws_id: "w s = 0 \<Longrightarrow> strip_ws w s = s"
  by (subst strip_ws.simps) simp

lemma trim_graphic: "\<forall>c\<in>set s. graphic c \<Longrightarrow> trim s = s"
proof -
  assume g: "\<forall>c\<in>set s. graphic c"
  have "ws_len s = 0"
    using g by (cases s) auto
  moreover have "ws_len_rev (rev s) = 0"
  proof (cases "rev s")
    case (Cons c t)
    then have "c \<in> set s" by (metis list.set_intros(1) set_rev)
    with g Cons show ?thesis by simp
  qed simp
  ultimately show ?thesis
    by (simp add: trim_def trim_start_def trim_end_def strip_ws_id)
qed

lemma strip_ws_stop: "w (strip_ws w s) = 0 \<or> strip_ws w s = []"
proof (induction w s rule: strip_ws.induct)
  case (1 w s)
  show ?case
  proof (cases "w s = 0 \<or> s = []")
    case True
    then show ?thesis by (subst (1 2) strip_ws.simps) auto
  next
    case False
    with "1.IH" show ?thesis by (simp add: strip_ws.simps[of w s])
  qed
qed

lemma strip_ws_suffix: "suffix (strip_ws w s) s"
proof (induction w s rule: strip_ws.induct)
  case (1 w s)
  show ?case
  proof (cases "w s = 0 \<or> s = []")
    case True
    then show ?thesis by (subst strip_ws.simps) auto
  next
    case False
    with "1.IH" have "suffix (strip_ws w (drop (w s) s)) (drop (w s) s)" by simp
    then have "suffix (strip_ws w (drop (w s) s)) s"
      using suffix_drop suffix_order.trans by blast
    with False show ?thesis by (simp add: strip_ws.simps[of w s])
  qed
qed

lemma set_trim: "set (trim s) \<subseteq> set s"
proof -
  have a: "set (strip_ws w t) \<subseteq> set t" for w t
    by (rule set_mono_suffix) (rule strip_ws_suffix)
  show ?thesis
    using a[of ws_len s] a[of ws_len_rev "rev (strip_ws ws_len s)"]
    by (auto simp: trim_def trim_start_def trim_end_def)
qed

end
