(* ===== verification/Strs.thy ===== *)
theory Strs
  imports Prelude
begin

text \<open>
  The remaining \<open>str\<close> methods the source calls: splitting at a character or a string, prefixes
  and suffixes, \<open>contains\<close>, \<open>join\<close>, \<open>chars().take(n)\<close>, decimal printing and parsing,
  and the words of its messages that are not ASCII.
\<close>

subsection \<open>Splitting\<close>

text \<open>\<open>str::split\<close> on a character class: never the empty list.\<close>

fun split_on :: "(char \<Rightarrow> bool) \<Rightarrow> string \<Rightarrow> string list" where
  "split_on p [] = [[]]"
| "split_on p (c # cs) =
     (if p c then [] # split_on p cs
      else (case split_on p cs of [] \<Rightarrow> [[c]] | w # ws \<Rightarrow> (c # w) # ws))"

lemma split_on_nonempty [simp]: "split_on p s \<noteq> []"
  by (induction s) (auto split: list.splits)

lemma split_on_no_sep: "w \<in> set (split_on p s) \<Longrightarrow> c \<in> set w \<Longrightarrow> \<not> p c"
  by (induction s arbitrary: w) (fastforce split: list.splits if_splits)+

lemma split_on_subset: "w \<in> set (split_on p s) \<Longrightarrow> set w \<subseteq> set s"
  by (induction s arbitrary: w) (fastforce split: list.splits if_splits)+

lemma split_on_id: "\<forall>c\<in>set s. \<not> p c \<Longrightarrow> split_on p s = [s]"
  by (induction s) auto

text \<open>What a string split by one separator character says about its ends and its doubles.\<close>

lemma split_on_hd_Nil: "hd (split_on p s) = [] \<longleftrightarrow> s = [] \<or> p (hd s)"
  by (cases s) (auto split: list.splits)

lemma split_on_length: "length (split_on p s) = Suc (length (filter p s))"
  by (induction s) (auto split: list.splits)

lemma split_on_Nil_iff: "split_on p s = [[]] \<longleftrightarrow> s = []"
proof
  assume a: "split_on p s = [[]]"
  then have "filter p s = []" using split_on_length[of p s] by simp
  then have "split_on p s = [s]" by (intro split_on_id) (auto simp: filter_empty_conv)
  with a show "s = []" by simp
qed simp

lemma split_on_last_Nil: "last (split_on p s) = [] \<longleftrightarrow> s = [] \<or> p (last s)"
  by (induction s) (auto simp: split_on_Nil_iff split: list.splits)

definition split_char :: "char \<Rightarrow> string \<Rightarrow> string list" where
  "split_char d s = split_on (\<lambda>c. c = d) s"

text \<open>\<open>split_once\<close>/\<open>rsplit_once\<close> at a character: the first and the last occurrence.\<close>

fun split_once :: "char \<Rightarrow> string \<Rightarrow> (string \<times> string) option" where
  "split_once d [] = None"
| "split_once d (c # cs) =
     (if c = d then Some ([], cs) else map_option (\<lambda>(a, b). (c # a, b)) (split_once d cs))"

fun rsplit_once :: "char \<Rightarrow> string \<Rightarrow> (string \<times> string) option" where
  "rsplit_once d [] = None"
| "rsplit_once d (c # cs) =
     (case rsplit_once d cs of Some (a, b) \<Rightarrow> Some (c # a, b)
      | None \<Rightarrow> if c = d then Some ([], cs) else None)"

lemma split_once_None_iff: "split_once d s = None \<longleftrightarrow> d \<notin> set s"
  by (induction s) auto

lemma rsplit_once_None_iff: "rsplit_once d s = None \<longleftrightarrow> d \<notin> set s"
  by (induction s) (auto split: option.splits)

lemma split_once_SomeD: "split_once d s = Some (a, b) \<Longrightarrow> s = a @ d # b \<and> d \<notin> set a"
  by (induction s arbitrary: a b) (auto split: if_splits)

lemma rsplit_once_SomeD: "rsplit_once d s = Some (a, b) \<Longrightarrow> s = a @ d # b \<and> d \<notin> set b"
  by (induction s arbitrary: a b) (auto simp: rsplit_once_None_iff split: option.splits if_splits)

lemma split_once_app: "d \<notin> set a \<Longrightarrow> split_once d (a @ d # b) = Some (a, b)"
  by (induction a) auto

lemma rsplit_once_app: "d \<notin> set b \<Longrightarrow> rsplit_once d (a @ d # b) = Some (a, b)"
proof (induction a)
  case Nil
  then have "rsplit_once d b = None" by (simp add: rsplit_once_None_iff)
  then show ?case by simp
qed simp

subsection \<open>Substrings\<close>

definition strip_prefix :: "string \<Rightarrow> string \<Rightarrow> string option" where
  "strip_prefix p s = (if prefix p s then Some (drop (length p) s) else None)"

fun split_once_str :: "string \<Rightarrow> string \<Rightarrow> (string \<times> string) option" where
  "split_once_str d [] = (if d = [] then Some ([], []) else None)"
| "split_once_str d (c # cs) =
     (if prefix d (c # cs) then Some ([], drop (length d) (c # cs))
      else map_option (\<lambda>(a, b). (c # a, b)) (split_once_str d cs))"

fun str_contains :: "string \<Rightarrow> string \<Rightarrow> bool" where
  "str_contains d [] \<longleftrightarrow> d = []"
| "str_contains d (c # cs) \<longleftrightarrow> prefix d (c # cs) \<or> str_contains d cs"

lemma str_contains_iff: "str_contains d s \<longleftrightarrow> (\<exists>a b. s = a @ d @ b)"
proof (induction s)
  case (Cons c cs)
  show ?case
  proof
    assume "str_contains d (c # cs)"
    then show "\<exists>a b. c # cs = a @ d @ b"
    proof (cases "prefix d (c # cs)")
      case True
      then have "\<exists>b. c # cs = [] @ d @ b" by (simp add: prefix_def)
      then show ?thesis by blast
    next
      case False
      with \<open>str_contains d (c # cs)\<close> obtain a b where "cs = a @ d @ b"
        using Cons.IH by auto
      then have "c # cs = (c # a) @ d @ b" by simp
      then show ?thesis by blast
    qed
  next
    assume "\<exists>a b. c # cs = a @ d @ b"
    then obtain a b where ab: "c # cs = a @ d @ b" by blast
    then show "str_contains d (c # cs)"
    proof (cases a)
      case Nil
      with ab have "prefix d (c # cs)" by (simp add: prefix_def)
      then show ?thesis by simp
    next
      case (Cons x a')
      with ab have "cs = a' @ d @ b" by simp
      then have "str_contains d cs" using Cons.IH by blast
      then show ?thesis by simp
    qed
  qed
qed simp

lemma split_once_str_None_iff: "split_once_str d s = None \<longleftrightarrow> \<not> str_contains d s"
  by (induction s) auto

lemma split_once_str_SomeD: "split_once_str d s = Some (a, b) \<Longrightarrow> s = a @ d @ b"
  by (induction s arbitrary: a b) (auto simp: prefix_def split: if_splits)

lemma str_contains_subset: "str_contains d s \<Longrightarrow> set d \<subseteq> set s"
  by (auto simp: str_contains_iff)

text \<open>\<open>split\<close> at a string, for non-empty separators.\<close>

function split_str :: "string \<Rightarrow> string \<Rightarrow> string list" where
  "split_str d s =
     (case split_once_str d s of
        None \<Rightarrow> [s]
      | Some (a, b) \<Rightarrow> if length b < length s then a # split_str d b else [s])"
  by pat_completeness auto
termination
  by (relation "measure (\<lambda>(d, s). length s)") auto

declare split_str.simps [simp del]

lemma split_str_once: "split_once_str d s = None \<Longrightarrow> split_str d s = [s]"
  by (subst split_str.simps) simp

lemma split_str_step:
  "d \<noteq> [] \<Longrightarrow> split_once_str d s = Some (a, b) \<Longrightarrow> split_str d s = a # split_str d b"
  using split_once_str_SomeD[of d s a b]
  by (subst split_str.simps) simp

text \<open>\<open>[a, b].join(sep)\<close>.\<close>

fun join :: "string \<Rightarrow> string list \<Rightarrow> string" where
  "join d [] = []"
| "join d [w] = w"
| "join d (w # v # ws) = w @ d @ join d (v # ws)"

lemma join_append:
  "xs \<noteq> [] \<Longrightarrow> ys \<noteq> [] \<Longrightarrow> join d (xs @ ys) = join d xs @ d @ join d ys"
proof (induction d xs rule: join.induct)
  case (2 d w)
  then show ?case by (cases ys) auto
qed auto

lemma join_Cons_first: "join d ((c # w) # ws) = c # join d (w # ws)"
  by (cases ws) auto

lemma join_split_char: "join [d] (split_char d s) = s"
proof (induction s)
  case Nil
  then show ?case by (simp add: split_char_def)
next
  case (Cons c cs)
  obtain w ws where w: "split_on (\<lambda>c. c = d) cs = w # ws"
    by (meson list.exhaust split_on_nonempty)
  with Cons have "join [d] (w # ws) = cs" by (simp add: split_char_def)
  then show ?case
    using w by (auto simp: split_char_def join_Cons_first)
qed

lemma split_char_sep: "split_char d (a @ d # b) = split_char d a @ split_char d b"
proof (induction a)
  case Nil
  then show ?case by (simp add: split_char_def)
next
  case (Cons c cs)
  obtain w ws where w: "split_on (\<lambda>c. c = d) cs = w # ws"
    by (meson list.exhaust split_on_nonempty)
  with Cons show ?case by (auto simp: split_char_def split: list.splits)
qed

lemma split_char_zone:
  "h = z \<or> suffix (d # z) h \<longleftrightarrow> suffix (split_char d z) (split_char d h)"
proof
  assume "h = z \<or> suffix (d # z) h"
  then show "suffix (split_char d z) (split_char d h)"
    by (auto simp: suffix_def split_char_sep)
next
  assume "suffix (split_char d z) (split_char d h)"
  then obtain xs where xs: "split_char d h = xs @ split_char d z" by (auto simp: suffix_def)
  have ne: "split_char d z \<noteq> []" by (simp add: split_char_def)
  show "h = z \<or> suffix (d # z) h"
  proof (cases "xs = []")
    case True
    with xs have "join [d] (split_char d h) = join [d] (split_char d z)" by simp
    then show ?thesis by (simp add: join_split_char)
  next
    case False
    have "h = join [d] (xs @ split_char d z)" by (simp add: xs[symmetric] join_split_char)
    also have "\<dots> = join [d] xs @ d # z"
      using False ne by (simp add: join_append join_split_char)
    finally show ?thesis by (auto simp: suffix_def)
  qed
qed

text \<open>\<open>trim_end_matches(c)\<close>, \<open>trim_start_matches(c)\<close> and \<open>trim_matches(c)\<close>.\<close>

definition trim_start_char :: "char \<Rightarrow> string \<Rightarrow> string" where
  "trim_start_char d s = dropWhile (\<lambda>c. c = d) s"

definition trim_end_char :: "char \<Rightarrow> string \<Rightarrow> string" where
  "trim_end_char d s = rev (dropWhile (\<lambda>c. c = d) (rev s))"

lemma trim_end_char_id: "s = [] \<or> last s \<noteq> d \<Longrightarrow> trim_end_char d s = s"
  by (cases s rule: rev_cases) (auto simp: trim_end_char_def)

lemma trim_end_char_last: "trim_end_char d s \<noteq> [] \<Longrightarrow> last (trim_end_char d s) \<noteq> d"
proof -
  assume a: "trim_end_char d s \<noteq> []"
  then have "dropWhile (\<lambda>c. c = d) (rev s) \<noteq> []" by (simp add: trim_end_char_def)
  then have "hd (dropWhile (\<lambda>c. c = d) (rev s)) \<noteq> d" by (rule hd_dropWhile)
  with a show ?thesis by (simp add: trim_end_char_def last_rev)
qed

lemma set_trim_end_char: "set (trim_end_char d s) \<subseteq> set s"
  by (auto simp: trim_end_char_def dest: set_dropWhileD)

lemma trim_end_char_idem [simp]: "trim_end_char d (trim_end_char d s) = trim_end_char d s"
  by (rule trim_end_char_id) (use trim_end_char_last in blast)

definition trim_matches_char :: "char \<Rightarrow> string \<Rightarrow> string" where
  "trim_matches_char d s = trim_end_char d (trim_start_char d s)"

subsection \<open>\<open>chars()\<close>\<close>

text \<open>In valid UTF-8 each scalar value is a leading byte and its continuation bytes
  \<open>0x80..0xBF\<close>, so the number of values is the number of bytes that do not continue.\<close>

definition continues :: "char \<Rightarrow> bool" where
  "continues c \<longleftrightarrow> 128 \<le> code_of c \<and> code_of c < 192"

definition chars_count :: "string \<Rightarrow> nat" where
  "chars_count s = length (filter (\<lambda>c. \<not> continues c) s)"

fun take_chars :: "nat \<Rightarrow> string \<Rightarrow> string" where
  "take_chars n [] = []"
| "take_chars n (c # cs) =
     (if continues c then c # take_chars n cs
      else (case n of 0 \<Rightarrow> [] | Suc m \<Rightarrow> c # take_chars m cs))"

lemma chars_count_take: "chars_count (take_chars n s) \<le> n"
  by (induction n s rule: take_chars.induct) (auto simp: chars_count_def split: nat.splits)

lemma take_chars_prefix: "prefix (take_chars n s) s"
  by (induction n s rule: take_chars.induct) (auto split: nat.splits)

lemma take_chars_id: "chars_count s \<le> n \<Longrightarrow> take_chars n s = s"
  by (induction n s rule: take_chars.induct) (auto simp: chars_count_def split: nat.splits if_splits)

text \<open>The characters of a string, each by its UTF-8 bytes.\<close>

function scalars :: "string \<Rightarrow> string list" where
  "scalars [] = []"
| "scalars (c # cs) = (c # takeWhile continues cs) # scalars (dropWhile continues cs)"
  by pat_completeness auto
termination
  by (relation "measure length") (auto simp: less_Suc_eq_le length_dropWhile_le)

text \<open>\<open>ch as u32\<close>, from the bytes of well-formed UTF-8.\<close>

definition scalar_value :: "string \<Rightarrow> nat" where
  "scalar_value s =
     (case map code_of s of
        [a] \<Rightarrow> a
      | [a, b] \<Rightarrow> (a - 192) * 64 + (b - 128)
      | [a, b, c] \<Rightarrow> (a - 224) * 4096 + (b - 128) * 64 + (c - 128)
      | [a, b, c, d] \<Rightarrow> (a - 240) * 262144 + (b - 128) * 4096 + (c - 128) * 64 + (d - 128)
      | _ \<Rightarrow> 0)"

text \<open>\<open>{:x}\<close>.\<close>

definition hex_digit :: "nat \<Rightarrow> char" where
  "hex_digit d = (if d < 10 then char_of (48 + d) else char_of (87 + d))"

fun show_hex :: "nat \<Rightarrow> string" where
  "show_hex n =
     (if n < 16 then [hex_digit n] else show_hex (n div 16) @ [hex_digit (n mod 16)])"

declare show_hex.simps [simp del]

subsection \<open>\<open>String::from_utf8_lossy\<close>\<close>

text \<open>\<open>utf8_len s\<close> is the length of the well-formed sequence \<open>s\<close> starts with, 0 for none;
  \<open>utf8_bad s\<close> is the length of the ill-formed prefix that is replaced by one U+FFFD: the
  longest prefix of a well-formed sequence, one byte at least.\<close>

definition utf8_second :: "nat \<Rightarrow> nat \<Rightarrow> bool" where
  "utf8_second a b \<longleftrightarrow>
     (if a = 224 then 160 \<le> b \<and> b \<le> 191 else if a = 237 then 128 \<le> b \<and> b \<le> 159
      else if a = 240 then 144 \<le> b \<and> b \<le> 191 else if a = 244 then 128 \<le> b \<and> b \<le> 143
      else 128 \<le> b \<and> b \<le> 191)"

definition utf8_width :: "nat \<Rightarrow> nat" where
  "utf8_width a = (if a < 128 then 1 else if 194 \<le> a \<and> a \<le> 223 then 2
     else if 224 \<le> a \<and> a \<le> 239 then 3 else if 240 \<le> a \<and> a \<le> 244 then 4 else 0)"

definition utf8_good :: "string \<Rightarrow> nat" where
  "utf8_good s = (case s of [] \<Rightarrow> 0
     | c # r \<Rightarrow> let a = code_of c; w = utf8_width a in
         if w \<le> 1 then w
         else (case r of [] \<Rightarrow> 1
           | d # r' \<Rightarrow> if utf8_second a (code_of d)
               then 2 + length (takeWhile continues (take (w - 2) r')) else 1))"

definition utf8_len :: "string \<Rightarrow> nat" where
  "utf8_len s = (case s of [] \<Rightarrow> 0
     | c # _ \<Rightarrow> if utf8_width (code_of c) \<noteq> 0 \<and> utf8_good s = utf8_width (code_of c)
                then utf8_good s else 0)"

function from_utf8_lossy :: "string \<Rightarrow> string" where
  "from_utf8_lossy s =
     (if s = [] then []
      else if 0 < utf8_len s then take (utf8_len s) s @ from_utf8_lossy (drop (utf8_len s) s)
      else [CHR 0xEF, CHR 0xBF, CHR 0xBD] @ from_utf8_lossy (drop (max 1 (utf8_good s)) s))"
  by pat_completeness auto
termination
  by (relation "measure length") (auto simp: less_max_iff_disj)

declare from_utf8_lossy.simps [simp del]

lemma from_utf8_lossy_Nil [simp]: "from_utf8_lossy [] = []"
  by (subst from_utf8_lossy.simps) simp

lemma from_utf8_lossy_ascii:
  "\<forall>c\<in>set s. code_of c < 128 \<Longrightarrow> from_utf8_lossy s = s"
proof (induction s)
  case (Cons c s)
  then have "utf8_len (c # s) = 1"
    by (simp add: utf8_len_def utf8_good_def utf8_width_def)
  with Cons show ?case by (subst from_utf8_lossy.simps) simp
qed simp

subsection \<open>Decimal numbers\<close>

definition digit_char :: "nat \<Rightarrow> char" where
  "digit_char d = char_of (48 + d)"

fun show_nat :: "nat \<Rightarrow> string" where
  "show_nat n = (if n < 10 then [digit_char n] else show_nat (n div 10) @ [digit_char (n mod 10)])"

declare show_nat.simps [simp del]

definition show_int :: "int \<Rightarrow> string" where
  "show_int i = (if i < 0 then CHR ''-'' # show_nat (nat (- i)) else show_nat (nat i))"

definition digit_val :: "char \<Rightarrow> nat" where
  "digit_val c = code_of c - 48"

text \<open>The value of a string of digits; \<open>None\<close> for an empty string or another byte.\<close>

definition parse_digits :: "string \<Rightarrow> nat option" where
  "parse_digits s = (if s \<noteq> [] \<and> list_all is_digit s
     then Some (foldl (\<lambda>n c. 10 * n + digit_val c) 0 s) else None)"

text \<open>\<open>str::parse::<i64>\<close>: an optional sign, then digits, in range.\<close>

definition parse_i64 :: "string \<Rightarrow> int option" where
  "parse_i64 s =
     (let (neg, ds) = (case s of [] \<Rightarrow> (False, [])
            | c # cs \<Rightarrow> if c = CHR ''-'' then (True, cs)
                         else if c = CHR ''+'' then (False, cs) else (False, s))
      in case parse_digits ds of None \<Rightarrow> None
         | Some n \<Rightarrow> let v = (if neg then - int n else int n) in
             if - (2 ^ 63) \<le> v \<and> v < 2 ^ 63 then Some v else None)"

lemma parse_i64_range: "parse_i64 s = Some v \<Longrightarrow> - (2 ^ 63) \<le> v \<and> v < 2 ^ 63"
  by (auto simp: parse_i64_def Let_def split: prod.splits option.splits if_splits)

text \<open>\<open>str::parse::<u64>\<close>: an optional plus sign, then digits, in range.\<close>

definition parse_u64 :: "string \<Rightarrow> nat option" where
  "parse_u64 s =
     (let ds = (case s of [] \<Rightarrow> [] | c # cs \<Rightarrow> if c = CHR ''+'' then cs else s)
      in case parse_digits ds of None \<Rightarrow> None
         | Some n \<Rightarrow> if n < 2 ^ 64 then Some n else None)"

lemma is_digit_digit_char [simp]: "d < 10 \<Longrightarrow> is_digit (digit_char d)"
  by (simp add: is_digit_def digit_char_def code_of_def)

lemma digit_val_digit_char [simp]: "d < 10 \<Longrightarrow> digit_val (digit_char d) = d"
  by (simp add: digit_val_def digit_char_def code_of_def)

lemma show_nat_digits: "list_all is_digit (show_nat n)"
proof (induction n rule: show_nat.induct)
  case (1 n)
  then show ?case by (cases "n < 10") (auto simp: show_nat.simps[of n])
qed

lemma show_nat_nonempty [simp]: "show_nat n \<noteq> []"
  by (subst show_nat.simps) simp

lemma show_nat_value: "foldl (\<lambda>n c. 10 * n + digit_val c) 0 (show_nat n) = n"
proof (induction n rule: show_nat.induct)
  case (1 n)
  then show ?case by (cases "n < 10") (auto simp: show_nat.simps[of n])
qed

lemma parse_show_nat [simp]: "parse_digits (show_nat n) = Some n"
  by (simp add: parse_digits_def show_nat_digits show_nat_value)

subsection \<open>Bytes that are not ASCII\<close>

text \<open>The em dash and the ellipsis of the messages, as UTF-8.\<close>

definition em_dash :: string where
  "em_dash = [CHR 0xE2, CHR 0x80, CHR 0x94]"

definition ellipsis :: string where
  "ellipsis = [CHR 0xE2, CHR 0x80, CHR 0xA6]"

text \<open>The double quote as a character.\<close>

definition dquote :: char where
  "dquote = CHR 0x22"

text \<open>A value between single quotes in a message.\<close>

definition quoted :: "string \<Rightarrow> string" where
  "quoted s = [CHR 0x27] @ s @ [CHR 0x27]"

end
