(* ===== verification/Policy.thy ===== *)
theory Policy
  imports Strs
begin

text \<open>
  \<open>crates/orchestrator/src/policy.rs\<close>: the tool allowlist and the per-target intensity caps.
  \<open>site_used_in_another_trial\<close>, which reads the database, is in theory \<open>Store\<close>.
\<close>

definition ALLOWED_TOOLS :: "string list" where
  "ALLOWED_TOOLS = [''nuclei'', ''tls'']"

definition MAX_SCANS_PER_TARGET_PER_DAY :: int where
  "MAX_SCANS_PER_TARGET_PER_DAY = 6"

definition TRIAL_MAX_SCANS_PER_TARGET_PER_DAY :: int where
  "TRIAL_MAX_SCANS_PER_TARGET_PER_DAY = 2"

definition is_allowed_tool :: "string \<Rightarrow> bool" where
  "is_allowed_tool tool \<longleftrightarrow> tool \<in> set ALLOWED_TOOLS"

definition within_scan_budget :: "int \<Rightarrow> bool" where
  "within_scan_budget scans_in_window \<longleftrightarrow> scans_in_window < MAX_SCANS_PER_TARGET_PER_DAY"

lemmas policy_defs = ALLOWED_TOOLS_def MAX_SCANS_PER_TARGET_PER_DAY_def
  TRIAL_MAX_SCANS_PER_TARGET_PER_DAY_def is_allowed_tool_def within_scan_budget_def

end
