(* ===== verification/Plans.thy ===== *)
theory Plans
  imports Policy
begin

text \<open>
  \<open>crates/api/src/billing.rs\<close>: what each plan may do, which Stripe price sells which plan, which
  subscription states keep the plan, and the identity a free trial is counted by.  The process
  environment is the parameter \<open>env\<close>; \<open>str::to_lowercase\<close>, which needs the Unicode tables, is
  the parameter \<open>lower\<close>; SHA-256 is the parameter \<open>sha256\<close>.
\<close>

datatype plan = Free | Solo | Studio | Agency

definition PAID_PLANS :: "plan list" where
  "PAID_PLANS = [Solo, Studio, Agency]"

fun plan_db_str :: "plan \<Rightarrow> string" where
  "plan_db_str Free = ''free''"
| "plan_db_str Solo = ''solo''"
| "plan_db_str Studio = ''studio''"
| "plan_db_str Agency = ''agency''"

definition from_db_str :: "string \<Rightarrow> plan" where
  "from_db_str value =
     (let v = to_ascii_lowercase (trim value) in
      if v = ''solo'' then Solo
      else if v = ''studio'' then Studio
      else if v = ''agency'' then Agency
      else Free)"

fun max_targets :: "plan \<Rightarrow> int" where
  "max_targets Free = 1"
| "max_targets Solo = 5"
| "max_targets Studio = 10"
| "max_targets Agency = 40"

definition allows_scheduling :: "plan \<Rightarrow> bool" where
  "allows_scheduling p \<longleftrightarrow> p \<noteq> Free"

definition allows_full_scan :: "plan \<Rightarrow> bool" where
  "allows_full_scan p \<longleftrightarrow> p \<noteq> Free"

definition allows_branding :: "plan \<Rightarrow> bool" where
  "allows_branding p \<longleftrightarrow> p \<noteq> Free"

fun display_name :: "plan \<Rightarrow> string" where
  "display_name Free = ''Free''"
| "display_name Solo = ''Solo''"
| "display_name Studio = ''Studio''"
| "display_name Agency = ''Agency''"

datatype billing_interval = Per_Month | Per_Year

definition from_str_or_monthly :: "string \<Rightarrow> billing_interval" where
  "from_str_or_monthly value =
     (if to_ascii_lowercase (trim value) \<in> {''yearly'', ''annual'', ''year''}
      then Per_Year else Per_Month)"

fun price_env_var :: "plan \<Rightarrow> billing_interval \<Rightarrow> string option" where
  "price_env_var Free _ = None"
| "price_env_var Solo Per_Month = Some ''STRIPE_PRICE_SOLO_MONTHLY''"
| "price_env_var Solo Per_Year = Some ''STRIPE_PRICE_SOLO_YEARLY''"
| "price_env_var Studio Per_Month = Some ''STRIPE_PRICE_STUDIO_MONTHLY''"
| "price_env_var Studio Per_Year = Some ''STRIPE_PRICE_STUDIO_YEARLY''"
| "price_env_var Agency Per_Month = Some ''STRIPE_PRICE_AGENCY_MONTHLY''"
| "price_env_var Agency Per_Year = Some ''STRIPE_PRICE_AGENCY_YEARLY''"

type_synonym environment = "string \<Rightarrow> string option"

text \<open>The price configured for a plan and interval: the two loops of \<open>plan_for_price\<close> and of
  \<open>plan_and_interval_for_price\<close> run over these pairs in this order.\<close>

definition plan_slots :: "(plan \<times> billing_interval) list" where
  "plan_slots = concat (map (\<lambda>p. [(p, Per_Month), (p, Per_Year)]) PAID_PLANS)"

definition configured_price :: "environment \<Rightarrow> plan \<Rightarrow> billing_interval \<Rightarrow> string option" where
  "configured_price env p i = Option.bind (price_env_var p i) env"

definition plan_for_price :: "environment \<Rightarrow> string \<Rightarrow> plan option" where
  "plan_for_price env price_id =
     find_map (\<lambda>(p, i).
       case configured_price env p i of
         None \<Rightarrow> None
       | Some configured \<Rightarrow>
           if configured \<noteq> [] \<and> configured = price_id then Some p else None) plan_slots"

subsection \<open>Subscription states\<close>

definition status_grants_access :: "string \<Rightarrow> bool" where
  "status_grants_access status \<longleftrightarrow> status \<in> {''active'', ''trialing'', ''past_due''}"

definition status_keeps_plan :: "string \<Rightarrow> bool \<Rightarrow> bool" where
  "status_keeps_plan status strict =
     (if status \<in> {''active'', ''trialing''} then True
      else if status = ''past_due'' then \<not> strict
      else False)"

definition TRIAL_REJECTED_COMMENT :: string where
  "TRIAL_REJECTED_COMMENT = ''trial_already_used''"

definition blocked_reason :: "string \<Rightarrow> string option \<Rightarrow> string" where
  "blocked_reason status comment =
     (if status \<in> {''past_due'', ''unpaid'', ''incomplete'', ''incomplete_expired'', ''paused''}
        then ''payment_failed''
      else if status = ''canceled'' \<and> comment = Some TRIAL_REJECTED_COMMENT
        then ''trial_already_used''
      else if status = ''canceled'' then ''canceled''
      else ''none'')"

definition trial_days :: "plan \<Rightarrow> bool \<Rightarrow> int option" where
  "trial_days p has_billing_history = (if p = Solo \<and> \<not> has_billing_history then Some 14 else None)"

definition TRIAL_DAYS :: int where "TRIAL_DAYS = 3"
definition TRIAL_MAX_TARGETS :: int where "TRIAL_MAX_TARGETS = 3"
definition TRIAL_MARKER_KEY :: string where "TRIAL_MARKER_KEY = ''glarion_trial''"
definition TRIAL_MARKER_VALUE :: string where "TRIAL_MARKER_VALUE = ''3d''"
definition TERMS_VERSION :: string where "TERMS_VERSION = ''2026-11-04''"
definition CONSENT_KEY :: string where "CONSENT_KEY = ''consent_id''"
definition DISPUTE_MARK :: string where "DISPUTE_MARK = ''glarion_dispute''"

definition env_switch :: "environment \<Rightarrow> string \<Rightarrow> bool" where
  "env_switch env var =
     (case env var of
        None \<Rightarrow> False
      | Some value \<Rightarrow> to_ascii_lowercase (trim value) \<in> {''1'', ''true''})"

definition trial_enabled :: "environment \<Rightarrow> bool" where
  "trial_enabled env = env_switch env ''TRIAL_ENABLED''"

definition consent_required :: "environment \<Rightarrow> bool" where
  "consent_required env = env_switch env ''CHECKOUT_CONSENT_REQUIRED''"

subsection \<open>What an account may do\<close>

record access =
  a_plan :: plan
  a_trial :: bool

definition access_max_targets :: "access \<Rightarrow> int" where
  "access_max_targets a =
     (if a_trial a then min (max_targets (a_plan a)) TRIAL_MAX_TARGETS else max_targets (a_plan a))"

definition scans_per_target_per_day :: "access \<Rightarrow> int" where
  "scans_per_target_per_day a =
     (if a_trial a then TRIAL_MAX_SCANS_PER_TARGET_PER_DAY else MAX_SCANS_PER_TARGET_PER_DAY)"

definition access_allows_branding :: "access \<Rightarrow> bool" where
  "access_allows_branding a \<longleftrightarrow> allows_branding (a_plan a) \<and> \<not> a_trial a"

subsection \<open>Who a visitor is\<close>

definition user_agent_family :: "string \<Rightarrow> string" where
  "user_agent_family user_agent =
     (let has = (\<lambda>needle. str_contains needle user_agent);
          browser =
            (if has ''Edg/'' \<or> has ''EdgA/'' \<or> has ''EdgiOS/'' then Some ''Edge''
             else if has ''OPR/'' \<or> has ''Opera'' then Some ''Opera''
             else if has ''Firefox/'' \<or> has ''FxiOS/'' then Some ''Firefox''
             else if has ''Chrome/'' \<or> has ''CriOS/'' then Some ''Chrome''
             else if has ''Safari/'' then Some ''Safari''
             else None);
          system =
            (if has ''Windows'' then Some ''Windows''
             else if has ''iPhone'' \<or> has ''iPad'' then Some ''iOS''
             else if has ''Android'' then Some ''Android''
             else if has ''Mac OS X'' then Some ''macOS''
             else if has ''CrOS'' then Some ''ChromeOS''
             else if has ''Linux'' then Some ''Linux''
             else None)
      in case browser of
           None \<Rightarrow> ''Other''
         | Some b \<Rightarrow> (case system of None \<Rightarrow> b | Some s \<Rightarrow> b @ '' on '' @ s))"

text \<open>\<open>chars().filter(|c| !c.is_whitespace())\<close> over UTF-8: a White_Space character never starts
  at a continuation byte.\<close>

function drop_ws :: "string \<Rightarrow> string" where
  "drop_ws s =
     (if s = [] then []
      else if ws_len s > 0 then drop_ws (drop (ws_len s) s)
      else hd s # drop_ws (tl s))"
  by pat_completeness auto
termination
  by (relation "measure length") auto

declare drop_ws.simps [simp del]

definition normalize_email :: "(string \<Rightarrow> string) \<Rightarrow> string \<Rightarrow> string" where
  "normalize_email lower email =
     (let e = drop_ws (lower (trim email)) in
      case rsplit_once CHR ''@'' e of
        None \<Rightarrow> e
      | Some (lcl, domain) \<Rightarrow>
          (let l = hd (split_char CHR ''+'' lcl) in
           if domain \<in> {''gmail.com'', ''googlemail.com''}
           then filter (\<lambda>c. c \<noteq> CHR ''.'') l @ ''@gmail.com''
           else l @ ''@'' @ domain))"

definition encode_hex :: "string \<Rightarrow> string" where
  "encode_hex bytes =
     concat (map (\<lambda>b. [hex_digit (code_of b div 16), hex_digit (code_of b mod 16)]) bytes)"

definition email_hash :: "(string \<Rightarrow> string) \<Rightarrow> (string \<Rightarrow> string) \<Rightarrow> string \<Rightarrow> string" where
  "email_hash sha256 lower email = encode_hex (sha256 (normalize_email lower email))"

subsection \<open>Lemmas\<close>

lemma graphic_code: "graphic c \<longleftrightarrow> 33 \<le> code_of c \<and> code_of c \<le> 126"
  by (rule graphic_def)

lemma set_plan_slots:
  "set plan_slots = {(p, i). p \<noteq> Free}"
proof -
  have "(p, i) \<in> set plan_slots \<longleftrightarrow> p \<noteq> Free" for p i
    by (cases p; cases i) (simp_all add: plan_slots_def PAID_PLANS_def)
  then show ?thesis by auto
qed

lemma plan_db_str_graphic: "\<forall>c\<in>set (plan_db_str p). graphic c"
  by (cases p) (simp_all add: graphic_def code_of_def)

lemma from_plan_db_str [simp]: "from_db_str (plan_db_str p) = p"
  unfolding from_db_str_def trim_graphic[OF plan_db_str_graphic]
  by (cases p) (simp_all add: to_ascii_lowercase_def lower_char_def is_upper_def code_of_def)

lemma plan_db_str_inj: "plan_db_str p = plan_db_str q \<longleftrightarrow> p = q"
  by (metis from_plan_db_str)

lemma plan_for_price_paid: "plan_for_price env price = Some p \<Longrightarrow> p \<noteq> Free"
  unfolding plan_for_price_def
  by (drule find_map_SomeD) (auto simp: set_plan_slots split: option.splits if_splits)

lemma from_free [simp]: "from_db_str ''free'' = Free"
  using from_plan_db_str[of Free] by simp

end
