(* ===== verification/Clock.thy ===== *)
theory Clock
  imports Main
begin

text \<open>
  Time as the source has it.  A \<open>DateTime<Utc>\<close> is an integer of microseconds since the epoch
  (the resolution of the database's \<open>timestamptz\<close>); a \<open>chrono::Duration\<close> is a difference of
  two.  \<open>num_seconds\<close> and \<open>num_days\<close> truncate towards zero, as chrono's do, while
  \<open>DateTime::timestamp\<close> rounds down.
\<close>

type_synonym time = int
type_synonym duration = int

definition seconds :: "int \<Rightarrow> duration" where "seconds n = n * 1000000"
definition minutes :: "int \<Rightarrow> duration" where "minutes n = seconds (n * 60)"
definition hours :: "int \<Rightarrow> duration" where "hours n = seconds (n * 3600)"
definition days :: "int \<Rightarrow> duration" where "days n = seconds (n * 86400)"

lemmas duration_defs = seconds_def minutes_def hours_def days_def

text \<open>Rust's integer division rounds towards zero.\<close>

definition tdiv :: "int \<Rightarrow> int \<Rightarrow> int" where
  "tdiv a b = (if 0 \<le> a then a div b else - ((- a) div b))"

definition num_seconds :: "duration \<Rightarrow> int" where
  "num_seconds d = tdiv d 1000000"

definition num_days :: "duration \<Rightarrow> int" where
  "num_days d = tdiv (num_seconds d) 86400"

definition timestamp :: "time \<Rightarrow> int" where
  "timestamp t = t div 1000000"

text \<open>\<open>Utc.timestamp_opt(seconds, 0).single()\<close>: \<open>None\<close> outside chrono's calendar.\<close>

definition timestamp_opt :: "int \<Rightarrow> time option" where
  "timestamp_opt s = (if - 8334601228800 \<le> s \<and> s \<le> 8210266876799 then Some (seconds s) else None)"

lemma int_div_less_iff:
  fixes a b m :: int
  assumes "0 < b"
  shows "a div b < m \<longleftrightarrow> a < m * b"
proof
  assume "a div b < m"
  then have "(a div b + 1) * b \<le> m * b" using assms by (intro mult_right_mono) auto
  moreover have "a = a div b * b + a mod b" by simp
  moreover have "a mod b < b" using assms by simp
  moreover have "(a div b + 1) * b = a div b * b + b" by (simp add: distrib_right)
  ultimately show "a < m * b" by linarith
next
  assume a: "a < m * b"
  show "a div b < m"
  proof (rule ccontr)
    assume "\<not> a div b < m"
    then have "m * b \<le> a div b * b" using assms by (intro mult_right_mono) auto
    moreover have "a = a div b * b + a mod b" by simp
    moreover have "0 \<le> a mod b" using assms by simp
    ultimately show False using a by linarith
  qed
qed

lemma int_le_div_iff:
  fixes a b m :: int
  assumes "0 < b"
  shows "m \<le> a div b \<longleftrightarrow> m * b \<le> a"
  using int_div_less_iff[OF assms, of a m] by auto

lemma tdiv_nonneg: "0 \<le> a \<Longrightarrow> 0 < b \<Longrightarrow> 0 \<le> tdiv a b"
  by (simp add: tdiv_def pos_imp_zdiv_nonneg_iff)

lemma tdiv_neg_iff: "0 < b \<Longrightarrow> tdiv a b < 0 \<longleftrightarrow> a \<le> - b"
proof -
  assume b: "0 < b"
  have "0 < (- a) div b \<longleftrightarrow> b \<le> - a" using b by (simp add: pos_imp_zdiv_pos_iff)
  then show ?thesis using b tdiv_nonneg[of a b] by (auto simp: tdiv_def)
qed

lemma tdiv_le_iff: "0 < b \<Longrightarrow> 0 \<le> n \<Longrightarrow> tdiv a b \<le> n \<longleftrightarrow> a < (n + 1) * b"
proof (cases "0 \<le> a")
  case True
  assume b: "0 < b"
  have "a div b \<le> n \<longleftrightarrow> a div b < n + 1" by auto
  also have "\<dots> \<longleftrightarrow> a < (n + 1) * b" using b by (rule int_div_less_iff)
  finally show ?thesis using True by (simp add: tdiv_def)
next
  case False
  assume b: "0 < b" and n: "0 \<le> n"
  have "tdiv a b \<le> 0" using False b by (simp add: tdiv_def pos_imp_zdiv_nonneg_iff)
  moreover have "0 < (n + 1) * b" using b n by simp
  ultimately show ?thesis using False n by linarith
qed

lemma num_days_neg_iff: "num_days d < 0 \<longleftrightarrow> d \<le> - days 1"
proof -
  have "num_days d < 0 \<longleftrightarrow> tdiv d 1000000 \<le> - 86400"
    by (simp add: num_days_def num_seconds_def tdiv_neg_iff)
  also have "\<dots> \<longleftrightarrow> d \<le> - (86400 * 1000000)"
  proof (cases "0 \<le> d")
    case True
    then show ?thesis using tdiv_nonneg[of d 1000000] by auto
  next
    case False
    then have "tdiv d 1000000 \<le> - 86400 \<longleftrightarrow> 86400 \<le> (- d) div 1000000" by (auto simp: tdiv_def)
    also have "\<dots> \<longleftrightarrow> 86400 * 1000000 \<le> - d" by (rule int_le_div_iff) simp
    finally show ?thesis by linarith
  qed
  finally show ?thesis by (simp add: duration_defs)
qed

lemma num_days_le_iff: "0 \<le> n \<Longrightarrow> num_days d \<le> n \<longleftrightarrow> d < days (n + 1)"
proof -
  assume n: "0 \<le> n"
  have "num_days d \<le> n \<longleftrightarrow> tdiv d 1000000 < (n + 1) * 86400"
    using n by (simp add: num_days_def num_seconds_def tdiv_le_iff)
  also have "\<dots> \<longleftrightarrow> tdiv d 1000000 \<le> (n + 1) * 86400 - 1" by auto
  also have "\<dots> \<longleftrightarrow> d < ((n + 1) * 86400 - 1 + 1) * 1000000"
    using n by (subst tdiv_le_iff) auto
  finally show ?thesis by (simp add: duration_defs algebra_simps)
qed

end
