(* ===== verification/NetGuard.thy ===== *)
theory NetGuard
  imports Strs "HOL-Library.Word"
begin

unbundle bit_operations_syntax

text \<open>
  \<open>crates/orchestrator/src/net_guard.rs\<close>: which resolved addresses may be contacted.  Addresses
  are the octets and segments the standard library holds, at their width; the guard is compared
  with the address blocks it stands for, written as network and prefix length.
\<close>

type_synonym ipv4 = "8 word \<times> 8 word \<times> 8 word \<times> 8 word"
type_synonym ipv6 = "16 word \<times> 16 word \<times> 16 word \<times> 16 word \<times> 16 word \<times> 16 word \<times> 16 word \<times> 16 word"

datatype ip = V4 ipv4 | V6 ipv6

text \<open>\<open>Ipv4Addr\<close>'s own predicates.\<close>

fun is_loopback :: "ipv4 \<Rightarrow> bool" where
  "is_loopback (a, b, c, d) \<longleftrightarrow> a = 127"

fun is_private :: "ipv4 \<Rightarrow> bool" where
  "is_private (a, b, c, d) \<longleftrightarrow> a = 10 \<or> (a = 172 \<and> 16 \<le> b \<and> b \<le> 31) \<or> (a = 192 \<and> b = 168)"

fun is_link_local :: "ipv4 \<Rightarrow> bool" where
  "is_link_local (a, b, c, d) \<longleftrightarrow> a = 169 \<and> b = 254"

fun is_broadcast :: "ipv4 \<Rightarrow> bool" where
  "is_broadcast (a, b, c, d) \<longleftrightarrow> a = 255 \<and> b = 255 \<and> c = 255 \<and> d = 255"

fun is_documentation :: "ipv4 \<Rightarrow> bool" where
  "is_documentation (a, b, c, d) \<longleftrightarrow> (a = 192 \<and> b = 0 \<and> c = 2)
     \<or> (a = 198 \<and> b = 51 \<and> c = 100) \<or> (a = 203 \<and> b = 0 \<and> c = 113)"

fun is_multicast :: "ipv4 \<Rightarrow> bool" where
  "is_multicast (a, b, c, d) \<longleftrightarrow> 224 \<le> a \<and> a \<le> 239"

definition is_public_ipv4 :: "ipv4 \<Rightarrow> bool" where
  "is_public_ipv4 addr = (case addr of (a, b, c, d) \<Rightarrow>
     \<not> (a = 0
        \<or> is_loopback addr
        \<or> is_private addr
        \<or> is_link_local addr
        \<or> is_broadcast addr
        \<or> is_documentation addr
        \<or> is_multicast addr
        \<or> (a = 100 \<and> 64 \<le> b \<and> b < 128)
        \<or> (a = 198 \<and> 18 \<le> b \<and> b < 20)
        \<or> (a = 192 \<and> b = 0)
        \<or> 240 \<le> a))"

text \<open>\<open>to_ipv4_mapped\<close>: \<open>::ffff:a.b.c.d\<close>.\<close>

definition to_ipv4_mapped :: "ipv6 \<Rightarrow> ipv4 option" where
  "to_ipv4_mapped addr = (case addr of (s0, s1, s2, s3, s4, s5, s6, s7) \<Rightarrow>
     if s0 = 0 \<and> s1 = 0 \<and> s2 = 0 \<and> s3 = 0 \<and> s4 = 0 \<and> s5 = 0xffff
     then Some (ucast (drop_bit 8 s6), ucast s6, ucast (drop_bit 8 s7), ucast s7) else None)"

definition is_public_ipv6 :: "ipv6 \<Rightarrow> bool" where
  "is_public_ipv6 addr = (case to_ipv4_mapped addr of
      Some v4 \<Rightarrow> is_public_ipv4 v4
    | None \<Rightarrow> (case addr of (s0, s1, _) \<Rightarrow>
        s0 AND 0xe000 = 0x2000
        \<and> \<not> (s0 = 0x2001 \<and> s1 < 0x0200)
        \<and> s0 \<noteq> 0x2002
        \<and> \<not> (s0 = 0x2001 \<and> s1 = 0x0db8)
        \<and> \<not> (s0 = 0x3fff \<and> s1 AND 0xf000 = 0)))"

fun is_public_ip :: "ip \<Rightarrow> bool" where
  "is_public_ip (V4 v4) = is_public_ipv4 v4"
| "is_public_ip (V6 v6) = is_public_ipv6 v6"

datatype net_guard_error = Unresolvable string | NonPublicAddress string ip

text \<open>\<open>resolve_public_addresses\<close>.  \<open>lookup\<close> is the system resolver (\<open>tokio::net::lookup_host\<close>):
  \<open>None\<close> when it fails, and otherwise the addresses with their port.\<close>

definition resolve_public_addresses ::
    "(string \<Rightarrow> (ip \<times> nat) list option) \<Rightarrow> string \<Rightarrow> net_guard_error + (ip \<times> nat) list" where
  "resolve_public_addresses lookup domain =
     (case lookup (domain @ '':443'') of
        None \<Rightarrow> Inl (Unresolvable domain)
      | Some addresses \<Rightarrow>
          if addresses = [] then Inl (Unresolvable domain)
          else (case find (\<lambda>a. \<not> is_public_ip (fst a)) addresses of
                  Some a \<Rightarrow> Inl (NonPublicAddress domain (fst a))
                | None \<Rightarrow> Inr addresses))"

subsection \<open>The blocks the guard stands for\<close>

definition ipv4_number :: "ipv4 \<Rightarrow> nat" where
  "ipv4_number addr = (case addr of (a, b, c, d) \<Rightarrow>
     ((unat a * 256 + unat b) * 256 + unat c) * 256 + unat d)"

text \<open>The first \<open>len\<close> of 32 bits agree.\<close>

definition in_block4 :: "nat \<Rightarrow> nat \<times> nat \<Rightarrow> bool" where
  "in_block4 n block = (case block of (net, len) \<Rightarrow> n div 2 ^ (32 - len) = net div 2 ^ (32 - len))"

definition quad :: "nat \<Rightarrow> nat \<Rightarrow> nat \<Rightarrow> nat \<Rightarrow> nat" where
  "quad a b c d = ((a * 256 + b) * 256 + c) * 256 + d"

definition ipv4_non_public :: "(nat \<times> nat) list" where
  "ipv4_non_public =
     [(quad 0 0 0 0, 8), (quad 10 0 0 0, 8), (quad 100 64 0 0, 10), (quad 127 0 0 0, 8),
      (quad 169 254 0 0, 16), (quad 172 16 0 0, 12), (quad 192 0 0 0, 16), (quad 192 168 0 0, 16),
      (quad 198 18 0 0, 15), (quad 198 51 100 0, 24), (quad 203 0 113 0, 24), (quad 224 0 0 0, 4),
      (quad 240 0 0 0, 4)]"

text \<open>The first 32 bits of an IPv6 address decide the blocks of the guard.\<close>

definition in_block6 :: "nat \<Rightarrow> nat \<times> nat \<Rightarrow> bool" where
  "in_block6 n block = (case block of (net, len) \<Rightarrow> n div 2 ^ (32 - len) = net div 2 ^ (32 - len))"

definition ipv6_head :: "ipv6 \<Rightarrow> nat" where
  "ipv6_head addr = (case addr of (s0, s1, _) \<Rightarrow> unat s0 * 65536 + unat s1)"

definition ipv6_excluded :: "(nat \<times> nat) list" where
  "ipv6_excluded = [(0x20010000, 23), (0x20020000, 16), (0x20010db8, 32), (0x3fff0000, 20)]"

lemma quad_div:
  assumes "b < 256" "c < 256" "d < 256"
  shows "quad a b c d div 2 ^ 24 = a"
    and "quad a b c d div 2 ^ 16 = a * 256 + b"
    and "quad a b c d div 2 ^ 8 = (a * 256 + b) * 256 + c"
    and "quad a b c d div 2 ^ 28 = a div 16"
    and "quad a b c d div 2 ^ 22 = a * 4 + b div 64"
    and "quad a b c d div 2 ^ 20 = a * 16 + b div 16"
    and "quad a b c d div 2 ^ 17 = a * 128 + b div 2"
  using assms by (auto simp: quad_def)

text \<open>One lemma per prefix length: membership of a block by its leading octets.\<close>

lemma two_digits:
  fixes a b n m k :: nat
  assumes "b < k" "m < k"
  shows "a * k + b = n * k + m \<longleftrightarrow> a = n \<and> b = m"
proof
  assume e: "a * k + b = n * k + m"
  have "a = (a * k + b) div k" "n = (n * k + m) div k" using assms by simp_all
  moreover have "b = (a * k + b) mod k" "m = (n * k + m) mod k" using assms by simp_all
  ultimately show "a = n \<and> b = m" using e by metis
qed simp

lemma in_block4_octets:
  fixes a b c d :: nat
  assumes "b < 256" "c < 256" "d < 256"
  shows "in_block4 (quad a b c d) (quad n 0 0 0, 8) \<longleftrightarrow> a = n"
    and "m < 256 \<Longrightarrow> in_block4 (quad a b c d) (quad n m 0 0, 16) \<longleftrightarrow> a = n \<and> b = m"
    and "m < 256 \<Longrightarrow> k < 256 \<Longrightarrow>
      in_block4 (quad a b c d) (quad n m k 0, 24) \<longleftrightarrow> a = n \<and> b = m \<and> c = k"
proof -
  have e: "32 - 8 = (24::nat)" "32 - 16 = (16::nat)" "32 - 24 = (8::nat)" by simp_all
  have z: "0 < (256::nat)" by simp
  show "in_block4 (quad a b c d) (quad n 0 0 0, 8) \<longleftrightarrow> a = n"
    unfolding in_block4_def prod.case e quad_div[OF assms] quad_div[OF z z z] ..
  show "in_block4 (quad a b c d) (quad n m 0 0, 16) \<longleftrightarrow> a = n \<and> b = m" if m: "m < 256"
    unfolding in_block4_def prod.case e quad_div[OF assms] quad_div[OF m z z]
    by (rule two_digits[OF assms(1) m])
  show "in_block4 (quad a b c d) (quad n m k 0, 24) \<longleftrightarrow> a = n \<and> b = m \<and> c = k"
    if m: "m < 256" "k < 256"
    unfolding in_block4_def prod.case e quad_div[OF assms] quad_div[OF m z]
      two_digits[OF assms(2) m(2)] two_digits[OF assms(1) m(1)] by blast
qed

lemma digit_range:
  fixes a b n k q :: nat
  assumes "b < k * q" "m < k"
  shows "a * k + b div q = n * k + m \<longleftrightarrow> a = n \<and> b div q = m"
  by (rule two_digits) (use assms in \<open>simp_all add: less_mult_imp_div_less\<close>)

lemma div_eq_range:
  fixes b q m :: nat
  assumes "0 < q"
  shows "b div q = m \<longleftrightarrow> m * q \<le> b \<and> b < Suc m * q"
proof -
  have "b div q = m \<longleftrightarrow> m \<le> b div q \<and> b div q < Suc m" by auto
  then show ?thesis
    using assms by (simp only: less_eq_div_iff_mult_less_eq div_less_iff_less_mult)
qed

lemma in_block4_ranges:
  fixes a b c d :: nat
  assumes "a < 256" "b < 256" "c < 256" "d < 256"
  shows "in_block4 (quad a b c d) (quad 224 0 0 0, 4) \<longleftrightarrow> 224 \<le> a \<and> a \<le> 239"
    and "in_block4 (quad a b c d) (quad 240 0 0 0, 4) \<longleftrightarrow> 240 \<le> a"
    and "in_block4 (quad a b c d) (quad 100 64 0 0, 10) \<longleftrightarrow> a = 100 \<and> 64 \<le> b \<and> b < 128"
    and "in_block4 (quad a b c d) (quad 172 16 0 0, 12) \<longleftrightarrow> a = 172 \<and> 16 \<le> b \<and> b \<le> 31"
    and "in_block4 (quad a b c d) (quad 198 18 0 0, 15) \<longleftrightarrow> a = 198 \<and> 18 \<le> b \<and> b < 20"
proof -
  have e: "32 - 4 = (28::nat)" "32 - 10 = (22::nat)" "32 - 12 = (20::nat)" "32 - 15 = (17::nat)"
    by simp_all
  have z: "0 < (256::nat)" "64 < (256::nat)" "16 < (256::nat)" "18 < (256::nat)" by simp_all
  have d: "a div 16 = 14 \<longleftrightarrow> 224 \<le> a \<and> a \<le> 239" "b div 64 = 1 \<longleftrightarrow> 64 \<le> b \<and> b < 128"
    "b div 16 = 1 \<longleftrightarrow> 16 \<le> b \<and> b \<le> 31" "b div 2 = 9 \<longleftrightarrow> 18 \<le> b \<and> b < 20"
    by (auto simp: div_eq_range)
  have f: "a div 16 = 15 \<longleftrightarrow> 240 \<le> a" using assms(1) by (auto simp: div_eq_range)
  have v: "(224::nat) div 16 = 14" "(240::nat) div 16 = 15" "(64::nat) div 64 = 1"
    "(16::nat) div 16 = 1" "(18::nat) div 2 = 9" by simp_all
  show "in_block4 (quad a b c d) (quad 224 0 0 0, 4) \<longleftrightarrow> 224 \<le> a \<and> a \<le> 239"
    "in_block4 (quad a b c d) (quad 240 0 0 0, 4) \<longleftrightarrow> 240 \<le> a"
    unfolding in_block4_def prod.case e quad_div[OF assms(2-4)] quad_div[OF z(1) z(1) z(1)] v d f
    by (rule refl)+
  show "in_block4 (quad a b c d) (quad 100 64 0 0, 10) \<longleftrightarrow> a = 100 \<and> 64 \<le> b \<and> b < 128"
    unfolding in_block4_def prod.case e quad_div[OF assms(2-4)] quad_div[OF z(2) z(1) z(1)] v
      d(2)[symmetric] by (rule digit_range) (use assms in simp_all)
  show "in_block4 (quad a b c d) (quad 172 16 0 0, 12) \<longleftrightarrow> a = 172 \<and> 16 \<le> b \<and> b \<le> 31"
    unfolding in_block4_def prod.case e quad_div[OF assms(2-4)] quad_div[OF z(3) z(1) z(1)] v
      d(3)[symmetric] by (rule digit_range) (use assms in simp_all)
  show "in_block4 (quad a b c d) (quad 198 18 0 0, 15) \<longleftrightarrow> a = 198 \<and> 18 \<le> b \<and> b < 20"
    unfolding in_block4_def prod.case e quad_div[OF assms(2-4)] quad_div[OF z(4) z(1) z(1)] v
      d(4)[symmetric] by (rule digit_range) (use assms in simp_all)
qed

lemma is_public_ipv4_unat:
  "is_public_ipv4 (w, x, y, z) \<longleftrightarrow>
     (let a = unat w; b = unat x; c = unat y; d = unat z in
      \<not> (a = 0 \<or> a = 127 \<or> (a = 10 \<or> (a = 172 \<and> 16 \<le> b \<and> b \<le> 31) \<or> (a = 192 \<and> b = 168))
         \<or> (a = 169 \<and> b = 254) \<or> (a = 255 \<and> b = 255 \<and> c = 255 \<and> d = 255)
         \<or> ((a = 192 \<and> b = 0 \<and> c = 2) \<or> (a = 198 \<and> b = 51 \<and> c = 100) \<or> (a = 203 \<and> b = 0 \<and> c = 113))
         \<or> (224 \<le> a \<and> a \<le> 239) \<or> (a = 100 \<and> 64 \<le> b \<and> b < 128) \<or> (a = 198 \<and> 18 \<le> b \<and> b < 20)
         \<or> (a = 192 \<and> b = 0) \<or> 240 \<le> a))"
  unfolding is_public_ipv4_def Let_def word_le_nat_alt word_less_nat_alt word_unat_eq_iff
    is_loopback.simps is_private.simps is_link_local.simps is_broadcast.simps
    is_documentation.simps is_multicast.simps prod.case
  by simp

lemma ipv4_number_quad: "ipv4_number (w, x, y, z) = quad (unat w) (unat x) (unat y) (unat z)"
  by (simp add: ipv4_number_def quad_def)

lemma unat_byte: "unat (w :: 8 word) < 256"
  using unsigned_less[of w] by simp

lemma is_public_ipv4_blocks:
  "is_public_ipv4 addr \<longleftrightarrow> (\<forall>block\<in>set ipv4_non_public. \<not> in_block4 (ipv4_number addr) block)"
proof (cases addr)
  case (fields w x y z)
  note b = unat_byte[of w] unat_byte[of x] unat_byte[of y] unat_byte[of z]
  have q: "unat w = 255 \<longrightarrow> 240 \<le> unat w" by simp
  have n: "(254::nat) < 256" "(168::nat) < 256" "(0::nat) < 256" "(51::nat) < 256"
    "(100::nat) < 256" "(113::nat) < 256" by simp_all
  have "(\<forall>block\<in>set ipv4_non_public. \<not> in_block4 (ipv4_number addr) block) \<longleftrightarrow>
    unat w \<noteq> 0 \<and> unat w \<noteq> 10 \<and> \<not> (unat w = 100 \<and> 64 \<le> unat x \<and> unat x < 128)
    \<and> unat w \<noteq> 127 \<and> \<not> (unat w = 169 \<and> unat x = 254) \<and> \<not> (unat w = 172 \<and> 16 \<le> unat x \<and> unat x \<le> 31)
    \<and> \<not> (unat w = 192 \<and> unat x = 0) \<and> \<not> (unat w = 192 \<and> unat x = 168)
    \<and> \<not> (unat w = 198 \<and> 18 \<le> unat x \<and> unat x < 20)
    \<and> \<not> (unat w = 198 \<and> unat x = 51 \<and> unat y = 100) \<and> \<not> (unat w = 203 \<and> unat x = 0 \<and> unat y = 113)
    \<and> \<not> (224 \<le> unat w \<and> unat w \<le> 239) \<and> \<not> 240 \<le> unat w"
    unfolding fields ipv4_number_quad ipv4_non_public_def list.set ball_simps
      in_block4_octets(1)[OF b(2-4)] in_block4_octets(2)[OF b(2-4) n(1)]
      in_block4_octets(2)[OF b(2-4) n(2)] in_block4_octets(2)[OF b(2-4) n(3)]
      in_block4_octets(3)[OF b(2-4) n(4) n(5)] in_block4_octets(3)[OF b(2-4) n(3) n(6)]
      in_block4_ranges[OF b] simp_thms ..
  then show ?thesis
    unfolding fields is_public_ipv4_unat Let_def using q by argo
qed


lemma unat_seg: "unat (w :: 16 word) < 65536"
  using unsigned_less[of w] by simp

lemma high_bits:
  fixes x :: "16 word"
  shows "x AND 0xe000 = 0x2000 \<longleftrightarrow> unat x div 2 ^ 13 = 1"
    and "x AND 0xf000 = 0 \<longleftrightarrow> unat x div 2 ^ 12 = 0"
proof -
  have m: "(0xe000 :: 16 word) = NOT (mask 13)" "(0xf000 :: 16 word) = NOT (mask 12)"
    by code_simp+
  have k: "x AND NOT (mask n) = push_bit n (drop_bit n x)" for n
    by (rule bit_word_eqI) (auto simp: bit_simps)
  have inj: "push_bit n (drop_bit n x) = push_bit n y \<longleftrightarrow> drop_bit n x = y"
    if "drop_bit n (push_bit n y) = y" for n y
  proof
    assume "push_bit n (drop_bit n x) = push_bit n y"
    then have "drop_bit n (push_bit n (drop_bit n x)) = y" using that by simp
    moreover have "drop_bit n (push_bit n (drop_bit n x)) = drop_bit n x"
      by (rule bit_word_eqI) (auto simp: bit_simps dest: bit_imp_le_length)
    ultimately show "drop_bit n x = y" by simp
  qed simp
  have u: "unat (drop_bit n x) = unat x div 2 ^ n" for n
    by (simp add: unat_drop_bit_eq drop_bit_eq_div[where 'a = nat])
  have "(0x2000 :: 16 word) = push_bit 13 1" by simp
  then have "x AND 0xe000 = 0x2000 \<longleftrightarrow> drop_bit 13 x = 1"
    using inj[of 13 1] by (simp add: m k del: push_bit_of_1)
  also have "\<dots> \<longleftrightarrow> unat x div 2 ^ 13 = 1"
    by (metis u unat_1 word_unat_eq_iff)
  finally show "x AND 0xe000 = 0x2000 \<longleftrightarrow> unat x div 2 ^ 13 = 1" .
  have "x AND 0xf000 = 0 \<longleftrightarrow> drop_bit 12 x = 0"
    using inj[of 12 0] by (simp add: m k)
  also have "\<dots> \<longleftrightarrow> unat x div 2 ^ 12 = 0"
    by (metis u unat_0 word_unat_eq_iff)
  finally show "x AND 0xf000 = 0 \<longleftrightarrow> unat x div 2 ^ 12 = 0" .
qed

lemma in_block6_heads:
  fixes a b :: nat
  assumes "b < 65536"
  shows "in_block6 (a * 65536 + b) (0x20000000, 3) \<longleftrightarrow> a div 2 ^ 13 = 1"
    and "in_block6 (a * 65536 + b) (0x20010000, 23) \<longleftrightarrow> a = 0x2001 \<and> b < 512"
    and "in_block6 (a * 65536 + b) (0x20020000, 16) \<longleftrightarrow> a = 0x2002"
    and "in_block6 (a * 65536 + b) (0x20010db8, 32) \<longleftrightarrow> a = 0x2001 \<and> b = 0xdb8"
    and "in_block6 (a * 65536 + b) (0x3fff0000, 20) \<longleftrightarrow> a = 0x3fff \<and> b div 2 ^ 12 = 0"
proof -
  have s16: "(a * 65536 + b) div 2 ^ 16 = a" using assms by simp
  have "(a * 65536 + b) div 2 ^ 29 = a div 2 ^ 13"
  proof -
    have "(a * 65536 + b) div 2 ^ 29 = (a * 65536 + b) div (2 ^ 16 * 2 ^ 13)" by simp
    also have "\<dots> = (a * 65536 + b) div 2 ^ 16 div 2 ^ 13" by (rule div_mult2_eq)
    finally show ?thesis using s16 by simp
  qed
  then show "in_block6 (a * 65536 + b) (0x20000000, 3) \<longleftrightarrow> a div 2 ^ 13 = 1"
    by (simp add: in_block6_def)
  show "in_block6 (a * 65536 + b) (0x20020000, 16) \<longleftrightarrow> a = 0x2002"
    using s16 by (simp add: in_block6_def)
  show "in_block6 (a * 65536 + b) (0x20010db8, 32) \<longleftrightarrow> a = 0x2001 \<and> b = 0xdb8"
    using two_digits[of b 65536 "0xdb8" a "0x2001"] assms by (simp add: in_block6_def)
  have "(a * 65536 + b) div 512 = a * 128 + b div 512" by simp
  then show "in_block6 (a * 65536 + b) (0x20010000, 23) \<longleftrightarrow> a = 0x2001 \<and> b < 512"
    using digit_range[of b 128 512 0 a "0x2001"] assms
    by (simp add: in_block6_def div_eq_0_iff)
  have "(a * 65536 + b) div 4096 = a * 16 + b div 4096" by simp
  then show "in_block6 (a * 65536 + b) (0x3fff0000, 20) \<longleftrightarrow> a = 0x3fff \<and> b div 2 ^ 12 = 0"
    using digit_range[of b 16 4096 0 a "0x3fff"] assms by (simp add: in_block6_def)
qed

lemma is_public_ipv6_blocks:
  "is_public_ipv6 addr \<longleftrightarrow>
     (case to_ipv4_mapped addr of
        Some v4 \<Rightarrow> is_public_ipv4 v4
      | None \<Rightarrow> in_block6 (ipv6_head addr) (0x20000000, 3)
          \<and> (\<forall>block\<in>set ipv6_excluded. \<not> in_block6 (ipv6_head addr) block))"
proof -
  obtain s0 s1 rest where fields: "addr = (s0, s1, rest)" by (cases addr)
  have l: "s1 < 0x200 \<longleftrightarrow> unat s1 < 512" by (simp add: word_less_nat_alt)
  have e: "s0 = 0x2001 \<longleftrightarrow> unat s0 = 0x2001" "s0 = 0x2002 \<longleftrightarrow> unat s0 = 0x2002"
    "s0 = 0x3fff \<longleftrightarrow> unat s0 = 0x3fff" "s1 = 0xdb8 \<longleftrightarrow> unat s1 = 0xdb8"
    by (simp_all add: word_unat_eq_iff)
  show ?thesis
    unfolding is_public_ipv6_def fields ipv6_head_def ipv6_excluded_def prod.case high_bits
      list.set ball_simps in_block6_heads[OF unat_seg] l e
    by (simp split: option.split)
qed

subsection \<open>Properties\<close>

definition outside_blocks4 :: "ipv4 \<Rightarrow> bool" where
  "outside_blocks4 a \<longleftrightarrow> list_all (\<lambda>block. \<not> in_block4 (ipv4_number a) block) ipv4_non_public"


text \<open>A name is contacted only when it resolves and every address it resolves to is public:
  one private address among public ones refuses the whole name, whatever the order the resolver
  answers in.\<close>

lemma resolve_public_addresses_spec:
  "resolve_public_addresses lookup domain = Inr as \<longleftrightarrow>
     lookup (domain @ '':443'') = Some as \<and> as \<noteq> [] \<and> list_all (\<lambda>a. is_public_ip (fst a)) as"
  by (auto simp: resolve_public_addresses_def list_all_iff find_None_all dest: find_SomeD
      split: option.splits if_splits)

end
