(* ===== verification/Verification.thy ===== *)
theory Verification
  imports Clock NetGuard
begin

text \<open>
  \<open>crates/orchestrator/src/verification.rs\<close>: when an ownership proof is in force, and how the
  published token is read.  The resolver (hickory) and the HTTP client (reqwest) are parameters;
  what the code decides from their answers is modelled.
\<close>

definition VERIFICATION_TTL_DAYS :: int where "VERIFICATION_TTL_DAYS = 30"
definition WELL_KNOWN_MAX_BYTES :: nat where "WELL_KNOWN_MAX_BYTES = 4096"

datatype verification_method = DnsTxt | WellKnownFile

fun method_db_str :: "verification_method \<Rightarrow> string" where
  "method_db_str DnsTxt = ''dns_txt''"
| "method_db_str WellKnownFile = ''well_known_file''"

text \<open>\<open>draw\<close> is what is sampled from rand's \<open>Alphanumeric\<close>.\<close>

definition generate_token :: "(nat \<Rightarrow> char) \<Rightarrow> string" where
  "generate_token draw = map draw [0..<32]"

definition dns_txt_record_name :: "string \<Rightarrow> string" where
  "dns_txt_record_name domain = ''_glarion-verify.'' @ domain"

definition well_known_url :: "string \<Rightarrow> string" where
  "well_known_url domain = ''https://'' @ domain @ ''/.well-known/glarion-verify.txt''"

definition token_present :: "string list \<Rightarrow> string \<Rightarrow> bool" where
  "token_present records token = list_ex (\<lambda>r. trim r = token) records"

definition file_contains_token :: "string \<Rightarrow> string \<Rightarrow> bool" where
  "file_contains_token body token \<longleftrightarrow> trim body = token"

record verification_status =
  vs_verified_at :: "time option"
  vs_expires_at :: "time option"

definition is_currently_verified :: "verification_status \<Rightarrow> time \<Rightarrow> bool" where
  "is_currently_verified status now \<longleftrightarrow>
     vs_verified_at status \<noteq> None
     \<and> (case vs_expires_at status of None \<Rightarrow> False | Some e \<Rightarrow> e > now)"

definition expiry_from :: "time \<Rightarrow> time" where
  "expiry_from now = now + days VERIFICATION_TTL_DAYS"

subsection \<open>TXT records\<close>

datatype rdata = TXT string | OtherRecord

text \<open>What the lookup future ends as: the answers, a resolver error, or the five-second timeout.\<close>

datatype dns_outcome = Answers "rdata list" | LookupFailed | TimedOut

datatype dns_error = Unreachable

fun txt_value :: "rdata \<Rightarrow> string option" where
  "txt_value (TXT s) = Some (trim_matches_char dquote s)"
| "txt_value OtherRecord = None"

definition txt_records_at :: "(string \<Rightarrow> dns_outcome) \<Rightarrow> string \<Rightarrow> dns_error + string list" where
  "txt_records_at resolver name =
     (case resolver name of
        Answers rs \<Rightarrow> Inr (List.map_filter txt_value rs)
      | LookupFailed \<Rightarrow> Inr []
      | TimedOut \<Rightarrow> Inl Unreachable)"

definition fetch_dns_txt_records ::
    "(string \<Rightarrow> dns_outcome) \<Rightarrow> string \<Rightarrow> dns_error + string list" where
  "fetch_dns_txt_records resolver domain = txt_records_at resolver (dns_txt_record_name domain)"

subsection \<open>The well-known file\<close>

text \<open>A response: its status, the length it declares, and the chunks its body arrives in, where
  \<open>None\<close> is a transport error.\<close>

record http_response =
  hr_status :: nat
  hr_length :: "nat option"
  hr_chunks :: "string option list"

datatype fetch_error = NetGuard net_guard_error | NoAddress | Transport | TooLarge

fun read_capped :: "nat \<Rightarrow> string \<Rightarrow> string option list \<Rightarrow> fetch_error + string" where
  "read_capped cap body [] = Inr body"
| "read_capped cap body (None # _) = Inl Transport"
| "read_capped cap body (Some chunk # rest) =
     (if length body + length chunk > cap then Inl TooLarge
      else read_capped cap (body @ chunk) rest)"

text \<open>\<open>http_get domain pinned url\<close> is one HTTPS request to the pinned address, with no redirect
  followed; \<open>None\<close> when it cannot be built or sent.\<close>

type_synonym http_client = "string \<Rightarrow> ip \<times> nat \<Rightarrow> string \<Rightarrow> http_response option"

definition fetch_well_known_file ::
    "(string \<Rightarrow> (ip \<times> nat) list option) \<Rightarrow> http_client \<Rightarrow> string \<Rightarrow> fetch_error + string" where
  "fetch_well_known_file lookup http_get domain =
     (case resolve_public_addresses lookup domain of
        Inl e \<Rightarrow> Inl (NetGuard e)
      | Inr addresses \<Rightarrow>
          (case addresses of
             [] \<Rightarrow> Inl NoAddress
           | pinned # _ \<Rightarrow>
               (case http_get domain pinned (well_known_url domain) of
                  None \<Rightarrow> Inl Transport
                | Some response \<Rightarrow>
                    if \<not> (200 \<le> hr_status response \<and> hr_status response < 300) then Inr []
                    else if (case hr_length response of None \<Rightarrow> False | Some len \<Rightarrow> len > WELL_KNOWN_MAX_BYTES)
                    then Inl TooLarge
                    else bind_res (read_capped WELL_KNOWN_MAX_BYTES [] (hr_chunks response))
                           (\<lambda>body. Inr (from_utf8_lossy body)))))"

subsection \<open>Lemmas\<close>

lemma read_capped_Inr:
  "length body \<le> cap \<Longrightarrow> read_capped cap body cs = Inr r \<Longrightarrow>
     r = body @ concat (List.map_filter id cs) \<and> length r \<le> cap \<and> None \<notin> set cs"
proof (induction cap body cs rule: read_capped.induct)
  case (3 cap body chunk rest)
  then show ?case by (auto simp: map_filter_simps split: if_splits)
qed (auto simp: map_filter_simps)

lemma currently_verified_SomeD:
  "is_currently_verified \<lparr>vs_verified_at = v, vs_expires_at = e\<rparr> now \<Longrightarrow>
     v \<noteq> None \<and> (\<exists>x. e = Some x \<and> now < x)"
  by (auto simp: is_currently_verified_def split: option.splits)

subsection \<open>Properties\<close>

text \<open>C31: the well-known file counts only when the domain itself served it from a public address.
  Whatever the network answers, the token is found only if every address of the domain is public,
  the one connected to is the first of them, the answer to the fixed HTTPS URL is a success, not a
  redirect, and at most 4096 bytes were read, which trimmed are the token and nothing else.\<close>

theorem well_known_token_proof:
  assumes "fetch_well_known_file lookup http_get domain = Inr body"
    and "file_contains_token body token" and "token \<noteq> []"
  shows "\<exists>pinned rest response raw.
    lookup (domain @ '':443'') = Some (pinned # rest)
    \<and> list_all (\<lambda>a. is_public_ip (fst a)) (pinned # rest)
    \<and> http_get domain pinned (''https://'' @ domain @ ''/.well-known/glarion-verify.txt'') = Some response
    \<and> hr_status response div 100 = 2
    \<and> raw = concat (List.map_filter id (hr_chunks response)) \<and> length raw \<le> 4096
    \<and> trim (from_utf8_lossy raw) = token"
proof -
  obtain as where as: "resolve_public_addresses lookup domain = Inr as"
    using assms(1) by (cases "resolve_public_addresses lookup domain") (auto simp: fetch_well_known_file_def)
  have public: "lookup (domain @ '':443'') = Some as \<and> as \<noteq> [] \<and> list_all (\<lambda>a. is_public_ip (fst a)) as"
    using as by (auto simp: resolve_public_addresses_def list_all_iff find_None_all
        split: option.splits if_splits)
  then obtain pinned rest where p: "as = pinned # rest" by (cases as) auto
  obtain response where r: "http_get domain pinned (well_known_url domain) = Some response"
    using assms(1) by (cases "http_get domain pinned (well_known_url domain)")
      (auto simp: fetch_well_known_file_def as p)
  have ok: "200 \<le> hr_status response \<and> hr_status response < 300"
  proof (rule ccontr)
    assume "\<not> ?thesis"
    then have "body = []" using assms(1) by (auto simp: fetch_well_known_file_def as p r)
    then have "trim body = []" using set_trim[of body] by auto
    with assms(2,3) show False by (simp add: file_contains_token_def)
  qed
  obtain raw where raw: "read_capped WELL_KNOWN_MAX_BYTES [] (hr_chunks response) = Inr raw"
      "body = from_utf8_lossy raw"
    using assms(1) ok
    by (auto simp: fetch_well_known_file_def as p r bind_res_Inr_iff split: if_splits)
  have c: "raw = concat (List.map_filter id (hr_chunks response)) \<and> length raw \<le> 4096"
    using read_capped_Inr[OF _ raw(1)] unfolding WELL_KNOWN_MAX_BYTES_def by auto
  have s: "hr_status response div 100 = 2" using ok by (intro div_nat_eqI) simp_all
  have "trim (from_utf8_lossy raw) = token" using assms(2) raw(2) by (simp add: file_contains_token_def)
  with public p r c s show ?thesis unfolding well_known_url_def by blast
qed

definition demo_lookup :: "string \<Rightarrow> (ip \<times> nat) list option" where
  "demo_lookup _ = Some [(V4 (93, 184, 216, 34), 443)]"

definition demo_client :: http_client where
  "demo_client _ _ _ = Some \<lparr>hr_status = 200, hr_length = None, hr_chunks = [Some ''tok'', Some ''en'']\<rparr>"

lemma demo_fetch: "fetch_well_known_file demo_lookup demo_client ''a.example'' = Inr ''token''"
proof -
  have "is_public_ip (V4 (93, 184, 216, 34))" by code_simp
  then have "resolve_public_addresses demo_lookup ''a.example'' = Inr [(V4 (93, 184, 216, 34), 443)]"
    by (simp add: resolve_public_addresses_def demo_lookup_def)
  moreover have "from_utf8_lossy ''token'' = ''token''"
    by (rule from_utf8_lossy_ascii) (simp add: code_of_def)
  ultimately show ?thesis
    by (simp add: fetch_well_known_file_def demo_client_def WELL_KNOWN_MAX_BYTES_def)
qed

lemma demo_token: "file_contains_token ''token'' ''token''"
  unfolding file_contains_token_def by (rule trim_graphic) (simp add: graphic_def code_of_def)

theorem well_known_token_proof_witness:
  "\<exists>pinned rest response raw.
    demo_lookup (''a.example'' @ '':443'') = Some (pinned # rest)
    \<and> list_all (\<lambda>a. is_public_ip (fst a)) (pinned # rest)
    \<and> demo_client ''a.example'' pinned (''https://'' @ ''a.example'' @ ''/.well-known/glarion-verify.txt'')
        = Some response
    \<and> hr_status response div 100 = 2
    \<and> raw = concat (List.map_filter id (hr_chunks response)) \<and> length raw \<le> 4096
    \<and> trim (from_utf8_lossy raw) = ''token''"
  by (rule well_known_token_proof[OF demo_fetch demo_token]) simp

subsection \<open>An issued token is found\<close>

lemma is_alnum_graphic: "is_alnum c \<Longrightarrow> graphic c"
  by (auto simp: is_alnum_def is_digit_def is_upper_def is_lower_def graphic_def)

lemma trim_line:
  assumes "\<forall>c\<in>set s. graphic c" "s \<noteq> []"
  shows "trim (s @ [CHR 0x0A]) = s"
proof -
  obtain c t where s: "s = c # t" using assms(2) by (cases s) auto
  then have "ws_len (s @ [CHR 0x0A]) = 0" using assms(1) by simp
  then have start: "trim_start (s @ [CHR 0x0A]) = s @ [CHR 0x0A]" by (simp add: trim_start_def strip_ws_id)
  obtain d u where r: "rev s = d # u" using assms(2) by (cases "rev s") auto
  then have "d \<in> set s" by (metis list.set_intros(1) set_rev)
  then have rest: "strip_ws ws_len_rev (rev s) = rev s" using assms(1) r by (intro strip_ws_id) simp
  have "ws_len_rev (CHR 0x0A # rev s) = 1" by (simp add: ws_len_rev_def ascii_ws_def code_of_def)
  then have "strip_ws ws_len_rev (CHR 0x0A # rev s) = strip_ws ws_len_rev (rev s)" by (subst strip_ws.simps) simp
  then show ?thesis by (simp add: trim_def start trim_end_def rest)
qed

text \<open>Whoever publishes the token they were given, as a record or as the one line of the file, is believed.\<close>

lemma issued_token_is_found:
  assumes "\<And>i. is_alnum (draw i)"
  shows "token_present [generate_token draw] (generate_token draw)"
    and "file_contains_token (generate_token draw @ [CHR 0x0A]) (generate_token draw)"
proof -
  have plain: "\<forall>c\<in>set (generate_token draw). graphic c"
    using assms is_alnum_graphic by (auto simp: generate_token_def)
  show "token_present [generate_token draw] (generate_token draw)"
    by (simp add: token_present_def trim_graphic[OF plain])
  have "generate_token draw \<noteq> []" by (simp add: generate_token_def)
  then show "file_contains_token (generate_token draw @ [CHR 0x0A]) (generate_token draw)"
    by (simp add: file_contains_token_def trim_line[OF plain])
qed

end
