(* ===== verification/Schedule.thy ===== *)
theory Schedule
  imports Strs Clock
begin

text \<open>
  \<open>crates/orchestrator/src/schedule.rs\<close>: when a target is due, and what changed between two
  scans.  \<open>i64\<close> counts are \<open>int\<close>: the source compares and copies them, and computes none.
\<close>

datatype cadence = Manual | Weekly | Monthly

fun cadence_db_str :: "cadence \<Rightarrow> string" where
  "cadence_db_str Manual = ''manual''"
| "cadence_db_str Weekly = ''weekly''"
| "cadence_db_str Monthly = ''monthly''"

definition from_str_or_manual :: "string \<Rightarrow> cadence" where
  "from_str_or_manual value =
     (let v = to_ascii_lowercase (trim value) in
      if v = ''weekly'' then Weekly else if v = ''monthly'' then Monthly else Manual)"

fun interval_of :: "cadence \<Rightarrow> duration option" where
  "interval_of Manual = None"
| "interval_of Weekly = Some (days 7)"
| "interval_of Monthly = Some (days 30)"

record schedule_state =
  s_cadence :: cadence
  s_last :: "time option"
  s_expires :: "time option"

datatype not_due = NotScheduled | TooSoon | VerificationLapsed

definition due :: "schedule_state \<Rightarrow> time \<Rightarrow> not_due + unit" where
  "due st now =
     (case interval_of (s_cadence st) of
        None \<Rightarrow> Inl NotScheduled
      | Some interval \<Rightarrow>
          if (case s_expires st of Some expires \<Rightarrow> \<not> expires > now | None \<Rightarrow> True)
          then Inl VerificationLapsed
          else (case s_last st of
                  None \<Rightarrow> Inr ()
                | Some lst \<Rightarrow> if now - lst \<ge> interval then Inr () else Inl TooSoon))"

datatype change = NoChange | Worse int int | Better int int | Resolved int | Appeared int
  | Replaced int int

fun worth_reporting :: "change \<Rightarrow> bool" where
  "worth_reporting NoChange = False"
| "worth_reporting _ = True"

definition compare_counts :: "int option \<Rightarrow> int \<Rightarrow> change" where
  "compare_counts previous current =
     (case previous of
        None \<Rightarrow> NoChange
      | Some p \<Rightarrow>
          if p = current then NoChange
          else if p = 0 then Appeared current
          else if current = 0 then Resolved p
          else if current > p then Worse p current
          else Better p current)"

definition compare_identities :: "string list option \<Rightarrow> string list \<Rightarrow> change" where
  "compare_identities previous current =
     (case previous of
        None \<Rightarrow> NoChange
      | Some prev \<Rightarrow>
          let new = int (length (filter (\<lambda>key. key \<notin> set prev) current));
              frm = int (length prev); to = int (length current) in
          if new > 0 \<and> to \<le> frm \<and> frm > 0 then Replaced new to
          else compare_counts (Some frm) to)"

definition plural :: "int \<Rightarrow> string \<Rightarrow> string \<Rightarrow> string" where
  "plural count one many = (if count = 1 then one else many)"

fun headline :: "string \<Rightarrow> change \<Rightarrow> string" where
  "headline domain NoChange = ''No change on '' @ domain"
| "headline domain (Appeared to) =
     show_int to @ '' new '' @ plural to ''issue'' ''issues'' @ '' on '' @ domain"
| "headline domain (Worse frm to) = domain @ '': '' @ show_int to @ '' to fix, up from '' @ show_int frm"
| "headline domain (Better frm to) = domain @ '': '' @ show_int to @ '' to fix, down from '' @ show_int frm"
| "headline domain (Resolved frm) = domain @ '' is clear''"
| "headline domain (Replaced new to) =
     show_int new @ '' new '' @ plural new ''issue'' ''issues'' @ '' on '' @ domain"

subsection \<open>Lemmas\<close>

lemma cadence_db_str_neq_manual [simp]: "cadence_db_str c = ''manual'' \<longleftrightarrow> c = Manual"
  by (cases c) auto

lemma from_str_or_manual_db_str [simp]: "from_str_or_manual (cadence_db_str c) = c"
proof -
  have "trim (cadence_db_str c) = cadence_db_str c"
    by (rule trim_graphic) (cases c; simp add: graphic_def code_of_def)
  moreover have "to_ascii_lowercase (cadence_db_str c) = cadence_db_str c"
    by (rule to_ascii_lowercase_id) (cases c; simp add: is_upper_def code_of_def)
  ultimately show ?thesis by (cases c) (simp_all add: from_str_or_manual_def)
qed

lemma due_Inr_iff:
  "due st now = Inr () \<longleftrightarrow>
     (\<exists>iv e. interval_of (s_cadence st) = Some iv \<and> s_expires st = Some e \<and> now < e
        \<and> (\<forall>l. s_last st = Some l \<longrightarrow> iv \<le> now - l))"
  by (auto simp: due_def split: option.splits)

lemma filter_length_zero: "int (length (filter P xs)) > 0 \<longleftrightarrow> (\<exists>x\<in>set xs. P x)"
  by (simp add: filter_empty_conv)

lemma compare_identities_iff:
  "worth_reporting (compare_identities previous current) \<longleftrightarrow>
     (\<exists>prev. previous = Some prev
        \<and> \<not> (list_all (\<lambda>key. key \<in> set prev) current \<and> length prev = length current))"
proof (cases previous)
  case None
  then show ?thesis by (simp add: compare_identities_def)
next
  case (Some prev)
  let ?new = "\<exists>key\<in>set current. key \<notin> set prev"
  have n: "int (length (filter (\<lambda>key. key \<notin> set prev) current)) > 0 \<longleftrightarrow> ?new"
    by (rule filter_length_zero)
  have e: "?new \<Longrightarrow> length prev = length current \<Longrightarrow> 0 < length prev" by auto
  show ?thesis
  proof (cases "?new \<and> length current \<le> length prev \<and> 0 < length prev")
    case True
    with n Some show ?thesis by (simp add: compare_identities_def Let_def list_all_iff)
  next
    case False
    then have "compare_identities previous current
        = compare_counts (Some (int (length prev))) (int (length current))"
      using n Some by (auto simp: compare_identities_def Let_def)
    moreover have "worth_reporting (compare_counts (Some (int (length prev))) (int (length current)))
        \<longleftrightarrow> length prev \<noteq> length current"
      by (auto simp: compare_counts_def)
    ultimately show ?thesis using False e Some by (auto simp: list_all_iff)
  qed
qed

subsection \<open>Properties\<close>

text \<open>A scheduled scan is due exactly when the target is on a schedule, its ownership proof
  is in force at that moment, and either no scheduled scan was ever queued or the last one is a
  whole interval (7 or 30 days) old; and of the reasons for not being due, a lapsed proof is
  reported ahead of being too soon.\<close>

lemma due_spec:
  "(due st now = Inr () \<longleftrightarrow>
     (\<exists>iv e. interval_of (s_cadence st) = Some iv \<and> s_expires st = Some e \<and> now < e
        \<and> (case s_last st of None \<Rightarrow> True | Some l \<Rightarrow> iv \<le> now - l)))
   \<and> (due st now = Inl VerificationLapsed \<longleftrightarrow>
        s_cadence st \<noteq> Manual \<and> (case s_expires st of None \<Rightarrow> True | Some e \<Rightarrow> e \<le> now))"
proof (intro conjI)
  show "due st now = Inr () \<longleftrightarrow>
     (\<exists>iv e. interval_of (s_cadence st) = Some iv \<and> s_expires st = Some e \<and> now < e
        \<and> (case s_last st of None \<Rightarrow> True | Some l \<Rightarrow> iv \<le> now - l))"
    by (cases "s_last st") (simp_all add: due_Inr_iff)
  show "due st now = Inl VerificationLapsed \<longleftrightarrow>
     s_cadence st \<noteq> Manual \<and> (case s_expires st of None \<Rightarrow> True | Some e \<Rightarrow> e \<le> now)"
    by (cases "s_cadence st") (auto simp: due_def split: option.splits)
qed

text \<open>No new issue is ever silent.  After a scan with a previous one to compare with, the
  outcome is worth reporting exactly when an issue is there that the previous scan did not have or
  the number of issues changed; a first scan is never reported.\<close>

lemma compare_identities_reports:
  "worth_reporting (compare_identities previous current) \<longleftrightarrow>
     (\<exists>prev. previous = Some prev
        \<and> \<not> (list_all (\<lambda>key. key \<in> set prev) current \<and> length prev = length current))"
  by (rule compare_identities_iff)

end
