(* ===== verification/Json.thy ===== *)
theory Json
  imports Strs
begin

text \<open>
  \<open>serde_json::Value\<close> as the source reads it.  An object is the association list of its
  entries; a number is an integer, or a float, of which the source never reads the value.  Parsing
  a document is serde's: the components that call it take the parser as a parameter.
\<close>

datatype json =
    JNull
  | JBool bool
  | JInt int
  | JFloat
  | JStr string
  | JArr "json list"
  | JObj "(string \<times> json) list"

text \<open>\<open>Value::get(key)\<close>, \<open>Value::get(index)\<close>, \<open>as_str\<close>, \<open>as_i64\<close>, \<open>as_bool\<close> and
  \<open>as_array\<close>.\<close>

fun jget :: "string \<Rightarrow> json \<Rightarrow> json option" where
  "jget k (JObj m) = map_of m k"
| "jget k _ = None"

fun jnth :: "nat \<Rightarrow> json \<Rightarrow> json option" where
  "jnth i (JArr xs) = (if i < length xs then Some (xs ! i) else None)"
| "jnth i _ = None"

fun as_str :: "json \<Rightarrow> string option" where
  "as_str (JStr s) = Some s"
| "as_str _ = None"

fun as_i64 :: "json \<Rightarrow> int option" where
  "as_i64 (JInt n) = (if - (2 ^ 63) \<le> n \<and> n < 2 ^ 63 then Some n else None)"
| "as_i64 _ = None"

fun as_bool :: "json \<Rightarrow> bool option" where
  "as_bool (JBool b) = Some b"
| "as_bool _ = None"

fun as_array :: "json \<Rightarrow> json list option" where
  "as_array (JArr xs) = Some xs"
| "as_array _ = None"

text \<open>\<open>value["key"]\<close> and \<open>value[index]\<close>: \<open>Null\<close> where there is nothing.\<close>

definition jidx :: "json \<Rightarrow> string \<Rightarrow> json" where
  "jidx v k = (case jget k v of None \<Rightarrow> JNull | Some w \<Rightarrow> w)"

definition jat :: "json \<Rightarrow> nat \<Rightarrow> json" where
  "jat v i = (case jnth i v of None \<Rightarrow> JNull | Some w \<Rightarrow> w)"

text \<open>\<open>v.get(k).and_then(|x| x.as_str())\<close>, the idiom of every handler, and the chain of
  \<open>get\<close>s along a path of keys.\<close>

definition get_str :: "string \<Rightarrow> json \<Rightarrow> string option" where
  "get_str k v = Option.bind (jget k v) as_str"

fun jpath :: "string list \<Rightarrow> json \<Rightarrow> json option" where
  "jpath [] v = Some v"
| "jpath (k # ks) v = Option.bind (jget k v) (jpath ks)"

definition first_item :: "json \<Rightarrow> json option" where
  "first_item v = Option.bind (jpath [''items'', ''data''] v) (jnth 0)"

text \<open>Elements of \<open>v["data"].as_array().into_iter().flatten()\<close>.\<close>

definition data_rows :: "json \<Rightarrow> json list" where
  "data_rows v = (case as_array (jidx v ''data'') of None \<Rightarrow> [] | Some xs \<Rightarrow> xs)"

end
