(* ===== verification/Finding.thy ===== *)
theory Finding
  imports Json
begin

text \<open>
  \<open>crates/orchestrator/src/finding.rs\<close>: the one representation every scanner's output is
  converted to, and the severity scale with its two string forms.
\<close>

datatype severity = Info | Low | Medium | High | Critical

text \<open>The derived \<open>Ord\<close>: the order of declaration.\<close>

fun sev_rank :: "severity \<Rightarrow> nat" where
  "sev_rank Info = 0"
| "sev_rank Low = 1"
| "sev_rank Medium = 2"
| "sev_rank High = 3"
| "sev_rank Critical = 4"

lemma sev_rank_inj: "sev_rank a = sev_rank b \<longleftrightarrow> a = b"
  by (cases a; cases b) auto

instantiation severity :: linorder
begin

definition less_eq_severity :: "severity \<Rightarrow> severity \<Rightarrow> bool" where
  "less_eq_severity a b \<longleftrightarrow> sev_rank a \<le> sev_rank b"

definition less_severity :: "severity \<Rightarrow> severity \<Rightarrow> bool" where
  "less_severity a b \<longleftrightarrow> sev_rank a < sev_rank b"

instance
  by standard (auto simp: less_eq_severity_def less_severity_def sev_rank_inj)
end

fun as_db_str :: "severity \<Rightarrow> string" where
  "as_db_str Info = ''info''"
| "as_db_str Low = ''low''"
| "as_db_str Medium = ''medium''"
| "as_db_str High = ''high''"
| "as_db_str Critical = ''critical''"

definition from_tool_label :: "string \<Rightarrow> severity" where
  "from_tool_label label =
     (let l = to_ascii_lowercase (trim label) in
      if l = ''critical'' then Critical
      else if l = ''high'' then High
      else if l = ''medium'' \<or> l = ''moderate'' then Medium
      else if l = ''low'' then Low
      else Info)"

record finding =
  f_severity :: severity
  f_title :: string
  f_description :: "string option"
  f_raw :: json

text \<open>A stored row of \<open>scan_results\<close> and the finding it is read back as
  (\<open>load_findings\<close> in \<open>runner.rs\<close> and \<open>routes/results.rs\<close>).\<close>

record result_row =
  r_job :: nat
  r_severity :: string
  r_title :: string
  r_description :: "string option"
  r_raw :: json

definition row_of_finding :: "nat \<Rightarrow> finding \<Rightarrow> result_row" where
  "row_of_finding job f =
     \<lparr>r_job = job, r_severity = as_db_str (f_severity f), r_title = f_title f,
      r_description = f_description f, r_raw = f_raw f\<rparr>"

definition finding_of_row :: "result_row \<Rightarrow> finding" where
  "finding_of_row r =
     \<lparr>f_severity = from_tool_label (r_severity r), f_title = r_title r,
      f_description = r_description r, f_raw = r_raw r\<rparr>"

lemma from_tool_label_db_str: "from_tool_label (as_db_str s) = s"
proof -
  have "trim (as_db_str s) = as_db_str s"
    by (rule trim_graphic) (cases s; simp add: graphic_def code_of_def)
  moreover have "to_ascii_lowercase (as_db_str s) = as_db_str s"
    by (rule to_ascii_lowercase_id) (cases s; simp add: is_upper_def code_of_def)
  ultimately show ?thesis
    by (cases s) (simp_all add: from_tool_label_def)
qed

text \<open>A finding stored in \<open>scan_results\<close> and read back is the same finding: severity,
  title, description and raw tool output, and the stored severity is one the schema's check
  constraint accepts.\<close>

lemma stored_finding_roundtrip:
  "finding_of_row (row_of_finding job f) = f
   \<and> r_severity (row_of_finding job f) \<in> {''info'', ''low'', ''medium'', ''high'', ''critical''}"
proof
  show "finding_of_row (row_of_finding job f) = f"
    by (simp add: finding_of_row_def row_of_finding_def from_tool_label_db_str)
  show "r_severity (row_of_finding job f) \<in> {''info'', ''low'', ''medium'', ''high'', ''critical''}"
    by (cases "f_severity f") (simp_all add: row_of_finding_def)
qed

end
