(* ===== verification/IpParse.thy ===== *)
theory IpParse
  imports Strs
begin

text \<open>
  \<open>str::parse::<Ipv4Addr>\<close> and \<open>str::parse::<Ipv6Addr>\<close> of the standard library, as far as the
  source uses them: which strings are accepted, and the numbers they stand for.  The parsers
  follow \<open>core::net::parser\<close>: a number is read greedily and refused when it has too many digits;
  an octet has no leading zero.
\<close>

fun span_hex :: "string \<Rightarrow> string \<times> string" where
  "span_hex [] = ([], [])"
| "span_hex (c # cs) =
     (if is_digit c \<or> (97 \<le> code_of c \<and> code_of c \<le> 102) \<or> (65 \<le> code_of c \<and> code_of c \<le> 70)
      then (case span_hex cs of (a, b) \<Rightarrow> (c # a, b)) else ([], c # cs))"

definition hex_val :: "char \<Rightarrow> nat" where
  "hex_val c = (if is_digit c then code_of c - 48
     else if is_upper c then code_of c - 55 else code_of c - 87)"

text \<open>\<open>read_number(10, Some(3), false)\<close> of a whole octet.\<close>

definition octet :: "string \<Rightarrow> nat option" where
  "octet w = (if w = [] \<or> length w > 3 \<or> \<not> list_all is_digit w
       \<or> (hd w = CHR ''0'' \<and> length w > 1) then None
     else (let n = foldl (\<lambda>n c. 10 * n + digit_val c) 0 w in if n \<le> 255 then Some n else None))"

definition parse_ipv4 :: "string \<Rightarrow> nat list option" where
  "parse_ipv4 s =
     (let ws = split_char (CHR ''.'') s in
      if length ws \<noteq> 4 then None
      else if list_all (\<lambda>w. octet w \<noteq> None) ws then Some (map (\<lambda>w. the (octet w)) ws) else None)"

text \<open>\<open>read_number(16, Some(4), true)\<close>: the 16-bit group and the rest.\<close>

definition hex_group :: "string \<Rightarrow> (nat \<times> string) option" where
  "hex_group s = (case span_hex s of (a, b) \<Rightarrow>
     if a = [] \<or> length a > 4 then None
     else Some (foldl (\<lambda>n c. 16 * n + hex_val c) 0 a, b))"

text \<open>The longest prefix made of digits and dots, in which an embedded IPv4 address would sit.
  \<open>read_ipv4_addr\<close> reads four octets and leaves the rest.\<close>

fun span_digits :: "string \<Rightarrow> string \<times> string" where
  "span_digits [] = ([], [])"
| "span_digits (c # cs) =
     (if is_digit c then (case span_digits cs of (a, b) \<Rightarrow> (c # a, b)) else ([], c # cs))"

fun read_octets :: "nat \<Rightarrow> string \<Rightarrow> (nat list \<times> string) option" where
  "read_octets 0 s = Some ([], s)"
| "read_octets (Suc k) s =
     (case span_digits s of (a, b) \<Rightarrow>
        (case octet a of None \<Rightarrow> None
         | Some v \<Rightarrow>
             if k = 0 then Some ([v], b)
             else (case b of [] \<Rightarrow> None
                   | d # b' \<Rightarrow> if d = CHR ''.'' then map_option (\<lambda>(vs, r). (v # vs, r)) (read_octets k b')
                                else None)))"

text \<open>\<open>read_groups\<close>: up to \<open>limit\<close> groups separated by colons, an embedded IPv4 address
  counting for two.  The result is the groups, whether an IPv4 address ended them, and the rest;
  the separator of a group that cannot be read is not consumed.\<close>

fun read_groups :: "nat \<Rightarrow> nat \<Rightarrow> string \<Rightarrow> nat list \<times> bool \<times> string" where
  "read_groups 0 i s = ([], False, s)"
| "read_groups (Suc left) i s =
     (let sep = (if i = 0 then Some s
                 else (case s of [] \<Rightarrow> None | c # cs \<Rightarrow> if c = CHR '':'' then Some cs else None)) in
      case sep of None \<Rightarrow> ([], False, s)
      | Some s' \<Rightarrow>
          (case (if 1 \<le> left then read_octets 4 s' else None) of
             Some (vs, r) \<Rightarrow> ([256 * vs ! 0 + vs ! 1, 256 * vs ! 2 + vs ! 3], True, r)
           | None \<Rightarrow>
               (case hex_group s' of
                  None \<Rightarrow> ([], False, s)
                | Some (g, r) \<Rightarrow>
                    (case read_groups left (Suc i) r of (gs, v4, r') \<Rightarrow> (g # gs, v4, r')))))"

definition parse_ipv6 :: "string \<Rightarrow> nat list option" where
  "parse_ipv6 s =
     (case read_groups 8 0 s of (hd_gs, hd_v4, r) \<Rightarrow>
        if length hd_gs = 8 then (if r = [] then Some hd_gs else None)
        else if hd_v4 then None
        else (case strip_prefix ''::'' r of
                None \<Rightarrow> None
              | Some r' \<Rightarrow>
                  (case read_groups (8 - (length hd_gs + 1)) 0 r' of (tl_gs, _, r'') \<Rightarrow>
                     if r'' = []
                     then Some (hd_gs @ replicate (8 - length hd_gs - length tl_gs) 0 @ tl_gs)
                     else None)))"

text \<open>A string without a colon is never an IPv6 address.\<close>

lemma span_hex_append: "span_hex s = (a, b) \<Longrightarrow> s = a @ b"
  by (induction s arbitrary: a b) (auto split: if_splits prod.splits)

lemma span_digits_append: "span_digits s = (a, b) \<Longrightarrow> s = a @ b"
  by (induction s arbitrary: a b) (auto split: if_splits prod.splits)

lemma read_octets_rest: "read_octets k s = Some (vs, r) \<Longrightarrow> suffix r s \<and> length vs = k"
proof (induction k s arbitrary: vs r rule: read_octets.induct)
  case (2 k s)
  obtain a b where ab: "span_digits s = (a, b)" by (cases "span_digits s")
  then have s: "s = a @ b" by (rule span_digits_append)
  obtain v where v: "octet a = Some v"
    using 2 ab by (cases "octet a") auto
  show ?case
  proof (cases "k = 0")
    case True
    with 2 ab v s show ?thesis by (auto simp: suffix_def)
  next
    case False
    with 2 ab v obtain b' vs' where
      b: "b = CHR ''.'' # b'" "read_octets k b' = Some (vs', r)" "vs = v # vs'"
      by (auto split: list.splits if_splits)
    then have "suffix r b' \<and> length vs' = k"
      using "2.IH"[of a b v "CHR ''.''" b'] ab v False by simp
    then show ?thesis using s b by (auto simp: suffix_def)
  qed
qed auto

lemma read_groups_no_colon:
  assumes "CHR '':'' \<notin> set s" and "read_groups n 0 s = (gs, v4, r)"
  shows "length gs \<le> 2 \<and> set r \<subseteq> set s"
proof (cases n)
  case 0
  with assms show ?thesis by auto
next
  case (Suc left)
  show ?thesis
  proof (cases "if 1 \<le> left then read_octets 4 s else None")
    case (Some x)
    obtain vs r0 where x: "x = (vs, r0)" by (cases x)
    then have "read_octets 4 s = Some (vs, r0)" using Some by (auto split: if_splits)
    then have "suffix r0 s" using read_octets_rest by blast
    then have "set r0 \<subseteq> set s" by (rule set_mono_suffix)
    then show ?thesis using assms Suc Some x by auto
  next
    case None
    show ?thesis
    proof (cases "hex_group s")
      case None2: None
      then show ?thesis using assms Suc None by (auto simp: Let_def)
    next
      case (Some y)
      obtain g r0 where y: "y = (g, r0)" by (cases y)
      then have "\<exists>a. s = a @ r0"
        using Some span_hex_append[of s] by (auto simp: hex_group_def split: prod.splits if_splits)
      then have sub: "set r0 \<subseteq> set s" by auto
      then have nc: "CHR '':'' \<notin> set r0" using assms by auto
      have "read_groups left (Suc 0) r0 = ([], False, r0)"
        using nc by (cases left; cases r0) auto
      then show ?thesis using assms Suc None Some y sub by (auto simp: Let_def)
    qed
  qed
qed

lemma parse_ipv6_no_colon:
  assumes "CHR '':'' \<notin> set s"
  shows "parse_ipv6 s = None"
proof -
  obtain gs v4 r where g: "read_groups 8 0 s = (gs, v4, r)" by (cases "read_groups 8 0 s")
  with assms have l: "length gs \<le> 2" "CHR '':'' \<notin> set r"
    using read_groups_no_colon[OF assms g] by auto
  then have "strip_prefix ''::'' r = None"
    by (auto simp: strip_prefix_def prefix_def)
  with g l show ?thesis by (simp add: parse_ipv6_def)
qed

lemma octet_le: "octet w = Some n \<Longrightarrow> n \<le> 255"
  by (auto simp: octet_def Let_def split: if_splits)

lemma parse_ipv4_lengths:
  assumes "parse_ipv4 s = Some ns"
  shows "length ns = 4 \<and> (\<forall>n\<in>set ns. n \<le> 255)"
proof -
  let ?ws = "split_char (CHR ''.'') s"
  from assms have l: "length ?ws = 4" and a: "\<forall>w\<in>set ?ws. octet w \<noteq> None"
    and ns: "ns = map (\<lambda>w. the (octet w)) ?ws"
    by (auto simp: parse_ipv4_def Let_def list_all_iff split: if_splits)
  from a have "\<forall>w\<in>set ?ws. the (octet w) \<le> 255" using octet_le by fastforce
  with l ns show ?thesis by simp
qed

end
