(* ===== verification/RateLimit.thy ===== *)
theory RateLimit
  imports Clock IpParse NetGuard "HOL-Library.AList"
begin

text \<open>
  \<open>crates/api/src/rate_limit.rs\<close>: the two fixed-window counters.  The in-process one keeps a
  \<open>u32\<close> count that saturates; the shared one is a row of \<open>rate_limit_buckets\<close>, written by one
  upsert, whose \<open>bigint\<close> count makes the statement fail when it overflows, and a failing statement
  refuses.  What both promise is the locale \<open>window_limiter\<close>, with the bound on a burst proved once.
  Instants are \<open>time\<close>; a \<open>Duration\<close> between them saturates at zero.
\<close>

definition AUTH_ATTEMPTS_PER_WINDOW :: int where "AUTH_ATTEMPTS_PER_WINDOW = 10"
definition AUTH_WINDOW_SECS :: int where "AUTH_WINDOW_SECS = 300"
definition VERIFICATION_CHECKS_PER_WINDOW :: int where "VERIFICATION_CHECKS_PER_WINDOW = 20"
definition VERIFICATION_WINDOW_SECS :: int where "VERIFICATION_WINDOW_SECS = 300"
definition ENTRY_TTL_SECS :: int where "ENTRY_TTL_SECS = 900"
definition CLIENT_IP_HEADER :: string where "CLIENT_IP_HEADER = ''fly-client-ip''"

text \<open>\<open>str::parse::<IpAddr>\<close>: the headers as a lookup of their printable values.\<close>

definition parse_ip :: "string \<Rightarrow> ip option" where
  "parse_ip s =
     (case parse_ipv4 s of
        Some [a, b, c, d] \<Rightarrow> Some (V4 (of_nat a, of_nat b, of_nat c, of_nat d))
      | _ \<Rightarrow>
          (case parse_ipv6 s of
             Some [a, b, c, d, e, f, g, h] \<Rightarrow>
               Some (V6 (of_nat a, of_nat b, of_nat c, of_nat d, of_nat e, of_nat f, of_nat g, of_nat h))
           | _ \<Rightarrow> None))"

definition forwarded_client_ip :: "(string \<Rightarrow> string option) \<Rightarrow> string \<Rightarrow> ip option" where
  "forwarded_client_ip headers trusted_header =
     Option.bind (headers trusted_header) (\<lambda>value. parse_ip (trim value))"

record window =
  w_started :: time
  w_count :: "32 word"

definition saturating_inc :: "32 word \<Rightarrow> 32 word" where
  "saturating_inc c = (if c = - 1 then c else c + 1)"

definition duration_since :: "time \<Rightarrow> time \<Rightarrow> duration" where
  "duration_since now earlier = max 0 (now - earlier)"

definition decide :: "window option \<Rightarrow> time \<Rightarrow> 32 word \<Rightarrow> duration \<Rightarrow> bool \<times> window" where
  "decide w now limit window_len =
     (case w of
        Some existing \<Rightarrow>
          if duration_since now (w_started existing) < window_len
          then (w_count existing < limit,
                \<lparr>w_started = w_started existing, w_count = saturating_inc (w_count existing)\<rparr>)
          else (True, \<lparr>w_started = now, w_count = 1\<rparr>)
      | None \<Rightarrow> (True, \<lparr>w_started = now, w_count = 1\<rparr>))"

record rate_limiter =
  rl_buckets :: "(ip \<times> window) list"
  rl_poisoned :: bool
  rl_limit :: "32 word"
  rl_window :: duration

definition new_limiter :: "32 word \<Rightarrow> duration \<Rightarrow> rate_limiter" where
  "new_limiter limit window_len =
     \<lparr>rl_buckets = [], rl_poisoned = False, rl_limit = limit, rl_window = window_len\<rparr>"

definition for_auth :: rate_limiter where
  "for_auth = new_limiter 10 (seconds AUTH_WINDOW_SECS)"

definition for_verification :: rate_limiter where
  "for_verification = new_limiter 20 (seconds VERIFICATION_WINDOW_SECS)"

definition check_limit :: "time \<Rightarrow> ip \<Rightarrow> rate_limiter \<Rightarrow> bool \<times> rate_limiter" where
  "check_limit now client rl =
     (if rl_poisoned rl then (False, rl)
      else
        (let buckets = (if length (rl_buckets rl) > 10000
               then filter (\<lambda>(_, w). duration_since now (w_started w) < seconds ENTRY_TTL_SECS) (rl_buckets rl)
               else rl_buckets rl);
             (allowed, updated) = decide (map_of buckets client) now (rl_limit rl) (rl_window rl)
         in (allowed, rl\<lparr>rl_buckets := AList.update client updated buckets\<rparr>)))"

text \<open>The upsert.  The count after it, or \<open>None\<close> when the \<open>bigint\<close> addition fails.\<close>

type_synonym bucket_row = "time \<times> int"

definition upsert_bucket :: "time \<Rightarrow> duration \<Rightarrow> bucket_row option \<Rightarrow> (int \<times> bucket_row) option" where
  "upsert_bucket now window_len row =
     (case row of
        None \<Rightarrow> Some (1, (now, 1))
      | Some (started, count) \<Rightarrow>
          if started \<le> now - window_len then Some (1, (now, 1))
          else if count + 1 > 2 ^ 63 - 1 then None
          else (let c = min (count + 1) 9223372036854775807 in Some (c, (started, c))))"

definition shared_attempt :: "int \<Rightarrow> duration \<Rightarrow> time \<Rightarrow> bucket_row option \<Rightarrow> bool \<times> bucket_row option" where
  "shared_attempt limit window_len now row =
     (case upsert_bucket now window_len row of
        None \<Rightarrow> (False, row)
      | Some (count, row') \<Rightarrow> (count \<le> limit, Some row'))"

type_synonym bucket_table = "((string \<times> string) \<times> bucket_row) list"

text \<open>\<open>limit\<close> is the \<open>u32\<close> as an integer and \<open>window\<close> the window in whole seconds.\<close>

definition check_shared_key ::
    "(string \<Rightarrow> string) \<Rightarrow> int \<Rightarrow> int \<Rightarrow> string \<Rightarrow> string \<Rightarrow> time \<Rightarrow> bucket_table \<Rightarrow> bool \<times> bucket_table" where
  "check_shared_key sha256_hex limit window_secs scope key now table =
     (let client_key = (scope, sha256_hex key);
          window_len = seconds (min window_secs (2 ^ 31 - 1));
          (allowed, row) = shared_attempt limit window_len now (map_of table client_key)
      in (allowed, case row of None \<Rightarrow> table | Some r \<Rightarrow> AList.update client_key r table))"

subsection \<open>What a limiter promises\<close>

text \<open>\<open>view\<close> is when the open window started and how many attempts it has counted.  A state without
  an open window admits the attempt and opens one; inside an open window an attempt is admitted while
  fewer than \<open>limit\<close> were counted, and every attempt counts, at least as far as it matters.\<close>

locale window_limiter =
  fixes attempt :: "time \<Rightarrow> 's \<Rightarrow> bool \<times> 's"
    and view :: "'s \<Rightarrow> (time \<times> int) option"
    and limit :: int
    and len :: duration
  assumes positive: "1 \<le> limit"
    and opens: "(\<And>t c. view s = Some (t, c) \<Longrightarrow> len \<le> now - t) \<Longrightarrow>
        fst (attempt now s) \<and> view (snd (attempt now s)) = Some (now, 1)"
    and counts: "view s = Some (t, c) \<Longrightarrow> t \<le> now \<Longrightarrow> now - t < len \<Longrightarrow> 0 \<le> c \<Longrightarrow>
        (fst (attempt now s) \<longleftrightarrow> c < limit)
        \<and> (\<exists>c'. view (snd (attempt now s)) = Some (t, c') \<and> 0 \<le> c' \<and> min (c + 1) limit \<le> c')"
begin

text \<open>The number of attempts of a sequence that are admitted.\<close>

fun admitted :: "time list \<Rightarrow> 's \<Rightarrow> nat" where
  "admitted [] s = 0"
| "admitted (t # ts) s =
     (if fst (attempt t s) then 1 else 0) + admitted ts (snd (attempt t s))"

lemma admitted_open:
  "view s = Some (t, c) \<Longrightarrow> 0 \<le> c \<Longrightarrow> \<forall>x\<in>set ts. t \<le> x \<and> x - t < len \<Longrightarrow>
     int (admitted ts s) \<le> max 0 (limit - c)"
proof (induction ts arbitrary: s c)
  case (Cons x xs)
  have x: "t \<le> x" "x - t < len" using Cons.prems(3) by simp_all
  note step = counts[OF Cons.prems(1) x Cons.prems(2)]
  then obtain c' where c': "view (snd (attempt x s)) = Some (t, c')" "0 \<le> c'" "min (c + 1) limit \<le> c'"
    by blast
  have "int (admitted xs (snd (attempt x s))) \<le> max 0 (limit - c')"
    using Cons.IH[OF c'(1,2)] Cons.prems(3) by simp
  then show ?case using step c'(3) by auto
qed simp

lemma admitted_from_new:
  assumes "\<And>t c. view s = Some (t, c) \<Longrightarrow> len \<le> x - t" "sorted (x # xs)" "\<forall>y\<in>set xs. y - x < len"
  shows "int (admitted (x # xs) s) \<le> limit"
proof -
  from opens[of s x] assms(1)
  have o: "fst (attempt x s)" "view (snd (attempt x s)) = Some (x, 1)" by blast+
  have "int (admitted xs (snd (attempt x s))) \<le> max 0 (limit - 1)"
    using admitted_open[OF o(2), of xs] assms(2,3) by auto
  then show ?thesis using o(1) positive by simp
qed

text \<open>However a client spaces its attempts, at most twice the limit are admitted within one window's
  length: what the open window had left, and one more window.\<close>

lemma burst_bound:
  assumes "sorted ts" "\<And>t c. view s = Some (t, c) \<Longrightarrow> 0 \<le> c \<and> (\<forall>x\<in>set ts. t \<le> x)"
    and "\<forall>x\<in>set ts. \<forall>y\<in>set ts. y - x < len"
  shows "int (admitted ts s) \<le> 2 * limit"
  using assms
proof (induction ts arbitrary: s)
  case (Cons x xs)
  show ?case
  proof (cases "\<exists>t c. view s = Some (t, c) \<and> x - t < len")
    case False
    then have "int (admitted (x # xs) s) \<le> limit"
      using Cons.prems by (intro admitted_from_new) auto
    then show ?thesis using positive by simp
  next
    case True
    then obtain t c where v: "view s = Some (t, c)" "x - t < len" by blast
    then have "0 \<le> c" using Cons.prems(2) by blast
    define u where "u = takeWhile (\<lambda>y. y - t < len) (x # xs)"
    define w where "w = dropWhile (\<lambda>y. y - t < len) (x # xs)"
    have uw: "x # xs = u @ w" by (simp add: u_def w_def)
    have split: "admitted (a @ b) s' = admitted a s' + admitted b (foldl (\<lambda>s t. snd (attempt t s)) s' a)"
      for a b s' by (induction a arbitrary: s') auto
    have u: "\<forall>y\<in>set u. t \<le> y \<and> y - t < len"
    proof
      fix y assume "y \<in> set u"
      then have "y - t < len" unfolding u_def by (rule set_takeWhileD[THEN conjunct2])
      moreover have "y \<in> set (x # xs)" using \<open>y \<in> set u\<close> uw by auto
      ultimately show "t \<le> y \<and> y - t < len" using Cons.prems(2) v by auto
    qed
    have "int (admitted u s) \<le> limit"
      using admitted_open[OF v(1) \<open>0 \<le> c\<close> u] \<open>0 \<le> c\<close> positive by linarith
    moreover have "int (admitted w (foldl (\<lambda>s t. snd (attempt t s)) s u)) \<le> limit"
    proof (cases w)
      case Nil
      then show ?thesis using positive by simp
    next
      case (Cons y ys)
      have stays: "\<exists>c'. view (foldl (\<lambda>s t. snd (attempt t s)) s u) = Some (t, c')"
        using v(1) \<open>0 \<le> c\<close> u
      proof (induction u arbitrary: s c)
        case (Cons z zs)
        then obtain c' where "view (snd (attempt z s)) = Some (t, c')" "0 \<le> c'"
          using counts[of s t c z] by auto
        then show ?case using Cons.IH[of "snd (attempt z s)" c'] Cons.prems by simp
      qed auto
      have "\<not> (y - t < len)" using Cons unfolding w_def by (metis hd_dropWhile list.sel(1) list.discI)
      then have old: "\<And>t' c'. view (foldl (\<lambda>s t. snd (attempt t s)) s u) = Some (t', c') \<Longrightarrow> len \<le> y - t'"
        using stays by auto
      have "sorted w" using Cons.prems(1) uw by (metis sorted_append)
      moreover have "\<forall>z\<in>set ys. z - y < len"
      proof
        fix z assume "z \<in> set ys"
        then have "y \<in> set (x # xs)" "z \<in> set (x # xs)" using uw Cons by auto
        then show "z - y < len" using Cons.prems(3) by blast
      qed
      ultimately show ?thesis using admitted_from_new[OF old] Cons by simp
    qed
    ultimately show ?thesis by (simp add: uw split)
  qed
qed (use positive in simp)

end

subsection \<open>Both counters keep the promise\<close>

lemma shared_window_limiter:
  assumes "1 \<le> limit" "limit < 2 ^ 32" "0 < len"
  shows "window_limiter (shared_attempt limit len) (\<lambda>row. row) limit len"
proof
  show "1 \<le> limit" by fact
next
  fix s :: "bucket_row option" and now
  assume old: "\<And>t c. s = Some (t, c) \<Longrightarrow> len \<le> now - t"
  show "fst (shared_attempt limit len now s) \<and> snd (shared_attempt limit len now s) = Some (now, 1)"
  proof (cases s)
    case None
    then show ?thesis using assms(1) by (simp add: shared_attempt_def upsert_bucket_def)
  next
    case (Some r)
    then obtain t c where "s = Some (t, c)" by (cases r) auto
    then show ?thesis using old assms(1) by (simp add: shared_attempt_def upsert_bucket_def)
  qed
next
  fix s :: "bucket_row option" and t c now
  assume s: "s = Some (t, c)" and t: "t \<le> now" "now - t < len" and c: "0 \<le> c"
  then have open_window: "\<not> t \<le> now - len" by simp
  show "(fst (shared_attempt limit len now s) \<longleftrightarrow> c < limit)
      \<and> (\<exists>c'. snd (shared_attempt limit len now s) = Some (t, c') \<and> 0 \<le> c' \<and> min (c + 1) limit \<le> c')"
  proof (cases "c + 1 > 2 ^ 63 - 1")
    case True
    then show ?thesis using s c open_window assms(2) by (simp add: shared_attempt_def upsert_bucket_def)
  next
    case False
    then have "upsert_bucket now len s = Some (c + 1, (t, c + 1))"
      using s open_window by (simp add: upsert_bucket_def Let_def)
    then show ?thesis using c by (simp add: shared_attempt_def) linarith
  qed
qed

definition local_attempt :: "32 word \<Rightarrow> duration \<Rightarrow> time \<Rightarrow> window option \<Rightarrow> bool \<times> window option" where
  "local_attempt limit len now w = (let (allowed, w') = decide w now limit len in (allowed, Some w'))"

definition window_view :: "window option \<Rightarrow> (time \<times> int) option" where
  "window_view w = map_option (\<lambda>x. (w_started x, uint (w_count x))) w"

lemma uint_minus_one_32: "uint (- 1 :: 32 word) = 2 ^ 32 - 1"
  by code_simp

lemma uint_saturating_inc:
  "uint (saturating_inc c) = (if uint c = 2 ^ 32 - 1 then uint c else uint c + 1)"
proof (cases "c = - 1")
  case True
  then show ?thesis by (simp only: saturating_inc_def uint_minus_one_32 if_True refl)
next
  case False
  have "uint c \<noteq> 2 ^ 32 - 1"
  proof
    assume "uint c = 2 ^ 32 - 1"
    then have "uint c = uint (- 1 :: 32 word)" by (simp only: uint_minus_one_32)
    with False show False by (simp only: unsigned_word_eqI word_uint_eq_iff)
  qed
  moreover have "uint c < 2 ^ 32" using unsigned_less[of c] by simp
  ultimately have "uint (c + 1) = uint c + 1" by (simp add: uint_word_ariths)
  with False \<open>uint c \<noteq> 2 ^ 32 - 1\<close> show ?thesis by (simp add: saturating_inc_def)
qed

lemma local_window_limiter:
  assumes "0 < limit" "0 < len"
  shows "window_limiter (local_attempt limit len) window_view (uint limit) len"
proof
  show "1 \<le> uint limit" using assms(1) by (simp add: word_less_def)
next
  fix s :: "window option" and now
  assume old: "\<And>t c. window_view s = Some (t, c) \<Longrightarrow> len \<le> now - t"
  then show "fst (local_attempt limit len now s) \<and> window_view (snd (local_attempt limit len now s)) = Some (now, 1)"
    by (cases s) (auto simp: local_attempt_def decide_def window_view_def duration_since_def)
next
  fix s :: "window option" and t c now
  assume s: "window_view s = Some (t, c)" and t: "t \<le> now" "now - t < len" and c: "0 \<le> c"
  obtain w where w: "s = Some w" "w_started w = t" "uint (w_count w) = c"
    using s by (auto simp: window_view_def)
  have l: "uint limit < 2 ^ 32" using unsigned_less[of limit] by simp
  have d: "decide s now limit len = (w_count w < limit, \<lparr>w_started = t, w_count = saturating_inc (w_count w)\<rparr>)"
    using w(1,2) t by (simp add: decide_def duration_since_def)
  have "min (c + 1) (uint limit) \<le> uint (saturating_inc (w_count w))"
    using w(3) l by (simp add: uint_saturating_inc)
  then show "(fst (local_attempt limit len now s) \<longleftrightarrow> c < uint limit)
      \<and> (\<exists>c'. window_view (snd (local_attempt limit len now s)) = Some (t, c') \<and> 0 \<le> c'
           \<and> min (c + 1) (uint limit) \<le> c')"
    using w(3) by (simp add: local_attempt_def d window_view_def word_less_def)
qed

interpretation auth_limit: window_limiter "shared_attempt 10 (seconds 300)" "\<lambda>row. row" 10 "seconds 300"
  by (rule shared_window_limiter) (simp_all add: duration_defs)

interpretation verification_limit:
  window_limiter "shared_attempt 20 (seconds 300)" "\<lambda>row. row" 20 "seconds 300"
  by (rule shared_window_limiter) (simp_all add: duration_defs)

interpretation local_auth_limit:
  window_limiter "local_attempt 10 (seconds 300)" window_view "uint (10 :: 32 word)" "seconds 300"
  by (rule local_window_limiter) (simp_all add: duration_defs)

subsection \<open>Traffic\<close>

text \<open>Requests of many clients against one scope of the shared table, in order: what each was told.\<close>

fun answers :: "(string \<Rightarrow> string) \<Rightarrow> int \<Rightarrow> int \<Rightarrow> string \<Rightarrow> (string \<times> time) list \<Rightarrow> bucket_table
    \<Rightarrow> (string \<times> bool) list" where
  "answers sha256_hex limit secs scope [] table = []"
| "answers sha256_hex limit secs scope ((key, now) # reqs) table =
     (let (ok, table') = check_shared_key sha256_hex limit secs scope key now table
      in (key, ok) # answers sha256_hex limit secs scope reqs table')"

lemma check_shared_key_row:
  "map_of (snd (check_shared_key sha limit secs scope key now table)) (scope, h) =
     (if sha key = h
      then snd (shared_attempt limit (seconds (min secs (2 ^ 31 - 1))) now (map_of table (scope, h)))
      else map_of table (scope, h))"
proof -
  let ?r = "shared_attempt limit (seconds (min secs (2 ^ 31 - 1))) now (map_of table (scope, sha key))"
  have "snd ?r = None \<Longrightarrow> map_of table (scope, sha key) = None"
    by (auto simp: shared_attempt_def upsert_bucket_def Let_def split: option.splits prod.splits if_splits)
  then show ?thesis
    by (cases ?r; cases "snd ?r") (auto simp: check_shared_key_def Let_def update_conv')
qed

lemma check_shared_key_answer:
  "fst (check_shared_key sha limit secs scope key now table) =
     fst (shared_attempt limit (seconds (min secs (2 ^ 31 - 1))) now (map_of table (scope, sha key)))"
  by (simp add: check_shared_key_def Let_def split: prod.split)

lemma answers_admitted:
  assumes "window_limiter (shared_attempt limit (seconds (min secs (2 ^ 31 - 1)))) (\<lambda>row. row) limit
    (seconds (min secs (2 ^ 31 - 1)))"
  shows "length (filter (\<lambda>(key, ok). ok \<and> sha key = h) (answers sha limit secs scope reqs table)) =
    window_limiter.admitted (shared_attempt limit (seconds (min secs (2 ^ 31 - 1))))
      (map snd (filter (\<lambda>(key, now). sha key = h) reqs)) (map_of table (scope, h))"
proof (induction reqs arbitrary: table)
  case Nil
  show ?case using window_limiter.admitted.simps(1)[OF assms] by simp
next
  case (Cons r reqs)
  obtain key now where r: "r = (key, now)" by (cases r)
  obtain ok table' where c: "check_shared_key sha limit secs scope key now table = (ok, table')"
    by (cases "check_shared_key sha limit secs scope key now table")
  have row: "map_of table' (scope, h) =
      (if sha key = h
       then snd (shared_attempt limit (seconds (min secs (2 ^ 31 - 1))) now (map_of table (scope, h)))
       else map_of table (scope, h))"
    using check_shared_key_row[of sha limit secs scope key now table h] c by simp
  have ok: "ok = fst (shared_attempt limit (seconds (min secs (2 ^ 31 - 1))) now (map_of table (scope, sha key)))"
    using check_shared_key_answer[of sha limit secs scope key now table] c by simp
  show ?case
    using Cons.IH[of table'] row ok window_limiter.admitted.simps(2)[OF assms]
    by (auto simp: r c)
qed

subsection \<open>Properties\<close>

text \<open>No client gets more than forty ownership checks out of the service in five minutes, however it
  times them and whatever traffic other clients send in between: at most twice the limit of twenty
  per window, the bound the module's documentation accepts.\<close>

lemma verification_checks_bounded:
  assumes "sorted (map snd (filter (\<lambda>(key, now). sha key = h) reqs))"
    and "\<And>x y. x \<in> set (map snd (filter (\<lambda>(key, now). sha key = h) reqs)) \<Longrightarrow>
        y \<in> set (map snd (filter (\<lambda>(key, now). sha key = h) reqs)) \<Longrightarrow> y - x < seconds 300"
    and "map_of table (scope, h) = None"
  shows "length (filter (\<lambda>(key, ok). ok \<and> sha key = h)
      (answers sha VERIFICATION_CHECKS_PER_WINDOW VERIFICATION_WINDOW_SECS scope reqs table)) \<le> 40"
proof -
  have "int (length (filter (\<lambda>(key, ok). ok \<and> sha key = h) (answers sha 20 300 scope reqs table))) \<le> 2 * 20"
    using verification_limit.burst_bound[OF assms(1), of "map_of table (scope, h)"] assms(2,3)
      answers_admitted[of 20 300 sha h scope reqs table] verification_limit.window_limiter_axioms
    by simp
  then show ?thesis
    by (simp add: VERIFICATION_CHECKS_PER_WINDOW_def VERIFICATION_WINDOW_SECS_def)
qed

lemma verification_checks_bounded_witness:
  "length (filter (\<lambda>(key, ok). ok \<and> id key = ''c'')
      (answers id VERIFICATION_CHECKS_PER_WINDOW VERIFICATION_WINDOW_SECS ''verification''
        [(''c'', 1), (''d'', 2), (''c'', 3)] [])) \<le> 40"
  by (rule verification_checks_bounded) (auto simp: duration_defs)

end
