(* ===== verification/Store.thy ===== *)
theory Store
  imports Plans Verification Schedule Finding RateLimit
begin

text \<open>
  The tables the program keeps in PostgreSQL, as its migrations declare them, and the queries that
  several components run.  A table is the list of its rows in the order they were inserted; a UUID is
  a \<open>nat\<close>, and \<open>gen_random_uuid()\<close> is an argument of the operation that inserts.  A statement
  succeeds or the handler stops with an internal error before it changes anything further, so only
  the successful path of a statement is modelled.  The clocks of the process and of the database are
  one clock: an operation takes the instant it runs at.
\<close>

type_synonym uid = nat

text \<open>A calendar date, as year, month and day: tuples are compared in that order, as chrono's are.\<close>

type_synonym date = "int \<times> int \<times> int"

record user =
  u_id :: uid
  u_email :: string
  u_password :: string
  u_version :: int
  u_first_name :: "string option"
  u_last_name :: "string option"
  u_birth :: "date option"
  u_agency :: "string option"
  u_logo :: "string option"
  u_verified :: "time option"
  u_verify_hash :: "string option"
  u_verify_sent :: "time option"
  u_reset_hash :: "string option"
  u_reset_sent :: "time option"
  u_pending_email :: "string option"
  u_change_hash :: "string option"
  u_change_sent :: "time option"

text \<open>A row with the columns an insert names and the schema's defaults in the others.\<close>

definition user_row :: "uid \<Rightarrow> string \<Rightarrow> string \<Rightarrow> user" where
  "user_row i email password =
     \<lparr>u_id = i, u_email = email, u_password = password, u_version = 0, u_first_name = None,
      u_last_name = None, u_birth = None, u_agency = None, u_logo = None, u_verified = None,
      u_verify_hash = None, u_verify_sent = None, u_reset_hash = None, u_reset_sent = None,
      u_pending_email = None, u_change_hash = None, u_change_sent = None\<rparr>"

lemma user_row_simps [simp]:
  "u_id (user_row i e p) = i" "u_email (user_row i e p) = e" "u_password (user_row i e p) = p"
  "u_version (user_row i e p) = 0" "u_first_name (user_row i e p) = None"
  "u_verified (user_row i e p) = None" "u_reset_hash (user_row i e p) = None"
  "u_pending_email (user_row i e p) = None" "u_change_hash (user_row i e p) = None"
  by (simp_all add: user_row_def)

text \<open>The free report's recipients, by the hash of their address.\<close>

record preview_send =
  ps_hash :: string
  ps_last :: time
  ps_count :: int

record target =
  tg_id :: uid
  tg_user :: uid
  tg_domain :: string
  tg_client :: "string option"
  tg_cadence :: string
  tg_last_scheduled :: "time option"
  tg_created :: time

record proof_row =
  v_id :: uid
  v_target :: uid
  v_method :: string
  v_token :: string
  v_verified_at :: "time option"
  v_expires_at :: "time option"
  v_created :: time

record authorization =
  au_id :: uid
  au_user :: uid
  au_target :: uid
  au_proof :: uid
  au_accepted :: time
  au_ip :: "string option"
  au_agent :: "string option"
  au_source :: string

datatype job_status = Queued | Running | Completed | Failed

record job =
  j_id :: uid
  j_target :: uid
  j_auth :: uid
  j_status :: job_status
  j_tool :: string
  j_created :: time
  j_started :: "time option"
  j_completed :: "time option"
  j_reason :: "string option"

record entitlement =
  e_user :: uid
  e_product :: string
  e_plan :: string
  e_max_targets :: int
  e_customer :: "string option"
  e_subscription :: "string option"
  e_status :: "string option"
  e_period_end :: "time option"
  e_trial_ends :: "time option"
  e_cancel :: bool
  e_blocked :: "string option"
  e_interval :: "string option"
  e_charge_amount :: "int option"
  e_charge_currency :: "string option"
  e_reminder_for :: "time option"
  e_activation_for :: "string option"

record trial_claim =
  c_user :: uid
  c_email_hash :: string
  c_card :: "string option"
  c_subscription :: string
  c_created :: time
  c_trial_ends :: time

record stripe_event =
  ev_id :: string
  ev_type :: string
  ev_received :: time
  ev_completed :: "time option"

record consent =
  co_id :: uid
  co_user :: "uid option"
  co_product :: string
  co_plan :: string
  co_terms :: string
  co_accepted :: time
  co_ip :: "string option"
  co_agent :: "string option"
  co_session :: "string option"

record db =
  users :: "user list"
  targets :: "target list"
  proofs :: "proof_row list"
  authorizations :: "authorization list"
  jobs :: "job list"
  results :: "result_row list"
  entitlements :: "entitlement list"
  claims :: "trial_claim list"
  events :: "stripe_event list"
  consents :: "consent list"
  preview_sends :: "preview_send list"
  buckets :: bucket_table
  growth :: "((int \<times> string \<times> string) \<times> int) list"

text \<open>\<open>update \<dots> set \<dots> where\<close>.\<close>

definition update_where :: "('a \<Rightarrow> bool) \<Rightarrow> ('a \<Rightarrow> 'a) \<Rightarrow> 'a list \<Rightarrow> 'a list" where
  "update_where P f rows = map (\<lambda>r. if P r then f r else r) rows"

lemma set_update_where: "set (update_where P f rows) = (\<lambda>r. if P r then f r else r) ` set rows"
  by (simp add: update_where_def)

lemma map_update_where:
  "(\<And>r. k (f r) = k r) \<Longrightarrow> map k (update_where P f rows) = map k rows"
  by (auto simp: update_where_def)

lemma length_update_where [simp]: "length (update_where P f rows) = length rows"
  by (simp add: update_where_def)

subsection \<open>Queries\<close>

definition target_by_id :: "db \<Rightarrow> uid \<Rightarrow> target option" where
  "target_by_id d tid = find (\<lambda>t. tg_id t = tid) (targets d)"

definition owned_target :: "db \<Rightarrow> uid \<Rightarrow> uid \<Rightarrow> target option" where
  "owned_target d tid user = find (\<lambda>t. tg_id t = tid \<and> tg_user t = user) (targets d)"

definition user_by_id :: "db \<Rightarrow> uid \<Rightarrow> user option" where
  "user_by_id d i = find (\<lambda>u. u_id u = i) (users d)"

text \<open>\<open>where target_id = $1 and verified_at is not null order by verified_at desc limit 1\<close>.\<close>

definition latest_proof :: "db \<Rightarrow> uid \<Rightarrow> proof_row option" where
  "latest_proof d tid =
     latest_by (\<lambda>v. the (v_verified_at v))
       (filter (\<lambda>v. v_target v = tid \<and> v_verified_at v \<noteq> None) (proofs d))"

definition status_of_proof :: "proof_row option \<Rightarrow> verification_status" where
  "status_of_proof p =
     \<lparr>vs_verified_at = Option.bind p v_verified_at, vs_expires_at = Option.bind p v_expires_at\<rparr>"

definition recent_jobs :: "db \<Rightarrow> uid \<Rightarrow> time \<Rightarrow> int" where
  "recent_jobs d tid now =
     int (length (filter (\<lambda>j. j_target j = tid \<and> j_created j \<ge> now - hours 24) (jobs d)))"

definition entitlement_of :: "db \<Rightarrow> uid \<Rightarrow> entitlement option" where
  "entitlement_of d user = find (\<lambda>e. e_user e = user \<and> e_product e = ''glarion'') (entitlements d)"

definition current_plan :: "db \<Rightarrow> uid \<Rightarrow> plan" where
  "current_plan d user =
     from_db_str (case entitlement_of d user of None \<Rightarrow> ''free'' | Some e \<Rightarrow> e_plan e)"

text \<open>A trial is a three-day one only if it was claimed.\<close>

definition on_trial :: "db \<Rightarrow> entitlement \<Rightarrow> bool" where
  "on_trial d e \<longleftrightarrow>
     e_status e = Some ''trialing'' \<and> list_ex (\<lambda>c. Some (c_subscription c) = e_subscription e) (claims d)"

definition current_access :: "db \<Rightarrow> uid \<Rightarrow> access" where
  "current_access d user =
     (case entitlement_of d user of
        Some e \<Rightarrow> \<lparr>a_plan = from_db_str (e_plan e), a_trial = on_trial d e\<rparr>
      | None \<Rightarrow> \<lparr>a_plan = Free, a_trial = False\<rparr>)"

definition strip_www :: "string \<Rightarrow> string" where
  "strip_www domain = (case strip_prefix ''www.'' domain of None \<Rightarrow> domain | Some rest \<Rightarrow> rest)"

definition site_used_in_another_trial :: "db \<Rightarrow> uid \<Rightarrow> uid \<Rightarrow> bool" where
  "site_used_in_another_trial d tid user =
     (case target_by_id d tid of
        None \<Rightarrow> False
      | Some t \<Rightarrow>
          list_ex (\<lambda>a.
            list_ex (\<lambda>other. tg_id other = au_target a
                \<and> strip_www (tg_domain other) = strip_www (tg_domain t)) (targets d)
            \<and> list_ex (\<lambda>c. c_user c = au_user a \<and> au_accepted a \<ge> c_created c
                \<and> au_accepted a < c_trial_ends c) (claims d)
            \<and> au_user a \<noteq> user) (authorizations d))"

subsection \<open>Reading\<close>

lemma latest_proof_SomeD:
  assumes "latest_proof d tid = Some v"
  shows "v \<in> set (proofs d)" "v_target v = tid" "v_verified_at v \<noteq> None"
    "\<And>w. w \<in> set (proofs d) \<Longrightarrow> v_target w = tid \<Longrightarrow> v_verified_at w \<noteq> None \<Longrightarrow>
       the (v_verified_at w) \<le> the (v_verified_at v)"
  using latest_by_mem[OF assms[unfolded latest_proof_def]]
    latest_by_max[OF assms[unfolded latest_proof_def]] by auto

lemma status_of_proof_simps [simp]:
  "is_currently_verified (status_of_proof None) now \<longleftrightarrow> False"
  "is_currently_verified (status_of_proof (Some v)) now \<longleftrightarrow>
     v_verified_at v \<noteq> None \<and> (case v_expires_at v of None \<Rightarrow> False | Some e \<Rightarrow> now < e)"
  by (simp_all add: status_of_proof_def is_currently_verified_def split: option.split)

lemma target_by_id_SomeD: "target_by_id d i = Some t \<Longrightarrow> t \<in> set (targets d) \<and> tg_id t = i"
  by (auto simp: target_by_id_def dest: find_SomeD)

lemma owned_target_SomeD:
  "owned_target d i u = Some t \<Longrightarrow> t \<in> set (targets d) \<and> tg_id t = i \<and> tg_user t = u"
  by (auto simp: owned_target_def dest: find_SomeD)

lemma entitlement_of_SomeD:
  "entitlement_of d u = Some e \<Longrightarrow> e \<in> set (entitlements d) \<and> e_user e = u \<and> e_product e = ''glarion''"
  by (auto simp: entitlement_of_def dest: find_SomeD)

subsection \<open>The paper trail\<close>

text \<open>A proof is in force at an instant.\<close>

definition in_force :: "proof_row \<Rightarrow> time \<Rightarrow> bool" where
  "in_force v now \<longleftrightarrow> is_currently_verified (status_of_proof (Some v)) now"

text \<open>What the audit trail must always answer for a job: who asked, for this target, on which
  completed proof of this target.\<close>

definition traced :: "db \<Rightarrow> job \<Rightarrow> bool" where
  "traced d j \<longleftrightarrow>
     (\<exists>a\<in>set (authorizations d). au_id a = j_auth j \<and> au_target a = j_target j
        \<and> (\<exists>v\<in>set (proofs d). v_id v = au_proof a \<and> v_target v = j_target j \<and> v_verified_at v \<noteq> None))"

definition audited :: "db \<Rightarrow> bool" where
  "audited d \<longleftrightarrow> (\<forall>j\<in>set (jobs d). traced d j)"

text \<open>Growth of the trail: authorizations are only added, and proofs keep their identity, their
  target and their completion.\<close>

definition keeps_proof :: "proof_row \<Rightarrow> proof_row \<Rightarrow> bool" where
  "keeps_proof v v' \<longleftrightarrow> v_id v' = v_id v \<and> v_target v' = v_target v
     \<and> (v_verified_at v \<noteq> None \<longrightarrow> v_verified_at v' \<noteq> None)"

definition trail_grows :: "db \<Rightarrow> db \<Rightarrow> bool" where
  "trail_grows d d' \<longleftrightarrow>
     set (authorizations d) \<subseteq> set (authorizations d')
     \<and> (\<forall>v\<in>set (proofs d). \<exists>v'\<in>set (proofs d'). keeps_proof v v')"

lemma keeps_proof_refl [simp]: "keeps_proof v v"
  by (simp add: keeps_proof_def)

lemma keeps_proof_trans: "keeps_proof u v \<Longrightarrow> keeps_proof v w \<Longrightarrow> keeps_proof u w"
  by (auto simp: keeps_proof_def)

lemma trail_grows_refl [intro]: "trail_grows d d"
  unfolding trail_grows_def using keeps_proof_refl by blast

lemma trail_growsI:
  assumes "set (authorizations d) \<subseteq> set (authorizations d')"
    and "\<And>v. v \<in> set (proofs d) \<Longrightarrow> \<exists>v'\<in>set (proofs d'). keeps_proof v v'"
  shows "trail_grows d d'"
  using assms by (simp add: trail_grows_def)

lemma trail_grows_subset:
  "set (authorizations d) \<subseteq> set (authorizations d') \<Longrightarrow> set (proofs d) \<subseteq> set (proofs d') \<Longrightarrow>
     trail_grows d d'"
  unfolding trail_grows_def using keeps_proof_refl by blast

lemma trail_grows_trans: "trail_grows a b \<Longrightarrow> trail_grows b c \<Longrightarrow> trail_grows a c"
  unfolding trail_grows_def by (meson keeps_proof_trans subset_trans)

lemma traced_mono:
  assumes "traced d j" "trail_grows d d'" "j_auth j' = j_auth j" "j_target j' = j_target j"
  shows "traced d' j'"
proof -
  obtain a v where a: "a \<in> set (authorizations d)" "au_id a = j_auth j" "au_target a = j_target j"
    and v: "v \<in> set (proofs d)" "v_id v = au_proof a" "v_target v = j_target j" "v_verified_at v \<noteq> None"
    using assms(1) unfolding traced_def by blast
  obtain v' where "v' \<in> set (proofs d')" "keeps_proof v v'"
    using v(1) assms(2) unfolding trail_grows_def by blast
  moreover have "a \<in> set (authorizations d')" using a(1) assms(2) unfolding trail_grows_def by blast
  ultimately show ?thesis
    unfolding traced_def assms(3,4) using a v unfolding keeps_proof_def by metis
qed

text \<open>An operation that only rewrites jobs in place and lets the trail grow keeps every job traced.\<close>

lemma audited_mono:
  assumes "audited d" "trail_grows d d'"
    "\<And>j'. j' \<in> set (jobs d') \<Longrightarrow> \<exists>j\<in>set (jobs d). j_auth j' = j_auth j \<and> j_target j' = j_target j"
  shows "audited d'"
  using assms traced_mono unfolding audited_def by meson

end
