(* ===== verification/ApiError.thy ===== *)
theory ApiError
  imports Strs
begin

text \<open>
  \<open>crates/api/src/error.rs\<close>: the errors of the HTTP handlers and what the client sees of them.
\<close>

datatype api_error =
    InvalidCredentials
  | Unauthorized
  | BadRequest string
  | NotFound
  | Conflict string
  | TargetNotVerified
  | PlanLimit string
  | TrialUnavailable
  | TooManyRequests
  | BillingUnavailable
  | EmailNotVerified
  | Internal string

text \<open>The \<open>Display\<close> texts; an \<open>Internal\<close> error is transparent.\<close>

fun api_error_msg :: "api_error \<Rightarrow> string" where
  "api_error_msg InvalidCredentials = ''invalid credentials''"
| "api_error_msg Unauthorized = ''unauthorized''"
| "api_error_msg (BadRequest m) = m"
| "api_error_msg NotFound = ''not found''"
| "api_error_msg (Conflict m) = m"
| "api_error_msg TargetNotVerified = ''target ownership is not currently verified''"
| "api_error_msg (PlanLimit m) = ''plan limit reached: '' @ m"
| "api_error_msg TrialUnavailable = ''the free trial is not available for this account''"
| "api_error_msg TooManyRequests = ''too many requests '' @ em_dash @ '' try again later''"
| "api_error_msg BillingUnavailable = ''couldn't reach billing '' @ em_dash @ '' try again''"
| "api_error_msg EmailNotVerified = ''confirm your email address to sign in''"
| "api_error_msg (Internal cause) = cause"

record http_error =
  he_status :: nat
  he_code :: string
  he_message :: string

definition error_body :: "nat \<Rightarrow> string \<Rightarrow> string \<Rightarrow> http_error" where
  "error_body status code message = \<lparr>he_status = status, he_code = code, he_message = message\<rparr>"

fun into_response :: "api_error \<Rightarrow> http_error" where
  "into_response InvalidCredentials =
     error_body 401 ''invalid_credentials'' (api_error_msg InvalidCredentials)"
| "into_response Unauthorized = error_body 401 ''unauthorized'' (api_error_msg Unauthorized)"
| "into_response (BadRequest m) = error_body 400 ''bad_request'' (api_error_msg (BadRequest m))"
| "into_response NotFound = error_body 404 ''not_found'' (api_error_msg NotFound)"
| "into_response (Conflict m) = error_body 409 ''conflict'' (api_error_msg (Conflict m))"
| "into_response TargetNotVerified =
     error_body 403 ''target_not_verified'' (api_error_msg TargetNotVerified)"
| "into_response (PlanLimit m) = error_body 403 ''plan_limit'' (api_error_msg (PlanLimit m))"
| "into_response TrialUnavailable =
     error_body 409 ''trial_unavailable'' (api_error_msg TrialUnavailable)"
| "into_response TooManyRequests =
     error_body 429 ''rate_limited'' (api_error_msg TooManyRequests)"
| "into_response BillingUnavailable =
     error_body 502 ''billing_unavailable'' (api_error_msg BillingUnavailable)"
| "into_response EmailNotVerified =
     error_body 403 ''email_not_verified'' (api_error_msg EmailNotVerified)"
| "into_response (Internal _) = error_body 500 ''internal_error'' ''internal error''"

text \<open>What a client can tell apart: the constructor, and the text the handler chose to show.\<close>

fun shown :: "api_error \<Rightarrow> api_error" where
  "shown (Internal _) = Internal []"
| "shown e = e"

text \<open>The response determines the error a handler returned and nothing else does: two errors
  give the same response exactly when they are the same error with the same public text, and the
  cause of an internal error never reaches the client.\<close>

lemma into_response_shown:
  "into_response e = into_response e' \<longleftrightarrow> shown e = shown e'"
  by (cases e; cases e') (simp_all add: error_body_def)

end
