(* ===== verification/Growth.thy ===== *)
theory Growth
  imports Store ApiError
begin

text \<open>
  \<open>crates/api/src/growth.rs\<close>: the anonymous counters.  A write that fails or takes more than a
  second is dropped there; here it succeeds.
\<close>

text \<open>Request headers: the first value of a name, as bytes; \<open>HeaderValue::to_str\<close> refuses bytes
  that are not visible ASCII.\<close>

type_synonym headers = "string \<Rightarrow> string option"

definition to_str :: "string \<Rightarrow> string option" where
  "to_str v = (if list_all (\<lambda>c. (32 \<le> code_of c \<and> code_of c < 127) \<or> code_of c = 9) v then Some v else None)"

definition growth_source :: "headers \<Rightarrow> string option" where
  "growth_source h =
     (if h ''dnt'' = Some ''1'' \<or> h ''sec-gpc'' = Some ''1'' then None
      else (case Option.bind (h ''x-glarion-source'') to_str of
              None \<Rightarrow> None
            | Some value \<Rightarrow>
                if value \<in> {''direct'', ''youtube'', ''dev'', ''search'', ''referral''}
                then Some value else None))"

definition record_event :: "headers \<Rightarrow> string \<Rightarrow> time \<Rightarrow> db \<Rightarrow> db" where
  "record_event h event now d =
     (case growth_source h of
        None \<Rightarrow> d
      | Some src \<Rightarrow>
          (let key = (now div days 1, src, event);
               total = (case map_of (growth d) key of None \<Rightarrow> 1 | Some n \<Rightarrow> n + 1)
           in d\<lparr>growth := AList.update key total (growth d)\<rparr>))"

datatype page_event = LandingView | SampleReportView | SignupView

fun page_event_name :: "page_event \<Rightarrow> string" where
  "page_event_name LandingView = ''landing_view''"
| "page_event_name SampleReportView = ''sample_report_view''"
| "page_event_name SignupView = ''signup_view''"

text \<open>The shared limiters of the application state, on the bucket table of the database.\<close>

definition check_shared ::
    "(string \<Rightarrow> string) \<Rightarrow> int \<Rightarrow> int \<Rightarrow> string \<Rightarrow> string \<Rightarrow> time \<Rightarrow> db \<Rightarrow> bool \<times> db" where
  "check_shared sha256_hex limit secs scope client now d =
     (let (ok, table) = check_shared_key sha256_hex limit secs scope client now (buckets d)
      in (ok, d\<lparr>buckets := table\<rparr>))"

definition growth_page ::
    "(string \<Rightarrow> string) \<Rightarrow> headers \<Rightarrow> string \<Rightarrow> page_event \<Rightarrow> time \<Rightarrow> db \<Rightarrow> (api_error + unit) \<times> db" where
  "growth_page sha256_hex h peer event now d =
     (if growth_source h = None then (Inr (), d)
      else
        (let (ok, d') = check_shared sha256_hex AUTH_ATTEMPTS_PER_WINDOW AUTH_WINDOW_SECS ''growth'' peer now d
         in if \<not> ok then (Inl TooManyRequests, d')
            else (Inr (), record_event h (page_event_name event) now d')))"

lemma record_event_fields [simp]:
  "proofs (record_event h ev now d) = proofs d"
  "authorizations (record_event h ev now d) = authorizations d"
  "jobs (record_event h ev now d) = jobs d"
  "targets (record_event h ev now d) = targets d"
  "results (record_event h ev now d) = results d"
  by (simp_all add: record_event_def Let_def split: option.split)

lemma check_shared_fields [simp]:
  "proofs (snd (check_shared sha l w sc cl now d)) = proofs d"
  "authorizations (snd (check_shared sha l w sc cl now d)) = authorizations d"
  "jobs (snd (check_shared sha l w sc cl now d)) = jobs d"
  "targets (snd (check_shared sha l w sc cl now d)) = targets d"
  "results (snd (check_shared sha l w sc cl now d)) = results d"
  by (simp_all add: check_shared_def Let_def split: prod.split)

end
