(* ===== verification/ScanGate.thy ===== *)
theory ScanGate
  imports Store ApiError
begin

text \<open>
  \<open>crates/api/src/routes/scans.rs\<close>: the handler that queues a scan, and the interface every way
  of queueing one satisfies.  The two rows it inserts are one transaction, so they are one step.
\<close>

record scan_request =
  sr_target :: uid
  sr_tool :: string
  sr_accept :: bool

record scan_response =
  sj_id :: uid
  sj_target :: uid
  sj_tool :: string
  sj_status :: job_status
  sj_created :: time

text \<open>What the handler reads of the request besides its body: who is signed in, the peer's
  address, and the user-agent header where it is printable text.\<close>

record caller =
  cl_user :: uid
  cl_peer :: string
  cl_agent :: "string option"

definition queue_job :: "time \<Rightarrow> uid \<Rightarrow> uid \<Rightarrow> uid \<Rightarrow> string \<Rightarrow> job" where
  "queue_job now job_id tid auth tool =
     \<lparr>j_id = job_id, j_target = tid, j_auth = auth, j_status = Queued, j_tool = tool,
      j_created = now, j_started = None, j_completed = None, j_reason = None\<rparr>"

definition limit_message :: "access \<Rightarrow> string" where
  "limit_message a =
     (if a_trial a
      then ''during the free trial each site can be scanned ''
        @ show_int (scans_per_target_per_day a) @ '' times in 24 hours''
      else ''this target has reached its scan limit for the last 24 hours'')"

text \<open>The guards, in the order the handler runs them: the proof the scan rests on, or the refusal.\<close>

definition scan_guards ::
    "time \<Rightarrow> db \<Rightarrow> caller \<Rightarrow> scan_request \<Rightarrow> api_error + proof_row" where
  "scan_guards now d c body =
     (if \<not> sr_accept body
        then Inl (BadRequest ''you must accept the scan terms to authorize this scan'')
      else if \<not> is_allowed_tool (sr_tool body)
        then Inl (BadRequest (''unsupported tool '' @ quoted (sr_tool body) @ '' (allowed: ''
                              @ join '', '' ALLOWED_TOOLS @ '')''))
      else
        (case owned_target d (sr_target body) (cl_user c) of
           None \<Rightarrow> Inl NotFound
         | Some _ \<Rightarrow>
             (case latest_proof d (sr_target body) of
                None \<Rightarrow> Inl TargetNotVerified
              | Some v \<Rightarrow>
                  if \<not> is_currently_verified (status_of_proof (Some v)) now
                    then Inl TargetNotVerified
                  else
                    (let a = current_access d (cl_user c);
                         recent = recent_jobs d (sr_target body) now in
                     if \<not> allows_full_scan (a_plan a)
                       then Inl (PlanLimit (''the full scan is part of the paid plans '' @ em_dash
                              @ '' the free check on the site page needs no subscription''))
                     else if \<not> within_scan_budget recent \<or> recent \<ge> scans_per_target_per_day a
                       then Inl (PlanLimit (limit_message a))
                     else if a_trial a \<and> site_used_in_another_trial d (sr_target body) (cl_user c)
                       then Inl (PlanLimit
                              (''this site was already scanned during another account's free trial ''
                               @ em_dash @ '' subscribe to scan it''))
                     else Inr v))))"

definition create_scan ::
    "uid \<Rightarrow> uid \<Rightarrow> time \<Rightarrow> caller \<Rightarrow> scan_request \<Rightarrow> db \<Rightarrow> (api_error + scan_response) \<times> db" where
  "create_scan auth_id job_id now c body d =
     (case scan_guards now d c body of
        Inl e \<Rightarrow> (Inl e, d)
      | Inr v \<Rightarrow>
          (let agent = take_chars 512 (case cl_agent c of None \<Rightarrow> [] | Some s \<Rightarrow> s);
               a = \<lparr>au_id = auth_id, au_user = cl_user c, au_target = sr_target body,
                    au_proof = v_id v, au_accepted = now, au_ip = Some (cl_peer c),
                    au_agent = Some agent, au_source = ''manual''\<rparr>;
               j = queue_job now job_id (sr_target body) auth_id (sr_tool body)
           in (Inr \<lparr>sj_id = j_id j, sj_target = sr_target body, sj_tool = sr_tool body,
                    sj_status = j_status j, sj_created = j_created j\<rparr>,
               d\<lparr>authorizations := authorizations d @ [a], jobs := jobs d @ [j]\<rparr>)))"

subsection \<open>Every way of queueing a scan\<close>

text \<open>A job that was just queued: waiting, with an allowed tool, and backed by an authorization of
  this instant that names a proof of the same target which is in force.\<close>

definition authorized_now :: "time \<Rightarrow> db \<Rightarrow> job \<Rightarrow> bool" where
  "authorized_now now d j \<longleftrightarrow>
     j_status j = Queued \<and> is_allowed_tool (j_tool j) \<and> j_created j = now
     \<and> (\<exists>a\<in>set (authorizations d). au_id a = j_auth j \<and> au_target a = j_target j \<and> au_accepted a = now
          \<and> (\<exists>v\<in>set (proofs d). v_id v = au_proof a \<and> v_target v = j_target j \<and> in_force v now))"

lemma in_force_verified: "in_force v now \<Longrightarrow> v_verified_at v \<noteq> None"
  by (simp add: in_force_def)

lemma authorized_now_traced: "authorized_now now d j \<Longrightarrow> traced d j"
  unfolding authorized_now_def traced_def using in_force_verified by blast

lemma authorized_now_mono:
  "authorized_now now d j \<Longrightarrow> set (authorizations d) \<subseteq> set (authorizations d') \<Longrightarrow>
     proofs d' = proofs d \<Longrightarrow> authorized_now now d' j"
  unfolding authorized_now_def by (metis (no_types, lifting) subset_iff)

text \<open>The interface: an operation that may queue scans only appends to the trail and to the queue,
  and what it appends to the queue is authorized at that instant.\<close>

locale scan_source =
  fixes enqueue :: "time \<Rightarrow> db \<Rightarrow> db"
  assumes keeps_proofs: "proofs (enqueue now d) = proofs d"
    and grows_trail: "\<exists>new. authorizations (enqueue now d) = authorizations d @ new"
    and grows_queue: "\<exists>new. jobs (enqueue now d) = jobs d @ new
          \<and> (\<forall>j\<in>set new. authorized_now now (enqueue now d) j)"
begin

lemma source_trail: "trail_grows d (enqueue now d)"
proof (rule trail_growsI)
  show "set (authorizations d) \<subseteq> set (authorizations (enqueue now d))"
    using grows_trail[of now d] by auto
  fix v assume "v \<in> set (proofs d)"
  then show "\<exists>v'\<in>set (proofs (enqueue now d)). keeps_proof v v'"
    unfolding keeps_proofs using keeps_proof_refl by blast
qed

lemma source_audited: "audited d \<Longrightarrow> audited (enqueue now d)"
  unfolding audited_def
proof
  fix j
  assume a: "\<forall>j\<in>set (jobs d). traced d j" and j: "j \<in> set (jobs (enqueue now d))"
  obtain new where new: "jobs (enqueue now d) = jobs d @ new"
      "\<forall>j\<in>set new. authorized_now now (enqueue now d) j"
    using grows_queue by blast
  show "traced (enqueue now d) j"
  proof (cases "j \<in> set (jobs d)")
    case True
    then show ?thesis using a traced_mono[OF _ source_trail] by blast
  next
    case False
    then have "j \<in> set new" using j new(1) by auto
    then show ?thesis using new(2) authorized_now_traced by blast
  qed
qed

lemma source_authorized:
  "j \<in> set (jobs (enqueue now d)) \<Longrightarrow> j \<notin> set (jobs d) \<Longrightarrow> authorized_now now (enqueue now d) j"
  using grows_queue[of now d] by auto

end

subsection \<open>The gate\<close>

lemma scan_guards_Inr_iff:
  "scan_guards now d c body = Inr v \<longleftrightarrow>
     sr_accept body \<and> is_allowed_tool (sr_tool body)
     \<and> owned_target d (sr_target body) (cl_user c) \<noteq> None
     \<and> latest_proof d (sr_target body) = Some v \<and> in_force v now
     \<and> allows_full_scan (a_plan (current_access d (cl_user c)))
     \<and> recent_jobs d (sr_target body) now < MAX_SCANS_PER_TARGET_PER_DAY
     \<and> recent_jobs d (sr_target body) now < scans_per_target_per_day (current_access d (cl_user c))
     \<and> \<not> (a_trial (current_access d (cl_user c))
          \<and> site_used_in_another_trial d (sr_target body) (cl_user c))"
  unfolding scan_guards_def in_force_def
  by (cases "owned_target d (sr_target body) (cl_user c)"; cases "latest_proof d (sr_target body)")
     (auto simp: Let_def within_scan_budget_def simp del: status_of_proof_simps)

interpretation manual_scan: scan_source "\<lambda>now d. snd (create_scan auth_id job_id now c body d)"
  for auth_id job_id c body
proof
  fix now d
  let ?d = "snd (create_scan auth_id job_id now c body d)"
  show "proofs ?d = proofs d"
    by (simp add: create_scan_def Let_def split: sum.split)
  show "\<exists>new. authorizations ?d = authorizations d @ new"
    by (simp add: create_scan_def Let_def split: sum.split)
  show "\<exists>new. jobs ?d = jobs d @ new \<and> (\<forall>j\<in>set new. authorized_now now ?d j)"
  proof (cases "scan_guards now d c body")
    case (Inl e)
    then show ?thesis by (simp add: create_scan_def)
  next
    case (Inr v)
    then have g: "is_allowed_tool (sr_tool body)" "latest_proof d (sr_target body) = Some v"
        "in_force v now"
      by (auto simp: scan_guards_Inr_iff)
    show ?thesis
      using g(1,3) latest_proof_SomeD(1,2)[OF g(2)]
      by (auto simp: create_scan_def Inr Let_def authorized_now_def queue_job_def)
  qed
qed

subsection \<open>Properties\<close>

text \<open>C22: the gate.  A scan is queued exactly when the terms were accepted for this request, the
  tool is on the allowlist, the target belongs to the caller, its most recent completed proof is in
  force now, the account's plan includes the full scan, the target has been scanned fewer times in
  the last 24 hours than both the policy and the account allow, and, on a three-day trial, no other
  account used its own trial on this site.\<close>

theorem create_scan_gate:
  "(\<exists>r. fst (create_scan auth_id job_id now c body d) = Inr r) \<longleftrightarrow>
     sr_accept body \<and> is_allowed_tool (sr_tool body)
     \<and> owned_target d (sr_target body) (cl_user c) \<noteq> None
     \<and> (\<exists>v. latest_proof d (sr_target body) = Some v \<and> in_force v now)
     \<and> allows_full_scan (a_plan (current_access d (cl_user c)))
     \<and> recent_jobs d (sr_target body) now
         < min MAX_SCANS_PER_TARGET_PER_DAY (scans_per_target_per_day (current_access d (cl_user c)))
     \<and> \<not> (a_trial (current_access d (cl_user c))
          \<and> site_used_in_another_trial d (sr_target body) (cl_user c))"
proof -
  have "(\<exists>r. fst (create_scan auth_id job_id now c body d) = Inr r)
      \<longleftrightarrow> (\<exists>v. scan_guards now d c body = Inr v)"
    by (cases "scan_guards now d c body") (simp_all add: create_scan_def Let_def)
  then show ?thesis unfolding scan_guards_Inr_iff by auto
qed

text \<open>C29: a refused scan leaves no trace, and an accepted one leaves exactly its authorization and
  its job, naming the caller, the target, the proof, the instant and each other.\<close>

theorem create_scan_effect:
  "case create_scan auth_id job_id now c body d of
     (Inl e, d') \<Rightarrow> d' = d
   | (Inr r, d') \<Rightarrow>
       (\<exists>v agent.
          latest_proof d (sr_target body) = Some v
          \<and> chars_count agent \<le> 512
          \<and> d' = d\<lparr>authorizations := authorizations d @
                    [\<lparr>au_id = auth_id, au_user = cl_user c, au_target = sr_target body,
                      au_proof = v_id v, au_accepted = now, au_ip = Some (cl_peer c),
                      au_agent = Some agent, au_source = ''manual''\<rparr>],
                  jobs := jobs d @
                    [\<lparr>j_id = job_id, j_target = sr_target body, j_auth = auth_id, j_status = Queued,
                      j_tool = sr_tool body, j_created = now, j_started = None, j_completed = None,
                      j_reason = None\<rparr>]\<rparr>)"
proof (cases "scan_guards now d c body")
  case (Inl e)
  then show ?thesis by (simp add: create_scan_def)
next
  case (Inr v)
  then have "latest_proof d (sr_target body) = Some v" by (simp add: scan_guards_Inr_iff)
  then show ?thesis
    by (auto simp: create_scan_def Inr Let_def queue_job_def intro: chars_count_take)
qed

end
