(* ===== verification/Domain.thy ===== *)
theory Domain
  imports IpParse
begin

text \<open>
  \<open>crates/orchestrator/src/domain.rs\<close>: from what a user typed to the bare host name that is
  stored, verified and scanned.  Every tool runs \<open>normalize_target\<close> again on the stored value
  before it opens a connection; \<open>public_hostname\<close> says, without the parsing, which names can
  ever come out of it.
\<close>

datatype domain_error = EmptyDomain | TooLong | IpLiteral | NotPublic | Malformed

fun domain_error_msg :: "domain_error \<Rightarrow> string" where
  "domain_error_msg EmptyDomain = ''domain must not be empty''"
| "domain_error_msg TooLong = ''domain is too long''"
| "domain_error_msg IpLiteral = ''target must be a domain name, not an IP address '' @ em_dash
     @ '' ownership is verified via DNS''"
| "domain_error_msg NotPublic = ''target must be a public internet domain''"
| "domain_error_msg Malformed =
     ''Enter a domain like example.com, using only letters, numbers, hyphens and dots.''"

definition BLOCKED_SUFFIXES :: "string list" where
  "BLOCKED_SUFFIXES = [''localhost'', ''.localhost'', ''.local'', ''.internal'', ''.localdomain'',
     ''.home.arpa'', ''.in-addr.arpa'', ''.ip6.arpa'', ''.onion'']"

definition is_blocked_name :: "string \<Rightarrow> bool" where
  "is_blocked_name host = list_ex (\<lambda>blocked.
     case strip_prefix ''.'' blocked of
       Some sfx \<Rightarrow> host = sfx \<or> suffix blocked host
     | None \<Rightarrow> host = blocked) BLOCKED_SUFFIXES"

definition label_char :: "char \<Rightarrow> bool" where
  "label_char c \<longleftrightarrow> is_alnum c \<or> c = CHR ''-'' \<or> c = CHR ''_''"

definition label_bad :: "string \<Rightarrow> bool" where
  "label_bad w \<longleftrightarrow> (w = [] \<or> length w > 63)
     \<or> (prefix ''-'' w \<or> suffix ''-'' w)
     \<or> \<not> list_all label_char w"

definition validate_syntax :: "string \<Rightarrow> domain_error + unit" where
  "validate_syntax host =
     (if prefix ''.'' host \<or> str_contains ''..'' host then Inl Malformed
      else if list_ex label_bad (split_char (CHR ''.'') host) then Inl Malformed
      else Inr ())"

text \<open>The host part of the input: scheme, path, query, fragment and user info removed.\<close>

definition host_part :: "string \<Rightarrow> string" where
  "host_part trimmed =
     (let without_scheme = (case split_once_str ''://'' trimmed of Some (_, r) \<Rightarrow> r | None \<Rightarrow> trimmed);
          h = hd (split_on (\<lambda>c. c \<in> {CHR ''/'', CHR ''?'', CHR ''#''}) without_scheme)
      in (case rsplit_once (CHR ''@'') h of Some (_, host) \<Rightarrow> host | None \<Rightarrow> h))"

definition strip_port :: "string \<Rightarrow> string" where
  "strip_port hp = (case rsplit_once (CHR '':'') hp of Some (host, _) \<Rightarrow> host | None \<Rightarrow> hp)"

definition normalize_target :: "string \<Rightarrow> domain_error + string" where
  "normalize_target input =
     (let trimmed = trim input in
      if trimmed = [] then Inl EmptyDomain
      else let hp = host_part trimmed in
      if prefix ''['' hp \<or> 2 \<le> length (filter (\<lambda>c. c = CHR '':'') hp) then Inl IpLiteral
      else let host = to_ascii_lowercase (trim_end_char (CHR ''.'') (strip_port hp)) in
      if host = [] then Inl EmptyDomain
      else if length host > 253 then Inl TooLong
      else if parse_ipv4 host \<noteq> None \<or> parse_ipv6 host \<noteq> None then Inl IpLiteral
      else if is_blocked_name host then Inl NotPublic
      else bind_res (validate_syntax host) (\<lambda>_.
             if \<not> str_contains ''.'' host then Inl NotPublic else Inr host))"

subsection \<open>What a stored host name is\<close>

text \<open>The zones no target may lie in, as lists of labels: the name itself and everything below
  it.\<close>

definition reserved_zones :: "string list list" where
  "reserved_zones = [[''localhost''], [''local''], [''internal''], [''localdomain''],
     [''home'', ''arpa''], [''in-addr'', ''arpa''], [''ip6'', ''arpa''], [''onion'']]"

definition dns_labels :: "string \<Rightarrow> string list" where
  "dns_labels h = split_char (CHR ''.'') h"

definition dns_label :: "string \<Rightarrow> bool" where
  "dns_label w \<longleftrightarrow> w \<noteq> [] \<and> length w \<le> 63 \<and> hd w \<noteq> CHR ''-'' \<and> last w \<noteq> CHR ''-''
     \<and> (\<forall>c\<in>set w. is_lower c \<or> is_digit c \<or> c = CHR ''-'' \<or> c = CHR ''_'')"

definition public_hostname :: "string \<Rightarrow> bool" where
  "public_hostname h \<longleftrightarrow>
     length h \<le> 253 \<and> 2 \<le> length (dns_labels h) \<and> (\<forall>w\<in>set (dns_labels h). dns_label w)
     \<and> parse_ipv4 h = None
     \<and> (\<forall>zone\<in>set reserved_zones. \<not> suffix zone (dns_labels h))"

subsection \<open>Lemmas\<close>

lemma is_blocked_name_iff:
  "is_blocked_name h \<longleftrightarrow> (\<exists>zone\<in>set reserved_zones. suffix zone (dns_labels h))"
proof -
  have z: "suffix (split_char (CHR ''.'') z) (split_char (CHR ''.'') h) \<longleftrightarrow> h = z \<or> suffix (CHR ''.'' # z) h"
    for z by (rule split_char_zone[symmetric])
  show ?thesis
    using z[of "''localhost''"] z[of "''local''"] z[of "''internal''"] z[of "''localdomain''"]
      z[of "''home.arpa''"] z[of "''in-addr.arpa''"] z[of "''ip6.arpa''"] z[of "''onion''"]
    by (simp add: is_blocked_name_def BLOCKED_SUFFIXES_def strip_prefix_def reserved_zones_def
        dns_labels_def split_char_def)
qed

lemma label_char_lower: "label_char c \<Longrightarrow> \<not> is_upper c \<Longrightarrow>
    is_lower c \<or> is_digit c \<or> c = CHR ''-'' \<or> c = CHR ''_''"
  by (auto simp: label_char_def is_alnum_def)

lemma label_bad_iff:
  "(\<forall>c\<in>set w. \<not> is_upper c) \<Longrightarrow> \<not> label_bad w \<longleftrightarrow> dns_label w"
  by (cases w rule: rev_cases; cases w)
     (auto simp: label_bad_def dns_label_def list_all_iff label_char_def is_alnum_def
        prefix_def suffix_def Cons_eq_append_conv)

lemma validate_syntax_ok:
  "validate_syntax h = Inr () \<longleftrightarrow>
     \<not> prefix ''.'' h \<and> \<not> str_contains ''..'' h \<and> (\<forall>w\<in>set (dns_labels h). \<not> label_bad w)"
  by (auto simp: validate_syntax_def dns_labels_def list_ex_iff)

lemma dns_labels_sep: "dns_labels (a @ CHR ''.'' # b) = dns_labels a @ dns_labels b"
  by (simp add: dns_labels_def split_char_sep)

lemma dns_labels_nonempty_dots:
  assumes "\<forall>w\<in>set (dns_labels h). w \<noteq> []"
  shows "\<not> prefix ''.'' h" and "\<not> str_contains ''..'' h" and "h \<noteq> []" and "last h \<noteq> CHR ''.''"
proof -
  have nil: "dns_labels [] = [[]]" by (simp add: dns_labels_def split_char_def)
  show "\<not> prefix ''.'' h"
    using assms dns_labels_sep[of "[]"] nil by (auto simp: prefix_def)
  show "\<not> str_contains ''..'' h"
  proof
    assume "str_contains ''..'' h"
    then obtain a b where "h = a @ CHR ''.'' # ([] @ CHR ''.'' # b)"
      by (auto simp: str_contains_iff)
    then have "[] \<in> set (dns_labels h)"
      by (simp only: dns_labels_sep nil) simp
    with assms show False by blast
  qed
  show ne: "h \<noteq> []" using assms nil by auto
  have "last (dns_labels h) \<noteq> []"
    using assms by (simp add: dns_labels_def split_char_def)
  then show "last h \<noteq> CHR ''.''"
    by (simp add: dns_labels_def split_char_def split_on_last_Nil)
qed

lemma dns_labels_chars: "c \<in> set h \<Longrightarrow> c = CHR ''.'' \<or> (\<exists>w\<in>set (dns_labels h). c \<in> set w)"
  unfolding dns_labels_def split_char_def
  by (induction h) (auto split: list.splits)

lemma public_hostname_char:
  assumes "public_hostname h" and "c \<in> set h"
  shows "is_lower c \<or> is_digit c \<or> c \<in> {CHR ''-'', CHR ''_'', CHR ''.''}"
  using dns_labels_chars[OF assms(2)] assms(1)
  by (auto simp: public_hostname_def dns_label_def)

lemma public_hostname_nonempty_labels:
  "public_hostname h \<Longrightarrow> \<forall>w\<in>set (dns_labels h). w \<noteq> []"
  by (auto simp: public_hostname_def dns_label_def)

lemma dot_iff_two_labels: "str_contains ''.'' h \<longleftrightarrow> 2 \<le> length (dns_labels h)"
proof -
  have "str_contains ''.'' h \<longleftrightarrow> CHR ''.'' \<in> set h"
    by (auto simp: str_contains_iff in_set_conv_decomp)
  also have "\<dots> \<longleftrightarrow> filter (\<lambda>c. c = CHR ''.'') h \<noteq> []"
    by (auto simp: filter_empty_conv)
  also have "\<dots> \<longleftrightarrow> 2 \<le> length (dns_labels h)"
    by (simp add: dns_labels_def split_char_def split_on_length)
       (metis One_nat_def Suc_le_eq length_greater_0_conv)
  finally show ?thesis .
qed

lemma normalize_target_InrD:
  assumes "normalize_target x = Inr h"
  shows "\<forall>c\<in>set h. \<not> is_upper c" "length h \<le> 253" "parse_ipv4 h = None"
    "\<not> is_blocked_name h" "validate_syntax h = Inr ()" "str_contains ''.'' h"
  using assms set_to_ascii_lowercase_no_upper
  by (auto simp: normalize_target_def Let_def bind_res_Inr_iff split: if_splits option.splits)

lemma public_hostname_idle:
  assumes "public_hostname h"
  shows "trim h = h" and "host_part h = h" and "trim_end_char (CHR ''.'') h = h"
    and "to_ascii_lowercase h = h" and "CHR '':'' \<notin> set h" and "\<not> prefix ''['' h"
proof -
  note c = public_hostname_char[OF assms]
  have not: "d \<notin> set h" if "\<not> is_lower d" "\<not> is_digit d"
      "d \<notin> {CHR ''-'', CHR ''_'', CHR ''.''}" for d
    using c[of d] that by blast
  show "trim h = h"
    using c by (intro trim_graphic) (force simp: graphic_def is_lower_def is_digit_def code_of_def)
  show colon: "CHR '':'' \<notin> set h"
    by (rule not) (simp_all add: is_lower_def is_digit_def code_of_def)
  have seps: "CHR ''/'' \<notin> set h" "CHR ''?'' \<notin> set h" "CHR ''#'' \<notin> set h" "CHR ''@'' \<notin> set h"
      "CHR ''['' \<notin> set h"
    by (rule not; simp add: is_lower_def is_digit_def code_of_def)+
  show "\<not> prefix ''['' h" using seps(5) by (auto simp: prefix_def)
  have "split_once_str ''://'' h = None"
    using colon str_contains_subset[of "''://''" h] by (auto simp: split_once_str_None_iff)
  moreover have "split_on (\<lambda>c. c \<in> {CHR ''/'', CHR ''?'', CHR ''#''}) h = [h]"
    using seps by (intro split_on_id) auto
  moreover have "rsplit_once (CHR ''@'') h = None" using seps by (simp add: rsplit_once_None_iff)
  ultimately show "host_part h = h"
    by (simp add: host_part_def)
  show "trim_end_char (CHR ''.'') h = h"
    using dns_labels_nonempty_dots[OF public_hostname_nonempty_labels[OF assms]]
    by (intro trim_end_char_id) simp
  show "to_ascii_lowercase h = h"
    using c by (intro to_ascii_lowercase_id) (force simp: is_upper_def is_lower_def is_digit_def code_of_def)
qed

subsection \<open>Properties\<close>

lemma normalize_target_public:
  assumes "normalize_target x = Inr h"
  shows "public_hostname h"
proof -
  note d = normalize_target_InrD[OF assms]
  have "\<forall>w\<in>set (dns_labels h). dns_label w"
  proof
    fix w assume w: "w \<in> set (dns_labels h)"
    then have "set w \<subseteq> set h"
      unfolding dns_labels_def split_char_def by (rule split_on_subset)
    with d(1) have "\<forall>c\<in>set w. \<not> is_upper c" by blast
    moreover have "\<not> label_bad w" using d(5) w by (simp add: validate_syntax_ok)
    ultimately show "dns_label w" by (simp add: label_bad_iff)
  qed
  with d show ?thesis
    by (simp add: public_hostname_def is_blocked_name_iff dot_iff_two_labels)
qed

lemma normalize_target_fixed:
  assumes p: "public_hostname h"
  shows "normalize_target h = Inr h"
proof -
  note i = public_hostname_idle[OF p]
  note n = dns_labels_nonempty_dots[OF public_hostname_nonempty_labels[OF p]]
  have up: "\<forall>c\<in>set h. \<not> is_upper c" using i(4) set_to_ascii_lowercase_no_upper by metis
  have "\<not> label_bad w" if "w \<in> set (dns_labels h)" for w
  proof -
    have "set w \<subseteq> set h" using that unfolding dns_labels_def split_char_def by (rule split_on_subset)
    with up have "\<forall>c\<in>set w. \<not> is_upper c" by blast
    moreover have "dns_label w" using p that by (simp add: public_hostname_def)
    ultimately show ?thesis by (simp add: label_bad_iff)
  qed
  then have v: "validate_syntax h = Inr ()" using n by (simp add: validate_syntax_ok)
  have "filter (\<lambda>c. c = CHR '':'') h = []" using i(5) by (auto simp: filter_empty_conv)
  moreover have "strip_port h = h" using i(5) by (simp add: strip_port_def rsplit_once_None_iff[THEN iffD2])
  moreover have "\<not> is_blocked_name h" "parse_ipv4 h = None" "str_contains ''.'' h" "length h \<le> 253"
    using p by (auto simp: public_hostname_def is_blocked_name_iff dot_iff_two_labels)
  moreover have "parse_ipv6 h = None" using i(5) by (rule parse_ipv6_no_colon)
  ultimately show ?thesis
    using i n(3) v by (simp add: normalize_target_def Let_def)
qed

text \<open>C23: the target gate is exactly the abstract one.  Whatever a user types, a name that
  \<open>normalize_target\<close> lets through is a public host name (two or more labels of 1 to 63 lower-case
  letters, digits, hyphens and underscores, none starting or ending with a hyphen, at most 253
  bytes, no IPv4 literal, in no reserved zone), and the names it returns unchanged are precisely
  those: re-validating a stored name at the point of use changes nothing and refuses nothing.\<close>

theorem normalize_target_spec:
  "((\<exists>x. normalize_target x = Inr h) \<longleftrightarrow> public_hostname h)
   \<and> (normalize_target h = Inr h \<longleftrightarrow> public_hostname h)"
  using normalize_target_public normalize_target_fixed by blast

end
