(* ===== verification/Targets.thy ===== *)
theory Targets
  imports Growth ScanGate Domain
begin

text \<open>
  \<open>crates/api/src/routes/targets.rs\<close>: registering a site, proving that it is owned and putting it
  on a schedule.  The random token and the UUIDs are arguments; the resolver and the HTTP client are
  those of \<open>Verification\<close>.
\<close>

record target_response =
  tr_id :: uid
  tr_domain :: string
  tr_client :: "string option"
  tr_verified :: bool
  tr_expires :: "time option"
  tr_cadence :: string

definition target_row_response :: "time \<Rightarrow> db \<Rightarrow> target \<Rightarrow> target_response" where
  "target_row_response now d t =
     (let v = latest_proof d (tg_id t) in
      \<lparr>tr_id = tg_id t, tr_domain = tg_domain t, tr_client = tg_client t,
       tr_verified = is_currently_verified (status_of_proof v) now,
       tr_expires = vs_expires_at (status_of_proof v), tr_cadence = tg_cadence t\<rparr>)"

definition set_cadence ::
    "time \<Rightarrow> uid \<Rightarrow> uid \<Rightarrow> string \<Rightarrow> db \<Rightarrow> (api_error + target_response) \<times> db" where
  "set_cadence now user tid body d =
     (let cad = from_str_or_manual body in
      if cad = Manual \<and> to_ascii_lowercase (trim body) \<noteq> ''manual''
        then (Inl (BadRequest ''cadence must be manual, weekly or monthly''), d)
      else
        (case owned_target d tid user of
           None \<Rightarrow> (Inl NotFound, d)
         | Some t \<Rightarrow>
             if cad \<noteq> Manual \<and> \<not> is_currently_verified (status_of_proof (latest_proof d tid)) now
               then (Inl TargetNotVerified, d)
             else if cad \<noteq> Manual \<and> \<not> allows_scheduling (current_plan d user)
               then (Inl (PlanLimit ''automatic checks are part of the paid plans''), d)
             else
               (Inr ((target_row_response now d t)\<lparr>tr_cadence := cadence_db_str cad\<rparr>),
                d\<lparr>targets := update_where (\<lambda>t. tg_id t = tid)
                    (\<lambda>t. t\<lparr>tg_cadence := cadence_db_str cad,
                           tg_last_scheduled := (if cadence_db_str cad = ''manual''
                                                 then tg_last_scheduled t else None)\<rparr>) (targets d)\<rparr>)))"

definition target_limit_message :: "access \<Rightarrow> string" where
  "target_limit_message a =
     (if a_trial a
      then ''the free trial covers '' @ show_int (access_max_targets a) @ '' sites; the ''
        @ display_name (a_plan a) @ '' plan's full allowance starts with the first payment''
      else ''the '' @ to_ascii_lowercase (display_name (a_plan a)) @ '' plan covers ''
        @ show_int (access_max_targets a) @ '' ''
        @ (if access_max_targets a = 1 then ''site'' else ''sites''))"

definition clean_client_name :: "string option \<Rightarrow> string option" where
  "clean_client_name name =
     (case map_option (\<lambda>n. take_chars 120 (trim n)) name of
        Some (c # cs) \<Rightarrow> Some (c # cs)
      | _ \<Rightarrow> None)"

definition create_target ::
    "uid \<Rightarrow> time \<Rightarrow> uid \<Rightarrow> string \<Rightarrow> string option \<Rightarrow> db \<Rightarrow> (api_error + target_response) \<times> db" where
  "create_target new_id now user site client d =
     (case normalize_target site of
        Inl e \<Rightarrow> (Inl (BadRequest (domain_error_msg e)), d)
      | Inr host \<Rightarrow>
          (let a = current_access d user;
               current = int (length (filter (\<lambda>t. tg_user t = user) (targets d))) in
           if current \<ge> access_max_targets a then (Inl (PlanLimit (target_limit_message a)), d)
           else if list_ex (\<lambda>t. tg_user t = user \<and> tg_domain t = host) (targets d)
             then (Inl (Conflict ''target already exists''), d)
           else
             (Inr \<lparr>tr_id = new_id, tr_domain = host, tr_client = clean_client_name client,
                   tr_verified = False, tr_expires = None, tr_cadence = ''manual''\<rparr>,
              d\<lparr>targets := targets d @
                 [\<lparr>tg_id = new_id, tg_user = user, tg_domain = host,
                   tg_client = clean_client_name client, tg_cadence = ''manual'',
                   tg_last_scheduled = None, tg_created = now\<rparr>]\<rparr>)))"

text \<open>\<open>order by created_at desc\<close>.\<close>

definition list_targets :: "time \<Rightarrow> uid \<Rightarrow> db \<Rightarrow> target_response list" where
  "list_targets now user d =
     map (target_row_response now d)
       (sort_key (\<lambda>t. - tg_created t) (filter (\<lambda>t. tg_user t = user) (targets d)))"

record instructions =
  in_verification :: uid
  in_token :: string
  in_dns_name :: string
  in_dns_value :: string
  in_url :: string
  in_content :: string

definition start_verification ::
    "uid \<Rightarrow> string \<Rightarrow> time \<Rightarrow> uid \<Rightarrow> uid \<Rightarrow> db \<Rightarrow> (api_error + instructions) \<times> db" where
  "start_verification new_id token now user tid d =
     (case owned_target d tid user of
        None \<Rightarrow> (Inl NotFound, d)
      | Some t \<Rightarrow>
          (Inr \<lparr>in_verification = new_id, in_token = token,
                in_dns_name = dns_txt_record_name (tg_domain t), in_dns_value = token,
                in_url = well_known_url (tg_domain t), in_content = token\<rparr>,
           d\<lparr>proofs := proofs d @
              [\<lparr>v_id = new_id, v_target = tid, v_method = ''dns_txt'', v_token = token,
                v_verified_at = None, v_expires_at = None, v_created = now\<rparr>]\<rparr>))"

record check_response =
  cr_verified :: bool
  cr_expires :: "time option"
  cr_detail :: string

definition not_yet :: "string \<Rightarrow> check_response" where
  "not_yet detail = \<lparr>cr_verified = False, cr_expires = None, cr_detail = detail\<rparr>"

definition dns_detail :: "string \<Rightarrow> string list \<Rightarrow> string" where
  "dns_detail domain records =
     (let name = dns_txt_record_name domain in
      if records = [] then
        ''Nothing is published at '' @ name @ '' yet. Add the TXT record at your DNS provider and check again ''
        @ em_dash @ '' most publish within a few minutes, a few take up to an hour. Many DNS panels, GoDaddy ''
        @ ''and Namecheap among them, add your domain to the name by themselves: there, type the name ''
        @ ''without your domain at the end (for example.com, just _glarion-verify), or the record ends up ''
        @ ''at _glarion-verify.example.com.example.com.''
      else
        name @ '' answers with '' @ show_nat (length records) @ '' TXT ''
        @ (if length records = 1 then ''record'' else ''records'')
        @ '', but none is the value we issued. Copy the value again and paste it whole, with no quotes ''
        @ ''and no trailing spaces.'')"

record net =
  n_resolver :: "string \<Rightarrow> dns_outcome"
  n_lookup :: "string \<Rightarrow> (ip \<times> nat) list option"
  n_http :: http_client

text \<open>The proof as it is looked for on the network: \<open>None\<close> when it is there, else why not.\<close>

definition look_for_token :: "net \<Rightarrow> verification_method \<Rightarrow> string \<Rightarrow> string \<Rightarrow> string option" where
  "look_for_token net how domain token =
     (case how of
        DnsTxt \<Rightarrow>
          (case fetch_dns_txt_records (n_resolver net) domain of
             Inr records \<Rightarrow>
               if token_present records token then None else Some (dns_detail domain records)
           | Inl _ \<Rightarrow>
               Some (''We could not reach DNS just now. Nothing is wrong with your record '' @ em_dash
                 @ '' try again in a moment.''))
      | WellKnownFile \<Rightarrow>
          (case fetch_well_known_file (n_lookup net) (n_http net) domain of
             Inr body \<Rightarrow>
               if file_contains_token body token then None
               else Some (well_known_url domain @ '' is reachable, but it does not hold the value we ''
                 @ ''issued. The file must contain that value and nothing else.'')
           | Inl _ \<Rightarrow>
               Some (''We could not fetch '' @ well_known_url domain @ ''. It has to be reachable over HTTPS, ''
                 @ ''with no redirect and no login in front of it.'')))"

definition method_of_str :: "string \<Rightarrow> verification_method option" where
  "method_of_str s =
     (if s = ''dns_txt'' then Some DnsTxt
      else if s = ''well_known_file'' then Some WellKnownFile else None)"

definition pending_proof :: "db \<Rightarrow> uid \<Rightarrow> proof_row option" where
  "pending_proof d tid =
     latest_by v_created (filter (\<lambda>v. v_target v = tid \<and> v_verified_at v = None) (proofs d))"

definition complete_proof :: "time \<Rightarrow> verification_method \<Rightarrow> uid \<Rightarrow> db \<Rightarrow> db" where
  "complete_proof now how pid d =
     d\<lparr>proofs := update_where (\<lambda>v. v_id v = pid \<and> v_verified_at v = None)
        (\<lambda>v. v\<lparr>v_verified_at := Some now, v_expires_at := Some (expiry_from now),
               v_method := method_db_str how\<rparr>) (proofs d)\<rparr>"

definition check_verification ::
    "(string \<Rightarrow> string) \<Rightarrow> net \<Rightarrow> headers \<Rightarrow> string \<Rightarrow> time \<Rightarrow> uid \<Rightarrow> uid \<Rightarrow> string \<Rightarrow> db
     \<Rightarrow> (api_error + check_response) \<times> db" where
  "check_verification sha256_hex net h peer now user tid method_name d =
     (let (ok, d') = check_shared sha256_hex VERIFICATION_CHECKS_PER_WINDOW VERIFICATION_WINDOW_SECS
            ''verification'' peer now d in
      if \<not> ok then (Inl TooManyRequests, d')
      else
        (case owned_target d' tid user of
           None \<Rightarrow> (Inl NotFound, d')
         | Some t \<Rightarrow>
             (case method_of_str method_name of
                None \<Rightarrow> (Inl (BadRequest (''unknown verification method '' @ quoted method_name)), d')
              | Some how \<Rightarrow>
                  (case pending_proof d' tid of
                     None \<Rightarrow>
                       (Inl (BadRequest (''no pending verification '' @ em_dash @ '' start one first'')), d')
                   | Some v \<Rightarrow>
                       (case look_for_token net how (tg_domain t) (v_token v) of
                          Some detail \<Rightarrow> (Inr (not_yet detail), d')
                        | None \<Rightarrow>
                            (Inr \<lparr>cr_verified = True, cr_expires = Some (expiry_from now),
                                  cr_detail = ''ownership verified''\<rparr>,
                             let d'' = complete_proof now how (v_id v) d' in
                             if length (filter (\<lambda>x. v_id x = v_id v \<and> v_verified_at x = None) (proofs d')) = 1
                             then record_event h ''domain_verified'' now d'' else d''))))))"


subsection \<open>Effects\<close>

lemma set_cadence_db:
  "snd (set_cadence now user tid body d) = d \<or>
   snd (set_cadence now user tid body d) =
     d\<lparr>targets := update_where (\<lambda>t. tg_id t = tid)
        (\<lambda>t. t\<lparr>tg_cadence := cadence_db_str (from_str_or_manual body),
               tg_last_scheduled := (if cadence_db_str (from_str_or_manual body) = ''manual''
                                     then tg_last_scheduled t else None)\<rparr>) (targets d)\<rparr>"
  by (simp add: set_cadence_def Let_def split: option.split)

lemma create_target_cases:
  obtains e where "create_target new_id now user site client d = (Inl e, d)"
  | host r where "normalize_target site = Inr host"
      "\<not> list_ex (\<lambda>t. tg_user t = user \<and> tg_domain t = host) (targets d)"
      "int (length (filter (\<lambda>t. tg_user t = user) (targets d))) < access_max_targets (current_access d user)"
      "create_target new_id now user site client d = (Inr r,
         d\<lparr>targets := targets d @
            [\<lparr>tg_id = new_id, tg_user = user, tg_domain = host,
              tg_client = clean_client_name client, tg_cadence = ''manual'',
              tg_last_scheduled = None, tg_created = now\<rparr>]\<rparr>)"
proof (cases "normalize_target site")
  case (Inl e)
  then show ?thesis using that(1) by (simp add: create_target_def)
next
  case (Inr host)
  show ?thesis
  proof (cases "access_max_targets (current_access d user) \<le> int (length (filter (\<lambda>t. tg_user t = user) (targets d)))")
    case True
    then show ?thesis using that(1) Inr by (simp add: create_target_def Let_def)
  next
    case False
    then show ?thesis
      using that(1) that(2)[OF Inr] Inr
      by (cases "list_ex (\<lambda>t. tg_user t = user \<and> tg_domain t = host) (targets d)")
         (auto simp: create_target_def Let_def)
  qed
qed

text \<open>The registry of sites: public host names, each at most once per account.\<close>

definition registry_ok :: "db \<Rightarrow> bool" where
  "registry_ok d \<longleftrightarrow> list_all (\<lambda>t. public_hostname (tg_domain t)) (targets d)
     \<and> distinct (map (\<lambda>t. (tg_user t, tg_domain t)) (targets d))"

lemma create_target_registry:
  assumes "registry_ok d"
  shows "registry_ok (snd (create_target new_id now user site client d))"
proof (cases rule: create_target_cases[of new_id now user site client d])
  case (1 e)
  then show ?thesis using assms by simp
next
  case (2 host r)
  have "public_hostname host" using 2(1) normalize_target_public by blast
  moreover have "(user, host) \<notin> set (map (\<lambda>t. (tg_user t, tg_domain t)) (targets d))"
    using 2(2) by (auto simp: list_ex_iff)
  ultimately show ?thesis using assms unfolding 2(4) by (simp add: registry_ok_def)
qed

lemma same_sites_registry:
  "map (\<lambda>t. (tg_user t, tg_domain t)) (targets d') = map (\<lambda>t. (tg_user t, tg_domain t)) (targets d) \<Longrightarrow>
     registry_ok d \<Longrightarrow> registry_ok d'"
proof -
  assume m: "map (\<lambda>t. (tg_user t, tg_domain t)) (targets d') = map (\<lambda>t. (tg_user t, tg_domain t)) (targets d)"
    and ok: "registry_ok d"
  have "map tg_domain (targets d') = map tg_domain (targets d)"
    using arg_cong[OF m, of "map snd"] by (simp add: comp_def)
  then have "list_all public_hostname (map tg_domain (targets d')) = list_all public_hostname (map tg_domain (targets d))"
    by simp
  then show ?thesis using ok m by (simp add: registry_ok_def list.pred_map comp_def)
qed

lemma set_cadence_sites:
  "map (\<lambda>t. (tg_user t, tg_domain t)) (targets (snd (set_cadence now user tid body d)))
     = map (\<lambda>t. (tg_user t, tg_domain t)) (targets d)"
  by (rule disjE[OF set_cadence_db[of now user tid body d]]; simp only:)
     (simp add: map_update_where)

lemma set_cadence_registry: "registry_ok d \<Longrightarrow> registry_ok (snd (set_cadence now user tid body d))"
  by (rule same_sites_registry[OF set_cadence_sites])

lemma check_verification_db:
  fixes sha net h peer now user tid m d
  defines "d' \<equiv> snd (check_shared sha VERIFICATION_CHECKS_PER_WINDOW VERIFICATION_WINDOW_SECS
      ''verification'' peer now d)"
  shows "snd (check_verification sha net h peer now user tid m d) = d'
    \<or> (\<exists>how pid. snd (check_verification sha net h peer now user tid m d) = complete_proof now how pid d'
        \<or> snd (check_verification sha net h peer now user tid m d)
            = record_event h ''domain_verified'' now (complete_proof now how pid d'))"
proof -
  obtain ok d'' where c: "check_shared sha VERIFICATION_CHECKS_PER_WINDOW VERIFICATION_WINDOW_SECS
      ''verification'' peer now d = (ok, d'')" by (cases "check_shared sha VERIFICATION_CHECKS_PER_WINDOW
      VERIFICATION_WINDOW_SECS ''verification'' peer now d")
  then have d': "d' = d''" by (simp add: d'_def)
  show ?thesis
  proof (cases "ok \<and> owned_target d'' tid user \<noteq> None \<and> method_of_str m \<noteq> None \<and> pending_proof d'' tid \<noteq> None")
    case False
    then show ?thesis
      by (intro disjI1) (auto simp: check_verification_def c d' split: option.split)
  next
    case True
    then obtain t how v where s: "ok" "owned_target d'' tid user = Some t" "method_of_str m = Some how"
        "pending_proof d'' tid = Some v" by auto
    show ?thesis
      by (cases "look_for_token net how (tg_domain t) (v_token v)")
         (auto simp: check_verification_def c d' s Let_def)
  qed
qed

lemma complete_proof_fields [simp]:
  "authorizations (complete_proof now how pid d) = authorizations d"
  "jobs (complete_proof now how pid d) = jobs d"
  "targets (complete_proof now how pid d) = targets d"
  "results (complete_proof now how pid d) = results d"
  by (simp_all add: complete_proof_def)

lemma check_verification_fields:
  "authorizations (snd (check_verification sha net h peer now user tid m d)) = authorizations d
   \<and> jobs (snd (check_verification sha net h peer now user tid m d)) = jobs d
   \<and> targets (snd (check_verification sha net h peer now user tid m d)) = targets d
   \<and> results (snd (check_verification sha net h peer now user tid m d)) = results d"
  using check_verification_db[of sha net h peer now user tid m d] by (elim disjE exE) simp_all

text \<open>The proofs after a check: unchanged, or the newest pending row of the caller's own target is
  completed, because its token was seen.\<close>

lemma check_verification_proofs:
  obtains "proofs (snd (check_verification sha net h peer now user tid m d)) = proofs d"
      "\<not> (\<exists>r. fst (check_verification sha net h peer now user tid m d) = Inr r \<and> cr_verified r)"
  | t v how where "owned_target d tid user = Some t" "method_of_str m = Some how"
      "pending_proof d tid = Some v" "look_for_token net how (tg_domain t) (v_token v) = None"
      "proofs (snd (check_verification sha net h peer now user tid m d)) =
         proofs (complete_proof now how (v_id v) d)"
      "fst (check_verification sha net h peer now user tid m d) =
         Inr \<lparr>cr_verified = True, cr_expires = Some (expiry_from now), cr_detail = ''ownership verified''\<rparr>"
proof -
  obtain ok d' where c: "check_shared sha VERIFICATION_CHECKS_PER_WINDOW VERIFICATION_WINDOW_SECS
      ''verification'' peer now d = (ok, d')" by (cases "check_shared sha VERIFICATION_CHECKS_PER_WINDOW
      VERIFICATION_WINDOW_SECS ''verification'' peer now d")
  have p: "proofs d' = proofs d" "targets d' = targets d"
    using check_shared_fields[of sha VERIFICATION_CHECKS_PER_WINDOW VERIFICATION_WINDOW_SECS
        "''verification''" peer now d] c by simp_all
  have q: "owned_target d' tid user = owned_target d tid user" "pending_proof d' tid = pending_proof d tid"
    by (simp_all add: owned_target_def pending_proof_def p)
  show ?thesis
  proof (cases "ok \<and> owned_target d tid user \<noteq> None \<and> method_of_str m \<noteq> None \<and> pending_proof d tid \<noteq> None")
    case False
    then show ?thesis
      by (intro that(1)) (auto simp: check_verification_def c q p split: option.split)
  next
    case True
    then obtain t how v where s: "ok" "owned_target d tid user = Some t" "method_of_str m = Some how"
        "pending_proof d tid = Some v" by auto
    show ?thesis
    proof (cases "look_for_token net how (tg_domain t) (v_token v)")
      case (Some detail)
      then show ?thesis using s by (intro that(1)) (simp_all add: check_verification_def c q p not_yet_def)
    next
      case None
      then show ?thesis using s
        by (intro that(2)[OF s(2-4) None]) (simp_all add: check_verification_def c q p complete_proof_def Let_def)
    qed
  qed
qed

lemma check_verification_trail: "trail_grows d (snd (check_verification sha net h peer now user tid m d))"
proof (rule trail_growsI)
  show "set (authorizations d) \<subseteq> set (authorizations (snd (check_verification sha net h peer now user tid m d)))"
    by (simp add: check_verification_fields)
  fix v assume v: "v \<in> set (proofs d)"
  show "\<exists>v'\<in>set (proofs (snd (check_verification sha net h peer now user tid m d))). keeps_proof v v'"
  proof (cases rule: check_verification_proofs[of sha net h peer now user tid m d])
    case 1
    show ?thesis unfolding 1(1) using v keeps_proof_refl by blast
  next
    case (2 t w how)
    let ?f = "\<lambda>x. if v_id x = v_id w \<and> v_verified_at x = None
        then x\<lparr>v_verified_at := Some now, v_expires_at := Some (expiry_from now),
               v_method := method_db_str how\<rparr> else x"
    have "?f v \<in> set (proofs (complete_proof now how (v_id w) d))"
      using v by (simp add: complete_proof_def set_update_where)
    moreover have "keeps_proof v (?f v)" by (simp add: keeps_proof_def)
    ultimately show ?thesis unfolding 2(5) by blast
  qed
qed

subsection \<open>Properties\<close>


text \<open>A schedule can be switched on only with a proof in force and a paid plan, for a target of
  one's own, and never by a value that is neither a cadence nor "manual".\<close>

lemma set_cadence_gate:
  "(\<exists>r. fst (set_cadence now user tid body d) = Inr r) \<longleftrightarrow>
     owned_target d tid user \<noteq> None
     \<and> (case from_str_or_manual body of
          Manual \<Rightarrow> to_ascii_lowercase (trim body) = ''manual''
        | _ \<Rightarrow> (\<exists>v. latest_proof d tid = Some v \<and> in_force v now)
               \<and> allows_scheduling (current_plan d user))"
  by (cases "owned_target d tid user"; cases "from_str_or_manual body"; cases "latest_proof d tid")
     (auto simp: set_cadence_def Let_def in_force_def)

text \<open>A site is registered only as a public host name, once per account, and within the allowance
  of the account's plan, or of its trial; a refused registration changes nothing.\<close>

lemma create_target_effect:
  "case create_target new_id now user site client d of
     (Inl e, d') \<Rightarrow> d' = d
   | (Inr r, d') \<Rightarrow>
       public_hostname (tr_domain r)
       \<and> (\<exists>t. targets d' = targets d @ [t] \<and> tg_domain t = tr_domain r \<and> tg_user t = user)
       \<and> (tr_domain r \<notin> tg_domain ` {t \<in> set (targets d). tg_user t = user})
       \<and> int (length (filter (\<lambda>t. tg_user t = user) (targets d'))) \<le> access_max_targets (current_access d user)"
proof (cases rule: create_target_cases[of new_id now user site client d])
  case (1 e)
  then show ?thesis by simp
next
  case (2 host r)
  have "public_hostname host" using 2(1) normalize_target_public by blast
  moreover have "tr_domain r = host"
    using 2(1,4) by (auto simp: create_target_def Let_def split: if_splits)
  ultimately show ?thesis using 2(2,3) unfolding 2(4) by (auto simp: list_ex_iff)
qed

end
