(* ===== verification/Scheduler.thy ===== *)
theory Scheduler
  imports ScanGate
begin

text \<open>
  \<open>crates/orchestrator/src/scheduler.rs\<close>: one tick of the loop that queues scheduled scans.  The
  candidates are read once, at the start of the tick; each is then decided and queued in turn, on the
  database as the earlier ones left it.  \<open>ids tid\<close> are the three fresh UUIDs of a candidate: its
  authorization and its two jobs.  \<open>enqueue\<close> is one transaction.
\<close>

record candidate =
  ca_target :: uid
  ca_user :: uid
  ca_trial :: bool
  ca_cadence :: string
  ca_last :: "time option"
  ca_proof :: "uid option"
  ca_expires :: "time option"
  ca_recent :: int

definition candidate_of :: "time \<Rightarrow> db \<Rightarrow> target \<Rightarrow> entitlement \<Rightarrow> candidate" where
  "candidate_of now d t e =
     (let v = latest_proof d (tg_id t) in
      \<lparr>ca_target = tg_id t, ca_user = tg_user t, ca_trial = on_trial d e,
       ca_cadence = tg_cadence t, ca_last = tg_last_scheduled t,
       ca_proof = map_option v_id v, ca_expires = Option.bind v v_expires_at,
       ca_recent = recent_jobs d (tg_id t) now\<rparr>)"

text \<open>The join: a target on a schedule whose owner's paid plan is in force.\<close>

definition candidates :: "time \<Rightarrow> db \<Rightarrow> candidate list" where
  "candidates now d =
     List.map_filter (\<lambda>t.
       if tg_cadence t = ''manual'' then None
       else (case entitlement_of d (tg_user t) of
               None \<Rightarrow> None
             | Some e \<Rightarrow>
                 if e_plan e \<in> {''solo'', ''studio'', ''agency''}
                 then Some (candidate_of now d t e) else None)) (targets d)"

definition enqueue :: "(uid \<Rightarrow> uid \<times> uid \<times> uid) \<Rightarrow> time \<Rightarrow> candidate \<Rightarrow> uid \<Rightarrow> db \<Rightarrow> db" where
  "enqueue ids now c pid d =
     (case target_by_id d (ca_target c) of
        None \<Rightarrow> d
      | Some t \<Rightarrow>
          (let (auth_id, nuclei_id, tls_id) = ids (ca_target c) in
           d\<lparr>authorizations := authorizations d @
               [\<lparr>au_id = auth_id, au_user = tg_user t, au_target = tg_id t, au_proof = pid,
                 au_accepted = now, au_ip = None, au_agent = None, au_source = ''schedule''\<rparr>],
             jobs := jobs d @ [queue_job now nuclei_id (ca_target c) auth_id ''nuclei'',
                               queue_job now tls_id (ca_target c) auth_id ''tls''],
             targets := update_where (\<lambda>t. tg_id t = ca_target c)
                          (\<lambda>t. t\<lparr>tg_last_scheduled := Some now\<rparr>) (targets d)\<rparr>))"

definition schedule_state_of :: "candidate \<Rightarrow> schedule_state" where
  "schedule_state_of c =
     \<lparr>s_cadence = from_str_or_manual (ca_cadence c), s_last = ca_last c, s_expires = ca_expires c\<rparr>"

definition tick_one :: "(uid \<Rightarrow> uid \<times> uid \<times> uid) \<Rightarrow> time \<Rightarrow> db \<Rightarrow> candidate \<Rightarrow> db" where
  "tick_one ids now d c =
     (case due (schedule_state_of c) now of
        Inl _ \<Rightarrow> d
      | Inr _ \<Rightarrow>
          if \<not> within_scan_budget (ca_recent c) then d
          else if ca_trial c \<and> ca_recent c \<ge> TRIAL_MAX_SCANS_PER_TARGET_PER_DAY then d
          else if ca_trial c \<and> site_used_in_another_trial d (ca_target c) (ca_user c) then d
          else (case ca_proof c of None \<Rightarrow> d | Some pid \<Rightarrow> enqueue ids now c pid d))"

definition tick :: "(uid \<Rightarrow> uid \<times> uid \<times> uid) \<Rightarrow> time \<Rightarrow> db \<Rightarrow> db" where
  "tick ids now d = foldl (tick_one ids now) d (candidates now d)"

subsection \<open>One candidate\<close>

text \<open>A candidate that may be queued rests on a proof of its own target, in force at the tick.\<close>

definition backed :: "time \<Rightarrow> db \<Rightarrow> candidate \<Rightarrow> bool" where
  "backed now d c \<longleftrightarrow>
     (\<forall>x. ca_proof c = Some x \<longrightarrow> due (schedule_state_of c) now = Inr () \<longrightarrow>
        (\<exists>v\<in>set (proofs d). v_id v = x \<and> v_target v = ca_target c \<and> in_force v now))"

lemma candidatesD:
  assumes "c \<in> set (candidates now d)"
  obtains t e where "t \<in> set (targets d)" "tg_cadence t \<noteq> ''manual''"
    "entitlement_of d (tg_user t) = Some e" "e_plan e \<in> {''solo'', ''studio'', ''agency''}"
    "c = candidate_of now d t e"
  using assms unfolding candidates_def
  by (auto simp: List.map_filter_def split: if_splits option.splits)

lemma candidate_backed:
  assumes "c \<in> set (candidates now d)"
  shows "backed now d c"
proof -
  obtain t e where c: "c = candidate_of now d t e" by (rule candidatesD[OF assms])
  show ?thesis
    unfolding backed_def
  proof (intro allI impI)
    fix x
    assume x: "ca_proof c = Some x" and due: "due (schedule_state_of c) now = Inr ()"
    obtain v where v: "latest_proof d (tg_id t) = Some v" "x = v_id v"
      using x by (auto simp: c candidate_of_def Let_def)
    have "\<exists>e. v_expires_at v = Some e \<and> now < e"
      using due v(1) by (auto simp: due_Inr_iff c candidate_of_def Let_def schedule_state_of_def)
    then have "in_force v now" using latest_proof_SomeD(3)[OF v(1)] by (auto simp: in_force_def)
    moreover have "v \<in> set (proofs d)" "v_target v = ca_target c"
      using latest_proof_SomeD(1,2)[OF v(1)] by (simp_all add: c candidate_of_def Let_def)
    ultimately show "\<exists>v\<in>set (proofs d). v_id v = x \<and> v_target v = ca_target c \<and> in_force v now"
      using v(2) by blast
  qed
qed

text \<open>The two shapes of a step: nothing, or the transaction of \<open>enqueue\<close>.\<close>

definition admits :: "time \<Rightarrow> db \<Rightarrow> candidate \<Rightarrow> uid \<Rightarrow> bool" where
  "admits now d c pid \<longleftrightarrow>
     due (schedule_state_of c) now = Inr () \<and> ca_proof c = Some pid
     \<and> ca_recent c < MAX_SCANS_PER_TARGET_PER_DAY
     \<and> (ca_trial c \<longrightarrow> ca_recent c < TRIAL_MAX_SCANS_PER_TARGET_PER_DAY
                     \<and> \<not> site_used_in_another_trial d (ca_target c) (ca_user c))"

lemma tick_one_cases:
  "(\<exists>pid. admits now d c pid \<and> tick_one ids now d c = enqueue ids now c pid d)
   \<or> (tick_one ids now d c = d \<and> (\<nexists>pid. admits now d c pid))"
  by (cases "due (schedule_state_of c) now"; cases "ca_proof c")
     (auto simp: tick_one_def admits_def within_scan_budget_def)

lemma enqueue_fields [simp]:
  "proofs (enqueue ids now c pid d) = proofs d"
  "entitlements (enqueue ids now c pid d) = entitlements d"
  "claims (enqueue ids now c pid d) = claims d"
  "map tg_id (targets (enqueue ids now c pid d)) = map tg_id (targets d)"
  by (simp_all add: enqueue_def map_update_where split: option.split prod.split)

lemma enqueue_trail: "\<exists>new. authorizations (enqueue ids now c pid d) = authorizations d @ new"
  by (simp add: enqueue_def split: option.split prod.split)

lemma is_allowed_tools [simp]: "is_allowed_tool ''nuclei''" "is_allowed_tool ''tls''"
  by (simp_all add: is_allowed_tool_def ALLOWED_TOOLS_def)

lemma enqueue_queue:
  assumes "v \<in> set (proofs d)" "v_id v = pid" "v_target v = ca_target c" "in_force v now"
  shows "\<exists>new. jobs (enqueue ids now c pid d) = jobs d @ new \<and> length new \<le> 2
    \<and> (\<forall>j\<in>set new. j_target j = ca_target c \<and> authorized_now now (enqueue ids now c pid d) j)"
proof (cases "target_by_id d (ca_target c)")
  case None
  then show ?thesis by (simp add: enqueue_def)
next
  case (Some t)
  then have "tg_id t = ca_target c" using target_by_id_SomeD by blast
  then show ?thesis
    using assms Some
    by (cases "ids (ca_target c)")
       (auto simp: enqueue_def authorized_now_def queue_job_def intro!: bexI[of _ v])
qed

text \<open>What a candidate's turn appends to the queue: at most the two tools, for its own target,
  authorized at this instant, and only when the candidate is ready.\<close>

definition ready :: "time \<Rightarrow> candidate \<Rightarrow> bool" where
  "ready now c \<longleftrightarrow> due (schedule_state_of c) now = Inr () \<and> ca_recent c < MAX_SCANS_PER_TARGET_PER_DAY
     \<and> (ca_trial c \<longrightarrow> ca_recent c < TRIAL_MAX_SCANS_PER_TARGET_PER_DAY)"

definition batch :: "time \<Rightarrow> db \<Rightarrow> candidate \<Rightarrow> job list \<Rightarrow> bool" where
  "batch now d c p \<longleftrightarrow> length p \<le> 2
     \<and> (\<forall>j\<in>set p. j_target j = ca_target c \<and> authorized_now now d j \<and> ready now c)"

lemma batch_mono:
  "batch now d c p \<Longrightarrow> set (authorizations d) \<subseteq> set (authorizations d') \<Longrightarrow> proofs d' = proofs d \<Longrightarrow>
     batch now d' c p"
  unfolding batch_def using authorized_now_mono by blast

lemma tick_one_batch:
  assumes "backed now d c"
  shows "proofs (tick_one ids now d c) = proofs d"
    "\<exists>new. authorizations (tick_one ids now d c) = authorizations d @ new"
    "\<exists>p. jobs (tick_one ids now d c) = jobs d @ p \<and> batch now (tick_one ids now d c) c p"
proof -
  let ?d = "tick_one ids now d c"
  have "proofs ?d = proofs d \<and> (\<exists>new. authorizations ?d = authorizations d @ new)
      \<and> (\<exists>p. jobs ?d = jobs d @ p \<and> batch now ?d c p)"
  proof -
    consider pid where "admits now d c pid" "?d = enqueue ids now c pid d" | "?d = d"
      using tick_one_cases[of now d c ids] by blast
    then show ?thesis
    proof cases
      case 1
      obtain v where v: "v \<in> set (proofs d)" "v_id v = pid" "v_target v = ca_target c" "in_force v now"
        using assms 1(1) by (auto simp: backed_def admits_def)
      have "ready now c" using 1(1) by (simp add: admits_def ready_def)
      then show ?thesis
        unfolding 1(2) batch_def using enqueue_trail[of ids now c pid d] enqueue_queue[OF v, of ids]
        by (metis enqueue_fields(1))
    qed (simp add: batch_def)
  qed
  then show "proofs ?d = proofs d" "\<exists>new. authorizations ?d = authorizations d @ new"
    "\<exists>p. jobs ?d = jobs d @ p \<and> batch now ?d c p" by blast+
qed

lemma tick_loop:
  assumes "\<forall>c\<in>set cs. backed now d c"
  shows "proofs (foldl (tick_one ids now) d cs) = proofs d
    \<and> (\<exists>new. authorizations (foldl (tick_one ids now) d cs) = authorizations d @ new)
    \<and> (\<exists>ps. jobs (foldl (tick_one ids now) d cs) = jobs d @ concat ps
         \<and> list_all2 (batch now (foldl (tick_one ids now) d cs)) cs ps)"
  using assms
proof (induction cs arbitrary: d)
  case (Cons c cs)
  let ?d = "tick_one ids now d c"
  let ?e = "foldl (tick_one ids now) ?d cs"
  note one = tick_one_batch[of now d c ids]
  have b: "backed now d c" using Cons.prems by simp
  have "\<forall>c\<in>set cs. backed now ?d c" using Cons.prems one(1)[OF b] by (simp add: backed_def)
  note ih = Cons.IH[OF this]
  obtain p where p: "jobs ?d = jobs d @ p" "batch now ?d c p" using one(3)[OF b] by blast
  obtain ps where ps: "jobs ?e = jobs ?d @ concat ps" "list_all2 (batch now ?e) cs ps" using ih by blast
  have "batch now ?e c p" using p(2) ih by (elim batch_mono) auto
  then have "jobs ?e = jobs d @ concat (p # ps) \<and> list_all2 (batch now ?e) (c # cs) (p # ps)"
    using p ps by simp
  then have "\<exists>ps. jobs ?e = jobs d @ concat ps \<and> list_all2 (batch now ?e) (c # cs) ps" by blast
  moreover have "\<exists>new. authorizations ?e = authorizations d @ new"
    using one(2)[OF b] ih by (metis append_assoc)
  ultimately show ?case using one(1)[OF b] ih by simp
qed simp

lemma tick_loop_facts:
  "proofs (tick ids now d) = proofs d"
  "\<exists>new. authorizations (tick ids now d) = authorizations d @ new"
  "\<exists>ps. jobs (tick ids now d) = jobs d @ concat ps
     \<and> list_all2 (batch now (tick ids now d)) (candidates now d) ps"
  using tick_loop[of "candidates now d" now d ids] candidate_backed unfolding tick_def by auto

lemma list_all2_concatD:
  "list_all2 (batch now d) cs ps \<Longrightarrow> j \<in> set (concat ps) \<Longrightarrow>
     \<exists>c\<in>set cs. j_target j = ca_target c \<and> authorized_now now d j \<and> ready now c"
  by (induction rule: list_all2_induct) (auto simp: batch_def)

lemma tick_new_job:
  assumes "j \<in> set (jobs (tick ids now d))" "j \<notin> set (jobs d)"
  shows "\<exists>c\<in>set (candidates now d). j_target j = ca_target c
    \<and> authorized_now now (tick ids now d) j \<and> ready now c"
proof -
  obtain ps where "jobs (tick ids now d) = jobs d @ concat ps"
      "list_all2 (batch now (tick ids now d)) (candidates now d) ps"
    using tick_loop_facts(3) by blast
  then show ?thesis using list_all2_concatD assms by (metis UnE set_append)
qed

interpretation scheduled_scan: scan_source "tick ids" for ids
proof
  fix now d
  show "proofs (tick ids now d) = proofs d" by (rule tick_loop_facts)
  show "\<exists>new. authorizations (tick ids now d) = authorizations d @ new" by (rule tick_loop_facts)
  obtain ps where "jobs (tick ids now d) = jobs d @ concat ps"
      "list_all2 (batch now (tick ids now d)) (candidates now d) ps"
    using tick_loop_facts(3) by blast
  then show "\<exists>new. jobs (tick ids now d) = jobs d @ new \<and> (\<forall>j\<in>set new. authorized_now now (tick ids now d) j)"
    using list_all2_concatD by blast
qed

subsection \<open>Once per interval\<close>

lemma enqueue_targets:
  "t \<in> set (targets (enqueue ids now c pid d)) \<Longrightarrow>
     (t \<in> set (targets d) \<and> (tg_id t = ca_target c \<longrightarrow> target_by_id d (ca_target c) = None))
     \<or> tg_last_scheduled t = Some now"
  by (cases "target_by_id d (ca_target c)"; cases "ids (ca_target c)")
     (auto simp: enqueue_def set_update_where)

lemma enqueue_new_target:
  "j \<in> set (jobs (enqueue ids now c pid d)) \<Longrightarrow> j \<notin> set (jobs d) \<Longrightarrow>
     j_target j = ca_target c \<and> target_by_id d (ca_target c) \<noteq> None"
  by (cases "target_by_id d (ca_target c)"; cases "ids (ca_target c)")
     (auto simp: enqueue_def queue_job_def)

lemma tick_one_stamps:
  assumes "\<forall>t\<in>set (targets d). tg_id t = tid \<longrightarrow> tg_last_scheduled t = Some now"
  shows "\<forall>t\<in>set (targets (tick_one ids now d c)). tg_id t = tid \<longrightarrow> tg_last_scheduled t = Some now"
  using tick_one_cases[of now d c ids] assms enqueue_targets by metis

lemma tick_loop_stamps:
  "\<forall>t\<in>set (targets d). tg_id t = tid \<longrightarrow> tg_last_scheduled t = Some now \<Longrightarrow>
   \<forall>t\<in>set (targets (foldl (tick_one ids now) d cs)). tg_id t = tid \<longrightarrow> tg_last_scheduled t = Some now"
proof (induction cs arbitrary: d)
  case (Cons c cs)
  from Cons.IH[OF tick_one_stamps[OF Cons.prems]] show ?case by simp
qed simp

lemma tick_one_new_stamps:
  assumes "j \<in> set (jobs (tick_one ids now d c))" "j \<notin> set (jobs d)"
  shows "\<forall>t\<in>set (targets (tick_one ids now d c)).
    tg_id t = j_target j \<longrightarrow> tg_last_scheduled t = Some now"
  using tick_one_cases[of now d c ids] assms enqueue_targets enqueue_new_target by metis

lemma tick_stamps:
  assumes "j \<in> set (jobs (foldl (tick_one ids now) d cs))" "j \<notin> set (jobs d)"
  shows "\<forall>t\<in>set (targets (foldl (tick_one ids now) d cs)).
    tg_id t = j_target j \<longrightarrow> tg_last_scheduled t = Some now"
  using assms
proof (induction cs arbitrary: d)
  case (Cons c cs)
  show ?case
  proof (cases "j \<in> set (jobs (tick_one ids now d c))")
    case True
    then show ?thesis using tick_loop_stamps[OF tick_one_new_stamps] Cons.prems(2) by simp
  next
    case False
    then show ?thesis using Cons.IH Cons.prems(1) by simp
  qed
qed simp

lemma interval_at_least_week: "interval_of c = Some iv \<Longrightarrow> days 7 \<le> iv"
  by (cases c) (auto simp: duration_defs)

lemma distinct_map_filter:
  assumes "\<And>x y. f x = Some y \<Longrightarrow> k y = h x" "distinct (map h xs)"
  shows "distinct (map k (List.map_filter f xs))"
proof -
  have "set (map k (List.map_filter f xs)) \<subseteq> set (map h xs)" for xs
    by (induction xs) (use assms(1) in \<open>auto simp: map_filter_simps split: option.splits\<close>)
  then show ?thesis
    using assms(2) by (induction xs) (use assms(1) in \<open>fastforce simp: map_filter_simps split: option.split\<close>)+
qed

lemma candidates_distinct:
  "distinct (map tg_id (targets d)) \<Longrightarrow> distinct (map ca_target (candidates now d))"
  unfolding candidates_def
  by (rule distinct_map_filter[where h = tg_id])
     (auto simp: candidate_of_def Let_def split: if_splits option.splits)

lemma batch_count:
  assumes "list_all2 (batch now d) cs ps" "distinct (map ca_target cs)"
  shows "length (filter (\<lambda>j. j_target j = tid) (concat ps)) \<le> 2
    \<and> (length (filter (\<lambda>j. j_target j = tid) (concat ps)) > 0 \<longrightarrow>
        (\<exists>c\<in>set cs. ca_target c = tid \<and> ready now c))"
  using assms
proof (induction rule: list_all2_induct)
  case (Cons c cs p ps)
  let ?n = "\<lambda>p. length (filter (\<lambda>j. j_target j = tid) p)"
  have p: "?n p \<le> 2" "?n p > 0 \<Longrightarrow> ca_target c = tid \<and> ready now c"
    using Cons.hyps(1) by (auto simp: batch_def filter_empty_conv intro: le_trans[OF length_filter_le])
  have ih: "?n (concat ps) \<le> 2" "?n (concat ps) > 0 \<Longrightarrow> \<exists>c\<in>set cs. ca_target c = tid \<and> ready now c"
    using Cons.IH Cons.prems by auto
  have "?n p = 0 \<or> ?n (concat ps) = 0"
  proof (rule ccontr)
    assume "\<not> ?thesis"
    then obtain c' where "c' \<in> set cs" "ca_target c' = ca_target c" using p(2) ih(2) by auto
    then show False using Cons.prems by (metis distinct.simps(2) image_eqI list.simps(9) set_map)
  qed
  then show ?case using p ih by (auto simp del: length_0_conv length_greater_0_conv)
qed simp

lemma recent_jobs_append:
  "jobs d' = jobs d @ new \<Longrightarrow> recent_jobs d' tid now \<le>
     recent_jobs d tid now + int (length (filter (\<lambda>j. j_target j = tid) new))"
proof -
  assume "jobs d' = jobs d @ new"
  moreover have "length (filter (\<lambda>j. j_target j = tid \<and> now - hours 24 \<le> j_created j) new)
      \<le> length (filter (\<lambda>j. j_target j = tid) new)"
    by (induction new) auto
  ultimately show ?thesis by (simp add: recent_jobs_def)
qed

subsection \<open>Properties\<close>


text \<open>A small database: one weekly target with a proof in force, on the Solo plan.\<close>

definition demo_target :: target where
  "demo_target = \<lparr>tg_id = 1, tg_user = 7, tg_domain = ''a.example'', tg_client = None,
     tg_cadence = ''weekly'', tg_last_scheduled = None, tg_created = 0\<rparr>"

definition demo_proof :: proof_row where
  "demo_proof = \<lparr>v_id = 2, v_target = 1, v_method = ''dns_txt'', v_token = ''t'',
     v_verified_at = Some 0, v_expires_at = Some (days 30), v_created = 0\<rparr>"

definition demo_entitlement :: entitlement where
  "demo_entitlement = \<lparr>e_user = 7, e_product = ''glarion'', e_plan = ''solo'', e_max_targets = 5,
     e_customer = None, e_subscription = Some ''sub'', e_status = Some ''active'', e_period_end = None,
     e_trial_ends = None, e_cancel = False, e_blocked = None, e_interval = None,
     e_charge_amount = None, e_charge_currency = None, e_reminder_for = None, e_activation_for = None\<rparr>"

definition demo_db :: db where
  "demo_db = \<lparr>users = [], targets = [demo_target], proofs = [demo_proof], authorizations = [],
     jobs = [], results = [], entitlements = [demo_entitlement], claims = [], events = [],
     consents = [], preview_sends = [], buckets = [], growth = []\<rparr>"

definition demo_ids :: "uid \<Rightarrow> uid \<times> uid \<times> uid" where
  "demo_ids _ = (10, 11, 12)"

lemma demo_solo [simp]: "from_db_str ''solo'' = Solo"
  using from_plan_db_str[of Solo] by simp

lemma demo_weekly [simp]: "from_str_or_manual ''weekly'' = Weekly"
  by (simp add: from_str_or_manual_def trim_graphic graphic_def code_of_def Let_def
      to_ascii_lowercase_def lower_char_def is_upper_def)

lemma demo_candidates:
  "candidates now (demo_db\<lparr>jobs := js\<rparr>) =
     [\<lparr>ca_target = 1, ca_user = 7, ca_trial = False, ca_cadence = ''weekly'', ca_last = None,
       ca_proof = Some 2, ca_expires = Some (days 30),
       ca_recent = recent_jobs (demo_db\<lparr>jobs := js\<rparr>) 1 now\<rparr>]"
  by (simp add: candidates_def demo_db_def demo_target_def demo_proof_def demo_entitlement_def
      entitlement_of_def map_filter_simps candidate_of_def Let_def on_trial_def latest_proof_def
      recent_jobs_def)

lemma demo_tick:
  assumes "now < days 30" "recent_jobs (demo_db\<lparr>jobs := js\<rparr>) 1 now < 6"
  shows "jobs (tick demo_ids now (demo_db\<lparr>jobs := js\<rparr>)) =
    js @ [queue_job now 11 1 10 ''nuclei'', queue_job now 12 1 10 ''tls'']"
proof -
  let ?d = "demo_db\<lparr>jobs := js\<rparr>"
  let ?c = "\<lparr>ca_target = 1, ca_user = 7, ca_trial = False, ca_cadence = ''weekly'', ca_last = None,
       ca_proof = Some 2, ca_expires = Some (days 30), ca_recent = recent_jobs ?d 1 now\<rparr>"
  have a: "tick demo_ids now ?d = tick_one demo_ids now ?d ?c"
    by (simp only: tick_def demo_candidates foldl.simps)
  have b: "tick_one demo_ids now ?d ?c = enqueue demo_ids now ?c 2 ?d"
    using assms
    by (simp add: tick_one_def due_def schedule_state_of_def within_scan_budget_def
        MAX_SCANS_PER_TARGET_PER_DAY_def del: One_nat_def)
  have t: "target_by_id ?d 1 = Some demo_target"
    by (simp add: target_by_id_def demo_db_def demo_target_def)
  show ?thesis
    unfolding a b enqueue_def by (simp add: t demo_ids_def del: One_nat_def)
qed

lemma demo_db_jobs: "demo_db = demo_db\<lparr>jobs := []\<rparr>"
  by (simp add: demo_db_def)

lemma demo_tick_jobs:
  "jobs (tick demo_ids 0 demo_db) = [queue_job 0 11 1 10 ''nuclei'', queue_job 0 12 1 10 ''tls'']"
  using demo_tick[of 0 "[]"] by (simp add: demo_db_jobs[symmetric] recent_jobs_def duration_defs) (simp add: demo_db_def)


text \<open>A schedule fires once per interval.  After a tick has queued a job for a target, no tick of
  the following seven days, run on what it left, queues another for that target.\<close>

lemma schedule_fires_once:
  assumes "j \<in> set (jobs (tick ids now d))" and "j \<notin> set (jobs d)"
    and "j' \<in> set (jobs (tick ids' later (tick ids now d)))" and "j' \<notin> set (jobs (tick ids now d))"
    and "later < now + days 7"
  shows "j_target j' \<noteq> j_target j"
proof
  assume same: "j_target j' = j_target j"
  obtain c where c: "c \<in> set (candidates later (tick ids now d))" "j_target j' = ca_target c"
      "ready later c"
    using tick_new_job[OF assms(3,4)] by blast
  obtain t e where t: "t \<in> set (targets (tick ids now d))" and ct: "c = candidate_of later (tick ids now d) t e"
    using candidatesD[OF c(1)] by blast
  have "tg_id t = j_target j" using c(2) same by (simp add: ct candidate_of_def Let_def)
  then have last: "tg_last_scheduled t = Some now"
    using tick_stamps[OF assms(1)[unfolded tick_def] assms(2)] t unfolding tick_def by blast
  have "due (schedule_state_of c) later = Inr ()" using c(3) by (simp add: ready_def)
  then obtain iv where "interval_of (from_str_or_manual (tg_cadence t)) = Some iv" "iv \<le> later - now"
    using last by (auto simp: due_Inr_iff schedule_state_of_def ct candidate_of_def Let_def)
  then show False using interval_at_least_week assms(5) by fastforce
qed

definition demo_later :: db where
  "demo_later = demo_db\<lparr>targets := [demo_target, demo_target\<lparr>tg_id := 3, tg_last_scheduled := Some (0 - days 6)\<rparr>],
     proofs := [demo_proof, demo_proof\<lparr>v_target := 3\<rparr>]\<rparr>"

lemma demo_later_ticks:
  "jobs (tick demo_ids 0 demo_later) =
     [queue_job 0 11 1 10 ''nuclei'', queue_job 0 12 1 10 ''tls'']"
  "jobs (tick demo_ids (days 1) (tick demo_ids 0 demo_later)) =
     [queue_job 0 11 1 10 ''nuclei'', queue_job 0 12 1 10 ''tls'',
      queue_job (days 1) 11 3 10 ''nuclei'', queue_job (days 1) 12 3 10 ''tls'']"
  by code_simp+

lemma schedule_fires_once_witness:
  "j_target (queue_job (days 1) 11 3 10 ''nuclei'') \<noteq> j_target (queue_job 0 11 1 10 ''nuclei'')"
  by (rule schedule_fires_once[of _ demo_ids 0 demo_later _ demo_ids "days 1"])
     (simp_all add: demo_later_ticks, simp_all add: demo_later_def demo_db_def queue_job_def duration_defs)

text \<open>After a tick no target has more than seven scans in its last 24 hours, where the policy says
  six: the limit is checked once and a scheduled scan is two jobs.\<close>

lemma tick_daily_bound:
  assumes "distinct (map tg_id (targets d))"
  shows "recent_jobs (tick ids now d) tid now \<le> max (recent_jobs d tid now) (MAX_SCANS_PER_TARGET_PER_DAY + 1)"
proof -
  let ?n = "\<lambda>p. length (filter (\<lambda>j. j_target j = tid) p)"
  obtain ps where ps: "jobs (tick ids now d) = jobs d @ concat ps"
      "list_all2 (batch now (tick ids now d)) (candidates now d) ps"
    using tick_loop_facts(3) by blast
  note cnt = batch_count[OF ps(2) candidates_distinct[OF assms], of tid]
  have le: "recent_jobs (tick ids now d) tid now \<le> recent_jobs d tid now + int (?n (concat ps))"
    by (rule recent_jobs_append[OF ps(1)])
  show ?thesis
  proof (cases "?n (concat ps) = 0")
    case True
    with le show ?thesis by simp
  next
    case False
    then obtain c where c: "c \<in> set (candidates now d)" "ca_target c = tid" "ready now c"
      using cnt by auto
    obtain t e where "c = candidate_of now d t e" using candidatesD[OF c(1)] by blast
    then have "recent_jobs d tid now < MAX_SCANS_PER_TARGET_PER_DAY"
      using c(2,3) by (auto simp: ready_def candidate_of_def Let_def)
    with le cnt show ?thesis by linarith
  qed
qed

lemma tick_daily_bound_witness:
  "recent_jobs (tick demo_ids 0 demo_db) 1 0 \<le> max (recent_jobs demo_db 1 0) (MAX_SCANS_PER_TARGET_PER_DAY + 1)"
  by (rule tick_daily_bound) (simp add: demo_db_def)

text \<open>The bound is reached.  A weekly target with five manual scans in the last 24 hours passes the
  check of the tick and has seven afterwards, one more than a person could have queued.\<close>

lemma tick_overshoots_daily_limit:
  "\<exists>d. distinct (map tg_id (targets d))
     \<and> recent_jobs d 1 0 < MAX_SCANS_PER_TARGET_PER_DAY
     \<and> recent_jobs (tick demo_ids 0 d) 1 0 > MAX_SCANS_PER_TARGET_PER_DAY"
proof (intro exI conjI)
  let ?d = "demo_db\<lparr>jobs := replicate 5 (queue_job 0 20 1 30 ''tls'')\<rparr>"
  have r: "recent_jobs ?d 1 0 = 5"
    by (simp add: recent_jobs_def queue_job_def duration_defs eval_nat_numeral)
  then show "recent_jobs ?d 1 0 < MAX_SCANS_PER_TARGET_PER_DAY"
    by (simp add: MAX_SCANS_PER_TARGET_PER_DAY_def)
  have "jobs (tick demo_ids 0 ?d) = replicate 5 (queue_job 0 20 1 30 ''tls'')
      @ [queue_job 0 11 1 10 ''nuclei'', queue_job 0 12 1 10 ''tls'']"
    using r by (intro demo_tick) (simp_all add: duration_defs)
  then show "recent_jobs (tick demo_ids 0 ?d) 1 0 > MAX_SCANS_PER_TARGET_PER_DAY"
    by (simp add: recent_jobs_def queue_job_def duration_defs MAX_SCANS_PER_TARGET_PER_DAY_def eval_nat_numeral)
  show "distinct (map tg_id (targets ?d))" by (simp add: demo_db_def)
qed

end
