(* ===== verification/Triage.thy ===== *)
theory Triage
  imports Finding "HOL-Library.Product_Lexorder" "HOL-Library.Multiset"
begin

text \<open>
  \<open>crates/orchestrator/src/triage.rs\<close>: from a scanner's raw findings to the three sections of a
  report.  The rules table is \<open>classify\<close>; \<open>collapse_duplicates\<close> folds the rows a reader would
  see as the same issue; \<open>triage_scan\<close> sorts findings into the sections and orders them.  Counts
  (\<open>usize\<close>) are \<open>nat\<close>: they count list elements.
\<close>

datatype disposition = Act | Review | Inventory

datatype priority = PNone | PLow | PMedium | PHigh | PUrgent

fun prio_rank :: "priority \<Rightarrow> nat" where
  "prio_rank PNone = 0"
| "prio_rank PLow = 1"
| "prio_rank PMedium = 2"
| "prio_rank PHigh = 3"
| "prio_rank PUrgent = 4"

lemma prio_rank_inj: "prio_rank a = prio_rank b \<longleftrightarrow> a = b"
  by (cases a; cases b) auto

instantiation priority :: linorder
begin

definition less_eq_priority :: "priority \<Rightarrow> priority \<Rightarrow> bool" where
  "less_eq_priority a b \<longleftrightarrow> prio_rank a \<le> prio_rank b"

definition less_priority :: "priority \<Rightarrow> priority \<Rightarrow> bool" where
  "less_priority a b \<longleftrightarrow> prio_rank a < prio_rank b"

instance
  by standard (auto simp: less_eq_priority_def less_priority_def prio_rank_inj)
end

record guidance =
  g_why :: string
  g_fix :: string

record triaged =
  t_title :: string
  t_disposition :: disposition
  t_priority :: priority
  t_severity :: severity
  t_guidance :: "guidance option"
  t_evidence :: "string option"
  t_template :: string
  t_matcher :: string
  t_occurrences :: nat

record triaged_scan =
  actionable :: "triaged list"
  review :: "triaged list"
  inventory :: "triaged list"

subsection \<open>The client-facing explanations\<close>

definition g_csp :: guidance where
  "g_csp = \<lparr>g_why =
       ''Without a Content-Security-Policy, any script that reaches the page can run ''
     @ em_dash
     @ '' including one injected through a comment field, a third-party widget, or a ''
     @ ''compromised dependency. It is the single control that limits the damage of a ''
     @ ''cross-site scripting flaw.'',
     g_fix =
       ''Add a Content-Security-Policy header. Start in report-only mode to find what ''
     @ ''the site legitimately loads, then enforce it once the report is quiet.''\<rparr>"

definition g_frame :: guidance where
  "g_frame = \<lparr>g_why =
       ''The page can be embedded in a frame on another site, which allows clickjacking: ''
     @ ''the visitor believes they are clicking your interface while actually acting on ''
     @ ''a page the attacker controls.'',
     g_fix =
       ''Send X-Frame-Options: DENY, or a frame-ancestors directive in the ''
     @ ''Content-Security-Policy.''\<rparr>"

definition g_nosniff :: guidance where
  "g_nosniff = \<lparr>g_why =
       ''Browsers may guess at a file's type and treat an upload as script.'',
     g_fix =
       ''Send X-Content-Type-Options: nosniff.''\<rparr>"

definition g_cross_origin :: guidance where
  "g_cross_origin = \<lparr>g_why =
       ''These headers isolate the page from other browser contexts. They matter for ''
     @ ''sites handling sensitive data in the browser, and are often unnecessary for a ''
     @ ''brochure or marketing site.'',
     g_fix =
       ''Worth adding if the site handles logged-in sessions or payment flows. Safe to ''
     @ ''note and move on otherwise ''
     @ em_dash
     @ '' enabling them can break embedded third-party content.''\<rparr>"

definition g_other_header :: guidance where
  "g_other_header = \<lparr>g_why =
       ''This hardening header is not being sent. It is a defence-in-depth measure ''
     @ ''rather than a flaw, and whether it is worth adding depends on what the site ''
     @ ''does.'',
     g_fix =
       ''Review against the site's needs. Adding it is usually harmless, but test first ''
     @ ''if the site embeds or is embedded by third-party content.''\<rparr>"

definition g_weak_hsts :: guidance where
  "g_weak_hsts = \<lparr>g_why =
       ''HTTP Strict-Transport-Security is set, but with a short lifetime. Until it ''
     @ ''expires the browser remembers to use HTTPS; a visitor arriving after that ''
     @ ''window can still be pushed onto plain HTTP by an attacker on the same network.'',
     g_fix =
       ''Raise max-age to at least 31536000 (one year), which is also the threshold for ''
     @ ''the browser preload list.''\<rparr>"

definition g_cdn_debug :: guidance where
  "g_cdn_debug = \<lparr>g_why =
       ''The CDN is returning debug headers describing cache internals. It gives an ''
     @ ''attacker free reconnaissance about the infrastructure and signals that a debug ''
     @ ''setting was left on in production.'',
     g_fix =
       ''Turn off debug header output in the CDN configuration for production traffic.''\<rparr>"

definition g_old_tls :: guidance where
  "g_old_tls = \<lparr>g_why =
       ''The server still negotiates an obsolete TLS version, which has known weaknesses ''
     @ ''and fails most compliance checks.'',
     g_fix =
       ''Disable TLS 1.0 and 1.1 at the server or CDN and serve TLS 1.2 and 1.3 only.''\<rparr>"

definition g_expired :: guidance where
  "g_expired = \<lparr>g_why =
       ''The certificate has already expired. Every mainstream browser now shows a ''
     @ ''full-page security warning instead of the site, so to a visitor it is ''
     @ ''indistinguishable from being offline ''
     @ em_dash
     @ '' and to a customer mid-purchase it looks like fraud.'',
     g_fix =
       ''Renew the certificate immediately. If it was issued by Let's Encrypt or another ''
     @ ''automated authority, the renewal job has stopped: check that it still runs and ''
     @ ''that port 80 is reachable for the renewal challenge.''\<rparr>"

definition g_expiry_critical :: guidance where
  "g_expiry_critical = \<lparr>g_why =
       ''The certificate expires within a week. When it does, the site stops loading for ''
     @ ''everyone: this is a scheduled outage unless something is done before the date.'',
     g_fix =
       ''Renew it now rather than waiting for the automation. An automated renewal that ''
     @ ''has not fired with a week to go has already failed several times.''\<rparr>"

definition g_expiry_soon :: guidance where
  "g_expiry_soon = \<lparr>g_why =
       ''The certificate expires within a fortnight. Automated renewal normally ''
     @ ''completes with about thirty days to spare, so passing this point usually means ''
     @ ''the renewal is broken rather than merely late.'',
     g_fix =
       ''Check that the renewal process runs and succeeds, and renew by hand if it does ''
     @ ''not.''\<rparr>"

definition g_expiry_approaching :: guidance where
  "g_expiry_approaching = \<lparr>g_why =
       ''The certificate expires within a month. This is the window in which an ''
     @ ''automated renewal should already have happened, so it is worth confirming one ''
     @ ''is scheduled rather than assuming it.'',
     g_fix =
       ''Confirm the renewal is automated and working. If it is manual, put the date in ''
     @ ''a calendar now.''\<rparr>"

definition g_name_mismatch :: guidance where
  "g_name_mismatch = \<lparr>g_why =
       ''The certificate being served does not list this domain among the names it ''
     @ ''covers. Browsers treat that exactly like an expired certificate: a full-page ''
     @ ''warning instead of the site. It usually means a new subdomain was pointed at a ''
     @ ''server whose certificate was never reissued to include it.'',
     g_fix =
       ''Reissue the certificate with this domain included, or point the domain at the ''
     @ ''host whose certificate already covers it.''\<rparr>"

definition g_self_signed :: guidance where
  "g_self_signed = \<lparr>g_why =
       ''The certificate was issued by itself rather than by a recognised authority, so ''
     @ ''no browser trusts it. This is almost always a default certificate still in ''
     @ ''place because the real one was never installed ''
     @ em_dash
     @ '' which means nobody has loaded the site in a browser since it was set up.'',
     g_fix =
       ''Install a certificate from a trusted authority. Let's Encrypt issues them free ''
     @ ''and renews automatically.''\<rparr>"

definition g_email :: guidance where
  "g_email = \<lparr>g_why =
       ''Email addresses are published in the page source, where scrapers collect them ''
     @ ''for spam and for targeting phishing at named staff. Placeholder addresses left ''
     @ ''in a template also show up here, which is worth checking before a client ''
     @ ''notices.'',
     g_fix =
       ''Confirm each address is meant to be public and is not leftover template text. ''
     @ ''Use a contact form where an address is not needed.''\<rparr>"

definition g_robots :: guidance where
  "g_robots = \<lparr>g_why =
       ''robots.txt lists paths the site asks crawlers to skip. It is public, so any ''
     @ ''administrative or staging path named there is effectively advertised to anyone ''
     @ ''looking.'',
     g_fix =
       ''Check the listed paths. Anything sensitive needs authentication ''
     @ em_dash
     @ '' excluding it from robots.txt is not protection either way.''\<rparr>"

subsection \<open>The rules table\<close>

definition headers_rule :: "string \<Rightarrow> disposition \<times> priority \<times> guidance option" where
  "headers_rule matcher =
     (if matcher = ''content-security-policy'' then (Act, PHigh, Some g_csp)
      else if matcher = ''x-frame-options'' then (Act, PMedium, Some g_frame)
      else if matcher = ''x-content-type-options'' then (Act, PLow, Some g_nosniff)
      else if matcher \<in> {''cross-origin-embedder-policy'', ''cross-origin-opener-policy'',
          ''cross-origin-resource-policy''} then (Review, PLow, Some g_cross_origin)
      else (Review, PLow, Some g_other_header))"

definition expiry_rule :: "string \<Rightarrow> disposition \<times> priority \<times> guidance option" where
  "expiry_rule matcher =
     (if matcher = ''expired'' then (Act, PUrgent, Some g_expired)
      else if matcher = ''critical'' then (Act, PUrgent, Some g_expiry_critical)
      else if matcher = ''soon'' then (Act, PHigh, Some g_expiry_soon)
      else if matcher = ''approaching'' then (Review, PMedium, Some g_expiry_approaching)
      else (Inventory, PNone, None))"

definition inventory_templates :: "string list" where
  "inventory_templates = [''waf-detect'', ''dns-waf-detect'', ''tech-detect'', ''robots-txt'',
     ''security-txt'', ''google-floc-disabled'', ''form-detection'', ''dnssec-detection'',
     ''caa-fingerprint'', ''aaaa-fingerprint'', ''txt-fingerprint'', ''mx-fingerprint'',
     ''nameserver-fingerprint'', ''spf-record-detect'', ''dmarc-detect'']"

fun fallback_rule :: "severity \<Rightarrow> disposition \<times> priority \<times> guidance option" where
  "fallback_rule Critical = (Act, PUrgent, None)"
| "fallback_rule High = (Act, PHigh, None)"
| "fallback_rule Medium = (Act, PMedium, None)"
| "fallback_rule Low = (Review, PLow, None)"
| "fallback_rule Info = (Inventory, PNone, None)"

definition transport_templates :: "string list" where
  "transport_templates = [''tls-version'', ''ssl-issuer'', ''ssl-dns-names'', ''wildcard-tls'']"

definition classify ::
    "string \<Rightarrow> string \<Rightarrow> severity \<Rightarrow> disposition \<times> priority \<times> guidance option" where
  "classify template_id matcher severity =
     (if template_id = ''http-missing-security-headers'' then headers_rule matcher
      else if template_id = ''weak-hsts-detect'' then (Act, PMedium, Some g_weak_hsts)
      else if template_id \<in> {''fastly-debug-headers'', ''x-debug-headers''}
        then (Act, PLow, Some g_cdn_debug)
      else if template_id \<in> set transport_templates then
        (if severity \<ge> Medium then (Act, PHigh, Some g_old_tls) else (Inventory, PNone, None))
      else if template_id = ''tls-certificate-expiry'' then expiry_rule matcher
      else if template_id = ''tls-certificate-name-mismatch'' then (Act, PUrgent, Some g_name_mismatch)
      else if template_id = ''tls-certificate-self-signed'' then (Act, PUrgent, Some g_self_signed)
      else if template_id = ''email-extractor'' then (Review, PLow, Some g_email)
      else if template_id = ''robots-txt-endpoint'' then (Review, PLow, Some g_robots)
      else if template_id \<in> set inventory_templates then (Inventory, PNone, None)
      else fallback_rule severity)"

subsection \<open>Titles and evidence\<close>

definition inventory_titles :: "(string \<times> string) list" where
  "inventory_titles =
     [(''tls-version'', ''TLS protocol versions''),
      (''tls-certificate-expiry'', ''Certificate renewal date''),
      (''ssl-issuer'', ''Certificate issuer''),
      (''ssl-dns-names'', ''Names covered by the certificate''),
      (''wildcard-tls'', ''Wildcard certificate in use''),
      (''dnssec-detection'', ''DNSSEC''),
      (''dmarc-detect'', ''DMARC record''),
      (''spf-record-detect'', ''SPF record''),
      (''caa-fingerprint'', ''CAA record''),
      (''mx-fingerprint'', ''Mail servers''),
      (''nameserver-fingerprint'', ''Name servers''),
      (''txt-fingerprint'', ''DNS TXT records''),
      (''aaaa-fingerprint'', ''IPv6 addresses''),
      (''waf-detect'', ''Web application firewall''),
      (''dns-waf-detect'', ''Web application firewall''),
      (''tech-detect'', ''Detected technologies''),
      (''robots-txt'', ''robots.txt''),
      (''security-txt'', ''security.txt''),
      (''form-detection'', ''Forms on the page''),
      (''google-floc-disabled'', ''Browser tracking opt-out'')]"

definition inventory_title :: "string \<Rightarrow> string \<Rightarrow> string" where
  "inventory_title template_id scanner_title =
     (case map_of inventory_titles template_id of Some t \<Rightarrow> t | None \<Rightarrow> scanner_title)"

definition display_title :: "string \<Rightarrow> string \<Rightarrow> string \<Rightarrow> disposition \<Rightarrow> string" where
  "display_title template_id matcher scanner_title disp =
     (if disp = Inventory then inventory_title template_id scanner_title
      else if template_id = ''http-missing-security-headers'' \<and> matcher = ''content-security-policy''
        then ''No Content-Security-Policy header''
      else if template_id = ''http-missing-security-headers'' \<and> matcher \<noteq> []
        then ''Missing security header: '' @ matcher
      else if template_id = ''weak-hsts-detect'' then ''HTTPS is not enforced for long enough''
      else if template_id \<in> {''fastly-debug-headers'', ''x-debug-headers''}
        then ''CDN debug headers exposed in responses''
      else if template_id = ''email-extractor'' then ''Email addresses published in the page source''
      else if template_id = ''robots-txt-endpoint'' then ''Paths disclosed in robots.txt''
      else if template_id = ''tls-version'' then ''Obsolete TLS version accepted''
      else scanner_title)"

definition extract_evidence :: "finding \<Rightarrow> string option" where
  "extract_evidence f =
     (let matched = get_str ''matched-at'' (f_raw f) in
      case Option.bind (jget ''extracted-results'' (f_raw f)) as_array of
        Some results \<Rightarrow>
          (let joined = List.map_filter as_str results in
           if joined \<noteq> [] then Some (join '', '' joined) else matched)
      | None \<Rightarrow> matched)"

definition str_or_empty :: "string option \<Rightarrow> string" where
  "str_or_empty s = (case s of Some v \<Rightarrow> v | None \<Rightarrow> [])"

definition triage :: "finding \<Rightarrow> triaged" where
  "triage f =
     (let template_id = str_or_empty (get_str ''template-id'' (f_raw f));
          matcher = str_or_empty (get_str ''matcher-name'' (f_raw f));
          (disp, prio, guid) = classify template_id matcher (f_severity f) in
      \<lparr>t_title = display_title template_id matcher (f_title f) disp, t_disposition = disp,
       t_priority = prio, t_severity = f_severity f, t_guidance = guid,
       t_evidence = extract_evidence f, t_template = template_id, t_matcher = matcher,
       t_occurrences = 1\<rparr>)"

subsection \<open>Collapsing and ordering\<close>

definition merge_evidence :: "string option \<Rightarrow> string option \<Rightarrow> string option" where
  "merge_evidence existing new =
     (case new of
        None \<Rightarrow> existing
      | Some e \<Rightarrow>
          (case existing of
             Some current \<Rightarrow>
               if e \<in> set (split_str '', '' current) then Some current else Some (current @ '', '' @ e)
           | None \<Rightarrow> Some e))"

definition fold_into :: "triaged \<Rightarrow> triaged \<Rightarrow> triaged" where
  "fold_into existing f =
     existing\<lparr>t_occurrences := t_occurrences existing + 1,
       t_evidence := merge_evidence (t_evidence existing) (t_evidence f),
       t_priority := (if t_priority f > t_priority existing then t_priority f
                      else t_priority existing)\<rparr>"

fun absorb :: "triaged list \<Rightarrow> triaged \<Rightarrow> triaged list" where
  "absorb [] f = [f]"
| "absorb (c # cs) f = (if t_title c = t_title f then fold_into c f # cs else c # absorb cs f)"

definition collapse_duplicates :: "triaged list \<Rightarrow> triaged list" where
  "collapse_duplicates fs = foldl absorb [] fs"

text \<open>\<open>b.priority.cmp(&a.priority).then_with(|| a.title.cmp(&b.title))\<close> as a sort key.\<close>

definition row_key :: "triaged \<Rightarrow> nat \<times> string" where
  "row_key f = (4 - prio_rank (t_priority f), t_title f)"

definition bucket :: "disposition \<Rightarrow> finding list \<Rightarrow> triaged list" where
  "bucket d fs =
     sort_key row_key (collapse_duplicates (filter (\<lambda>t. t_disposition t = d) (map triage fs)))"

definition triage_scan :: "finding list \<Rightarrow> triaged_scan" where
  "triage_scan fs =
     \<lparr>actionable = bucket Act fs, review = bucket Review fs, inventory = bucket Inventory fs\<rparr>"

definition rows :: "triaged_scan \<Rightarrow> nat" where
  "rows s = length (actionable s) + length (review s) + length (inventory s)"

definition observations :: "triaged_scan \<Rightarrow> nat" where
  "observations s = sum_list (map t_occurrences (actionable s @ review s @ inventory s))"

definition needs_attention :: "triaged_scan \<Rightarrow> nat" where
  "needs_attention s = length (actionable s)"

text \<open>\<open>runner.rs\<close>: what makes an actionable finding the same one from scan to scan.\<close>

definition actionable_keys :: "finding list \<Rightarrow> string list" where
  "actionable_keys fs = map (\<lambda>f. t_template f @ ''|'' @ t_title f) (actionable (triage_scan fs))"


subsection \<open>What collapsing keeps\<close>

text \<open>The row a title has among collapsed rows.\<close>

definition row_for :: "string \<Rightarrow> triaged list \<Rightarrow> triaged option" where
  "row_for t rs = find (\<lambda>r. t_title r = t) rs"

lemma fold_into_fields [simp]:
  "t_title (fold_into c f) = t_title c"
  "t_disposition (fold_into c f) = t_disposition c"
  "t_occurrences (fold_into c f) = t_occurrences c + 1"
  "t_priority (fold_into c f) = max (t_priority c) (t_priority f)"
  "t_evidence (fold_into c f) = merge_evidence (t_evidence c) (t_evidence f)"
  by (auto simp: fold_into_def max_def)

lemma triage_occurrences [simp]: "t_occurrences (triage f) = 1"
  by (simp add: triage_def Let_def split: prod.split)

lemma triage_template: "t_template (triage f) = str_or_empty (get_str ''template-id'' (f_raw f))"
  by (simp add: triage_def Let_def split: prod.split)

lemma titles_absorb:
  "map t_title (absorb cs f) =
     map t_title cs @ (if t_title f \<in> set (map t_title cs) then [] else [t_title f])"
  by (induction cs) auto

lemma distinct_titles_absorb:
  "distinct (map t_title cs) \<Longrightarrow> distinct (map t_title (absorb cs f))"
  by (simp add: titles_absorb)

lemma occurrences_absorb:
  "sum_list (map t_occurrences (absorb cs f)) =
     sum_list (map t_occurrences cs) + (if t_title f \<in> set (map t_title cs) then 1 else t_occurrences f)"
  by (induction cs) auto

lemma row_for_absorb:
  "row_for t (absorb cs f) =
     (if t_title f = t then Some (case row_for t cs of None \<Rightarrow> f | Some c \<Rightarrow> fold_into c f)
      else row_for t cs)"
  by (induction cs) (auto simp: row_for_def)

lemma distinct_titles_collapse: "distinct (map t_title (collapse_duplicates fs))"
proof -
  have "distinct (map t_title cs) \<Longrightarrow> distinct (map t_title (foldl absorb cs fs))" for cs
    by (induction fs arbitrary: cs) (auto simp del: distinct_map intro: distinct_titles_absorb)
  then show ?thesis by (simp add: collapse_duplicates_def)
qed

lemma occurrences_collapse:
  assumes "\<forall>f\<in>set fs. t_occurrences f = 1"
  shows "sum_list (map t_occurrences (collapse_duplicates fs)) = length fs"
proof -
  from assms have "sum_list (map t_occurrences (foldl absorb cs fs)) =
      sum_list (map t_occurrences cs) + length fs" for cs
    by (induction fs arbitrary: cs) (auto simp: occurrences_absorb)
  then show ?thesis by (simp add: collapse_duplicates_def)
qed

definition group_row :: "triaged list \<Rightarrow> triaged option" where
  "group_row xs = (case xs of [] \<Rightarrow> None | x # ys \<Rightarrow> Some (foldl fold_into x ys))"

lemma row_for_collapse:
  "row_for t (collapse_duplicates fs) = group_row (filter (\<lambda>f. t_title f = t) fs)"
proof -
  have "row_for t (foldl absorb cs fs) =
      (case row_for t cs of
         None \<Rightarrow> group_row (filter (\<lambda>f. t_title f = t) fs)
       | Some c \<Rightarrow> Some (foldl fold_into c (filter (\<lambda>f. t_title f = t) fs)))" for cs
    by (induction fs arbitrary: cs)
       (auto simp: row_for_absorb group_row_def split: option.split)
  from this[of "[]"] show ?thesis
    by (simp add: collapse_duplicates_def row_for_def)
qed

lemma foldl_fold_into:
  "t_title (foldl fold_into c fs) = t_title c"
  "t_disposition (foldl fold_into c fs) = t_disposition c"
  "t_occurrences (foldl fold_into c fs) = t_occurrences c + length fs"
  "t_priority (foldl fold_into c fs) = foldl max (t_priority c) (map t_priority fs)"
  "t_evidence (foldl fold_into c fs) = foldl merge_evidence (t_evidence c) (map t_evidence fs)"
  by (induction fs arbitrary: c) auto

lemma foldl_max_start: "(a::'a::linorder) \<le> foldl max a xs"
  by (induction xs arbitrary: a) (auto intro: order_trans[OF max.cobounded1])

lemma foldl_max_mem: "x \<in> set xs \<Longrightarrow> (x::'a::linorder) \<le> foldl max a xs"
proof (induction xs arbitrary: a)
  case (Cons y ys)
  have "y \<le> foldl max (max a y) ys"
    using foldl_max_start[of "max a y" ys] by simp
  with Cons show ?case by auto
qed simp

lemma foldl_max_Max: "foldl max (a::'a::linorder) xs = Max (insert a (set xs))"
proof (induction xs arbitrary: a)
  case (Cons y ys)
  have "Max (insert (max a y) (set ys)) = Max (insert a (insert y (set ys)))"
    by (cases "ys = []") (simp_all add: max.assoc)
  with Cons show ?case by simp
qed simp

subsection \<open>Rows of a section\<close>

lemma row_for_distinct:
  "distinct (map t_title rs) \<Longrightarrow> row_for t rs = Some r \<longleftrightarrow> r \<in> set rs \<and> t_title r = t"
  by (induction rs) (force simp: row_for_def)+

lemma distinct_titles_bucket: "distinct (map t_title (bucket d fs))"
  using distinct_titles_collapse
  by (simp add: bucket_def distinct_map)

lemma row_for_bucket:
  "row_for t (bucket d fs) =
     group_row (filter (\<lambda>f. t_disposition f = d \<and> t_title f = t) (map triage fs))"
proof -
  let ?c = "collapse_duplicates (filter (\<lambda>t. t_disposition t = d) (map triage fs))"
  have "row_for t (bucket d fs) = Some r \<longleftrightarrow> row_for t ?c = Some r" for r
  proof -
    have "set (bucket d fs) = set ?c" by (simp add: bucket_def)
    then show ?thesis
      by (simp only: row_for_distinct[OF distinct_titles_bucket]
          row_for_distinct[OF distinct_titles_collapse])
  qed
  then have "row_for t (bucket d fs) = row_for t ?c" by (metis not_None_eq)
  then show ?thesis
    by (simp only: row_for_collapse filter_filter)
qed

lemma occurrences_bucket:
  "sum_list (map t_occurrences (bucket d fs)) =
     length (filter (\<lambda>f. t_disposition (triage f) = d) fs)"
proof -
  let ?c = "collapse_duplicates (filter (\<lambda>t. t_disposition t = d) (map triage fs))"
  have "mset (bucket d fs) = mset ?c" by (simp add: bucket_def)
  then have "sum_list (map t_occurrences (bucket d fs)) = sum_list (map t_occurrences ?c)"
    by (simp only: sum_mset_sum_list[symmetric] mset_map)
  also have "\<dots> = length (filter (\<lambda>t. t_disposition t = d) (map triage fs))"
    by (rule occurrences_collapse) auto
  finally show ?thesis by (simp add: filter_map comp_def)
qed

lemma sorted_bucket: "sorted (map row_key (bucket d fs))"
  by (simp add: bucket_def)

subsection \<open>Evidence\<close>

lemma split_str_part: "e \<in> set (split_str d s) \<Longrightarrow> str_contains e s"
proof (induction d s rule: split_str.induct)
  case (1 d s)
  show ?case
  proof (cases "split_once_str d s")
    case None
    with "1.prems" have "e = s" by (simp add: split_str_once)
    then have "s = [] @ e @ []" by simp
    then show ?thesis unfolding str_contains_iff by blast
  next
    case (Some p)
    obtain a b where p: "p = (a, b)" by (cases p)
    then have s: "s = a @ d @ b" using Some split_once_str_SomeD by simp
    show ?thesis
    proof (cases "length b < length s")
      case True
      then have "split_str d s = a # split_str d b"
        using Some p by (subst split_str.simps) simp
      with "1.prems" consider "e = a" | "e \<in> set (split_str d b)" by auto
      then show ?thesis
      proof cases
        case 1
        then have "s = [] @ e @ (d @ b)" using s by simp
        then show ?thesis unfolding str_contains_iff by blast
      next
        case 2
        then have "str_contains e b" using "1.IH" Some p True by blast
        then obtain u v where "b = u @ e @ v" by (auto simp: str_contains_iff)
        then have "s = (a @ d @ u) @ e @ v" using s by simp
        then show ?thesis unfolding str_contains_iff by blast
      qed
    next
      case False
      then have "split_str d s = [s]" using Some p by (subst split_str.simps) simp
      with "1.prems" have "s = [] @ e @ []" by simp
      then show ?thesis unfolding str_contains_iff by blast
    qed
  qed
qed

definition shows_evidence :: "string \<Rightarrow> string option \<Rightarrow> bool" where
  "shows_evidence e v = (case v of None \<Rightarrow> False | Some s \<Rightarrow> str_contains e s)"

lemma str_contains_mid: "str_contains e (a @ e @ b)"
  by (auto simp: str_contains_iff)

lemma shows_evidence_new: "shows_evidence e (merge_evidence v (Some e))"
  using str_contains_mid[of e "[]" "[]"]
  by (auto simp: shows_evidence_def merge_evidence_def split_str_part split: option.split)
     (metis append_Cons append_Nil append_Nil2 append_assoc str_contains_mid)

lemma str_contains_append: "str_contains e s \<Longrightarrow> str_contains e (s @ t)"
  unfolding str_contains_iff by (metis append_assoc)

lemma shows_evidence_old: "shows_evidence e v \<Longrightarrow> shows_evidence e (merge_evidence v w)"
  by (auto simp: shows_evidence_def merge_evidence_def str_contains_append split: option.splits)

lemma shows_evidence_foldl:
  "shows_evidence e v \<Longrightarrow> shows_evidence e (foldl merge_evidence v ws)"
  by (induction ws arbitrary: v) (auto intro: shows_evidence_old)

lemma shows_evidence_group:
  "Some e \<in> set ws \<Longrightarrow> shows_evidence e (foldl merge_evidence v ws)"
  by (induction ws arbitrary: v) (auto intro: shows_evidence_foldl shows_evidence_new)

subsection \<open>What the report can be relied on for\<close>

fun section_of :: "disposition \<Rightarrow> triaged_scan \<Rightarrow> triaged list" where
  "section_of Act s = actionable s"
| "section_of Review s = review s"
| "section_of Inventory s = inventory s"

lemma section_of_scan: "section_of d (triage_scan fs) = bucket d fs"
  by (cases d) (simp_all add: triage_scan_def)

text \<open>The findings that describe the same issue to a reader, in the section they belong to.\<close>

definition same_issue :: "finding list \<Rightarrow> finding \<Rightarrow> finding list" where
  "same_issue fs f =
     filter (\<lambda>g. t_disposition (triage g) = t_disposition (triage f)
                 \<and> t_title (triage g) = t_title (triage f)) fs"

lemma same_issue_row:
  assumes "f \<in> set fs"
  obtains r where "r \<in> set (bucket (t_disposition (triage f)) fs)"
    "t_title r = t_title (triage f)"
    "t_occurrences r = length (same_issue fs f)"
    "t_priority r = Max (set (map (t_priority \<circ> triage) (same_issue fs f)))"
    "case extract_evidence f of None \<Rightarrow> True | Some e \<Rightarrow> shows_evidence e (t_evidence r)"
proof -
  let ?d = "t_disposition (triage f)" and ?t = "t_title (triage f)"
  have g: "filter (\<lambda>x. t_disposition x = ?d \<and> t_title x = ?t) (map triage fs) =
      map triage (same_issue fs f)"
    by (simp add: same_issue_def filter_map comp_def)
  have "f \<in> set (same_issue fs f)" using assms by (simp add: same_issue_def)
  then obtain x ys where xs: "same_issue fs f = x # ys" by (cases "same_issue fs f") auto
  let ?r = "foldl fold_into (triage x) (map triage ys)"
  have "row_for ?t (bucket ?d fs) = Some ?r"
    by (simp add: row_for_bucket g xs group_row_def)
  then have r: "?r \<in> set (bucket ?d fs)" "t_title ?r = ?t"
    using row_for_distinct[OF distinct_titles_bucket] by blast+
  have ev: "t_evidence (triage z) = extract_evidence z" for z
    by (simp add: triage_def Let_def split: prod.split)
  have e: "shows_evidence e (t_evidence ?r)" if "extract_evidence f = Some e" for e
  proof -
    have "f = x \<or> f \<in> set ys" using \<open>f \<in> set (same_issue fs f)\<close> xs by auto
    then show ?thesis
    proof
      assume "f = x"
      then have "shows_evidence e (t_evidence (triage x))"
        using that str_contains_mid[of e "[]" "[]"] by (simp add: ev shows_evidence_def)
      then show ?thesis by (simp add: foldl_fold_into shows_evidence_foldl)
    next
      assume "f \<in> set ys"
      then have "Some e \<in> set (map t_evidence (map triage ys))"
        using that by (auto simp: ev intro!: image_eqI[of _ _ f])
      then show ?thesis by (simp only: foldl_fold_into shows_evidence_group)
    qed
  qed
  show ?thesis
  proof (rule that[OF r])
    show "case extract_evidence f of None \<Rightarrow> True | Some e \<Rightarrow> shows_evidence e (t_evidence ?r)"
      using e by (cases "extract_evidence f") simp_all
  qed (simp_all add: foldl_fold_into foldl_max_Max xs image_image comp_def)
qed

lemma row_key_title: "row_key a = row_key b \<Longrightarrow> t_title a = t_title b \<and> t_priority a = t_priority b"
  by (cases "t_priority a"; cases "t_priority b") (auto simp: row_key_def)

lemma group_summary:
  "map_option (\<lambda>r. (t_title r, t_priority r, t_occurrences r)) (group_row (map triage gs)) =
     (if gs = [] then None
      else Some (t_title (triage (hd gs)), Max (set (map (t_priority \<circ> triage) gs)), length gs))"
  by (cases gs) (auto simp: group_row_def foldl_fold_into foldl_max_Max image_image)

lemma row_for_summary_mset:
  assumes "mset fs = mset gs"
  shows "map_option (\<lambda>r. (t_title r, t_priority r, t_occurrences r)) (row_for t (bucket d fs)) =
    map_option (\<lambda>r. (t_title r, t_priority r, t_occurrences r)) (row_for t (bucket d gs))"
proof -
  let ?P = "\<lambda>x. t_disposition (triage x) = d \<and> t_title (triage x) = t"
  have m: "mset (filter ?P fs) = mset (filter ?P gs)" using assms by simp
  have l: "length (filter ?P fs) = length (filter ?P gs)" by (rule mset_eq_length[OF m])
  have s: "set (filter ?P fs) = set (filter ?P gs)" by (rule mset_eq_setD[OF m])
  have e: "filter (\<lambda>x. t_disposition x = d \<and> t_title x = t) (map triage hs) =
      map triage (filter ?P hs)" for hs
    by (simp add: filter_map comp_def)
  have sum: "map_option (\<lambda>r. (t_title r, t_priority r, t_occurrences r)) (row_for t (bucket d hs)) =
      (if length (filter ?P hs) = 0 then None
       else Some (t, Max ((t_priority \<circ> triage) ` set (filter ?P hs)), length (filter ?P hs)))" for hs
  proof (cases "filter ?P hs")
    case (Cons x xs)
    then have "x \<in> set (filter ?P hs)" by simp
    then have "t_title (triage x) = t" by simp
    then show ?thesis
      unfolding row_for_bucket e group_summary Cons by simp
  qed (simp add: row_for_bucket e group_row_def)
  show ?thesis unfolding sum l s ..
qed

lemma bucket_summary_mset:
  assumes "mset fs = mset gs"
  shows "map (\<lambda>r. (t_title r, t_priority r, t_occurrences r)) (bucket d fs) =
    map (\<lambda>r. (t_title r, t_priority r, t_occurrences r)) (bucket d gs)"
proof -
  let ?s = "\<lambda>r. (t_title r, t_priority r, t_occurrences r)"
  have mem: "\<exists>r'\<in>set (bucket d gs). ?s r' = ?s r"
    if r: "r \<in> set (bucket d fs)" and m: "mset fs = mset gs" for r fs gs
  proof -
    have "row_for (t_title r) (bucket d fs) = Some r"
      using row_for_distinct[OF distinct_titles_bucket] r by blast
    then obtain r' where "row_for (t_title r) (bucket d gs) = Some r'" "?s r' = ?s r"
      using row_for_summary_mset[OF m, of "t_title r" d]
      by (cases "row_for (t_title r) (bucket d gs)") auto
    then show ?thesis using row_for_distinct[OF distinct_titles_bucket] by blast
  qed
  have keys: "map row_key (bucket d fs) = map row_key (bucket d gs)"
  proof (rule sorted_distinct_set_unique)
    have "row_key ` set (bucket d fs) \<subseteq> row_key ` set (bucket d gs)"
      if m: "mset fs = mset gs" for fs gs
    proof
      fix k assume "k \<in> row_key ` set (bucket d fs)"
      then obtain r where r: "r \<in> set (bucket d fs)" "k = row_key r" by blast
      obtain r' where "r' \<in> set (bucket d gs)" "?s r' = ?s r" using mem[OF r(1) m] by blast
      then show "k \<in> row_key ` set (bucket d gs)"
        using r(2) by (intro image_eqI[of _ _ r']) (simp_all add: row_key_def)
    qed
    then show "set (map row_key (bucket d fs)) = set (map row_key (bucket d gs))"
      using assms by (metis set_map subset_antisym)
    have inj: "inj_on t_title (set (bucket d hs))" for hs
      using distinct_titles_bucket by (auto simp: distinct_map)
    show "distinct (map row_key (bucket d fs))" "distinct (map row_key (bucket d gs))"
      using inj distinct_titles_bucket
      by (auto simp: distinct_map inj_on_def dest!: row_key_title)
  qed (simp_all add: sorted_bucket)
  show ?thesis
  proof (rule nth_equalityI)
    show len: "length (map ?s (bucket d fs)) = length (map ?s (bucket d gs))"
      using keys by (metis length_map)
    fix i assume "i < length (map ?s (bucket d fs))"
    then have i: "i < length (bucket d fs)" "i < length (bucket d gs)" using len by simp_all
    let ?a = "bucket d fs ! i" and ?b = "bucket d gs ! i"
    have k: "row_key ?a = row_key ?b" using keys i by (metis nth_map)
    obtain r where r: "r \<in> set (bucket d gs)" "?s r = ?s ?a"
      using mem[OF nth_mem[OF i(1)] assms] by blast
    have "t_title r = t_title ?b" using r(2) row_key_title[OF k] by simp
    then have "r = ?b"
      using r(1) i(2) distinct_titles_bucket by (auto simp: distinct_map inj_on_def)
    with r(2) i show "map ?s (bucket d fs) ! i = map ?s (bucket d gs) ! i" by simp
  qed
qed

text \<open>Triage discards nothing.  However the rules file and collapse a scan's findings, the
  sections of the report account for exactly as many observations as the scanner returned.\<close>

lemma triage_keeps_every_observation: "observations (triage_scan fs) = length fs"
proof -
  have split: "length (filter (\<lambda>f. t_disposition (triage f) = Act) fs)
      + length (filter (\<lambda>f. t_disposition (triage f) = Review) fs)
      + length (filter (\<lambda>f. t_disposition (triage f) = Inventory) fs) = length fs"
  proof (induction fs)
    case (Cons f fs)
    then show ?case by (cases "t_disposition (triage f)") simp_all
  qed simp
  then show ?thesis
    by (simp add: observations_def triage_scan_def occurrences_bucket)
qed

text \<open>C36: every finding reaches the reader.  The section its disposition names has a row with its
  title, counting all findings a reader would see as the same issue, no quieter than the loudest
  of them, and showing this finding's own evidence.\<close>

theorem every_finding_is_reported:
  assumes "f \<in> set fs"
  shows "\<exists>r\<in>set (section_of (t_disposition (triage f)) (triage_scan fs)).
    t_title r = t_title (triage f)
    \<and> t_occurrences r = length (same_issue fs f)
    \<and> t_priority r = Max (set (map (t_priority \<circ> triage) (same_issue fs f)))
    \<and> (case extract_evidence f of None \<Rightarrow> True | Some e \<Rightarrow> shows_evidence e (t_evidence r))"
proof -
  obtain r where "r \<in> set (bucket (t_disposition (triage f)) fs)"
    "t_title r = t_title (triage f)" "t_occurrences r = length (same_issue fs f)"
    "t_priority r = Max (set (map (t_priority \<circ> triage) (same_issue fs f)))"
    "case extract_evidence f of None \<Rightarrow> True | Some e \<Rightarrow> shows_evidence e (t_evidence r)"
    by (rule same_issue_row[OF assms])
  then show ?thesis unfolding section_of_scan by blast
qed

definition demo_finding :: finding where
  "demo_finding = \<lparr>f_severity = Low, f_title = ''Debug headers'', f_description = None,
     f_raw = JObj [(''template-id'', JStr ''x-debug-headers''), (''matched-at'', JStr ''u'')]\<rparr>"

theorem every_finding_is_reported_witness:
  "\<exists>r\<in>set (section_of (t_disposition (triage demo_finding)) (triage_scan [demo_finding, demo_finding])).
    t_title r = t_title (triage demo_finding)
    \<and> t_occurrences r = length (same_issue [demo_finding, demo_finding] demo_finding)
    \<and> t_priority r = Max (set (map (t_priority \<circ> triage) (same_issue [demo_finding, demo_finding] demo_finding)))
    \<and> (case extract_evidence demo_finding of None \<Rightarrow> True
       | Some e \<Rightarrow> shows_evidence e (t_evidence r))"
  by (rule every_finding_is_reported) simp



text \<open>The rules fail towards visibility.  A finding the scanner rates Medium or higher is filed
  as inventory only by the two rules that recognise its template: the inventory list, and the
  certificate-expiry rule for a certificate that is not near expiry.\<close>

lemma severe_findings_stay_visible:
  assumes "f_severity f \<ge> Medium"
    and "t_template (triage f) \<notin> set inventory_templates"
    and "t_template (triage f) \<noteq> ''tls-certificate-expiry''"
  shows "t_disposition (triage f) \<noteq> Inventory"
proof -
  let ?t = "t_template (triage f)" and ?m = "t_matcher (triage f)"
  have t: "t_disposition (triage f) = fst (classify ?t ?m (f_severity f))"
    by (simp add: triage_def Let_def split: prod.split)
  have h: "fst (headers_rule m) \<noteq> Inventory" for m by (simp add: headers_rule_def)
  have l: "fst (fallback_rule s) \<noteq> Inventory" if "s \<ge> Medium" for s
    using that by (cases s) (simp_all add: less_eq_severity_def)
  show ?thesis
    unfolding t classify_def using assms h l by simp
qed

lemma severe_findings_stay_visible_witness:
  "t_disposition (triage (demo_finding\<lparr>f_severity := High\<rparr>)) \<noteq> Inventory"
  by (rule severe_findings_stay_visible)
     (simp_all add: demo_finding_def triage_template get_str_def jget.simps classify_def
        inventory_templates_def less_eq_severity_def str_or_empty_def transport_templates_def)

text \<open>Evidence that already lists several values is not recognised when it is seen again.  The
  comparison is with each part of what is kept, so a second sighting of the same list doubles it,
  where the comment on the code says that it adds nothing.\<close>

lemma repeated_list_evidence_doubles:
  assumes "str_contains '', '' e"
  shows "merge_evidence (Some e) (Some e) = Some (e @ '', '' @ e)"
proof -
  obtain a b where s: "split_once_str '', '' e = Some (a, b)"
    using assms split_once_str_None_iff by (cases "split_once_str '', '' e") auto
  then have l: "length a < length e" "length b < length e"
    using split_once_str_SomeD[OF s] by simp_all
  have "e \<notin> set (split_str '', '' e)"
  proof
    assume "e \<in> set (split_str '', '' e)"
    then have "e = a \<or> e \<in> set (split_str '', '' b)" using split_str_step[OF _ s] by simp
    then show False
    proof
      assume "e \<in> set (split_str '', '' b)"
      then have "str_contains e b" by (rule split_str_part)
      then show False using l by (auto simp: str_contains_iff)
    qed (use l in simp)
  qed
  then show ?thesis by (simp add: merge_evidence_def)
qed

lemma repeated_list_evidence_doubles_witness:
  "merge_evidence (Some ''a, b'') (Some ''a, b'') = Some (''a, b'' @ '', '' @ ''a, b'')"
  by (rule repeated_list_evidence_doubles) simp

end
