(* ===== verification/Mail.thy ===== *)
theory Mail
  imports Clock Strs
begin

text \<open>
  \<open>crates/orchestrator/src/mailer.rs\<close> as the other components use it: which template is sent with
  which arguments, and the links into the dashboard.  A message is the template's name with its
  arguments; how it reads is theory \<open>MailText\<close>.
\<close>

datatype message =
    ChangeEmail string string string string
      \<comment> \<open>domain, summary, detail, link\<close>
  | OwnershipLapsingEmail string string time string
      \<comment> \<open>first name, domain, expiry, link\<close>
  | TrialEndingEmail string string time "string option" string string
      \<comment> \<open>first name, plan, end, first charge, interval, link\<close>
  | TrialStartedEmail string string time "string option" string string int int bool
      \<comment> \<open>first name, plan, end, first charge, interval, link, sites, scans, consented\<close>
  | TrialRejectedEmail string string string
      \<comment> \<open>first name, plan, link\<close>
  | CheckoutFailedEmail string string string
      \<comment> \<open>first name, plan, link\<close>
  | SubscriptionEmail string string int bool string "time option" bool
      \<comment> \<open>first name, plan, sites, scheduling, link, trial end, consented\<close>
  | SubscriptionEndedEmail string string bool string
      \<comment> \<open>first name, plan, payment problem, link\<close>
  | DuplicateSubscriptionNotice string string string
      \<comment> \<open>address, kept, cancelled\<close>
  | CancellationNoticeEmail string string "string option" time "string option" "string option" string
      \<comment> \<open>plan, address, country, end, reason, comment, subscription\<close>
  | VerificationEmail string string
      \<comment> \<open>first name, link\<close>
  | WelcomeEmail string string
      \<comment> \<open>first name, link\<close>
  | PasswordResetEmail string string int
      \<comment> \<open>first name, link, minutes\<close>
  | PasswordChangedEmail string
      \<comment> \<open>first name\<close>
  | EmailChangeConfirmation string string int
      \<comment> \<open>first name, link, minutes\<close>
  | EmailChangeAlert string string
      \<comment> \<open>first name, new address\<close>
  | PreviewReportEmail string "(string \<times> string \<times> bool) list" string
      \<comment> \<open>domain, lines, site\<close>

type_synonym outbox = "(string \<times> message) list"

definition app_link :: "string \<Rightarrow> string \<Rightarrow> string" where
  "app_link public_url hash_path = public_url @ ''/app#'' @ hash_path"

definition verification_link :: "string \<Rightarrow> string \<Rightarrow> string" where
  "verification_link public_url token = app_link public_url (''/verify/'' @ token)"

definition reset_link :: "string \<Rightarrow> string \<Rightarrow> string" where
  "reset_link public_url token = app_link public_url (''/reset/'' @ token)"

text \<open>\<open>money\<close>: \<open>/\<close> and \<open>%\<close> on \<open>i64\<close> truncate towards zero, and \<open>{:02}\<close> pads to two
  characters, the sign included.\<close>

definition trem :: "int \<Rightarrow> int \<Rightarrow> int" where
  "trem a b = a - b * tdiv a b"

definition pad2 :: "int \<Rightarrow> string" where
  "pad2 n = (if 0 \<le> n \<and> n < 10 then ''0'' @ show_int n else show_int n)"

definition to_ascii_uppercase :: "string \<Rightarrow> string" where
  "to_ascii_uppercase s = map (\<lambda>c. if is_lower c then char_of (code_of c - 32) else c) s"

definition currency_symbol :: "string \<Rightarrow> string" where
  "currency_symbol currency =
     (let c = to_ascii_lowercase currency in
      if c = ''eur'' then [CHR 0xE2, CHR 0x82, CHR 0xAC]
      else if c = ''usd'' then ''$''
      else if c = ''gbp'' then [CHR 0xC2, CHR 0xA3]
      else to_ascii_uppercase c @ '' '')"

definition money :: "int \<Rightarrow> string \<Rightarrow> string" where
  "money amount currency =
     (if trem amount 100 = 0 then currency_symbol currency @ show_int (tdiv amount 100)
      else currency_symbol currency @ show_int (tdiv amount 100) @ ''.'' @ pad2 (trem amount 100))"

end
