(* ===== verification/Runner.thy ===== *)
theory Runner
  imports ScanGate Triage Mail "HOL-Library.Option_ord"
begin

text \<open>
  \<open>crates/orchestrator/src/runner.rs\<close>: claiming a queued job, checking the gate again, running the
  tool and reporting a change.  The two scanners are parameters (a domain to findings, or the text
  of the error); what they do themselves is \<open>Tls\<close> and \<open>Nuclei\<close>.  A message handed to the
  mailer is an entry of the outbox: delivery failures are only logged here.
\<close>

record claimed_job =
  cj_id :: uid
  cj_target :: uid
  cj_tool :: string

definition STALE_RUNNING_MINUTES :: int where "STALE_RUNNING_MINUTES = 60"

definition requeue_interrupted :: "time \<Rightarrow> db \<Rightarrow> db" where
  "requeue_interrupted now d = d\<lparr>jobs := update_where
     (\<lambda>j. j_status j = Running
        \<and> (case j_started j of None \<Rightarrow> False | Some s \<Rightarrow> s < now - minutes STALE_RUNNING_MINUTES))
     (\<lambda>j. j\<lparr>j_status := Queued, j_started := None\<rparr>) (jobs d)\<rparr>"

text \<open>\<open>order by created_at limit 1\<close>, equal times in table order.\<close>

fun earliest_by :: "('a \<Rightarrow> 'k::linorder) \<Rightarrow> 'a list \<Rightarrow> 'a option" where
  "earliest_by k [] = None"
| "earliest_by k (x # xs) =
     (case earliest_by k xs of None \<Rightarrow> Some x | Some y \<Rightarrow> if k x \<le> k y then Some x else Some y)"

definition next_queued :: "db \<Rightarrow> job option" where
  "next_queued d = earliest_by j_created (filter (\<lambda>j. j_status j = Queued) (jobs d))"

definition claim_next_job :: "time \<Rightarrow> db \<Rightarrow> claimed_job option \<times> db" where
  "claim_next_job now d =
     (case next_queued d of
        None \<Rightarrow> (None, d)
      | Some j \<Rightarrow>
          (Some \<lparr>cj_id = j_id j, cj_target = j_target j, cj_tool = j_tool j\<rparr>,
           d\<lparr>jobs := update_where (\<lambda>x. j_id x = j_id j)
               (\<lambda>x. x\<lparr>j_status := Running, j_started := Some now\<rparr>) (jobs d)\<rparr>))"

definition authorized_domain :: "time \<Rightarrow> db \<Rightarrow> uid \<Rightarrow> string option" where
  "authorized_domain now d tid =
     (case target_by_id d tid of
        None \<Rightarrow> None
      | Some t \<Rightarrow>
          if is_currently_verified (status_of_proof (latest_proof d tid)) now
          then Some (tg_domain t) else None)"

definition store_findings :: "uid \<Rightarrow> finding list \<Rightarrow> db \<Rightarrow> db" where
  "store_findings jid fs d = d\<lparr>results := results d @ map (row_of_finding jid) fs\<rparr>"

definition load_findings :: "db \<Rightarrow> uid \<Rightarrow> finding list" where
  "load_findings d jid = map finding_of_row (filter (\<lambda>r. r_job r = jid) (results d))"

definition fail_job :: "time \<Rightarrow> uid \<Rightarrow> string \<Rightarrow> db \<Rightarrow> db" where
  "fail_job now jid reason d = d\<lparr>jobs := update_where (\<lambda>j. j_id j = jid)
     (\<lambda>j. j\<lparr>j_status := Failed, j_completed := Some now, j_reason := Some reason\<rparr>) (jobs d)\<rparr>"

definition complete_job :: "time \<Rightarrow> uid \<Rightarrow> db \<Rightarrow> db" where
  "complete_job now jid d = d\<lparr>jobs := update_where (\<lambda>j. j_id j = jid)
     (\<lambda>j. j\<lparr>j_status := Completed, j_completed := Some now\<rparr>) (jobs d)\<rparr>"

text \<open>\<open>order by completed_at desc nulls last\<close>: the order on options puts \<open>None\<close> below.\<close>

definition previous_actionable_keys :: "db \<Rightarrow> uid \<Rightarrow> string \<Rightarrow> uid \<Rightarrow> string list option" where
  "previous_actionable_keys d tid tool current =
     (case latest_by j_completed
             (filter (\<lambda>j. j_target j = tid \<and> j_tool j = tool \<and> j_id j \<noteq> current
                \<and> j_status j = Completed) (jobs d)) of
        None \<Rightarrow> None
      | Some j \<Rightarrow> Some (actionable_keys (load_findings d (j_id j))))"

definition report_change ::
    "string \<Rightarrow> db \<Rightarrow> claimed_job \<Rightarrow> change \<Rightarrow> int option \<Rightarrow> int \<Rightarrow> outbox" where
  "report_change public_url d job chg previous current =
     (if \<not> worth_reporting chg then []
      else (case target_by_id d (cj_target job) of
              None \<Rightarrow> []
            | Some t \<Rightarrow>
                (case user_by_id d (tg_user t) of
                   None \<Rightarrow> []
                 | Some u \<Rightarrow>
                     if tg_cadence t = ''manual'' then []
                     else
                       (let summary = headline (tg_domain t) chg;
                            detail = (case previous of
                                Some p \<Rightarrow> ''The last scan found '' @ show_int p
                                  @ '' to fix. This one found '' @ show_int current @ ''.''
                              | None \<Rightarrow> ''This scan found '' @ show_int current @ '' to fix.'');
                            link = app_link public_url (''/scans/'' @ show_nat (cj_id job))
                        in [(u_email u, ChangeEmail (tg_domain t) summary detail link)]))))"

text \<open>What a tool returns: the text of its error, or its findings.\<close>

type_synonym scanner = "string \<Rightarrow> string + finding list"

definition run_tool :: "scanner \<Rightarrow> scanner \<Rightarrow> string \<Rightarrow> string \<Rightarrow> string + finding list" where
  "run_tool nuclei tls tool domain =
     (if tool = ''nuclei'' then nuclei domain
      else if tool = ''tls'' then tls domain
      else Inl (''unsupported tool '' @ quoted tool))"

text \<open>\<open>now\<close> is when the gate is checked, \<open>later\<close> when the tool has ended.\<close>

definition execute ::
    "scanner \<Rightarrow> scanner \<Rightarrow> string \<Rightarrow> time \<Rightarrow> time \<Rightarrow> claimed_job \<Rightarrow> db \<Rightarrow> db \<times> outbox" where
  "execute nuclei tls public_url now later job d =
     (case authorized_domain now d (cj_target job) of
        None \<Rightarrow>
          (fail_job now (cj_id job) ''target ownership verification lapsed before this job ran'' d, [])
      | Some domain \<Rightarrow>
          (case run_tool nuclei tls (cj_tool job) domain of
             Inl err \<Rightarrow> (fail_job later (cj_id job) err d, [])
           | Inr findings \<Rightarrow>
               (let previous = previous_actionable_keys d (cj_target job) (cj_tool job) (cj_id job);
                    d' = complete_job later (cj_id job) (store_findings (cj_id job) findings d);
                    current = actionable_keys findings
                in (d', report_change public_url d' job (compare_identities previous current)
                          (map_option (\<lambda>ks. int (length ks)) previous) (int (length current))))))"

subsection \<open>Lemmas\<close>

lemma earliest_by_None_iff [simp]: "earliest_by k xs = None \<longleftrightarrow> xs = []"
  by (cases xs) (auto split: option.splits)

lemma earliest_by_mem: "earliest_by k xs = Some x \<Longrightarrow> x \<in> set xs"
  by (induction xs arbitrary: x) (auto split: option.splits if_splits)

lemma earliest_by_min: "earliest_by k xs = Some x \<Longrightarrow> y \<in> set xs \<Longrightarrow> k x \<le> k y"
proof (induction xs arbitrary: x)
  case (Cons a xs)
  show ?case
  proof (cases "earliest_by k xs")
    case None
    with Cons.prems show ?thesis by auto
  next
    case (Some z)
    with Cons.IH[OF Some] Cons.prems show ?thesis
      by (auto split: if_splits dest: order_trans)
  qed
qed simp

lemma load_store: "load_findings (store_findings jid fs d) jid = load_findings d jid @ fs"
  by (simp add: load_findings_def store_findings_def filter_map comp_def row_of_finding_def
      finding_of_row_def from_tool_label_db_str map_idI)

lemma load_store_other: "jid' \<noteq> jid \<Longrightarrow> load_findings (store_findings jid fs d) jid' = load_findings d jid'"
  by (simp add: load_findings_def store_findings_def filter_map comp_def row_of_finding_def)

lemma load_findings_complete [simp]: "load_findings (complete_job t j d) i = load_findings d i"
  by (simp add: load_findings_def complete_job_def)

lemma authorized_domain_SomeD:
  "authorized_domain now d tid = Some domain \<Longrightarrow>
     \<exists>t v. target_by_id d tid = Some t \<and> tg_domain t = domain \<and> latest_proof d tid = Some v \<and> in_force v now"
  by (cases "latest_proof d tid")
     (auto simp: authorized_domain_def in_force_def split: option.splits if_splits)


subsection \<open>The queue\<close>

lemma earliest_by_split:
  "earliest_by k xs = Some x \<Longrightarrow> \<exists>a b. xs = a @ x # b \<and> (\<forall>y\<in>set a. k x < k y)"
proof (induction xs arbitrary: x)
  case (Cons z xs)
  show ?case
  proof (cases "earliest_by k xs")
    case None
    with Cons.prems have "z # xs = [] @ x # [] \<and> (\<forall>w\<in>set []. k x < k w)" by simp
    then show ?thesis by blast
  next
    case (Some y)
    show ?thesis
    proof (cases "k z \<le> k y")
      case True
      with Some Cons.prems have "z # xs = [] @ x # xs \<and> (\<forall>w\<in>set []. k x < k w)" by simp
      then show ?thesis by blast
    next
      case False
      with Some Cons.prems have x: "x = y" by simp
      obtain a b where "xs = a @ y # b" "\<forall>w\<in>set a. k y < k w" using Cons.IH[OF Some] by blast
      with x False have "z # xs = (z # a) @ x # b \<and> (\<forall>w\<in>set (z # a). k x < k w)" by auto
      then show ?thesis by blast
    qed
  qed
qed simp

lemma sort_key_earliest:
  assumes "earliest_by k xs = Some x"
  shows "\<exists>a b. xs = a @ x # b \<and> sort_key k xs = x # sort_key k (a @ b)"
proof -
  obtain a b where ab: "xs = a @ x # b" "\<forall>y\<in>set a. k x < k y"
    using earliest_by_split[OF assms] by blast
  have "sort_key k xs = x # sort_key k (a @ b)"
  proof (rule properties_for_sort_key)
    show "mset (x # sort_key k (a @ b)) = mset xs" by (simp add: ab(1))
    show "sorted (map k (x # sort_key k (a @ b)))"
      using earliest_by_min[OF assms] by (auto simp: ab(1))
    fix y assume "y \<in> set (x # sort_key k (a @ b))"
    have "filter (\<lambda>w. k y = k w) (sort_key k (a @ b)) = filter (\<lambda>w. k y = k w) (a @ b)"
    proof -
      have "(\<lambda>w. k y = k w) = (\<lambda>w. k w = k y)" by auto
      then show ?thesis by (simp only: sort_key_stable)
    qed
    moreover have "k y = k x \<Longrightarrow> filter (\<lambda>w. k y = k w) a = []"
      using ab(2) by (auto simp: filter_empty_conv)
    ultimately show "filter (\<lambda>w. k y = k w) (x # sort_key k (a @ b)) = filter (\<lambda>w. k y = k w) xs"
      by (auto simp: ab(1))
  qed
  with ab(1) show ?thesis by blast
qed

definition queued :: "db \<Rightarrow> job list" where
  "queued d = filter (\<lambda>j. j_status j = Queued) (jobs d)"

lemma filter_update_one:
  assumes "xs = a @ x # b" "distinct (map k xs)" "P x" "\<not> P (f x)"
  shows "filter P (map (\<lambda>y. if k y = k x then f y else y) xs) = filter P (a @ b)"
proof -
  have "\<forall>y\<in>set a \<union> set b. k y \<noteq> k x" using assms(1,2) by (auto, (metis image_eqI)+)
  then have "map (\<lambda>y. if k y = k x then f y else y) a = a" "map (\<lambda>y. if k y = k x then f y else y) b = b"
    by (auto intro!: map_idI)
  then show ?thesis using assms by simp
qed

lemma filter_split: "filter P xs = a @ x # b \<Longrightarrow> \<exists>u v. xs = u @ x # v \<and> filter P u = a \<and> filter P v = b"
proof (induction xs arbitrary: a)
  case (Cons y ys)
  show ?case
  proof (cases "P y \<and> a = []")
    case True
    then have "y # ys = [] @ x # ys \<and> filter P [] = a \<and> filter P ys = b" using Cons.prems by simp
    then show ?thesis by blast
  next
    case False
    define a' where "a' = (if P y then tl a else a)"
    have a: "a = (if P y then y # a' else a')" and "filter P ys = a' @ x # b"
      using False Cons.prems by (cases a; auto simp: a'_def)+
    then obtain u v where "ys = u @ x # v" "filter P u = a'" "filter P v = b" using Cons.IH by blast
    then have "y # ys = (y # u) @ x # v \<and> filter P (y # u) = a \<and> filter P v = b" using a by simp
    then show ?thesis by blast
  qed
qed simp

lemma claim_queue:
  assumes "distinct (map j_id (jobs d))"
  shows "case sort_key j_created (queued d) of
      [] \<Rightarrow> claim_next_job now d = (None, d)
    | j # js \<Rightarrow> (\<exists>d'. claim_next_job now d =
          (Some \<lparr>cj_id = j_id j, cj_target = j_target j, cj_tool = j_tool j\<rparr>, d')
          \<and> sort_key j_created (queued d') = js \<and> map j_id (jobs d') = map j_id (jobs d))"
proof (cases "next_queued d")
  case None
  then have "queued d = []" by (simp add: next_queued_def queued_def)
  then show ?thesis using None by (simp add: claim_next_job_def)
next
  case (Some j)
  from sort_key_earliest[OF this[unfolded next_queued_def]]
  obtain a b where ab: "queued d = a @ j # b"
      "sort_key j_created (queued d) = j # sort_key j_created (a @ b)"
    unfolding queued_def by blast
  obtain u v where uv: "jobs d = u @ j # v" "filter (\<lambda>j. j_status j = Queued) u = a"
      "filter (\<lambda>j. j_status j = Queued) v = b"
    using filter_split[OF ab(1)[unfolded queued_def]] by blast
  have "j \<in> set (queued d)" by (simp add: ab(1))
  then have "j_status j = Queued" by (simp add: queued_def)
  let ?f = "\<lambda>y. y\<lparr>j_status := Running, j_started := Some now\<rparr>"
  have "j_status (?f j) \<noteq> Queued" by simp
  from filter_update_one[of "jobs d" u j v j_id "\<lambda>j. j_status j = Queued" ?f,
      OF uv(1) assms \<open>j_status j = Queued\<close> this]
  have q: "filter (\<lambda>j. j_status j = Queued) (map (\<lambda>y. if j_id y = j_id j then ?f y else y) (jobs d)) = a @ b"
    by (simp only: filter_append uv(2,3))
  let ?d = "d\<lparr>jobs := update_where (\<lambda>x. j_id x = j_id j)
      (\<lambda>x. x\<lparr>j_status := Running, j_started := Some now\<rparr>) (jobs d)\<rparr>"
  have "queued ?d = a @ b" using q by (simp add: queued_def update_where_def)
  moreover have "map j_id (jobs ?d) = map j_id (jobs d)" by (simp add: map_update_where)
  ultimately show ?thesis
    unfolding ab(2) list.case by (intro exI[of _ ?d]) (simp add: claim_next_job_def Some)
qed

text \<open>Claiming until nothing is queued: the jobs in the order they were claimed.\<close>

fun drain :: "nat \<Rightarrow> time \<Rightarrow> db \<Rightarrow> claimed_job list \<times> db" where
  "drain 0 now d = ([], d)"
| "drain (Suc n) now d =
     (case claim_next_job now d of
        (None, d') \<Rightarrow> ([], d')
      | (Some c, d') \<Rightarrow> (let (cs, d'') = drain n (now + 1) d' in (c # cs, d'')))"

lemma drain_queue:
  "distinct (map j_id (jobs d)) \<Longrightarrow> length (queued d) \<le> n \<Longrightarrow>
     map cj_id (fst (drain n now d)) = map j_id (sort_key j_created (queued d))
     \<and> queued (snd (drain n now d)) = []"
proof (induction n arbitrary: now d)
  case (Suc n)
  show ?case
  proof (cases "sort_key j_created (queued d)")
    case Nil
    then have "queued d = []" by (metis length_0_conv length_sort)
    then show ?thesis using claim_queue[OF Suc.prems(1), of now] Nil by simp
  next
    case (Cons j js)
    then obtain d' where d': "claim_next_job now d =
          (Some \<lparr>cj_id = j_id j, cj_target = j_target j, cj_tool = j_tool j\<rparr>, d')"
        "sort_key j_created (queued d') = js" "map j_id (jobs d') = map j_id (jobs d)"
      using claim_queue[OF Suc.prems(1), of now] by auto
    have "Suc (length js) \<le> Suc n" using Suc.prems(2) Cons by (metis length_Cons length_sort)
    then have "length (queued d') \<le> n" using d'(2) by (metis Suc_le_mono length_sort)
    then have "map cj_id (fst (drain n (now + 1) d')) = map j_id js
        \<and> queued (snd (drain n (now + 1) d')) = []"
      using Suc.IH[of d' "now + 1"] d'(2,3) Suc.prems(1) by simp
    then show ?thesis using d'(1) Cons by (cases "drain n (now + 1) d'") simp
  qed
qed (auto simp: queued_def)

subsection \<open>Job status\<close>

text \<open>The transitions of one job that the runner makes.\<close>

inductive job_moves :: "job \<Rightarrow> job \<Rightarrow> bool" where
  unchanged: "job_moves j j"
| claimed: "j_status j = Queued \<Longrightarrow> job_moves j (j\<lparr>j_status := Running, j_started := Some t\<rparr>)"
| requeued: "j_status j = Running \<Longrightarrow> job_moves j (j\<lparr>j_status := Queued, j_started := None\<rparr>)"
| completed: "j_status j = Running \<Longrightarrow>
    job_moves j (j\<lparr>j_status := Completed, j_completed := Some t\<rparr>)"
| failed: "j_status j = Running \<Longrightarrow>
    job_moves j (j\<lparr>j_status := Failed, j_completed := Some t, j_reason := Some r\<rparr>)"

inductive_cases job_movesE: "job_moves j j'"

lemma job_moves_fields:
  "job_moves j j' \<Longrightarrow> j_id j' = j_id j \<and> j_target j' = j_target j \<and> j_auth j' = j_auth j
     \<and> j_tool j' = j_tool j \<and> j_created j' = j_created j"
  by (elim job_movesE) auto

lemma job_moves_final: "job_moves j j' \<Longrightarrow> j_status j \<in> {Completed, Failed} \<Longrightarrow> j' = j"
  by (elim job_movesE) auto

lemma list_all2_update_where:
  "(\<And>x. x \<in> set xs \<Longrightarrow> P x \<Longrightarrow> R x (f x)) \<Longrightarrow> (\<And>x. R x x) \<Longrightarrow> list_all2 R xs (update_where P f xs)"
  by (simp add: update_where_def list_all2_conv_all_nth)

lemma requeue_moves: "list_all2 job_moves (jobs d) (jobs (requeue_interrupted now d))"
  unfolding requeue_interrupted_def
  by (simp, rule list_all2_update_where) (auto intro: job_moves.intros)

lemma same_id:
  "distinct (map k xs) \<Longrightarrow> x \<in> set xs \<Longrightarrow> y \<in> set xs \<Longrightarrow> k x = k y \<Longrightarrow> x = y"
  by (auto simp: distinct_map inj_on_def)

lemma claim_moves:
  assumes "distinct (map j_id (jobs d))"
  shows "list_all2 job_moves (jobs d) (jobs (snd (claim_next_job now d)))"
proof (cases "next_queued d")
  case None
  then show ?thesis by (simp add: claim_next_job_def list_all2_same unchanged)
next
  case (Some j)
  then have j: "j \<in> set (jobs d)" "j_status j = Queued"
    using earliest_by_mem unfolding next_queued_def by fastforce+
  show ?thesis
    unfolding claim_next_job_def Some option.case snd_conv
    by (simp, rule list_all2_update_where)
       (use same_id[OF assms _ j(1)] j(2) in \<open>auto intro: job_moves.intros\<close>)
qed

lemma fail_moves:
  assumes "\<forall>j\<in>set (jobs d). j_id j = jid \<longrightarrow> j_status j = Running"
  shows "list_all2 job_moves (jobs d) (jobs (fail_job now jid r d))"
  unfolding fail_job_def using assms
  by (simp, intro list_all2_update_where) (auto intro: job_moves.intros)

lemma complete_moves:
  assumes "\<forall>j\<in>set (jobs d). j_id j = jid \<longrightarrow> j_status j = Running"
  shows "list_all2 job_moves (jobs d) (jobs (complete_job now jid d))"
  unfolding complete_job_def using assms
  by (simp, intro list_all2_update_where) (auto intro: job_moves.intros)

lemma execute_cases:
  obtains reason t where "fst (execute nuclei tls url now later job d) = fail_job t (cj_id job) reason d"
      "snd (execute nuclei tls url now later job d) = []"
    | fs where "fst (execute nuclei tls url now later job d) =
        complete_job later (cj_id job) (store_findings (cj_id job) fs d)"
      "\<exists>domain. authorized_domain now d (cj_target job) = Some domain
         \<and> run_tool nuclei tls (cj_tool job) domain = Inr fs"
proof (cases "authorized_domain now d (cj_target job)")
  case None
  then show ?thesis using that(1) by (simp add: execute_def)
next
  case (Some domain)
  then show ?thesis
    using that by (cases "run_tool nuclei tls (cj_tool job) domain") (simp_all add: execute_def Let_def)
qed

lemma execute_moves:
  assumes "\<forall>j\<in>set (jobs d). j_id j = cj_id job \<longrightarrow> j_status j = Running"
  shows "list_all2 job_moves (jobs d) (jobs (fst (execute nuclei tls url now later job d)))"
proof (cases rule: execute_cases[of nuclei tls url now later job d])
  case 1
  then show ?thesis using fail_moves[OF assms] by simp
next
  case (2 fs)
  have "\<forall>j\<in>set (jobs (store_findings (cj_id job) fs d)). j_id j = cj_id job \<longrightarrow> j_status j = Running"
    using assms by (simp add: store_findings_def)
  from complete_moves[OF this] show ?thesis unfolding 2(1) by (simp add: store_findings_def)
qed

lemma execute_fields:
  "proofs (fst (execute nuclei tls url now later job d)) = proofs d"
  "authorizations (fst (execute nuclei tls url now later job d)) = authorizations d"
  by (cases rule: execute_cases[of nuclei tls url now later job d];
      simp add: fail_job_def complete_job_def store_findings_def)+

subsection \<open>Properties\<close>

text \<open>The gate is checked again where the packets are sent.  What a tool would report about any
  domain other than the target's own, or about the target's own while its latest proof is not in
  force, has no influence on the database or on the mail: executing a job with two scanners that
  differ only there is the same step.\<close>

lemma execute_only_verified_domain:
  assumes "\<And>t v. target_by_id d (cj_target job) = Some t \<Longrightarrow> latest_proof d (cj_target job) = Some v \<Longrightarrow>
      in_force v now \<Longrightarrow>
      nuclei (tg_domain t) = nuclei' (tg_domain t) \<and> tls (tg_domain t) = tls' (tg_domain t)"
  shows "execute nuclei tls url now later job d = execute nuclei' tls' url now later job d"
proof (cases "authorized_domain now d (cj_target job)")
  case None
  then show ?thesis by (simp add: execute_def)
next
  case (Some domain)
  then obtain t v where "target_by_id d (cj_target job) = Some t" "tg_domain t = domain"
      "latest_proof d (cj_target job) = Some v" "in_force v now"
    using authorized_domain_SomeD by blast
  then have "nuclei domain = nuclei' domain \<and> tls domain = tls' domain" using assms by blast
  then have "run_tool nuclei tls (cj_tool job) domain = run_tool nuclei' tls' (cj_tool job) domain"
    by (simp add: run_tool_def)
  then show ?thesis by (simp add: execute_def Some)
qed

definition empty_db :: db where
  "empty_db = \<lparr>users = [], targets = [], proofs = [], authorizations = [], jobs = [], results = [],
     entitlements = [], claims = [], events = [], consents = [], preview_sends = [], buckets = [], growth = []\<rparr>"

lemma execute_only_verified_domain_witness:
  "execute (\<lambda>_. Inr []) (\<lambda>_. Inl ''a'') ''u'' 5 6 \<lparr>cj_id = 1, cj_target = 2, cj_tool = ''tls''\<rparr> empty_db
   = execute (\<lambda>_. Inl ''b'') (\<lambda>_. Inr []) ''u'' 5 6 \<lparr>cj_id = 1, cj_target = 2, cj_tool = ''tls''\<rparr> empty_db"
  by (rule execute_only_verified_domain) (simp add: target_by_id_def empty_db_def)

text \<open>Executing a job settles it.  The job ends failed or completed, with its end stamped; every
  other job, and the results of every other job, are as they were; and only what its tool reported on
  the authorized domain is added to the results of this job.\<close>

lemma execute_settles:
  "(let d' = fst (execute nuclei tls url now later job d) in
    list_all2 (\<lambda>j j'. if j_id j = cj_id job
        then j_id j' = j_id j \<and> j_status j' \<in> {Failed, Completed} \<and> j_completed j' \<noteq> None
        else j' = j) (jobs d) (jobs d')
    \<and> filter (\<lambda>r. r_job r \<noteq> cj_id job) (results d') = filter (\<lambda>r. r_job r \<noteq> cj_id job) (results d)
    \<and> (\<exists>fs. load_findings d' (cj_id job) = load_findings d (cj_id job) @ fs
        \<and> (fs = [] \<or> (\<exists>domain. authorized_domain now d (cj_target job) = Some domain
                        \<and> run_tool nuclei tls (cj_tool job) domain = Inr fs))))"
proof (cases rule: execute_cases[of nuclei tls url now later job d])
  case (1 reason t)
  show ?thesis
    unfolding 1(1) Let_def
    by (auto simp: fail_job_def update_where_def list_all2_conv_all_nth load_findings_def)
next
  case (2 fs)
  let ?d = "complete_job later (cj_id job) (store_findings (cj_id job) fs d)"
  have "load_findings ?d (cj_id job) = load_findings d (cj_id job) @ fs"
    by (simp add: load_store)
  moreover have "filter (\<lambda>r. r_job r \<noteq> cj_id job) (results ?d) = filter (\<lambda>r. r_job r \<noteq> cj_id job) (results d)"
    by (simp add: complete_job_def store_findings_def row_of_finding_def filter_map comp_def)
  moreover have "list_all2 (\<lambda>j j'. if j_id j = cj_id job
        then j_id j' = j_id j \<and> j_status j' \<in> {Failed, Completed} \<and> j_completed j' \<noteq> None
        else j' = j) (jobs d) (jobs ?d)"
    by (auto simp: complete_job_def store_findings_def update_where_def list_all2_conv_all_nth)
  ultimately show ?thesis unfolding 2(1) Let_def using 2(2) by blast
qed

text \<open>The queue is served in order and nobody starves.  Claiming as often as there are queued jobs
  returns every one of them exactly once, oldest first (equal times in table order), and leaves
  nothing queued.\<close>

lemma claims_drain_queue:
  assumes "distinct (map j_id (jobs d))"
  shows "map cj_id (fst (drain (length (queued d)) now d)) = map j_id (sort_key j_created (queued d))
    \<and> queued (snd (drain (length (queued d)) now d)) = []"
  using assms by (rule drain_queue) simp

definition demo_job :: "uid \<Rightarrow> time \<Rightarrow> job" where
  "demo_job i t = queue_job t i 1 9 ''tls''"

lemma claims_drain_queue_witness:
  "map cj_id (fst (drain (length (queued (empty_db\<lparr>jobs := [demo_job 3 7, demo_job 4 2]\<rparr>))) 10
        (empty_db\<lparr>jobs := [demo_job 3 7, demo_job 4 2]\<rparr>)))
     = map j_id (sort_key j_created (queued (empty_db\<lparr>jobs := [demo_job 3 7, demo_job 4 2]\<rparr>)))
   \<and> queued (snd (drain (length (queued (empty_db\<lparr>jobs := [demo_job 3 7, demo_job 4 2]\<rparr>))) 10
        (empty_db\<lparr>jobs := [demo_job 3 7, demo_job 4 2]\<rparr>))) = []"
  by (rule claims_drain_queue) (simp add: demo_job_def queue_job_def)


definition demo_world :: db where
  "demo_world = empty_db\<lparr>users := [user_row 7 ''o@a'' ''p''],
     targets := [\<lparr>tg_id = 1, tg_user = 7, tg_domain = ''a.example'', tg_client = None,
       tg_cadence = ''weekly'', tg_last_scheduled = None, tg_created = 0\<rparr>],
     proofs := [\<lparr>v_id = 2, v_target = 1, v_method = ''dns_txt'', v_token = ''t'',
       v_verified_at = Some 0, v_expires_at = Some 100, v_created = 0\<rparr>],
     jobs := [(demo_job 3 0)\<lparr>j_status := Completed, j_completed := Some 1\<rparr>,
              (demo_job 4 2)\<lparr>j_status := Running, j_started := Some 3\<rparr>]\<rparr>"

definition demo_claim :: claimed_job where
  "demo_claim = \<lparr>cj_id = 4, cj_target = 1, cj_tool = ''tls''\<rparr>"


text \<open>An interrupted scan is counted twice.  Results are stored row by row before the job is marked
  completed; if the process stops in between, the job is queued again after an hour and its second
  run appends to the rows of the first, which nothing removes: the report is built on both.\<close>

lemma interrupted_scan_doubles:
  assumes "authorized_domain now d (cj_target job) = Some domain"
    and "run_tool nuclei tls (cj_tool job) domain = Inr fs"
  shows "load_findings
      (fst (execute nuclei tls url now later job
        (requeue_interrupted at (store_findings (cj_id job) fs d)))) (cj_id job)
    = load_findings d (cj_id job) @ fs @ fs"
proof -
  let ?d = "requeue_interrupted at (store_findings (cj_id job) fs d)"
  have "target_by_id ?d = target_by_id d" "latest_proof ?d = latest_proof d"
    by (simp_all add: fun_eq_iff target_by_id_def latest_proof_def requeue_interrupted_def store_findings_def)
  then have "authorized_domain now ?d (cj_target job) = Some domain"
    using assms(1) by (cases "target_by_id d (cj_target job)") (simp_all add: authorized_domain_def)
  then have "fst (execute nuclei tls url now later job ?d) =
      complete_job later (cj_id job) (store_findings (cj_id job) fs ?d)"
    using assms(2) by (simp add: execute_def Let_def)
  moreover have "load_findings ?d i = load_findings (store_findings (cj_id job) fs d) i" for i
    by (simp add: load_findings_def requeue_interrupted_def)
  ultimately show ?thesis by (simp add: load_store)
qed

lemma interrupted_scan_doubles_witness:
  "load_findings
      (fst (execute (\<lambda>_. Inr []) (\<lambda>_. Inr [demo_finding]) ''u'' 5 6 demo_claim
        (requeue_interrupted 5 (store_findings (cj_id demo_claim) [demo_finding] demo_world)))) (cj_id demo_claim)
    = load_findings demo_world (cj_id demo_claim) @ [demo_finding] @ [demo_finding]"
  by (rule interrupted_scan_doubles[where domain = "''a.example''"])
     (simp_all add: demo_world_def demo_claim_def empty_db_def authorized_domain_def target_by_id_def
        latest_proof_def run_tool_def)

end
