(* ===== verification/Renewal.thy ===== *)
theory Renewal
  imports Targets Mail
begin

text \<open>
  \<open>crates/orchestrator/src/renewal.rs\<close>: the proof of a scheduled site is looked for again before it
  lapses.  The rows are selected at the start of a tick and updated one by one.
\<close>

definition RENEW_WITHIN_HOURS :: int where "RENEW_WITHIN_HOURS = 72"
definition REMINDER_HOURS :: "int list" where "REMINDER_HOURS = [72, 24]"

record renewal =
  rn_proof :: uid
  rn_domain :: string
  rn_method :: string
  rn_token :: string
  rn_expires :: time
  rn_email :: string
  rn_first_name :: "string option"

definition reminder_due :: "time \<Rightarrow> time \<Rightarrow> duration \<Rightarrow> bool" where
  "reminder_due expires_at now tick_len =
     list_ex (\<lambda>h. let at = expires_at - hours h in now \<le> at \<and> at < now + tick_len) REMINDER_HOURS"

definition attempt_due :: "time \<Rightarrow> duration \<Rightarrow> bool" where
  "attempt_due now tick_len =
     (let hour_start = timestamp now - timestamp now mod 3600
      in timestamp now - hour_start < num_seconds tick_len)"

definition still_published :: "net \<Rightarrow> string \<Rightarrow> string \<Rightarrow> string \<Rightarrow> bool" where
  "still_published net how domain token =
     (if how = method_db_str DnsTxt then
        (case fetch_dns_txt_records (n_resolver net) domain of
           Inr records \<Rightarrow> token_present records token
         | Inl _ \<Rightarrow> False)
      else if how = method_db_str WellKnownFile then
        (case fetch_well_known_file (n_lookup net) (n_http net) domain of
           Inr body \<Rightarrow> file_contains_token body token
         | Inl _ \<Rightarrow> False)
      else False)"

definition due_renewals :: "time \<Rightarrow> db \<Rightarrow> renewal list" where
  "due_renewals now d =
     List.map_filter (\<lambda>t.
       case (user_by_id d (tg_user t), latest_proof d (tg_id t)) of
         (Some u, Some v) \<Rightarrow>
           (case v_expires_at v of
              None \<Rightarrow> None
            | Some e \<Rightarrow>
                if tg_cadence t \<noteq> ''manual'' \<and> e > now \<and> e \<le> now + hours RENEW_WITHIN_HOURS
                then Some \<lparr>rn_proof = v_id v, rn_domain = tg_domain t, rn_method = v_method v,
                           rn_token = v_token v, rn_expires = e, rn_email = u_email u,
                           rn_first_name = u_first_name u\<rparr>
                else None)
       | _ \<Rightarrow> None) (targets d)"

definition renew_proof :: "time \<Rightarrow> uid \<Rightarrow> db \<Rightarrow> db" where
  "renew_proof now pid d =
     d\<lparr>proofs := update_where (\<lambda>v. v_id v = pid)
        (\<lambda>v. v\<lparr>v_verified_at := Some now, v_expires_at := Some (expiry_from now)\<rparr>) (proofs d)\<rparr>"

text \<open>The mailer as this component sees it: whether it is configured, and the URL of its links.\<close>

definition renew_one ::
    "net \<Rightarrow> bool \<Rightarrow> string \<Rightarrow> time \<Rightarrow> duration \<Rightarrow> db \<times> outbox \<Rightarrow> renewal \<Rightarrow> db \<times> outbox" where
  "renew_one net configured public_url now tick_len = (\<lambda>(d, mails) item.
     (let warn = reminder_due (rn_expires item) now tick_len in
      if \<not> warn \<and> \<not> attempt_due now tick_len then (d, mails)
      else if still_published net (rn_method item) (rn_domain item) (rn_token item)
        then (renew_proof now (rn_proof item) d, mails)
      else if warn \<and> configured then
        (d, mails @ [(rn_email item,
           OwnershipLapsingEmail (case rn_first_name item of None \<Rightarrow> [] | Some n \<Rightarrow> n)
             (rn_domain item) (rn_expires item) (app_link public_url ''/targets''))])
      else (d, mails)))"

definition renew_due ::
    "net \<Rightarrow> bool \<Rightarrow> string \<Rightarrow> time \<Rightarrow> duration \<Rightarrow> db \<Rightarrow> db \<times> outbox" where
  "renew_due net configured public_url now tick_len d =
     foldl (renew_one net configured public_url now tick_len) (d, []) (due_renewals now d)"

subsection \<open>What a tick changes\<close>

text \<open>A proof row as it was, or renewed now.\<close>

definition renewed_from :: "time \<Rightarrow> proof_row \<Rightarrow> proof_row \<Rightarrow> bool" where
  "renewed_from now v v' \<longleftrightarrow>
     v' = v \<or> v' = v\<lparr>v_verified_at := Some now, v_expires_at := Some (expiry_from now)\<rparr>"

lemma renewed_from_trans:
  "renewed_from now u v \<Longrightarrow> renewed_from now v w \<Longrightarrow> renewed_from now u w"
  by (auto simp: renewed_from_def)

lemma renewed_from_keeps: "renewed_from now v v' \<Longrightarrow> keeps_proof v v'"
  by (auto simp: renewed_from_def keeps_proof_def)

text \<open>Each renewed row was selected, and its token was found again.\<close>

definition proofs_renewed :: "net \<Rightarrow> time \<Rightarrow> renewal list \<Rightarrow> proof_row list \<Rightarrow> proof_row list \<Rightarrow> bool" where
  "proofs_renewed net now items vs vs' \<longleftrightarrow>
     list_all2 (\<lambda>v v'. v' = v \<or> (renewed_from now v v'
        \<and> list_ex (\<lambda>item. rn_proof item = v_id v
              \<and> still_published net (rn_method item) (rn_domain item) (rn_token item)) items)) vs vs'"

lemma proofs_renewed_refl [simp]: "proofs_renewed net now items vs vs"
  by (simp add: proofs_renewed_def list_all2_conv_all_nth)

lemma proofs_renewed_Cons:
  "proofs_renewed net now items vs vs' \<Longrightarrow> proofs_renewed net now (i # items) vs vs'"
  unfolding proofs_renewed_def by (erule list_all2_mono) auto

lemma renew_one_fields:
  "authorizations (fst (renew_one net conf url now tk (d, m) i)) = authorizations d"
  "jobs (fst (renew_one net conf url now tk (d, m) i)) = jobs d"
  "targets (fst (renew_one net conf url now tk (d, m) i)) = targets d"
  "results (fst (renew_one net conf url now tk (d, m) i)) = results d"
  by (simp_all add: renew_one_def Let_def renew_proof_def)

lemma renew_one_proofs:
  "proofs_renewed net now [i] (proofs d) (proofs (fst (renew_one net conf url now tk (d, m) i)))"
  by (auto simp: renew_one_def Let_def renew_proof_def proofs_renewed_def update_where_def
      list_all2_conv_all_nth renewed_from_def)

lemma proofs_renewed_trans:
  assumes "proofs_renewed net now [i] vs vs'" "proofs_renewed net now is vs' vs''"
  shows "proofs_renewed net now (i # is) vs vs''"
  unfolding proofs_renewed_def list_all2_conv_all_nth
proof (intro conjI allI impI)
  have len: "length vs = length vs'" "length vs' = length vs''"
    using assms by (auto simp: proofs_renewed_def dest: list_all2_lengthD)
  then show "length vs = length vs''" by simp
  fix n assume n: "n < length vs"
  note a = list_all2_nthD[OF assms(1)[unfolded proofs_renewed_def] n]
  have "n < length vs'" using n len by simp
  note b = list_all2_nthD[OF assms(2)[unfolded proofs_renewed_def] this]
  have "v_id (vs' ! n) = v_id (vs ! n)" using a by (auto simp: renewed_from_def)
  then show "vs'' ! n = vs ! n \<or> renewed_from now (vs ! n) (vs'' ! n)
      \<and> list_ex (\<lambda>item. rn_proof item = v_id (vs ! n)
           \<and> still_published net (rn_method item) (rn_domain item) (rn_token item)) (i # is)"
    using a b renewed_from_trans[of now "vs ! n" "vs' ! n" "vs'' ! n"] by auto
qed

lemma renew_loop:
  "proofs_renewed net now items (proofs (fst s))
     (proofs (fst (foldl (renew_one net conf url now tk) s items)))
   \<and> authorizations (fst (foldl (renew_one net conf url now tk) s items)) = authorizations (fst s)
   \<and> jobs (fst (foldl (renew_one net conf url now tk) s items)) = jobs (fst s)
   \<and> targets (fst (foldl (renew_one net conf url now tk) s items)) = targets (fst s)
   \<and> results (fst (foldl (renew_one net conf url now tk) s items)) = results (fst s)"
proof (induction items arbitrary: s)
  case (Cons i items)
  obtain d m where s: "s = (d, m)" by (cases s)
  let ?s = "renew_one net conf url now tk s i"
  note ih = Cons.IH[of ?s]
  have "proofs_renewed net now [i] (proofs (fst s)) (proofs (fst ?s))"
    unfolding s fst_conv by (rule renew_one_proofs)
  then have "proofs_renewed net now (i # items) (proofs (fst s))
      (proofs (fst (foldl (renew_one net conf url now tk) ?s items)))"
    using proofs_renewed_trans ih by blast
  then show ?case using ih renew_one_fields[of net conf url now tk d m i] by (simp add: s)
qed simp

lemma renew_due_facts:
  "proofs_renewed net now (due_renewals now d) (proofs d) (proofs (fst (renew_due net conf url now tk d)))"
  "authorizations (fst (renew_due net conf url now tk d)) = authorizations d"
  "jobs (fst (renew_due net conf url now tk d)) = jobs d"
  "targets (fst (renew_due net conf url now tk d)) = targets d"
  "results (fst (renew_due net conf url now tk d)) = results d"
  using renew_loop[of net now "due_renewals now d" "(d, [])" conf url tk] by (simp_all add: renew_due_def)

lemma renew_due_trail: "trail_grows d (fst (renew_due net conf url now tk d))"
proof (rule trail_growsI)
  show "set (authorizations d) \<subseteq> set (authorizations (fst (renew_due net conf url now tk d)))"
    by (simp add: renew_due_facts)
  fix v assume "v \<in> set (proofs d)"
  then obtain n where n: "n < length (proofs d)" "proofs d ! n = v" by (auto simp: in_set_conv_nth)
  let ?vs = "proofs (fst (renew_due net conf url now tk d))"
  note p = renew_due_facts(1)[of net now d conf url tk, unfolded proofs_renewed_def]
  have "renewed_from now v (?vs ! n)"
    using list_all2_nthD[OF p n(1)] n(2) by (auto simp: renewed_from_def)
  moreover have "n < length ?vs" using n(1) list_all2_lengthD[OF p] by simp
  ultimately show "\<exists>v'\<in>set ?vs. keeps_proof v v'"
    using renewed_from_keeps nth_mem by blast
qed


subsection \<open>Reminder points\<close>

lemma in_tick_iff:
  fixes t0 at tk :: int
  assumes "0 < tk" "t0 \<le> at"
  shows "t0 + int k * tk \<le> at \<and> at < t0 + int k * tk + tk \<longleftrightarrow> k = nat ((at - t0) div tk)"
proof -
  have m: "(at - t0) div tk * tk + (at - t0) mod tk = at - t0" by (rule div_mult_mod_eq)
  have r: "0 \<le> (at - t0) mod tk" "(at - t0) mod tk < tk" using assms(1) by simp_all
  have "t0 + int k * tk \<le> at \<and> at < t0 + int k * tk + tk \<longleftrightarrow> (at - t0) div tk = int k"
  proof
    assume "t0 + int k * tk \<le> at \<and> at < t0 + int k * tk + tk"
    then show "(at - t0) div tk = int k"
      using int_div_pos_eq[of "at - t0" tk "int k" "at - t0 - int k * tk"] by (simp add: mult.commute)
  next
    assume k: "(at - t0) div tk = int k"
    show "t0 + int k * tk \<le> at \<and> at < t0 + int k * tk + tk"
      using m[unfolded k] r by linarith
  qed
  also have "\<dots> \<longleftrightarrow> k = nat ((at - t0) div tk)"
    using assms by (auto simp: pos_imp_zdiv_nonneg_iff)
  finally show ?thesis .
qed

subsection \<open>Properties\<close>

text \<open>A proof is renewed only by finding it again.  After a tick each row of the proofs is as it
  was, or holds for thirty days from now because it was the latest proof of a site on a schedule, in
  force and within three days of lapsing, and its token is still published the way it was proved.\<close>

lemma renewal_reads_the_proof_again:
  "list_all2 (\<lambda>v v'. v' = v \<or>
      (v' = v\<lparr>v_verified_at := Some now, v_expires_at := Some (now + days 30)\<rparr>
       \<and> (\<exists>t w e. t \<in> set (targets d) \<and> latest_proof d (tg_id t) = Some w \<and> v_id w = v_id v
            \<and> v_expires_at w = Some e \<and> now < e \<and> e \<le> now + days 3
            \<and> still_published net (v_method w) (tg_domain t) (v_token w))))
    (proofs d) (proofs (fst (renew_due net configured public_url now tick_len d)))"
proof (rule list_all2_mono[OF renew_due_facts(1)[unfolded proofs_renewed_def]])
  fix v v'
  assume h: "v' = v \<or> renewed_from now v v' \<and> list_ex (\<lambda>item. rn_proof item = v_id v
      \<and> still_published net (rn_method item) (rn_domain item) (rn_token item)) (due_renewals now d)"
  have d72: "hours RENEW_WITHIN_HOURS = days 3" by (simp add: RENEW_WITHIN_HOURS_def duration_defs)
  show "v' = v \<or> (v' = v\<lparr>v_verified_at := Some now, v_expires_at := Some (now + days 30)\<rparr>
       \<and> (\<exists>t w e. t \<in> set (targets d) \<and> latest_proof d (tg_id t) = Some w \<and> v_id w = v_id v
            \<and> v_expires_at w = Some e \<and> now < e \<and> e \<le> now + days 3
            \<and> still_published net (v_method w) (tg_domain t) (v_token w)))"
  proof (cases "v' = v")
    case False
    then obtain item where i: "item \<in> set (due_renewals now d)" "rn_proof item = v_id v"
        "still_published net (rn_method item) (rn_domain item) (rn_token item)"
      using h by (auto simp: list_ex_iff)
    have "v' = v\<lparr>v_verified_at := Some now, v_expires_at := Some (now + days 30)\<rparr>"
      using h False by (auto simp: renewed_from_def expiry_from_def VERIFICATION_TTL_DAYS_def)
    moreover have "\<exists>t w e. t \<in> set (targets d) \<and> latest_proof d (tg_id t) = Some w \<and> v_id w = v_id v
            \<and> v_expires_at w = Some e \<and> now < e \<and> e \<le> now + days 3
            \<and> still_published net (v_method w) (tg_domain t) (v_token w)"
    proof -
      obtain t where t: "t \<in> set (targets d)"
          "(case (user_by_id d (tg_user t), latest_proof d (tg_id t)) of
             (Some u, Some w) \<Rightarrow>
               (case v_expires_at w of
                  None \<Rightarrow> None
                | Some e \<Rightarrow>
                    if tg_cadence t \<noteq> ''manual'' \<and> e > now \<and> e \<le> now + hours RENEW_WITHIN_HOURS
                    then Some \<lparr>rn_proof = v_id w, rn_domain = tg_domain t, rn_method = v_method w,
                               rn_token = v_token w, rn_expires = e, rn_email = u_email u,
                               rn_first_name = u_first_name u\<rparr>
                    else None)
           | _ \<Rightarrow> None) = Some item"
        using i(1) unfolding due_renewals_def in_map_filter_iff by blast
      then show ?thesis
        using i(2,3) d72 by (auto split: option.splits if_splits)
    qed
    ultimately show ?thesis by blast
  qed simp
qed

text \<open>On exact ticks every site is warned exactly twice.  If ticks start at \<open>t0\<close> and follow each
  other without a gap, two of them, and no more, fall on a reminder point of a proof that lapses at
  least three days after \<open>t0\<close>.\<close>

lemma two_warnings_on_exact_ticks:
  assumes "0 < tick_len" "tick_len \<le> hours 48" "t0 \<le> expires_at - hours 72"
  shows "card {k. reminder_due expires_at (t0 + int k * tick_len) tick_len} = 2"
proof -
  let ?k = "\<lambda>h. nat ((expires_at - hours h - t0) div tick_len)"
  have t24: "t0 \<le> expires_at - hours 24" using assms(3) by (simp add: duration_defs)
  have "{k. reminder_due expires_at (t0 + int k * tick_len) tick_len} = {?k 72, ?k 24}"
    using in_tick_iff[OF assms(1,3)] in_tick_iff[OF assms(1) t24]
    by (auto simp: reminder_due_def REMINDER_HOURS_def Let_def)
  moreover have "?k 72 \<noteq> ?k 24"
  proof -
    have "(expires_at - hours 72 - t0) div tick_len + 1 = (expires_at - hours 72 - t0 + tick_len) div tick_len"
      using div_add_self2[of tick_len "expires_at - hours 72 - t0"] assms(1) by simp
    also have "\<dots> \<le> (expires_at - hours 24 - t0) div tick_len"
      using assms(1,2) by (intro zdiv_mono1) (simp_all add: duration_defs)
    finally have "(expires_at - hours 72 - t0) div tick_len < (expires_at - hours 24 - t0) div tick_len"
      by simp
    moreover have "0 \<le> (expires_at - hours 72 - t0) div tick_len"
      using assms(1,3) by (simp add: pos_imp_zdiv_nonneg_iff)
    ultimately show ?thesis by simp
  qed
  ultimately show ?thesis by simp
qed

lemma two_warnings_on_exact_ticks_witness:
  "card {k. reminder_due (hours 100) (0 + int k * seconds 300) (seconds 300)} = 2"
  by (rule two_warnings_on_exact_ticks) (simp_all add: duration_defs)

text \<open>The running scheduler can skip a warning.  It sleeps the tick's length after its work, so a
  tick starts later than the previous one's window ends; a proof whose three-day point falls in
  that gap is reminded of by neither tick, although nothing else records that it was not.\<close>

lemma warning_skipped_in_gap:
  assumes "0 < tick_len" "0 < work" "tick_len + work < hours 24"
  shows "\<exists>expires_at. start \<le> expires_at - hours 72 \<and> expires_at - hours 72 < start + tick_len + work
    \<and> \<not> reminder_due expires_at start tick_len
    \<and> \<not> reminder_due expires_at (start + tick_len + work) tick_len"
proof (intro exI conjI)
  let ?e = "start + tick_len + hours 72"
  show "start \<le> ?e - hours 72" "?e - hours 72 < start + tick_len + work" using assms by simp_all
  show "\<not> reminder_due ?e start tick_len" "\<not> reminder_due ?e (start + tick_len + work) tick_len"
    using assms by (auto simp: reminder_due_def REMINDER_HOURS_def Let_def duration_defs)
qed

lemma warning_skipped_in_gap_witness:
  "\<exists>expires_at. 0 \<le> expires_at - hours 72 \<and> expires_at - hours 72 < 0 + seconds 300 + seconds 2
    \<and> \<not> reminder_due expires_at 0 (seconds 300)
    \<and> \<not> reminder_due expires_at (0 + seconds 300 + seconds 2) (seconds 300)"
  by (rule warning_skipped_in_gap) (simp_all add: duration_defs)

end
