(* ===== verification/TrialReminder.thy ===== *)
theory TrialReminder
  imports Store Mail
begin

text \<open>
  \<open>crates/orchestrator/src/trial_reminder.rs\<close>: the reminder a day before a three-day trial ends.
  The rows are marked by one statement before any message goes out; \<open>deliver\<close> is whether the mailer
  accepted a message.  Plan names are ASCII, so their first byte is their first character.
\<close>

record reminder =
  rm_user :: uid
  rm_email :: string
  rm_first_name :: "string option"
  rm_plan :: string
  rm_ends :: time
  rm_interval :: "string option"
  rm_amount :: "int option"
  rm_currency :: "string option"

text \<open>The statement's condition on a row of \<open>entitlements\<close>; \<open>is distinct from\<close> treats \<open>null\<close> as a
  value, and a comparison with \<open>null\<close> does not hold.\<close>

definition reminder_wanted :: "time \<Rightarrow> db \<Rightarrow> entitlement \<Rightarrow> bool" where
  "reminder_wanted now d e \<longleftrightarrow>
     user_by_id d (e_user e) \<noteq> None \<and> e_product e = ''glarion''
     \<and> e_status e = Some ''trialing'' \<and> \<not> e_cancel e
     \<and> (case e_trial_ends e of None \<Rightarrow> False | Some x \<Rightarrow> x > now + hours 1 \<and> x \<le> now + hours 24)
     \<and> e_reminder_for e \<noteq> e_trial_ends e
     \<and> list_ex (\<lambda>c. Some (c_subscription c) = e_subscription e) (claims d)"

definition reminder_of :: "db \<Rightarrow> entitlement \<Rightarrow> reminder option" where
  "reminder_of d e =
     (case (user_by_id d (e_user e), e_trial_ends e) of
        (Some u, Some x) \<Rightarrow>
          Some \<lparr>rm_user = e_user e, rm_email = u_email u, rm_first_name = u_first_name u,
                rm_plan = e_plan e, rm_ends = x, rm_interval = e_interval e,
                rm_amount = e_charge_amount e, rm_currency = e_charge_currency e\<rparr>
      | _ \<Rightarrow> None)"

definition plan_name :: "string \<Rightarrow> string" where
  "plan_name p = (case p of [] \<Rightarrow> [] | c # cs \<Rightarrow> to_ascii_uppercase [c] @ cs)"

definition reminder_message :: "string \<Rightarrow> reminder \<Rightarrow> message" where
  "reminder_message public_url r =
     TrialEndingEmail (case rm_first_name r of None \<Rightarrow> [] | Some n \<Rightarrow> n) (plan_name (rm_plan r))
       (rm_ends r)
       (case (rm_amount r, rm_currency r) of
          (Some amount, Some currency) \<Rightarrow> Some (money amount currency)
        | _ \<Rightarrow> None)
       (case rm_interval r of None \<Rightarrow> ''month'' | Some i \<Rightarrow> i)
       (app_link public_url ''/plan'')"

definition unmark :: "reminder \<Rightarrow> db \<Rightarrow> db" where
  "unmark r d = d\<lparr>entitlements := update_where
     (\<lambda>e. e_user e = rm_user r \<and> e_product e = ''glarion'' \<and> e_reminder_for e = Some (rm_ends r))
     (\<lambda>e. e\<lparr>e_reminder_for := None\<rparr>) (entitlements d)\<rparr>"

definition remind_one ::
    "(string \<Rightarrow> message \<Rightarrow> bool) \<Rightarrow> string \<Rightarrow> db \<times> outbox \<Rightarrow> reminder \<Rightarrow> db \<times> outbox" where
  "remind_one deliver public_url = (\<lambda>(d, mails) r.
     if deliver (rm_email r) (reminder_message public_url r)
     then (d, mails @ [(rm_email r, reminder_message public_url r)])
     else (unmark r d, mails))"

definition send_due ::
    "(string \<Rightarrow> message \<Rightarrow> bool) \<Rightarrow> string \<Rightarrow> time \<Rightarrow> db \<Rightarrow> db \<times> outbox" where
  "send_due deliver public_url now d =
     (let rs = List.map_filter (reminder_of d) (filter (reminder_wanted now d) (entitlements d));
          d' = d\<lparr>entitlements := update_where (reminder_wanted now d)
                  (\<lambda>e. e\<lparr>e_reminder_for := e_trial_ends e\<rparr>) (entitlements d)\<rparr>
      in foldl (remind_one deliver public_url) (d', []) rs)"

subsection \<open>Lemmas\<close>

lemma remind_loop_ok:
  assumes "\<And>to m. deliver to m"
  shows "foldl (remind_one deliver url) (d, mails) rs =
    (d, mails @ map (\<lambda>r. (rm_email r, reminder_message url r)) rs)"
proof (induction rs arbitrary: mails)
  case (Cons r rs)
  then show ?case using assms by (simp add: remind_one_def)
qed simp

subsection \<open>Properties\<close>

text \<open>A trial is reminded of once, and only when it should be.  Where delivery works, a tick mails
  exactly the customers of three-day trials that run on, were not cancelled, end within a day but
  not within the hour and were not reminded for this end; and a second run at the same moment mails
  nobody.\<close>

lemma trial_reminded_once:
  assumes "\<And>to m. deliver to m"
  shows "map fst (snd (send_due deliver url now d)) =
      map rm_email (List.map_filter (reminder_of d) (filter (reminder_wanted now d) (entitlements d)))
    \<and> snd (send_due deliver url now (fst (send_due deliver url now d))) = []"
proof
  let ?mark = "\<lambda>e. e\<lparr>e_reminder_for := e_trial_ends e\<rparr>"
  let ?d = "d\<lparr>entitlements := update_where (reminder_wanted now d) ?mark (entitlements d)\<rparr>"
  have one: "send_due deliver url now d' =
      (d'\<lparr>entitlements := update_where (reminder_wanted now d') ?mark (entitlements d')\<rparr>,
       map (\<lambda>r. (rm_email r, reminder_message url r))
         (List.map_filter (reminder_of d') (filter (reminder_wanted now d') (entitlements d'))))" for d'
    by (simp add: send_due_def Let_def remind_loop_ok[OF assms])
  show "map fst (snd (send_due deliver url now d)) =
      map rm_email (List.map_filter (reminder_of d) (filter (reminder_wanted now d) (entitlements d)))"
    by (simp add: one comp_def)
  have w: "reminder_wanted now ?d e = reminder_wanted now d e" for e
    by (simp add: reminder_wanted_def user_by_id_def)
  have "filter (reminder_wanted now ?d) (entitlements ?d) = []"
    unfolding filter_empty_conv by (auto simp: set_update_where w) (auto simp: reminder_wanted_def)
  then show "snd (send_due deliver url now (fst (send_due deliver url now d))) = []"
    by (simp add: one map_filter_simps)
qed

definition trial_demo :: db where
  "trial_demo = \<lparr>users = [user_row 7 ''o@a'' ''p''], targets = [], proofs = [],
     authorizations = [], jobs = [], results = [],
     entitlements = [\<lparr>e_user = 7, e_product = ''glarion'', e_plan = ''solo'', e_max_targets = 5,
       e_customer = None, e_subscription = Some ''sub'', e_status = Some ''trialing'', e_period_end = None,
       e_trial_ends = Some (hours 20), e_cancel = False, e_blocked = None, e_interval = None,
       e_charge_amount = Some 4758, e_charge_currency = Some ''eur'', e_reminder_for = None,
       e_activation_for = None\<rparr>],
     claims = [\<lparr>c_user = 7, c_email_hash = ''h'', c_card = None, c_subscription = ''sub'', c_created = 0,
       c_trial_ends = hours 20\<rparr>], events = [], consents = [], preview_sends = [], buckets = [], growth = []\<rparr>"

lemma trial_reminded_once_witness:
  "map fst (snd (send_due (\<lambda>_ _. True) ''u'' 0 trial_demo)) =
      map rm_email (List.map_filter (reminder_of trial_demo)
        (filter (reminder_wanted 0 trial_demo) (entitlements trial_demo)))
    \<and> snd (send_due (\<lambda>_ _. True) ''u'' 0 (fst (send_due (\<lambda>_ _. True) ''u'' 0 trial_demo))) = []"
  by (rule trial_reminded_once) simp

end
