(* ===== verification/System.thy ===== *)
theory System
  imports Targets Scheduler Runner Renewal TrialReminder
begin

text \<open>
  The handlers, the scheduler and the runner on one database: a step relation over the clock and the
  tables, its reachable worlds and what holds in all of them.  A primary key is a premise of the steps
  that insert: PostgreSQL refuses the row otherwise.  A runner executes a job it has claimed: its row
  is marked running.  The reminders go by the instant their pass began.
\<close>

type_synonym world = "time \<times> db"

definition keys_ok :: "db \<Rightarrow> bool" where
  "keys_ok d \<longleftrightarrow> distinct (map j_id (jobs d)) \<and> distinct (map tg_id (targets d))"

definition holds_claim :: "db \<Rightarrow> claimed_job \<Rightarrow> bool" where
  "holds_claim d c \<longleftrightarrow>
     list_ex (\<lambda>j. j_id j = cj_id c \<and> j_target j = cj_target c \<and> j_tool j = cj_tool c
        \<and> j_status j = Running) (jobs d)"

inductive step :: "world \<Rightarrow> world \<Rightarrow> bool" where
  passes: "now \<le> later \<Longrightarrow> step (now, d) (later, d)"
| registers: "d' = snd (create_target new_id now user site client d) \<Longrightarrow> keys_ok d' \<Longrightarrow>
    step (now, d) (now, d')"
| starts: "step (now, d) (now, snd (start_verification new_id token now user tid d))"
| checks: "step (now, d) (now, snd (check_verification sha net h peer now user tid m d))"
| schedules: "step (now, d) (now, snd (set_cadence now user tid body d))"
| requests: "d' = snd (create_scan auth_id job_id now c body d) \<Longrightarrow> keys_ok d' \<Longrightarrow>
    step (now, d) (now, d')"
| ticks: "d' = tick ids now d \<Longrightarrow> keys_ok d' \<Longrightarrow> step (now, d) (now, d')"
| renews: "step (now, d) (now, fst (renew_due net configured url now tick_len d))"
| reminds: "started \<le> now \<Longrightarrow> step (now, d) (now, fst (send_due deliver url started d))"
| claims: "step (now, d) (now, snd (claim_next_job now d))"
| requeues: "step (now, d) (now, requeue_interrupted now d)"
| executes: "holds_claim d c \<Longrightarrow> now \<le> later \<Longrightarrow>
    step (now, d) (later, fst (execute nuclei tls url now later c d))"
| counts: "step (now, d) (now, snd (growth_page sha h peer ev now d))"

inductive_cases stepE: "step w w'"

inductive reachable :: "world \<Rightarrow> bool" where
  start: "jobs d = [] \<Longrightarrow> targets d = [] \<Longrightarrow> reachable (now, d)"
| moves: "reachable w \<Longrightarrow> step w w' \<Longrightarrow> reachable w'"

subsection \<open>What each kind of step does to jobs and to the trail\<close>

lemma start_verification_fields:
  "jobs (snd (start_verification i tok now u t d)) = jobs d"
  "targets (snd (start_verification i tok now u t d)) = targets d"
  "trail_grows d (snd (start_verification i tok now u t d))"
proof -
  show "jobs (snd (start_verification i tok now u t d)) = jobs d"
    "targets (snd (start_verification i tok now u t d)) = targets d"
    by (simp_all add: start_verification_def split: option.split)
  show "trail_grows d (snd (start_verification i tok now u t d))"
    by (rule trail_grows_subset) (auto simp: start_verification_def split: option.split)
qed

lemma set_cadence_fields:
  "jobs (snd (set_cadence now u t b d)) = jobs d"
  "proofs (snd (set_cadence now u t b d)) = proofs d"
  "authorizations (snd (set_cadence now u t b d)) = authorizations d"
  "map tg_id (targets (snd (set_cadence now u t b d))) = map tg_id (targets d)"
  by (rule disjE[OF set_cadence_db[of now u t b d]]; simp only:; simp add: map_update_where)+

lemma create_target_fields:
  "jobs (snd (create_target i now u s c d)) = jobs d"
  "proofs (snd (create_target i now u s c d)) = proofs d"
  "authorizations (snd (create_target i now u s c d)) = authorizations d"
  by (cases rule: create_target_cases[of i now u s c d]; simp)+

lemma remind_loop_fields:
  "jobs (fst (foldl (remind_one deliver url) s rs)) = jobs (fst s)
   \<and> targets (fst (foldl (remind_one deliver url) s rs)) = targets (fst s)
   \<and> proofs (fst (foldl (remind_one deliver url) s rs)) = proofs (fst s)
   \<and> authorizations (fst (foldl (remind_one deliver url) s rs)) = authorizations (fst s)"
proof (induction rs arbitrary: s)
  case (Cons r rs)
  obtain d m where "s = (d, m)" by (cases s)
  then show ?case using Cons[of "remind_one deliver url s r"] by (simp add: remind_one_def unmark_def)
qed simp

lemma send_due_fields:
  "jobs (fst (send_due deliver url now d)) = jobs d"
  "targets (fst (send_due deliver url now d)) = targets d"
  "proofs (fst (send_due deliver url now d)) = proofs d"
  "authorizations (fst (send_due deliver url now d)) = authorizations d"
  by (simp_all add: send_due_def Let_def remind_loop_fields)

lemma growth_page_fields:
  "jobs (snd (growth_page sha h p e now d)) = jobs d"
  "targets (snd (growth_page sha h p e now d)) = targets d"
  "proofs (snd (growth_page sha h p e now d)) = proofs d"
  "authorizations (snd (growth_page sha h p e now d)) = authorizations d"
  using check_shared_fields[of sha AUTH_ATTEMPTS_PER_WINDOW AUTH_WINDOW_SECS "''growth''" p now d]
  by (cases "check_shared sha AUTH_ATTEMPTS_PER_WINDOW AUTH_WINDOW_SECS ''growth'' p now d";
      simp add: growth_page_def)+

lemma claim_fields:
  "proofs (snd (claim_next_job now d)) = proofs d"
  "authorizations (snd (claim_next_job now d)) = authorizations d"
  "targets (snd (claim_next_job now d)) = targets d"
  by (simp_all add: claim_next_job_def split: option.split)

lemma execute_targets: "targets (fst (execute nuclei tls url now later c d)) = targets d"
  by (cases rule: execute_cases[of nuclei tls url now later c d])
     (simp_all add: fail_job_def complete_job_def store_findings_def)

lemma create_scan_targets: "targets (snd (create_scan a j now c b d)) = targets d"
  by (simp add: create_scan_def Let_def split: sum.split)

lemma tick_sites:
  "map (\<lambda>t. (tg_id t, tg_user t, tg_domain t)) (targets (tick ids now d))
     = map (\<lambda>t. (tg_id t, tg_user t, tg_domain t)) (targets d)"
proof -
  have one: "map (\<lambda>t. (tg_id t, tg_user t, tg_domain t)) (targets (tick_one ids now d c))
      = map (\<lambda>t. (tg_id t, tg_user t, tg_domain t)) (targets d)" for d c
    using tick_one_cases[of now d c ids]
    by (auto simp: enqueue_def map_update_where split: option.split prod.split)
  have "map (\<lambda>t. (tg_id t, tg_user t, tg_domain t)) (targets (foldl (tick_one ids now) d cs))
      = map (\<lambda>t. (tg_id t, tg_user t, tg_domain t)) (targets d)" for cs d
    by (induction cs arbitrary: d) (simp_all add: one)
  then show ?thesis by (simp add: tick_def)
qed

text \<open>A step either moves the jobs in place and lets the trail grow, or is one of the two sources.\<close>

lemma moves_audited:
  assumes "audited d" "trail_grows d d'" "list_all2 job_moves (jobs d) (jobs d')"
  shows "audited d'"
proof (rule audited_mono[OF assms(1,2)])
  fix j' assume "j' \<in> set (jobs d')"
  then obtain n where "n < length (jobs d')" "jobs d' ! n = j'" by (auto simp: in_set_conv_nth)
  then have "n < length (jobs d)" "job_moves (jobs d ! n) j'"
    using assms(3) by (auto simp: list_all2_conv_all_nth)
  then show "\<exists>j\<in>set (jobs d). j_auth j' = j_auth j \<and> j_target j' = j_target j"
    using job_moves_fields by (intro bexI[of _ "jobs d ! n"]) auto
qed

lemma moves_ids: "list_all2 job_moves xs ys \<Longrightarrow> map j_id ys = map j_id xs"
  by (induction rule: list_all2_induct) (auto dest: job_moves_fields)

lemma moves_refl [simp]: "list_all2 job_moves xs xs"
  by (simp add: list_all2_same unchanged)

lemma same_trail: "proofs d' = proofs d \<Longrightarrow> authorizations d' = authorizations d \<Longrightarrow> trail_grows d d'"
  by (rule trail_grows_subset) simp_all

lemma holds_claim_running:
  "keys_ok d \<Longrightarrow> holds_claim d c \<Longrightarrow> \<forall>j\<in>set (jobs d). j_id j = cj_id c \<longrightarrow> j_status j = Running"
  unfolding keys_ok_def holds_claim_def list_ex_iff using same_id by metis

lemma step_shape:
  assumes "step (now, d) (now', d')" "keys_ok d"
  shows "(trail_grows d d' \<and> list_all2 job_moves (jobs d) (jobs d') \<and> map tg_id (targets d') = map tg_id (targets d))
    \<or> (trail_grows d d' \<and> jobs d' = jobs d \<and> keys_ok d')
    \<or> (\<exists>a j c b. now' = now \<and> d' = snd (create_scan a j now c b d) \<and> keys_ok d')
    \<or> (\<exists>ids. now' = now \<and> d' = tick ids now d \<and> keys_ok d')"
  using assms(1)
proof (cases rule: step.cases)
  case passes
  then show ?thesis by auto
next
  case registers
  then show ?thesis by (simp add: create_target_fields same_trail)
next
  case starts
  then show ?thesis by (simp add: start_verification_fields)
next
  case checks
  then show ?thesis by (simp add: check_verification_fields check_verification_trail)
next
  case schedules
  then show ?thesis by (simp add: set_cadence_fields same_trail)
next
  case requests
  then show ?thesis by blast
next
  case ticks
  then show ?thesis by blast
next
  case renews
  then show ?thesis by (simp add: renew_due_facts renew_due_trail)
next
  case reminds
  then show ?thesis by (simp add: send_due_fields same_trail)
next
  case claims
  then show ?thesis using claim_moves assms(2) by (simp add: claim_fields same_trail keys_ok_def)
next
  case requeues
  then show ?thesis using requeue_moves[of d now] same_trail[of "requeue_interrupted now d" d]
    by (simp add: requeue_interrupted_def)
next
  case executes
  then show ?thesis
    using execute_moves[OF holds_claim_running[OF assms(2)]]
    by (simp add: execute_fields execute_targets same_trail)
next
  case counts
  then show ?thesis by (simp add: growth_page_fields same_trail)
qed


lemma step_registry:
  assumes "step (now, d) (now', d')" "registry_ok d"
  shows "registry_ok d'"
proof -
  have sites: "map (\<lambda>t. (tg_user t, tg_domain t)) (targets d') = map (\<lambda>t. (tg_user t, tg_domain t)) (targets d)
      \<Longrightarrow> registry_ok d'"
    using same_sites_registry assms(2) by blast
  show ?thesis
    using assms(1)
  proof (cases rule: step.cases)
    case registers
    then show ?thesis using create_target_registry assms(2) by simp
  next
    case schedules
    then show ?thesis using set_cadence_registry assms(2) by simp
  next
    case (ticks ids)
    have "map (\<lambda>t. (tg_user t, tg_domain t)) (targets d') =
        map snd (map (\<lambda>t. (tg_id t, tg_user t, tg_domain t)) (targets d'))" by simp
    also have "\<dots> = map (\<lambda>t. (tg_user t, tg_domain t)) (targets d)"
      using ticks by (simp add: tick_sites)
    finally show ?thesis by (rule sites)
  qed (rule sites; simp add: start_verification_fields check_verification_fields create_scan_targets
        renew_due_facts send_due_fields claim_fields execute_targets growth_page_fields requeue_interrupted_def)+
qed

lemma step_audited:
  assumes "step (now, d) (now', d')" "keys_ok d" "audited d"
  shows "keys_ok d' \<and> audited d'"
proof -
  consider
      (inplace) "trail_grows d d'" "list_all2 job_moves (jobs d) (jobs d')" "map tg_id (targets d') = map tg_id (targets d)"
    | (same) "trail_grows d d'" "jobs d' = jobs d" "keys_ok d'"
    | (gate) a j c b where "d' = snd (create_scan a j now c b d)" "keys_ok d'"
    | (tick) ids where "d' = tick ids now d" "keys_ok d'"
    using step_shape[OF assms(1,2)] by blast
  then show ?thesis
  proof cases
    case inplace
    then show ?thesis using moves_audited[OF assms(3)] moves_ids[OF inplace(2)] assms(2)
      by (simp add: keys_ok_def)
  next
    case same
    then show ?thesis using moves_audited[OF assms(3) same(1)] by simp
  next
    case gate
    then show ?thesis using manual_scan.source_audited[OF assms(3)] by simp
  next
    case tick
    then show ?thesis using scheduled_scan.source_audited[OF assms(3)] by simp
  qed
qed

lemma reachable_invariant: "reachable w \<Longrightarrow> keys_ok (snd w) \<and> audited (snd w) \<and> registry_ok (snd w)"
proof (induction rule: reachable.induct)
  case (start d now)
  then show ?case by (simp add: keys_ok_def audited_def registry_ok_def)
next
  case (moves w w')
  obtain now d now' d' where "w = (now, d)" "w' = (now', d')" by (cases w; cases w')
  then show ?case using moves step_audited step_registry by simp
qed

lemma step_new_job:
  assumes "step (now, d) (now', d')" "keys_ok d" "j \<in> set (jobs d')" "j_id j \<notin> j_id ` set (jobs d)"
  shows "authorized_now now d' j"
proof -
  have new: "j \<notin> set (jobs d)" using assms(4) by blast
  consider
      (inplace) "list_all2 job_moves (jobs d) (jobs d')"
    | (gate) a i c b where "d' = snd (create_scan a i now c b d)"
    | (tick) ids where "d' = tick ids now d"
    using step_shape[OF assms(1,2)] by fastforce
  then show ?thesis
  proof cases
    case inplace
    then have "j_id ` set (jobs d') = j_id ` set (jobs d)" using moves_ids by (metis set_map)
    then show ?thesis using assms(3,4) by blast
  next
    case gate
    then show ?thesis using manual_scan.source_authorized assms(3) new by blast
  next
    case tick
    then show ?thesis using scheduled_scan.source_authorized assms(3) new by blast
  qed
qed

lemma step_keeps_settled:
  assumes "step (now, d) (now', d')" "keys_ok d" "j \<in> set (jobs d)" "j_status j \<in> {Completed, Failed}"
  shows "j \<in> set (jobs d')"
proof -
  consider
      (inplace) "list_all2 job_moves (jobs d) (jobs d')"
    | (gate) a i c b where "d' = snd (create_scan a i now c b d)"
    | (tick) ids where "d' = tick ids now d"
    using step_shape[OF assms(1,2)] by fastforce
  then show ?thesis
  proof cases
    case inplace
    obtain n where n: "n < length (jobs d)" "jobs d ! n = j" using assms(3) by (auto simp: in_set_conv_nth)
    then have "job_moves j (jobs d' ! n)" "n < length (jobs d')"
      using inplace by (auto simp: list_all2_conv_all_nth)
    then show ?thesis using job_moves_final assms(4) nth_mem by metis
  next
    case gate
    then show ?thesis using assms(3) by (simp add: create_scan_def Let_def split: sum.split)
  next
    case tick
    then show ?thesis using scheduled_scan.grows_queue[of ids now d] assms(3) by auto
  qed
qed

subsection \<open>A short history\<close>

definition world0 :: db where
  "world0 = demo_db\<lparr>targets := []\<rparr>"

definition world1 :: db where
  "world1 = snd (create_target 1 5 7 ''a.example'' None world0)"

definition demo_caller :: caller where
  "demo_caller = \<lparr>cl_user = 7, cl_peer = ''198.51.100.9'', cl_agent = None\<rparr>"

definition demo_request :: scan_request where
  "demo_request = \<lparr>sr_target = 1, sr_tool = ''tls'', sr_accept = True\<rparr>"

definition world2 :: db where
  "world2 = snd (create_scan 20 21 6 demo_caller demo_request world1)"

lemma world_jobs:
  "jobs world1 = []" "jobs world2 = [queue_job 6 21 1 20 ''tls'']"
  "map tg_id (targets world1) = [1]" "map tg_id (targets world2) = [1]"
  by code_simp+

lemma reachable_world1: "reachable (5, world1)"
proof (rule reachable.moves)
  show "reachable (5, world0)" by (rule reachable.start) (simp_all add: world0_def demo_db_def)
  show "step (5, world0) (5, world1)"
    by (rule step.registers[OF world1_def]) (simp add: keys_ok_def world_jobs)
qed

lemma reachable_world1': "reachable (6, world1)"
  by (rule reachable.moves[OF reachable_world1 step.passes]) simp

lemma step_world2: "step (6, world1) (6, world2)"
  by (rule step.requests[OF world2_def]) (simp add: keys_ok_def world_jobs)

lemma reachable_world2: "reachable (6, world2)"
  by (rule reachable.moves[OF reachable_world1' step_world2])

definition world3 :: db where
  "world3 = fst (execute (\<lambda>_. Inr []) (\<lambda>_. Inr []) ''u'' 7 8
     \<lparr>cj_id = 21, cj_target = 1, cj_tool = ''tls''\<rparr> (snd (claim_next_job 7 world2)))"

lemma world3_jobs:
  "jobs world3 = [(queue_job 6 21 1 20 ''tls'')\<lparr>j_status := Completed, j_started := Some 7, j_completed := Some 8\<rparr>]"
  "holds_claim (snd (claim_next_job 7 world2)) \<lparr>cj_id = 21, cj_target = 1, cj_tool = ''tls''\<rparr>"
  by code_simp+

lemma reachable_world3: "reachable (8, world3)"
  unfolding world3_def
  by (intro reachable.moves[OF reachable.moves[OF reachable.moves[OF reachable_world2 step.passes[of 6 7]]
        step.claims] step.executes] world3_jobs(2)) simp_all

end
