(* ===== verification/Signature.thy ===== *)
theory Signature
  imports Plans "HOL-Library.Word"
begin

text \<open>
  \<open>crates/api/src/billing.rs\<close>: whether a webhook body really came from Stripe.  HMAC-SHA256 is the
  parameter \<open>hmac key message\<close>; \<open>None\<close> is a key it refuses.  Bytes are \<open>char\<close>s, and \<open>u8\<close> words
  where the code computes on them.  The time difference is an \<open>i64\<close> subtraction, which wraps in a
  release build.  Header values reach this code through \<open>HeaderValue::to_str\<close>, so they are
  ASCII and \<open>decode_hex\<close> never slices inside a character.
\<close>

unbundle bit_operations_syntax

datatype signature_error = SigMalformed | SigMismatch | SigStale

definition SIGNATURE_TOLERANCE_SECS :: int where
  "SIGNATURE_TOLERANCE_SECS = 300"

text \<open>\<open>u8::from_str_radix(_, 16)\<close> on two bytes: a leading \<open>+\<close> is accepted.\<close>

definition nibble :: "char \<Rightarrow> nat option" where
  "nibble c =
     (if is_digit c then Some (code_of c - 48)
      else if 97 \<le> code_of c \<and> code_of c \<le> 102 then Some (code_of c - 87)
      else if 65 \<le> code_of c \<and> code_of c \<le> 70 then Some (code_of c - 55)
      else None)"

definition hex_byte :: "char \<Rightarrow> char \<Rightarrow> char option" where
  "hex_byte a b =
     (case nibble b of
        None \<Rightarrow> None
      | Some y \<Rightarrow>
          if a = CHR ''+'' then Some (char_of y)
          else (case nibble a of None \<Rightarrow> None | Some x \<Rightarrow> Some (char_of (16 * x + y))))"

fun decode_hex :: "string \<Rightarrow> string option" where
  "decode_hex [] = Some []"
| "decode_hex [a] = None"
| "decode_hex (a # b # s) =
     (case hex_byte a b of
        None \<Rightarrow> None
      | Some c \<Rightarrow> (case decode_hex s of None \<Rightarrow> None | Some cs \<Rightarrow> Some (c # cs)))"

definition constant_time_eq :: "string \<Rightarrow> string \<Rightarrow> bool" where
  "constant_time_eq left right =
     (foldl (\<lambda>difference (a, b). difference OR ((of_char a :: 8 word) XOR of_char b)) 0
        (zip left right) = 0)"

text \<open>The header's parts: the last \<open>t\<close> wins, also when it does not parse.\<close>

definition header_step :: "int option \<times> string list \<Rightarrow> string \<Rightarrow> int option \<times> string list" where
  "header_step = (\<lambda>(ts, sigs) part.
     case split_once CHR ''='' (trim part) of
       None \<Rightarrow> (ts, sigs)
     | Some (key, value) \<Rightarrow>
         if key = ''t'' then (parse_i64 value, sigs)
         else if key = ''v1'' then (ts, sigs @ [value])
         else (ts, sigs))"

definition parse_header :: "string \<Rightarrow> int option \<times> string list" where
  "parse_header header = foldl header_step (None, []) (split_char CHR '','' header)"

text \<open>\<open>(now - timestamp).abs()\<close> on \<open>i64\<close>.\<close>

definition age :: "int \<Rightarrow> int \<Rightarrow> int" where
  "age now ts =
     (let d = signed_take_bit 63 (now - ts) in signed_take_bit 63 (abs d))"

definition verify_signature ::
    "(string \<Rightarrow> string \<Rightarrow> string option) \<Rightarrow> string \<Rightarrow> string \<Rightarrow> string \<Rightarrow> int
     \<Rightarrow> signature_error + unit" where
  "verify_signature hmac payload header secret now =
     (case parse_header header of
        (None, _) \<Rightarrow> Inl SigMalformed
      | (Some ts, signatures) \<Rightarrow>
          if signatures = [] then Inl SigMalformed
          else if age now ts > SIGNATURE_TOLERANCE_SECS then Inl SigStale
          else
            (case hmac secret (show_int ts @ ''.'' @ payload) of
               None \<Rightarrow> Inl SigMalformed
             | Some expected \<Rightarrow>
                 if list_ex (\<lambda>candidate.
                      case decode_hex candidate of
                        None \<Rightarrow> False
                      | Some decoded \<Rightarrow>
                          length decoded = length expected \<and> constant_time_eq decoded expected)
                    signatures
                 then Inr () else Inl SigMismatch))"

subsection \<open>The comparison\<close>

lemma xor_bytes_zero: "(of_char a :: 8 word) XOR of_char b = 0 \<longleftrightarrow> a = b"
proof
  assume z: "(of_char a :: 8 word) XOR of_char b = 0"
  have "(of_char a :: 8 word) = (of_char a XOR of_char b) XOR of_char b"
    by (simp only: xor.assoc xor_self_eq xor.right_neutral)
  then have "(of_char a :: 8 word) = of_char b" by (simp only: z xor.left_neutral)
  then have "unat (of_char a :: 8 word) = unat (of_char b :: 8 word)" by simp
  moreover have "unat (of_char c :: 8 word) = of_char c" for c
  proof -
    have "(of_char c :: 8 word) = word_of_nat (of_char c)" by (rule of_nat_of_char [symmetric])
    moreover have "(of_char c :: nat) < 2 ^ LENGTH(8)" using code_of_less [of c] by (simp add: code_of_def)
    ultimately show ?thesis by (simp only: unat_of_nat mod_less)
  qed
  ultimately show "a = b" by (simp add: of_char_eq_iff)
qed simp

lemma or_zero_iff: "(a :: 8 word) OR b = 0 \<longleftrightarrow> a = 0 \<and> b = 0"
  by (rule or_eq_0_iff)

lemma constant_time_eq_iff:
  "length left = length right \<Longrightarrow> constant_time_eq left right \<longleftrightarrow> left = right"
proof -
  have "foldl (\<lambda>difference (a, b). difference OR ((of_char a :: 8 word) XOR of_char b)) d xs = 0
      \<longleftrightarrow> d = 0 \<and> (\<forall>(a, b)\<in>set xs. a = b)" for d xs
    by (induction xs arbitrary: d) (auto simp: or_zero_iff xor_bytes_zero)
  moreover assume "length left = length right"
  then have "(\<forall>(a, b)\<in>set (zip left right). a = b) \<longleftrightarrow> left = right"
    by (induction left right rule: list_induct2) auto
  ultimately show ?thesis by (simp add: constant_time_eq_def)
qed

lemma accepts_candidate:
  "(case decode_hex candidate of
      None \<Rightarrow> False
    | Some decoded \<Rightarrow> length decoded = length expected \<and> constant_time_eq decoded expected)
   \<longleftrightarrow> decode_hex candidate = Some expected"
  using constant_time_eq_iff by (auto split: option.split)

subsection \<open>The time window\<close>

lemma signed_take_bit_63_id: "- (2 ^ 63) \<le> x \<Longrightarrow> x < 2 ^ 63 \<Longrightarrow> signed_take_bit 63 (x::int) = x"
  by (rule signed_take_bit_int_eq_self)

lemma signed_take_bit_63_wrap:
  assumes "2 ^ 63 \<le> x" "x < 2 ^ 64 + 2 ^ 63"
  shows "signed_take_bit 63 (x::int) = x - 2 ^ 64"
proof -
  have "signed_take_bit 63 x = signed_take_bit 63 (x - 2 ^ 64)"
    by (simp add: signed_take_bit_eq_iff_take_bit_eq take_bit_eq_mod mod_diff_right_eq [symmetric])
  also have "\<dots> = x - 2 ^ 64"
    using assms by (intro signed_take_bit_63_id) simp_all
  finally show ?thesis .
qed

lemma age_window:
  assumes "0 \<le> now" "now < 2 ^ 62" "- (2 ^ 63) \<le> ts" "ts < 2 ^ 63"
  shows "age now ts \<le> SIGNATURE_TOLERANCE_SECS
    \<longleftrightarrow> abs (now - ts) \<le> SIGNATURE_TOLERANCE_SECS \<or> ts = now - 2 ^ 63"
proof (cases "now - ts < 2 ^ 63")
  case True
  with assms have d: "signed_take_bit 63 (now - ts) = now - ts"
    by (intro signed_take_bit_63_id) simp_all
  have "signed_take_bit 63 (abs (now - ts)) = abs (now - ts)"
    using True assms by (intro signed_take_bit_63_id) simp_all
  with d True show ?thesis by (simp add: age_def)
next
  case False
  with assms have d: "signed_take_bit 63 (now - ts) = now - ts - 2 ^ 64"
    by (intro signed_take_bit_63_wrap) simp_all
  have neg: "abs (now - ts - 2 ^ 64) = 2 ^ 64 - (now - ts)" using False assms by simp
  show ?thesis
  proof (cases "ts = now - 2 ^ 63")
    case True
    have "signed_take_bit 63 (2 ^ 63 :: int) = - (2 ^ 63)"
      using signed_take_bit_63_wrap[of "2 ^ 63"] by simp
    with True d neg show ?thesis by (simp add: age_def SIGNATURE_TOLERANCE_SECS_def)
  next
    case False
    have "signed_take_bit 63 (2 ^ 64 - (now - ts)) = 2 ^ 64 - (now - ts)"
      using False \<open>\<not> now - ts < 2 ^ 63\<close> assms by (intro signed_take_bit_63_id) simp_all
    with False d neg \<open>\<not> now - ts < 2 ^ 63\<close> assms show ?thesis
      by (simp add: age_def SIGNATURE_TOLERANCE_SECS_def)
  qed
qed

subsection \<open>The header\<close>

lemma show_nat_chars: "c \<in> set (show_nat n) \<Longrightarrow> is_digit c"
  using show_nat_digits[of n] by (auto simp: list_all_iff)

lemma parse_i64_show:
  assumes "- (2 ^ 63) \<le> v" "v < 2 ^ 63"
  shows "parse_i64 (show_int v) = Some v"
proof (cases "v < 0")
  case True
  then show ?thesis using assms by (simp add: parse_i64_def show_int_def Let_def)
next
  case False
  obtain c cs where n: "show_nat (nat v) = c # cs" using show_nat_nonempty by (cases "show_nat (nat v)") auto
  then have "is_digit c" using show_nat_chars[of c "nat v"] by simp
  then have c: "c \<noteq> CHR ''-''" "c \<noteq> CHR ''+''" by (auto simp: is_digit_def code_of_def)
  have p: "parse_digits (c # cs) = Some (nat v)" using parse_show_nat[of "nat v"] n by simp
  show ?thesis using False assms c by (simp add: parse_i64_def show_int_def n p)
qed

lemma show_int_chars: "c \<in> set (show_int v) \<Longrightarrow> is_digit c \<or> c = CHR ''-''"
  by (auto simp: show_int_def show_nat_chars split: if_splits)

lemma hex_digit_code: "d < 16 \<Longrightarrow> code_of (hex_digit d) = (if d < 10 then 48 + d else 87 + d)"
  by (simp add: hex_digit_def code_of_def)

lemma nibble_hex_digit [simp]: "d < 16 \<Longrightarrow> nibble (hex_digit d) = Some d"
  by (simp add: nibble_def is_digit_def hex_digit_code)

lemma hex_digit_not_plus: "d < 16 \<Longrightarrow> hex_digit d \<noteq> CHR ''+''"
  using hex_digit_code[of d] by (auto simp: code_of_def split: if_splits)

lemma encode_hex_Cons:
  "encode_hex (b # bs) = hex_digit (code_of b div 16) # hex_digit (code_of b mod 16) # encode_hex bs"
  by (simp add: encode_hex_def)

lemma decode_encode_hex [simp]: "decode_hex (encode_hex bs) = Some bs"
proof (induction bs)
  case (Cons b bs)
  have d: "code_of b div 16 < 16" using code_of_less[of b] by (simp add: div_less_iff_less_mult)
  have "hex_byte (hex_digit (code_of b div 16)) (hex_digit (code_of b mod 16)) = Some (char_of (code_of b))"
    using d hex_digit_not_plus[OF d] by (simp add: hex_byte_def)
  with Cons show ?case by (simp add: encode_hex_Cons) (simp add: code_of_def)
qed (simp add: encode_hex_def)

lemma encode_hex_chars: "c \<in> set (encode_hex bs) \<Longrightarrow> is_alnum c"
proof (induction bs)
  case (Cons b bs)
  have "is_alnum (hex_digit d)" if "d < 16" for d
    using hex_digit_code[OF that] that
    by (auto simp: is_alnum_def is_digit_def is_lower_def split: if_splits)
  moreover have "code_of b div 16 < 16" using code_of_less[of b] by (simp add: div_less_iff_less_mult)
  ultimately show ?case using Cons by (auto simp: encode_hex_Cons)
qed (simp add: encode_hex_def)

lemma split_char_id: "d \<notin> set s \<Longrightarrow> split_char d s = [s]"
  unfolding split_char_def by (rule split_on_id) auto

text \<open>The header Stripe sends.\<close>

definition stripe_header :: "int \<Rightarrow> string \<Rightarrow> string" where
  "stripe_header ts mac = ''t='' @ show_int ts @ '',v1='' @ encode_hex mac"

lemma sign_part:
  assumes "\<And>c. c \<in> set v \<Longrightarrow> is_alnum c \<or> c = CHR ''-''" "set k \<subseteq> {CHR ''t'', CHR ''v'', CHR ''1''}"
  shows "split_once CHR ''='' (trim (k @ ''='' @ v)) = Some (k, v)"
    "CHR '','' \<notin> set (k @ ''='' @ v)"
proof -
  have an: "is_alnum c \<Longrightarrow> graphic c \<and> c \<noteq> CHR '',''" for c
    by (auto simp: is_alnum_def is_digit_def is_upper_def is_lower_def graphic_def code_of_def)
  have "graphic c \<and> c \<noteq> CHR '',''" if "c \<in> set (k @ ''='' @ v)" for c
  proof -
    from that consider "c \<in> set k" | "c = CHR ''=''" | "c \<in> set v" by auto
    then show ?thesis
    proof cases
      case 1
      then have "c \<in> {CHR ''t'', CHR ''v'', CHR ''1''}" using assms(2) by blast
      then show ?thesis by (auto simp: graphic_def code_of_def)
    next
      case 3
      then show ?thesis using assms(1)[OF 3] an by (auto simp: graphic_def code_of_def)
    qed (simp add: graphic_def code_of_def)
  qed
  then have g: "\<forall>c\<in>set (k @ ''='' @ v). graphic c" "CHR '','' \<notin> set (k @ ''='' @ v)" by blast+
  show "CHR '','' \<notin> set (k @ ''='' @ v)" by (rule g)
  have "CHR ''='' \<notin> set k" using assms(2) by auto
  then show "split_once CHR ''='' (trim (k @ ''='' @ v)) = Some (k, v)"
    unfolding trim_graphic[OF g(1)] using split_once_app[of "CHR ''=''" k v] by simp
qed

lemma parse_stripe_header:
  assumes "- (2 ^ 63) \<le> ts" "ts < 2 ^ 63"
  shows "parse_header (stripe_header ts mac) = (Some ts, [encode_hex mac])"
proof -
  let ?a = "''t'' @ ''='' @ show_int ts" and ?b = "''v1'' @ ''='' @ encode_hex mac"
  have a: "split_once CHR ''='' (trim ?a) = Some (''t'', show_int ts)" "CHR '','' \<notin> set ?a"
    by (rule sign_part; use show_int_chars in \<open>auto simp: is_alnum_def\<close>)+
  have b: "split_once CHR ''='' (trim ?b) = Some (''v1'', encode_hex mac)" "CHR '','' \<notin> set ?b"
    by (rule sign_part; use encode_hex_chars in auto)+
  have "split_char CHR '','' (?a @ CHR '','' # ?b) = split_char CHR '','' ?a @ split_char CHR '','' ?b"
    by (rule split_char_sep)
  also have "\<dots> = [?a, ?b]"
    using split_char_id[OF a(2)] split_char_id[OF b(2)] by simp
  finally have "split_char CHR '','' (stripe_header ts mac) = [?a, ?b]"
    by (simp add: stripe_header_def)
  then show ?thesis
    using a(1) b(1) parse_i64_show[OF assms] by (simp add: parse_header_def header_step_def)
qed

subsection \<open>Properties\<close>

text \<open>C30: a webhook body is accepted exactly when its header carries a time stamp inside the window
  and one candidate that decodes to the whole MAC of that time stamp and this body: no prefix, no
  other body and no missing time stamp passes.  On a clock before the year 2^62 the window is five
  minutes either way, but for the one time stamp whose difference overflows \<open>i64\<close> to its minimum,
  which a release build takes for fresh (it still needs the secret).\<close>

theorem verify_signature_spec:
  assumes "0 \<le> now" "now < 2 ^ 62"
  shows "verify_signature hmac payload header secret now = Inr () \<longleftrightarrow>
    (\<exists>ts signatures mac.
       parse_header header = (Some ts, signatures)
       \<and> (abs (now - ts) \<le> SIGNATURE_TOLERANCE_SECS \<or> ts = now - 2 ^ 63)
       \<and> hmac secret (show_int ts @ ''.'' @ payload) = Some mac
       \<and> list_ex (\<lambda>s. decode_hex s = Some mac) signatures)"
proof -
  have range: "- (2 ^ 63) \<le> ts \<and> ts < 2 ^ 63" if "parse_header header = (Some ts, sigs)" for ts sigs
  proof -
    have step: "pred_option (\<lambda>v. - (2 ^ 63) \<le> v \<and> v < 2 ^ 63) (fst (foldl header_step st ps))"
      if "pred_option (\<lambda>v. - (2 ^ 63) \<le> v \<and> v < (2 ^ 63 :: int)) (fst st)" for st ps
      using that
    proof (induction ps arbitrary: st)
      case (Cons p ps)
      have "pred_option (\<lambda>v. - (2 ^ 63) \<le> v \<and> v < (2 ^ 63 :: int)) (fst (header_step st p))"
        using Cons.prems parse_i64_range
        by (cases st) (auto simp: header_step_def pred_option_def split: option.split)
      from Cons.IH[OF this] show ?case by simp
    qed simp
    from step[of "(None, [])" "split_char CHR '','' header"] that show ?thesis
      by (simp add: parse_header_def)
  qed
  obtain t sigs where h: "parse_header header = (t, sigs)" by (cases "parse_header header")
  show ?thesis
  proof (cases t)
    case None
    then show ?thesis by (simp add: verify_signature_def h)
  next
    case (Some ts)
    then have w: "age now ts \<le> SIGNATURE_TOLERANCE_SECS
        \<longleftrightarrow> abs (now - ts) \<le> SIGNATURE_TOLERANCE_SECS \<or> ts = now - 2 ^ 63"
      using range h assms by (intro age_window) auto
    show ?thesis
    proof (cases "age now ts \<le> SIGNATURE_TOLERANCE_SECS")
      case True
      then show ?thesis using Some w
        by (cases "hmac secret (show_int ts @ ''.'' @ payload)"; cases sigs)
           (simp_all add: verify_signature_def h accepts_candidate del: append.simps)
    next
      case False
      then show ?thesis using Some w by (simp add: verify_signature_def h)
    qed
  qed
qed

definition demo_hmac :: "string \<Rightarrow> string \<Rightarrow> string option" where
  "demo_hmac key message = Some (key @ message)"

theorem verify_signature_spec_witness:
  "verify_signature demo_hmac ''{}'' (stripe_header 1000 ''k1000.{}'') ''k'' 1100 = Inr () \<longleftrightarrow>
    (\<exists>ts signatures mac.
       parse_header (stripe_header 1000 ''k1000.{}'') = (Some ts, signatures)
       \<and> (abs (1100 - ts) \<le> SIGNATURE_TOLERANCE_SECS \<or> ts = 1100 - 2 ^ 63)
       \<and> demo_hmac ''k'' (show_int ts @ ''.'' @ ''{}'') = Some mac
       \<and> list_ex (\<lambda>s. decode_hex s = Some mac) signatures)"
  by (rule verify_signature_spec) simp_all

text \<open>What Stripe signs is accepted: for any body and secret, the header made of the time stamp
  and the hexadecimal MAC passes while it is at most five minutes old or ahead.\<close>

lemma honest_signature_accepted:
  assumes "hmac secret (show_int ts @ ''.'' @ payload) = Some mac"
    and "abs (now - ts) \<le> SIGNATURE_TOLERANCE_SECS"
    and "0 \<le> now" "now < 2 ^ 62"
  shows "verify_signature hmac payload (stripe_header ts mac) secret now = Inr ()"
proof -
  have r: "- (2 ^ 63) \<le> ts" "ts < 2 ^ 63" using assms(2-4) by (auto simp: SIGNATURE_TOLERANCE_SECS_def)
  then have w: "age now ts \<le> SIGNATURE_TOLERANCE_SECS" using age_window assms by blast
  show ?thesis
    using assms(1) w by (simp add: verify_signature_def parse_stripe_header[OF r] accepts_candidate del: append.simps)
qed

lemma honest_signature_accepted_witness:
  "verify_signature demo_hmac ''{}'' (stripe_header 1000 (''k'' @ show_int 1000 @ ''.'' @ ''{}'')) ''k'' 1100 = Inr ()"
  by (rule honest_signature_accepted)
     (simp_all add: demo_hmac_def SIGNATURE_TOLERANCE_SECS_def)

end
