(* ===== verification/Stripe.thy ===== *)
theory Stripe
  imports Store Growth Signature Json Mail ApiError
begin

text \<open>
  What every billing handler of \<open>crates/api/src/routes/billing.rs\<close> is made of: the process around the
  database (its environment, Stripe, the mailer), actions on it that may fail, and the three requests
  the program sends to Stripe.  Stripe is not under this repository: it is a function from the requests
  it has had so far and the new one to its reply, so that nothing is assumed of it, and the requests are
  recorded.  Actions of one request run one after the other; what Stripe does meanwhile is in the reply.
\<close>

subsection \<open>The process\<close>

datatype call =
    HttpGet string string "(string \<times> string) list"
      \<comment> \<open>key, URL, query\<close>
  | HttpPost string string "(string \<times> string) list"
      \<comment> \<open>key, URL, form\<close>
  | HttpDelete string string "(string \<times> string) list"
      \<comment> \<open>key, URL, query\<close>

text \<open>A transport error with its text, or a status with the body as far as it is JSON.\<close>

datatype reply = NoReply string | Reply nat "json option"

record app =
  ap_env :: environment
  ap_debug :: bool
  ap_url :: string
  ap_deliver :: "string \<Rightarrow> message \<Rightarrow> bool"
  ap_stripe :: "call list \<Rightarrow> call \<Rightarrow> reply"
  ap_locked :: "string \<Rightarrow> bool"
  ap_sha256 :: "string \<Rightarrow> string"
  ap_hmac :: "string \<Rightarrow> string \<Rightarrow> string option"
  ap_lower :: "string \<Rightarrow> string"
  ap_json :: "string \<Rightarrow> json option"
  ap_show_uuid :: "uid \<Rightarrow> string"
  ap_read_uuid :: "string \<Rightarrow> uid option"

record world =
  w_db :: db
  w_calls :: "call list"
  w_mail :: outbox

subsection \<open>Actions\<close>

text \<open>An \<open>async fn\<close> that returns \<open>ApiResult\<close>; \<open>and_then\<close> is the \<open>?\<close> after it.\<close>

type_synonym 'a action = "world \<Rightarrow> (api_error + 'a) \<times> world"

definition done_with :: "'a \<Rightarrow> 'a action" where
  "done_with x w = (Inr x, w)"

definition stop_with :: "api_error \<Rightarrow> 'a action" where
  "stop_with e w = (Inl e, w)"

definition and_then :: "'a action \<Rightarrow> ('a \<Rightarrow> 'b action) \<Rightarrow> 'b action" where
  "and_then m k w = (case m w of (Inl e, w') \<Rightarrow> (Inl e, w') | (Inr x, w') \<Rightarrow> k x w')"

text \<open>\<open>map_err\<close>, and a result looked at instead of passed on.\<close>

definition with_error :: "(api_error \<Rightarrow> api_error) \<Rightarrow> 'a action \<Rightarrow> 'a action" where
  "with_error f m w = (case m w of (Inl e, w') \<Rightarrow> (Inl (f e), w') | (Inr x, w') \<Rightarrow> (Inr x, w'))"

definition attempt :: "'a action \<Rightarrow> (api_error + 'a) action" where
  "attempt m w = (case m w of (r, w') \<Rightarrow> (Inr r, w'))"

definition of_option :: "api_error \<Rightarrow> 'a option \<Rightarrow> 'a action" where
  "of_option e x = (case x of None \<Rightarrow> stop_with e | Some v \<Rightarrow> done_with v)"

definition reading :: "(db \<Rightarrow> 'a) \<Rightarrow> 'a action" where
  "reading q w = (Inr (q (w_db w)), w)"

definition writing :: "(db \<Rightarrow> db) \<Rightarrow> unit action" where
  "writing f w = (Inr (), w\<lparr>w_db := f (w_db w)\<rparr>)"

lemma and_then_simps [simp]:
  "and_then (done_with x) k = k x"
  "and_then (stop_with e) k = stop_with e"
  "and_then (reading q) k w = k (q (w_db w)) w"
  "and_then (writing f) k' w = k' () (w\<lparr>w_db := f (w_db w)\<rparr>)"
  by (simp_all add: and_then_def done_with_def stop_with_def reading_def writing_def fun_eq_iff)

lemma and_then_assoc: "and_then (and_then m k) l = and_then m (\<lambda>x. and_then (k x) l)"
  by (simp add: and_then_def fun_eq_iff split: prod.split sum.split)

lemma and_then_Inr_iff:
  "and_then m k w = (Inr y, w'') \<longleftrightarrow> (\<exists>x w'. m w = (Inr x, w') \<and> k x w' = (Inr y, w''))"
  by (auto simp: and_then_def split: prod.split sum.split)

text \<open>A mail that could not be delivered is logged and forgotten.\<close>

definition deliver_mail :: "app \<Rightarrow> string \<Rightarrow> message \<Rightarrow> world \<Rightarrow> world" where
  "deliver_mail a to m w = (if ap_deliver a to m then w\<lparr>w_mail := w_mail w @ [(to, m)]\<rparr> else w)"

definition mailing :: "app \<Rightarrow> string \<Rightarrow> message \<Rightarrow> unit action" where
  "mailing a to m w = (Inr (), deliver_mail a to m w)"

definition app_link_of :: "app \<Rightarrow> string \<Rightarrow> string" where
  "app_link_of a = app_link (ap_url a)"

definition shown_email_hash :: "app \<Rightarrow> string \<Rightarrow> string" where
  "shown_email_hash a = email_hash (ap_sha256 a) (ap_lower a)"

subsection \<open>Stripe\<close>

text \<open>\<open>std::env::var(name).ok().filter(|value| !value.is_empty())\<close>.\<close>

definition env_set :: "app \<Rightarrow> string \<Rightarrow> string option" where
  "env_set a name = (case ap_env a name of Some (c # cs) \<Rightarrow> Some (c # cs) | _ \<Rightarrow> None)"

definition stripe_url :: "app \<Rightarrow> string \<Rightarrow> string" where
  "stripe_url a path =
     (case (if ap_debug a then env_set a ''STRIPE_API_BASE'' else None) of
        Some base \<Rightarrow> trim_end_char CHR ''/'' base @ path
      | None \<Rightarrow> ''https://api.stripe.com'' @ path)"

definition stripe_secret :: "app \<Rightarrow> string action" where
  "stripe_secret a = of_option (Internal ''billing is not configured'') (env_set a ''STRIPE_SECRET_KEY'')"

definition ask :: "app \<Rightarrow> call \<Rightarrow> world \<Rightarrow> reply \<times> world" where
  "ask a c w = (ap_stripe a (w_calls w) c, w\<lparr>w_calls := w_calls w @ [c]\<rparr>)"

definition asking :: "app \<Rightarrow> call \<Rightarrow> reply action" where
  "asking a c w = (case ask a c w of (r, w') \<Rightarrow> (Inr r, w'))"

definition success :: "nat \<Rightarrow> bool" where
  "success status \<longleftrightarrow> 200 \<le> status \<and> status < 300"

text \<open>What \<open>stripe_get\<close> and \<open>stripe_post\<close> make of a reply; a body that is not JSON reads as null.\<close>

definition stripe_answer :: "reply \<Rightarrow> api_error + json" where
  "stripe_answer r =
     (case r of
        NoReply err \<Rightarrow> Inl (Internal (''could not reach Stripe: '' @ err))
      | Reply status body \<Rightarrow>
          if success status then Inr (case body of None \<Rightarrow> JNull | Some v \<Rightarrow> v)
          else Inl (Internal ''Stripe refused''))"

definition stripe_get :: "app \<Rightarrow> string \<Rightarrow> string \<Rightarrow> (string \<times> string) list \<Rightarrow> json action" where
  "stripe_get a secret url query w =
     (case ask a (HttpGet secret url query) w of (r, w') \<Rightarrow> (stripe_answer r, w'))"

definition stripe_post :: "app \<Rightarrow> string \<Rightarrow> string \<Rightarrow> (string \<times> string) list \<Rightarrow> json action" where
  "stripe_post a secret url form w =
     (case ask a (HttpPost secret url form) w of (r, w') \<Rightarrow> (stripe_answer r, w'))"

definition fetch_subscription :: "app \<Rightarrow> string \<Rightarrow> json option action" where
  "fetch_subscription a i =
     (case env_set a ''STRIPE_SECRET_KEY'' of
        None \<Rightarrow> done_with None
      | Some secret \<Rightarrow>
          and_then (stripe_get a secret (stripe_url a (''/v1/subscriptions/'' @ i))
              [(''expand[]'', ''default_payment_method''), (''expand[]'', ''latest_invoice'')])
            (\<lambda>v. done_with (Some v)))"

definition is_status :: "json \<Rightarrow> string \<Rightarrow> bool" where
  "is_status v s \<longleftrightarrow> get_str ''status'' v = Some s"

text \<open>\<open>still_live\<close>: without a key the stored row is taken at its word.\<close>

definition still_live :: "app \<Rightarrow> string \<Rightarrow> bool action" where
  "still_live a i =
     and_then (fetch_subscription a i) (\<lambda>found.
       done_with (case found of
          None \<Rightarrow> True
        | Some v \<Rightarrow> (case get_str ''status'' v of None \<Rightarrow> False | Some s \<Rightarrow> status_grants_access s)))"

text \<open>A refusal to cancel is no error when the subscription is found cancelled already.\<close>

definition cancel_subscription :: "app \<Rightarrow> string \<Rightarrow> string \<Rightarrow> unit action" where
  "cancel_subscription a i note =
     and_then (stripe_secret a) (\<lambda>secret.
     and_then (asking a (HttpDelete secret (stripe_url a (''/v1/subscriptions/'' @ i))
         [(''cancellation_details[comment]'', note)])) (\<lambda>r.
       case r of
         NoReply err \<Rightarrow> stop_with (Internal (''could not reach Stripe: '' @ err))
       | Reply status _ \<Rightarrow>
           if success status then done_with ()
           else and_then (attempt (fetch_subscription a i)) (\<lambda>found.
             case found of
               Inl _ \<Rightarrow> stop_with (Internal ''Stripe refused'')
             | Inr current \<Rightarrow>
                 (case current of
                    None \<Rightarrow> stop_with (Internal ''Stripe refused'')
                  | Some v \<Rightarrow>
                      if is_status v ''canceled'' then done_with ()
                      else stop_with (Internal ''Stripe refused'')))))"

subsection \<open>What Stripe's objects say\<close>

definition timestamp_of :: "json \<Rightarrow> time option" where
  "timestamp_of v = Option.bind (as_i64 v) timestamp_opt"

text \<open>\<open>invoice_subscription\<close>: either API version's shape.\<close>

definition invoice_subscription :: "json \<Rightarrow> string option" where
  "invoice_subscription invoice =
     (case get_str ''subscription'' invoice of
        Some s \<Rightarrow> Some s
      | None \<Rightarrow> Option.bind (jpath [''parent'', ''subscription_details'', ''subscription''] invoice) as_str)"

text \<open>\<open>payload_prices\<close>: a price as an object or an id, or the newer place on invoice lines.\<close>

definition line_price :: "json \<Rightarrow> string option" where
  "line_price line =
     (case Option.bind (jget ''price'' line) (\<lambda>price.
             as_str (case jget ''id'' price of None \<Rightarrow> price | Some i \<Rightarrow> i)) of
        Some s \<Rightarrow> Some s
      | None \<Rightarrow> Option.bind (jpath [''pricing'', ''price_details'', ''price''] line) as_str)"

definition payload_prices :: "json \<Rightarrow> string list" where
  "payload_prices v =
     List.map_filter line_price
       (concat (List.map_filter (\<lambda>k. Option.bind (jpath [k, ''data''] v) as_array) [''items'', ''lines'']))"

definition plan_for :: "app \<Rightarrow> string \<Rightarrow> plan option" where
  "plan_for a = plan_for_price (ap_env a)"

text \<open>\<open>other_product\<close>: prices are named, none of them ours, and no account holds the subscription.\<close>

definition other_product :: "app \<Rightarrow> json \<Rightarrow> string \<Rightarrow> db \<Rightarrow> bool" where
  "other_product a v i d =
     (let prices = payload_prices v in
      if prices = [] \<or> list_ex (\<lambda>p. plan_for a p \<noteq> None) prices then False
      else \<not> list_ex (\<lambda>e. e_product e = ''glarion'' \<and> e_subscription e = Some i) (entitlements d))"

text \<open>\<open>with_customer_lock\<close>: while another event of the customer holds the lock past the deadline, the
  event is refused and Stripe delivers it again.\<close>

definition with_customer_lock :: "app \<Rightarrow> json \<Rightarrow> 'a action \<Rightarrow> 'a action" where
  "with_customer_lock a v work =
     (case get_str ''customer'' v of
        None \<Rightarrow> work
      | Some customer \<Rightarrow>
          if ap_locked a (''glarion-stripe:'' @ customer)
          then stop_with (Conflict ''another event for this customer is being applied'')
          else work)"


subsection \<open>What an action leaves behind\<close>

text \<open>An action moves the world along a relation.  A relation that stands still and can be chained
  goes through every composition of actions; \<open>asks P R\<close> is that requests with \<open>P\<close> go along it.\<close>

definition moves :: "(world \<Rightarrow> world \<Rightarrow> bool) \<Rightarrow> 'a action \<Rightarrow> bool" where
  "moves R m \<longleftrightarrow> (\<forall>w. R w (snd (m w)))"

definition asks :: "(call \<Rightarrow> bool) \<Rightarrow> (world \<Rightarrow> world \<Rightarrow> bool) \<Rightarrow> bool" where
  "asks P R \<longleftrightarrow> (\<forall>w c. P c \<longrightarrow> R w (w\<lparr>w_calls := w_calls w @ [c]\<rparr>))"

lemma movesD: "moves R m \<Longrightarrow> m w = (r, w') \<Longrightarrow> R w w'"
  unfolding moves_def by (metis snd_conv)

lemma moves_if: "(b \<Longrightarrow> moves R m) \<Longrightarrow> (\<not> b \<Longrightarrow> moves R m') \<Longrightarrow> moves R (if b then m else m')"
  by simp

lemma moves_option:
  "(opt = None \<Longrightarrow> moves R m) \<Longrightarrow> (\<And>x. opt = Some x \<Longrightarrow> moves R (k x)) \<Longrightarrow>
     moves R (case opt of None \<Rightarrow> m | Some x \<Rightarrow> k x)"
  by (cases opt) simp_all

lemma moves_sum:
  "(\<And>x. moves R (f x)) \<Longrightarrow> (\<And>y. moves R (g y)) \<Longrightarrow>
     moves R (case s of Inl x \<Rightarrow> f x | Inr y \<Rightarrow> g y)"
  by (cases s) simp_all

lemma moves_prod: "(\<And>x y. p = (x, y) \<Longrightarrow> moves R (h x y)) \<Longrightarrow> moves R (case p of (x, y) \<Rightarrow> h x y)"
  by (cases p) simp

lemma moves_reply:
  "(\<And>e. moves R (f e)) \<Longrightarrow> (\<And>n v. moves R (g n v)) \<Longrightarrow>
     moves R (case r of NoReply e \<Rightarrow> f e | Reply n v \<Rightarrow> g n v)"
  by (cases r) simp_all

lemmas moves_cases = moves_if moves_option moves_sum moves_prod moves_reply

locale action_relation =
  fixes R :: "world \<Rightarrow> world \<Rightarrow> bool"
  assumes stay: "R w w"
    and chain: "R u v \<Longrightarrow> R v w \<Longrightarrow> R u w"
begin

lemma finish: "moves R (done_with x)"
  by (simp add: moves_def done_with_def stay)

lemma stop: "moves R (stop_with e)"
  by (simp add: moves_def stop_with_def stay)

lemma read: "moves R (reading q)"
  by (simp add: moves_def reading_def stay)

lemma option: "moves R (of_option e x)"
  by (cases x) (simp_all add: of_option_def finish stop)

lemma secret: "moves R (stripe_secret a)"
  by (simp add: stripe_secret_def option)

lemma seq: "moves R m \<Longrightarrow> (\<And>x. moves R (k x)) \<Longrightarrow> moves R (and_then m k)"
  unfolding moves_def and_then_def
  by (auto split: prod.split sum.split) (metis chain snd_conv)+

lemma seqE [consumes 2, case_names failed passed]:
  assumes "moves R m" "and_then m k w = (r, w'')"
  obtains e where "R w w''" "r = Inl e"
  | x w' where "R w w'" "m w = (Inr x, w')" "k x w' = (r, w'')"
  using assms movesD[OF assms(1)]
  by (auto simp: and_then_def split: prod.splits sum.splits)

lemma tried: "moves R m \<Longrightarrow> moves R (attempt m)"
  by (auto simp: moves_def attempt_def split: prod.split) (metis snd_conv)

lemma mapped: "moves R m \<Longrightarrow> moves R (with_error f m)"
  by (auto simp: moves_def with_error_def split: prod.split sum.split) (metis snd_conv)+

lemma lock: "moves R m \<Longrightarrow> moves R (with_customer_lock a v m)"
  by (simp add: with_customer_lock_def stop split: option.split)

lemma asked: "asks P R \<Longrightarrow> P c \<Longrightarrow> moves R (asking a c)"
  by (simp add: moves_def asks_def asking_def ask_def)

lemma get: "asks P R \<Longrightarrow> P (HttpGet secret url q) \<Longrightarrow> moves R (stripe_get a secret url q)"
  by (simp add: moves_def asks_def stripe_get_def ask_def)

lemma post: "asks P R \<Longrightarrow> P (HttpPost secret url f) \<Longrightarrow> moves R (stripe_post a secret url f)"
  by (simp add: moves_def asks_def stripe_post_def ask_def)

lemmas plain = finish stop read option secret seq tried mapped lock moves_cases

lemma fetch:
  assumes "asks P R" and "\<And>secret url q. P (HttpGet secret url q)"
  shows "moves R (fetch_subscription a i)"
  unfolding fetch_subscription_def by (intro plain get[OF assms(1)] assms(2))

lemma live:
  assumes "asks P R" and "\<And>secret url q. P (HttpGet secret url q)"
  shows "moves R (still_live a i)"
  unfolding still_live_def by (intro plain fetch[OF assms])

lemma cancel:
  assumes "asks P R" and "\<And>secret url q. P (HttpGet secret url q)"
    and "\<And>secret q. P (HttpDelete secret (stripe_url a (''/v1/subscriptions/'' @ i)) q)"
  shows "moves R (cancel_subscription a i note)"
  unfolding cancel_subscription_def
  by (intro plain asked[OF assms(1)] assms(3) fetch[OF assms(1,2)])

end

text \<open>Three such relations: requests that all satisfy a predicate, a part of the database that stays,
  and an invariant of it that is kept.\<close>

definition requests :: "(call \<Rightarrow> bool) \<Rightarrow> world \<Rightarrow> world \<Rightarrow> bool" where
  "requests P w w' \<longleftrightarrow> (\<exists>cs. w_calls w' = w_calls w @ cs \<and> list_all P cs)"

definition same :: "(db \<Rightarrow> 'x) \<Rightarrow> world \<Rightarrow> world \<Rightarrow> bool" where
  "same f w w' \<longleftrightarrow> f (w_db w') = f (w_db w)"

definition maintains :: "(db \<Rightarrow> bool) \<Rightarrow> world \<Rightarrow> world \<Rightarrow> bool" where
  "maintains I w w' \<longleftrightarrow> (I (w_db w) \<longrightarrow> I (w_db w'))"

interpretation calling: action_relation "requests P" for P
proof
  show "requests P w w" for w by (simp add: requests_def)
  show "requests P u w" if "requests P u v" "requests P v w" for u v w
    using that by (auto simp: requests_def)
qed

interpretation frame: action_relation "same f" for f
  by unfold_locales (simp_all add: same_def)

interpretation invariant: action_relation "maintains I" for I
  by unfold_locales (simp_all add: maintains_def)

lemma asks_requests [intro, simp]: "asks P (requests P)"
  by (simp add: asks_def requests_def)

lemma asks_same [intro, simp]: "asks P (same f)"
  by (simp add: asks_def same_def)

lemma asks_maintains [intro, simp]: "asks P (maintains I)"
  by (simp add: asks_def maintains_def)

end
