(* ===== verification/Subscriptions.thy ===== *)
theory Subscriptions
  imports Stripe
begin

text \<open>
  \<open>crates/api/src/routes/billing.rs\<close>: \<open>apply_subscription\<close>, from a Stripe subscription to what the
  account may do.  First what the subscription says and the decision made of it, then the handler step
  by step: a replaced subscription is ignored, a second live one ended, a repeated trial refused, the
  row written, the mails sent, the schedules switched off.
\<close>

subsection \<open>What a subscription says\<close>

record subscription =
  sb_id :: "string option"
  sb_user :: "uid option"
  sb_status :: string
  sb_price :: string
  sb_three_day :: bool
  sb_trial_end :: "time option"
  sb_cancel :: bool
  sb_comment :: "string option"
  sb_interval :: "string option"
  sb_disputed :: bool
  sb_period_end :: "time option"
  sb_card :: "string option"
  sb_consented :: bool
  sb_charged :: bool
  sb_reason :: string

definition metadata :: "string \<Rightarrow> json \<Rightarrow> string option" where
  "metadata k v = Option.bind (jpath [''metadata'', k] v) as_str"

definition item_path :: "string list \<Rightarrow> json \<Rightarrow> json option" where
  "item_path ks v = Option.bind (first_item v) (jpath ks)"

definition or_empty :: "string option \<Rightarrow> string" where
  "or_empty s = (case s of None \<Rightarrow> [] | Some x \<Rightarrow> x)"

definition filled :: "string option \<Rightarrow> bool" where
  "filled s \<longleftrightarrow> s \<noteq> None \<and> s \<noteq> Some []"

text \<open>The period's end is on the item, or on the subscription under older API versions.\<close>

definition period_end_of :: "json \<Rightarrow> time option" where
  "period_end_of v =
     Option.bind
       (case Option.bind (item_path [''current_period_end''] v) as_i64 of
          Some n \<Rightarrow> Some n
        | None \<Rightarrow> Option.bind (jget ''current_period_end'' v) as_i64) timestamp_opt"

definition card_fingerprint :: "json \<Rightarrow> string option" where
  "card_fingerprint v =
     (case Option.bind (jpath [''default_payment_method'', ''card'', ''fingerprint''] v) as_str of
        Some (c # cs) \<Rightarrow> Some (c # cs)
      | _ \<Rightarrow> None)"

definition invoice_charged :: "json \<Rightarrow> bool" where
  "invoice_charged v \<longleftrightarrow>
     Option.bind (jpath [''latest_invoice'', ''status''] v) as_str = Some ''paid''
     \<and> (case Option.bind (jpath [''latest_invoice'', ''amount_paid''] v) as_i64 of
          None \<Rightarrow> False | Some n \<Rightarrow> n > 0)"

definition read_subscription :: "app \<Rightarrow> json \<Rightarrow> subscription" where
  "read_subscription a v =
     \<lparr>sb_id = get_str ''id'' v,
      sb_user = Option.bind (metadata ''user_id'' v) (ap_read_uuid a),
      sb_status = or_empty (get_str ''status'' v),
      sb_price = or_empty (Option.bind (item_path [''price'', ''id''] v) as_str),
      sb_three_day = (metadata TRIAL_MARKER_KEY v = Some TRIAL_MARKER_VALUE),
      sb_trial_end = Option.bind (Option.bind (jget ''trial_end'' v) as_i64) timestamp_opt,
      sb_cancel = (Option.bind (jget ''cancel_at_period_end'' v) as_bool = Some True),
      sb_comment = Option.bind (jpath [''cancellation_details'', ''comment''] v) as_str,
      sb_interval = Option.bind (item_path [''price'', ''recurring'', ''interval''] v) as_str,
      sb_disputed = filled (metadata DISPUTE_MARK v),
      sb_period_end = period_end_of v,
      sb_card = card_fingerprint v,
      sb_consented = filled (metadata CONSENT_KEY v),
      sb_charged = invoice_charged v,
      sb_reason = or_empty (Option.bind (jpath [''cancellation_details'', ''reason''] v) as_str)\<rparr>"

subsection \<open>The decision\<close>

definition keeps_plan :: "app \<Rightarrow> subscription \<Rightarrow> bool" where
  "keeps_plan a s = status_keeps_plan (sb_status s) (trial_enabled (ap_env a) \<or> sb_three_day s)"

definition plan_of :: "app \<Rightarrow> subscription \<Rightarrow> plan" where
  "plan_of a s =
     (if keeps_plan a s \<and> \<not> sb_disputed s
      then (case plan_for a (sb_price s) of None \<Rightarrow> Free | Some p \<Rightarrow> p)
      else Free)"

definition reason_of :: "app \<Rightarrow> subscription \<Rightarrow> string" where
  "reason_of a s =
     (if sb_disputed s \<and> keeps_plan a s then ''disputed''
      else if plan_of a s = Free \<and> sb_status s \<noteq> [] then blocked_reason (sb_status s) (sb_comment s)
      else ''none'')"

subsection \<open>The account's row\<close>

text \<open>\<open>where product = 'glarion' and (stripe_customer_id = $1 or user_id = $2)\<close>.\<close>

definition is_row :: "string \<Rightarrow> subscription \<Rightarrow> entitlement \<Rightarrow> bool" where
  "is_row customer s e \<longleftrightarrow>
     e_product e = ''glarion'' \<and> (e_customer e = Some customer \<or> Some (e_user e) = sb_user s)"

definition row_of :: "string \<Rightarrow> subscription \<Rightarrow> db \<Rightarrow> entitlement option" where
  "row_of customer s d = find (is_row customer s) (entitlements d)"

definition grants :: "string option \<Rightarrow> bool" where
  "grants status = (case status of None \<Rightarrow> False | Some s \<Rightarrow> status_grants_access s)"

text \<open>An event about a replaced subscription.\<close>

definition replaced :: "entitlement option \<Rightarrow> subscription \<Rightarrow> bool" where
  "replaced row s =
     (case row of
        None \<Rightarrow> False
      | Some e \<Rightarrow> e_subscription e \<noteq> None \<and> e_subscription e \<noteq> sb_id s
          \<and> grants (e_status e) \<and> \<not> status_grants_access (sb_status s))"

definition same_subscription :: "entitlement option \<Rightarrow> subscription \<Rightarrow> bool" where
  "same_subscription row s = (case row of None \<Rightarrow> False | Some e \<Rightarrow> e_subscription e = sb_id s)"

text \<open>The owner of a row, through the left join.\<close>

definition row_user :: "db \<Rightarrow> entitlement option \<Rightarrow> user option" where
  "row_user d row = Option.bind row (\<lambda>e. user_by_id d (e_user e))"

definition row_email :: "db \<Rightarrow> entitlement option \<Rightarrow> string option" where
  "row_email d row = map_option u_email (row_user d row)"

definition row_first_name :: "db \<Rightarrow> entitlement option \<Rightarrow> string" where
  "row_first_name d row = or_empty (Option.bind (row_user d row) u_first_name)"

subsection \<open>A second live subscription\<close>

definition OWNER_NOTICE_TO :: string where
  "OWNER_NOTICE_TO = ''support@pctweaker.app''"

definition DUPLICATE_COMMENT :: string where
  "DUPLICATE_COMMENT = ''duplicate_subscription''"

text \<open>Whether the event's subscription was ended as the account's second one.\<close>

definition end_duplicate :: "app \<Rightarrow> subscription \<Rightarrow> entitlement option \<Rightarrow> string option \<Rightarrow> bool action" where
  "end_duplicate a s row email =
     (if sb_three_day s \<or> same_subscription row s \<or> \<not> status_grants_access (sb_status s)
      then done_with False
      else (case (row, sb_id s) of
        (Some e, Some duplicate) \<Rightarrow>
          (case (e_subscription e, e_status e) of
             (Some kept, Some kept_status) \<Rightarrow>
               if \<not> status_grants_access kept_status then done_with False
               else and_then (still_live a kept) (\<lambda>live.
                 if \<not> live then done_with False
                 else and_then (cancel_subscription a duplicate DUPLICATE_COMMENT) (\<lambda>_.
                      and_then (mailing a OWNER_NOTICE_TO
                        (DuplicateSubscriptionNotice
                           (case email of None \<Rightarrow> ''unknown'' | Some x \<Rightarrow> x) kept duplicate))
                      (\<lambda>_. done_with True)))
           | _ \<Rightarrow> done_with False)
      | _ \<Rightarrow> done_with False))"

subsection \<open>The three-day trial\<close>

text \<open>The unique indexes of \<open>trial_claims\<close>: one row per account, mailbox, card and subscription.\<close>

definition claims_clash :: "trial_claim \<Rightarrow> trial_claim \<Rightarrow> bool" where
  "claims_clash c c' \<longleftrightarrow> c_user c = c_user c' \<or> c_email_hash c = c_email_hash c'
     \<or> (c_card c \<noteq> None \<and> c_card c = c_card c') \<or> c_subscription c = c_subscription c'"

definition claim_trial :: "trial_claim \<Rightarrow> db \<Rightarrow> bool \<times> db" where
  "claim_trial c d =
     (if \<not> list_ex (claims_clash c) (claims d) then (True, d\<lparr>claims := claims d @ [c]\<rparr>)
      else (case find (\<lambda>r. c_subscription r = c_subscription c) (claims d) of
        None \<Rightarrow> (False, d)
      | Some ours \<Rightarrow>
          (case (c_card ours, c_card c) of
             (None, Some fingerprint) \<Rightarrow>
               if list_ex (\<lambda>r. c_card r = Some fingerprint) (claims d) then (False, d)
               else (True, d\<lparr>claims := update_where
                        (\<lambda>r. c_subscription r = c_subscription c \<and> c_card r = None)
                        (\<lambda>r. r\<lparr>c_card := Some fingerprint\<rparr>) (claims d)\<rparr>)
           | _ \<Rightarrow> (True, d))))"

definition claiming :: "trial_claim \<Rightarrow> bool action" where
  "claiming c w = (case claim_trial c (w_db w) of (ok, d) \<Rightarrow> (Inr ok, w\<lparr>w_db := d\<rparr>))"

text \<open>Whether the trial was refused and its subscription ended.\<close>

definition refuse_trial ::
    "app \<Rightarrow> time \<Rightarrow> subscription \<Rightarrow> entitlement option \<Rightarrow> string option \<Rightarrow> string \<Rightarrow> bool action" where
  "refuse_trial a now s row email first_name =
     (if \<not> sb_three_day s then done_with False
      else (case (sb_trial_end s, sb_id s, row) of
        (Some trial_end, Some i, Some e) \<Rightarrow>
          and_then (claiming \<lparr>c_user = e_user e, c_email_hash = shown_email_hash a (or_empty email),
              c_card = sb_card s, c_subscription = i, c_created = now, c_trial_ends = trial_end\<rparr>)
          (\<lambda>claimed.
             if claimed \<or> sb_status s \<noteq> ''trialing'' then done_with False
             else and_then (cancel_subscription a i TRIAL_REJECTED_COMMENT) (\<lambda>_.
               if (\<not> same_subscription row s \<and> grants (e_status e)) \<or> or_empty email = []
               then done_with True
               else and_then (mailing a (or_empty email)
                      (TrialRejectedEmail first_name
                        (display_name (case plan_for a (sb_price s) of None \<Rightarrow> Solo | Some p \<Rightarrow> p))
                        (app_link_of a ''/plan'')))
                    (\<lambda>_. done_with True)))
      | _ \<Rightarrow> done_with False))"

text \<open>\<open>preview_first_charge\<close>: best effort.\<close>

definition preview_first_charge :: "app \<Rightarrow> string \<Rightarrow> (int \<times> string) option action" where
  "preview_first_charge a i =
     (case env_set a ''STRIPE_SECRET_KEY'' of
        None \<Rightarrow> done_with None
      | Some secret \<Rightarrow>
          and_then (attempt (stripe_post a secret (stripe_url a ''/v1/invoices/create_preview'')
                [(''subscription'', i)]))
            (\<lambda>r. done_with (case r of
               Inl _ \<Rightarrow> None
             | Inr invoice \<Rightarrow>
                 (case (Option.bind (jget ''amount_due'' invoice) as_i64, get_str ''currency'' invoice) of
                    (Some amount, Some currency) \<Rightarrow> Some (amount, currency)
                  | _ \<Rightarrow> None))))"

definition first_charge :: "app \<Rightarrow> subscription \<Rightarrow> entitlement option \<Rightarrow> (int \<times> string) option action" where
  "first_charge a s row =
     (if \<not> (sb_three_day s \<and> sb_status s = ''trialing'') then done_with None
      else
        (let asked = (case sb_id s of None \<Rightarrow> done_with None | Some i \<Rightarrow> preview_first_charge a i) in
         case row of
           None \<Rightarrow> asked
         | Some e \<Rightarrow>
             (case (e_charge_amount e, e_charge_currency e) of
                (Some amount, Some currency) \<Rightarrow>
                  if same_subscription row s then done_with (Some (amount, currency)) else asked
              | _ \<Rightarrow> asked)))"

subsection \<open>Writing the row\<close>

definition entitled ::
    "app \<Rightarrow> string \<Rightarrow> subscription \<Rightarrow> (int \<times> string) option \<Rightarrow> entitlement \<Rightarrow> entitlement" where
  "entitled a customer s charge e =
     e\<lparr>e_customer := Some customer,
       e_plan := plan_db_str (plan_of a s),
       e_max_targets := max_targets (plan_of a s),
       e_status := Some (sb_status s),
       e_subscription := sb_id s,
       e_period_end := sb_period_end s,
       e_trial_ends := (if sb_status s = ''trialing'' then sb_trial_end s else None),
       e_cancel := sb_cancel s,
       e_blocked := (if reason_of a s \<noteq> ''none'' then Some (reason_of a s) else None),
       e_interval := sb_interval s,
       e_charge_amount := map_option fst charge,
       e_charge_currency := map_option snd charge\<rparr>"

text \<open>\<open>entitlements_stripe_customer_idx\<close>: a statement that would give two rows one customer fails and
  changes nothing.\<close>

definition unique_customers :: "entitlement list \<Rightarrow> bool" where
  "unique_customers rows \<longleftrightarrow> distinct (List.map_filter e_customer rows)"

definition updating_rows :: "(entitlement list \<Rightarrow> entitlement list) \<Rightarrow> unit action" where
  "updating_rows f w =
     (let rows = f (entitlements (w_db w)) in
      if unique_customers rows then (Inr (), w\<lparr>w_db := (w_db w)\<lparr>entitlements := rows\<rparr>\<rparr>)
      else (Inl (Internal ''duplicate key value violates unique constraint''), w))"

definition write_entitlement ::
    "app \<Rightarrow> string \<Rightarrow> subscription \<Rightarrow> (int \<times> string) option \<Rightarrow> unit action" where
  "write_entitlement a customer s charge =
     updating_rows (update_where (is_row customer s) (entitled a customer s charge))"

subsection \<open>The mails\<close>

text \<open>The welcome and the notice look the first name up by address again.\<close>

definition first_name_at :: "db \<Rightarrow> string \<Rightarrow> string" where
  "first_name_at d email =
     or_empty (Option.bind (find (\<lambda>u. u_email u = email) (users d)) u_first_name)"

definition send_subscription_welcome ::
    "app \<Rightarrow> string \<Rightarrow> plan \<Rightarrow> time option \<Rightarrow> bool \<Rightarrow> world \<Rightarrow> world" where
  "send_subscription_welcome a email p trial_ends consented w =
     deliver_mail a email
       (SubscriptionEmail (first_name_at (w_db w) email) (display_name p) (max_targets p)
          (allows_scheduling p) (app_link_of a []) trial_ends consented) w"

definition send_subscription_ended :: "app \<Rightarrow> string \<Rightarrow> plan \<Rightarrow> bool \<Rightarrow> world \<Rightarrow> world" where
  "send_subscription_ended a email p payment_problem w =
     deliver_mail a email
       (SubscriptionEndedEmail (first_name_at (w_db w) email) (display_name p) payment_problem
          (app_link_of a ''/plan'')) w"

definition previous_plan :: "entitlement option \<Rightarrow> plan" where
  "previous_plan row = (case row of None \<Rightarrow> Free | Some e \<Rightarrow> from_db_str (e_plan e))"

text \<open>Only on the crossing from unpaid to paid, and not when a dispute gave the plan back.\<close>

definition send_welcome ::
    "app \<Rightarrow> time \<Rightarrow> subscription \<Rightarrow> entitlement option \<Rightarrow> string option \<Rightarrow> string
     \<Rightarrow> (int \<times> string) option \<Rightarrow> world \<Rightarrow> world" where
  "send_welcome a now s row email first_name charge w =
     (if allows_scheduling (plan_of a s) \<and> \<not> allows_scheduling (previous_plan row)
         \<and> Option.bind row e_blocked \<noteq> Some ''disputed''
      then (case email of
        None \<Rightarrow> w
      | Some to \<Rightarrow>
          if sb_three_day s \<and> sb_status s = ''trialing'' then
            deliver_mail a to
              (TrialStartedEmail first_name (display_name (plan_of a s))
                 (case sb_trial_end s of None \<Rightarrow> now | Some x \<Rightarrow> x)
                 (map_option (\<lambda>(amount, currency). money amount currency) charge)
                 (case sb_interval s of None \<Rightarrow> ''month'' | Some i \<Rightarrow> i)
                 (app_link_of a ''/targets'')
                 (access_max_targets \<lparr>a_plan = plan_of a s, a_trial = True\<rparr>)
                 TRIAL_MAX_SCANS_PER_TARGET_PER_DAY (sb_consented s)) w
          else if \<not> sb_three_day s then
            send_subscription_welcome a to (plan_of a s)
              (if sb_status s = ''trialing'' then sb_trial_end s else None) (sb_consented s) w
          else w)
      else w)"

text \<open>The confirmation of a trial's first real payment, marked on the row it goes out for.\<close>

definition unconfirmed :: "string \<Rightarrow> subscription \<Rightarrow> entitlement \<Rightarrow> bool" where
  "unconfirmed customer s e \<longleftrightarrow> e_product e = ''glarion'' \<and> e_customer e = Some customer
     \<and> e_activation_for e \<noteq> sb_id s"

definition confirm_payment :: "app \<Rightarrow> string \<Rightarrow> subscription \<Rightarrow> string option \<Rightarrow> world \<Rightarrow> world" where
  "confirm_payment a customer s email w =
     (if sb_three_day s \<and> sb_status s = ''active'' \<and> allows_scheduling (plan_of a s) \<and> sb_charged s
      then
        (let rows = entitlements (w_db w);
             w' = w\<lparr>w_db := (w_db w)\<lparr>entitlements :=
                update_where (unconfirmed customer s) (\<lambda>e. e\<lparr>e_activation_for := sb_id s\<rparr>) rows\<rparr>\<rparr> in
         case email of
           Some to \<Rightarrow>
             if list_ex (unconfirmed customer s) rows
             then send_subscription_welcome a to (plan_of a s) None (sb_consented s) w' else w'
         | None \<Rightarrow> w')
      else w)"

definition notice_of_end ::
    "app \<Rightarrow> subscription \<Rightarrow> entitlement option \<Rightarrow> string option \<Rightarrow> world \<Rightarrow> world" where
  "notice_of_end a s row email w =
     (if \<not> allows_scheduling (plan_of a s) \<and> allows_scheduling (previous_plan row)
         \<and> reason_of a s \<noteq> ''disputed''
      then (case email of
        None \<Rightarrow> w
      | Some to \<Rightarrow> send_subscription_ended a to (previous_plan row)
          (sb_reason s = ''payment_failure'' \<or> reason_of a s = ''payment_failed'') w)
      else w)"

text \<open>Losing the plan switches the schedules off; a failed payment or a dispute only pauses them.\<close>

definition stop_schedules :: "app \<Rightarrow> string \<Rightarrow> subscription \<Rightarrow> db \<Rightarrow> db" where
  "stop_schedules a customer s d =
     (if \<not> allows_scheduling (plan_of a s)
         \<and> reason_of a s \<noteq> ''payment_failed'' \<and> reason_of a s \<noteq> ''disputed''
      then (case find (\<lambda>e. e_customer e = Some customer \<and> e_product e = ''glarion'') (entitlements d) of
        None \<Rightarrow> d
      | Some e \<Rightarrow> d\<lparr>targets := update_where (\<lambda>t. tg_cadence t \<noteq> ''manual'' \<and> tg_user t = e_user e)
                        (\<lambda>t. t\<lparr>tg_cadence := ''manual''\<rparr>) (targets d)\<rparr>)
      else d)"

definition after_write ::
    "app \<Rightarrow> time \<Rightarrow> string \<Rightarrow> subscription \<Rightarrow> entitlement option \<Rightarrow> string option \<Rightarrow> string
     \<Rightarrow> (int \<times> string) option \<Rightarrow> world \<Rightarrow> world" where
  "after_write a now customer s row email first_name charge w =
     (let w1 = send_welcome a now s row email first_name charge w;
          w2 = confirm_payment a customer s email w1;
          w3 = notice_of_end a s row email w2
      in w3\<lparr>w_db := stop_schedules a customer s (w_db w3)\<rparr>)"

definition record_subscription ::
    "app \<Rightarrow> time \<Rightarrow> string \<Rightarrow> subscription \<Rightarrow> entitlement option \<Rightarrow> string option \<Rightarrow> string
     \<Rightarrow> (int \<times> string) option \<Rightarrow> unit action" where
  "record_subscription a now customer s row email first_name charge =
     and_then (write_entitlement a customer s charge) (\<lambda>_ w.
       (Inr (), after_write a now customer s row email first_name charge w))"

subsection \<open>The handler\<close>

definition apply_subscription :: "app \<Rightarrow> time \<Rightarrow> json \<Rightarrow> unit action" where
  "apply_subscription a now v w =
     (case get_str ''customer'' v of
        None \<Rightarrow> (Inr (), w)
      | Some customer \<Rightarrow>
          (let s = read_subscription a v;
               row = row_of customer s (w_db w);
               email = row_email (w_db w) row;
               first_name = row_first_name (w_db w) row in
           if replaced row s then (Inr (), w)
           else and_then (end_duplicate a s row email) (\<lambda>ended.
             if ended then done_with ()
             else and_then (refuse_trial a now s row email first_name) (\<lambda>refused.
               if refused then done_with ()
               else and_then (first_charge a s row) (\<lambda>charge.
                 record_subscription a now customer s row email first_name charge))) w))"


subsection \<open>What the handler leaves behind\<close>

text \<open>The requests it may make: reads, the preview of an invoice, and the end of the very
  subscription the event is about.\<close>

fun subscription_call :: "app \<Rightarrow> string option \<Rightarrow> call \<Rightarrow> bool" where
  "subscription_call a i (HttpGet _ _ _) = True"
| "subscription_call a i (HttpPost _ url _) = (url = stripe_url a ''/v1/invoices/create_preview'')"
| "subscription_call a i (HttpDelete _ url _) =
     (case i of None \<Rightarrow> False | Some x \<Rightarrow> url = stripe_url a (''/v1/subscriptions/'' @ x))"

context action_relation
begin

lemma duplicate_moves:
  assumes "asks (subscription_call a (sb_id s)) R"
    and "\<And>to m. moves R (mailing a to m)"
  shows "moves R (end_duplicate a s row email)"
  unfolding end_duplicate_def
  by (intro plain live[OF assms(1)] cancel[OF assms(1)] assms(2)) simp_all

lemma refusal_moves:
  assumes "asks (subscription_call a (sb_id s)) R"
    and "\<And>to m. moves R (mailing a to m)"
    and "\<And>c. moves R (claiming c)"
  shows "moves R (refuse_trial a now s row email first_name)"
  unfolding refuse_trial_def
  by (intro plain cancel[OF assms(1)] assms(2,3)) simp_all

lemma charge_moves:
  assumes "asks (subscription_call a (sb_id s)) R"
  shows "moves R (first_charge a s row)"
  unfolding first_charge_def preview_first_charge_def Let_def
  by (intro plain post[OF assms(1)]) simp_all

lemma handler_moves:
  assumes c: "asks (subscription_call a (get_str ''id'' v)) R"
    and m: "\<And>to m. moves R (mailing a to m)"
    and t: "\<And>c. moves R (claiming c)"
    and e: "\<And>customer row email first_name charge. get_str ''customer'' v = Some customer \<Longrightarrow>
        moves R (record_subscription a now customer (read_subscription a v) row email first_name charge)"
  shows "moves R (apply_subscription a now v)"
proof (cases "get_str ''customer'' v")
  case None
  then show ?thesis by (simp add: moves_def apply_subscription_def stay)
next
  case (Some customer)
  let ?s = "read_subscription a v"
  have c': "asks (subscription_call a (sb_id ?s)) R" using c by (simp add: read_subscription_def)
  have steps: "moves R (if replaced row ?s then done_with ()
      else and_then (end_duplicate a ?s row email) (\<lambda>ended.
             if ended then done_with ()
             else and_then (refuse_trial a now ?s row email first_name) (\<lambda>refused.
               if refused then done_with ()
               else and_then (first_charge a ?s row)
                 (record_subscription a now customer ?s row email first_name))))" for row email first_name
    by (intro plain duplicate_moves[OF c' m] refusal_moves[OF c' m t] charge_moves[OF c'] e Some)
  show ?thesis
    unfolding moves_def
  proof (rule allI)
    fix w
    show "R w (snd (apply_subscription a now v w))"
      using movesD[OF steps[of "row_of customer ?s (w_db w)" "row_email (w_db w) (row_of customer ?s (w_db w))"
          "row_first_name (w_db w) (row_of customer ?s (w_db w))"] prod.collapse[symmetric], of w]
      by (simp add: apply_subscription_def Some Let_def done_with_def split: if_splits)
  qed
qed

end

subsection \<open>Frames\<close>

lemma deliver_mail_simps [simp]:
  "w_db (deliver_mail a to m w) = w_db w"
  "w_calls (deliver_mail a to m w) = w_calls w"
  by (simp_all add: deliver_mail_def)

lemma mail_steps [simp]:
  "w_db (send_welcome a now s row email first_name charge w) = w_db w"
  "w_calls (send_welcome a now s row email first_name charge w) = w_calls w"
  "w_db (notice_of_end a s row email w) = w_db w"
  "w_calls (notice_of_end a s row email w) = w_calls w"
  "w_calls (confirm_payment a customer s email w) = w_calls w"
  by (simp_all add: send_welcome_def notice_of_end_def confirm_payment_def send_subscription_welcome_def
      send_subscription_ended_def Let_def split: option.split)

lemma after_write_calls [simp]:
  "w_calls (after_write a now customer s row email first_name charge w) = w_calls w"
  by (simp add: after_write_def Let_def)

lemma mailing_moves:
  "moves (requests P) (mailing a to m)" "moves (same f) (mailing a to m)" "moves (maintains I) (mailing a to m)"
  by (simp_all add: moves_def mailing_def requests_def same_def maintains_def)

lemma updating_rows_cases:
  obtains "updating_rows f w = (Inr (), w\<lparr>w_db := (w_db w)\<lparr>entitlements := f (entitlements (w_db w))\<rparr>\<rparr>)"
      "unique_customers (f (entitlements (w_db w)))"
  | e where "updating_rows f w = (Inl e, w)"
  by (cases "unique_customers (f (entitlements (w_db w)))") (auto simp: updating_rows_def Let_def)

text \<open>The tables the handler never touches.\<close>

definition elsewhere :: "db \<Rightarrow> user list \<times> proof_row list \<times> authorization list \<times> job list
    \<times> result_row list \<times> stripe_event list \<times> consent list \<times> preview_send list \<times> bucket_table
    \<times> ((int \<times> string \<times> string) \<times> int) list" where
  "elsewhere d = (users d, proofs d, authorizations d, jobs d, results d, events d, consents d,
     preview_sends d, buckets d, growth d)"

lemma elsewhere_updates [simp]:
  "elsewhere (d\<lparr>entitlements := x\<rparr>) = elsewhere d"
  "elsewhere (d\<lparr>targets := y\<rparr>) = elsewhere d"
  "elsewhere (d\<lparr>claims := z\<rparr>) = elsewhere d"
  by (simp_all add: elsewhere_def)

lemma confirm_payment_db:
  "w_db (confirm_payment a customer s email w) = w_db w \<or>
   w_db (confirm_payment a customer s email w) = (w_db w)\<lparr>entitlements :=
     update_where (unconfirmed customer s) (\<lambda>e. e\<lparr>e_activation_for := sb_id s\<rparr>) (entitlements (w_db w))\<rparr>"
  by (simp add: confirm_payment_def Let_def send_subscription_welcome_def split: option.split)

lemma stop_schedules_db:
  obtains P ts where "stop_schedules a customer s d = d\<lparr>targets := ts\<rparr>"
    "ts \<in> {targets d, update_where P (\<lambda>t. t\<lparr>tg_cadence := ''manual''\<rparr>) (targets d)}"
proof (cases "stop_schedules a customer s d = d")
  case True
  then show ?thesis using that[of "targets d"] by simp
next
  case False
  then show ?thesis using that by (auto simp: stop_schedules_def split: if_splits option.splits)
qed

text \<open>The database after the row was written: unchanged, or the matching rows as decided, some of
  them marked, and some schedules switched off.\<close>

definition rows_written ::
    "app \<Rightarrow> string \<Rightarrow> subscription \<Rightarrow> (int \<times> string) option \<Rightarrow> db \<Rightarrow> db \<Rightarrow> bool" where
  "rows_written a customer s charge d d' \<longleftrightarrow>
     (\<exists>rows ts P. d' = d\<lparr>entitlements := rows, targets := ts\<rparr>
        \<and> unique_customers (update_where (is_row customer s) (entitled a customer s charge) (entitlements d))
        \<and> rows \<in> {update_where (is_row customer s) (entitled a customer s charge) (entitlements d),
             update_where (unconfirmed customer s) (\<lambda>e. e\<lparr>e_activation_for := sb_id s\<rparr>)
               (update_where (is_row customer s) (entitled a customer s charge) (entitlements d))}
        \<and> ts \<in> {targets d, update_where P (\<lambda>t. t\<lparr>tg_cadence := ''manual''\<rparr>) (targets d)})"

lemma after_write_db:
  assumes "w_db w = d\<lparr>entitlements := update_where (is_row customer s) (entitled a customer s charge) (entitlements d)\<rparr>"
    and "unique_customers (update_where (is_row customer s) (entitled a customer s charge) (entitlements d))"
  shows "rows_written a customer s charge d
    (w_db (after_write a now customer s row email first_name charge w))"
proof -
  let ?w1 = "send_welcome a now s row email first_name charge w"
  let ?w2 = "confirm_payment a customer s email ?w1"
  have d: "w_db (after_write a now customer s row email first_name charge w) =
      stop_schedules a customer s (w_db ?w2)"
    by (simp add: after_write_def Let_def)
  from confirm_payment_db[of a customer s email ?w1] assms(1)
  obtain rows where e: "w_db ?w2 = d\<lparr>entitlements := rows\<rparr>"
    and r: "rows \<in> {update_where (is_row customer s) (entitled a customer s charge) (entitlements d),
             update_where (unconfirmed customer s) (\<lambda>e. e\<lparr>e_activation_for := sb_id s\<rparr>)
               (update_where (is_row customer s) (entitled a customer s charge) (entitlements d))}"
    by auto
  obtain P ts where "stop_schedules a customer s (w_db ?w2) = d\<lparr>entitlements := rows, targets := ts\<rparr>"
    and "ts \<in> {targets d, update_where P (\<lambda>t. t\<lparr>tg_cadence := ''manual''\<rparr>) (targets d)}"
    using stop_schedules_db[of a customer s "w_db ?w2"] e by simp metis
  then show ?thesis using r assms(2) unfolding d rows_written_def by blast
qed

lemma record_subscription_db:
  "w_db (snd (record_subscription a now customer s row email first_name charge w)) = w_db w \<or>
   rows_written a customer s charge (w_db w)
     (w_db (snd (record_subscription a now customer s row email first_name charge w)))"
proof (cases rule: updating_rows_cases[of "update_where (is_row customer s) (entitled a customer s charge)" w])
  case 1
  then show ?thesis
    using after_write_db[where w = "w\<lparr>w_db := (w_db w)\<lparr>entitlements := update_where (is_row customer s)
        (entitled a customer s charge) (entitlements (w_db w))\<rparr>\<rparr>" and d = "w_db w"]
    by (simp add: record_subscription_def write_entitlement_def and_then_def)
next
  case (2 e)
  then show ?thesis by (simp add: record_subscription_def write_entitlement_def and_then_def)
qed

lemma record_subscription_calls [simp]:
  "w_calls (snd (record_subscription a now customer s row email first_name charge w)) = w_calls w"
  by (cases rule: updating_rows_cases[of "update_where (is_row customer s) (entitled a customer s charge)" w])
    (simp_all add: record_subscription_def write_entitlement_def and_then_def)

lemma rows_written_elsewhere: "rows_written a customer s charge d d' \<Longrightarrow> elsewhere d' = elsewhere d"
  by (auto simp: rows_written_def elsewhere_def)

lemma claim_trial_elsewhere: "elsewhere (snd (claim_trial c d)) = elsewhere d"
  by (simp add: claim_trial_def split: option.split)

lemma claiming_db: "w_db (snd (claiming c w)) = snd (claim_trial c (w_db w))"
  by (simp add: claiming_def split: prod.split)

lemma claiming_calls [simp]: "w_calls (snd (claiming c w)) = w_calls w"
  by (simp add: claiming_def split: prod.split)

lemma apply_subscription_elsewhere:
  "elsewhere (w_db (snd (apply_subscription a now v w))) = elsewhere (w_db w)"
proof -
  have "moves (same elsewhere) (apply_subscription a now v)"
    using record_subscription_db rows_written_elsewhere
    by (intro frame.handler_moves mailing_moves asks_same)
      (simp_all add: moves_def same_def claiming_db claim_trial_elsewhere, metis)
  then show ?thesis by (simp add: moves_def same_def)
qed


subsection \<open>One trial each\<close>

text \<open>No two claims share an account, a mailbox, a card or a subscription.\<close>

definition one_trial_each :: "db \<Rightarrow> bool" where
  "one_trial_each d \<longleftrightarrow> sorted_wrt (\<lambda>c c'. \<not> claims_clash c c') (claims d)"

lemma claims_clash_sym: "claims_clash c c' \<longleftrightarrow> claims_clash c' c"
  unfolding claims_clash_def by metis

lemma sorted_wrt_map_if:
  assumes "sorted_wrt Q xs"
    and "\<And>x y. x \<in> set xs \<Longrightarrow> y \<in> set xs \<Longrightarrow> Q x y \<Longrightarrow> Q' (f x) (f y)"
  shows "sorted_wrt Q' (map f xs)"
  using assms by (induction xs) auto

lemma claim_trial_unique:
  assumes "one_trial_each d"
  shows "one_trial_each (snd (claim_trial c d))"
proof -
  have add: "one_trial_each (d\<lparr>claims := claims d @ [c]\<rparr>)" if "\<not> list_ex (claims_clash c) (claims d)"
    using that assms by (auto simp: one_trial_each_def sorted_wrt_append list_ex_iff claims_clash_sym[of _ c])
  have mark: "one_trial_each (d\<lparr>claims := update_where
      (\<lambda>r. c_subscription r = c_subscription c \<and> c_card r = None)
      (\<lambda>r. r\<lparr>c_card := Some fingerprint\<rparr>) (claims d)\<rparr>)"
    if "\<not> list_ex (\<lambda>r. c_card r = Some fingerprint) (claims d)" for fingerprint
    unfolding one_trial_each_def update_where_def
    using assms that
    by (auto simp: one_trial_each_def list_ex_iff claims_clash_def split: if_splits intro!: sorted_wrt_map_if)
  show ?thesis
    using assms add mark by (auto simp: claim_trial_def split: option.split)
qed

lemma rows_written_claims: "rows_written a customer s charge d d' \<Longrightarrow> claims d' = claims d"
  by (auto simp: rows_written_def)

lemma apply_subscription_one_trial:
  "one_trial_each (w_db w) \<Longrightarrow> one_trial_each (w_db (snd (apply_subscription a now v w)))"
proof -
  have "moves (maintains one_trial_each) (record_subscription a now customer s row email first_name charge)"
    for customer s row email first_name charge
    using record_subscription_db[of a now customer s row email first_name charge] rows_written_claims
    unfolding moves_def maintains_def one_trial_each_def by metis
  then have "moves (maintains one_trial_each) (apply_subscription a now v)"
    by (intro invariant.handler_moves mailing_moves asks_maintains)
      (simp add: moves_def maintains_def claiming_db claim_trial_unique)
  then show "one_trial_each (w_db w) \<Longrightarrow> one_trial_each (w_db (snd (apply_subscription a now v w)))"
    by (simp add: moves_def maintains_def)
qed

subsection \<open>What a plan rests on\<close>

text \<open>The row of an account before and after: untouched, or it belongs to the event's customer or
  account and says what the event's subscription says; a plan other than the free one is then the one
  whose configured price the subscription has, and the subscription is paid, on trial, or, outside the
  trial's rules, overdue, and no payment of it is disputed.\<close>

definition rests_on :: "app \<Rightarrow> json \<Rightarrow> entitlement \<Rightarrow> entitlement \<Rightarrow> bool" where
  "rests_on a v e e' \<longleftrightarrow> e' = e \<or>
     (let s = read_subscription a v in
        (\<exists>customer. get_str ''customer'' v = Some customer \<and> is_row customer s e
           \<and> e_customer e' = Some customer)
        \<and> e_user e' = e_user e \<and> e_subscription e' = sb_id s \<and> e_status e' = Some (sb_status s)
        \<and> (e_plan e' = ''free'' \<or>
             (\<exists>p. plan_for a (sb_price s) = Some p \<and> e_plan e' = plan_db_str p \<and> \<not> sb_disputed s
                \<and> (sb_status s = ''active'' \<or> sb_status s = ''trialing''
                   \<or> (sb_status s = ''past_due'' \<and> \<not> sb_three_day s \<and> \<not> trial_enabled (ap_env a))))))"

lemma rests_on_refl [simp]: "rests_on a v e e"
  by (simp add: rests_on_def)

lemma rests_on_trans: "rests_on a v e e' \<Longrightarrow> rests_on a v e' e'' \<Longrightarrow> rests_on a v e e''"
  by (auto simp: rests_on_def Let_def)

interpretation resting: action_relation
  "\<lambda>w w'. list_all2 (rests_on a v) (entitlements (w_db w)) (entitlements (w_db w'))" for a v
proof
  fix u w x :: world
  show "list_all2 (rests_on a v) (entitlements (w_db w)) (entitlements (w_db w))"
    by (simp add: list_all2_refl)
  assume "list_all2 (rests_on a v) (entitlements (w_db u)) (entitlements (w_db w))"
    and "list_all2 (rests_on a v) (entitlements (w_db w)) (entitlements (w_db x))"
  then show "list_all2 (rests_on a v) (entitlements (w_db u)) (entitlements (w_db x))"
    using list_all2_trans[of "rests_on a v" "rests_on a v" "rests_on a v"] rests_on_trans by metis
qed

lemma entitled_plan:
  "e_plan (entitled a customer s charge e) = ''free'' \<or>
   (\<exists>p. plan_for a (sb_price s) = Some p \<and> e_plan (entitled a customer s charge e) = plan_db_str p
      \<and> \<not> sb_disputed s
      \<and> (sb_status s = ''active'' \<or> sb_status s = ''trialing''
         \<or> (sb_status s = ''past_due'' \<and> \<not> sb_three_day s \<and> \<not> trial_enabled (ap_env a))))"
  by (auto simp: entitled_def plan_of_def keeps_plan_def status_keeps_plan_def split: option.split if_splits)

lemma rests_on_entitled:
  assumes "get_str ''customer'' v = Some customer" "is_row customer (read_subscription a v) e"
  shows "rests_on a v e (entitled a customer (read_subscription a v) charge e)"
    and "rests_on a v e ((entitled a customer (read_subscription a v) charge e)\<lparr>e_activation_for := x\<rparr>)"
  using assms entitled_plan[of a customer "read_subscription a v" charge e]
  by (simp_all add: rests_on_def Let_def) (simp_all add: entitled_def)

lemma rows_written_rest:
  assumes "rows_written a customer (read_subscription a v) charge d d'" "get_str ''customer'' v = Some customer"
  shows "list_all2 (rests_on a v) (entitlements d) (entitlements d')"
proof -
  let ?s = "read_subscription a v"
  have "list_all2 (rests_on a v) es (update_where (is_row customer ?s) (entitled a customer ?s charge) es)"
    and "list_all2 (rests_on a v) es (update_where (unconfirmed customer ?s) (\<lambda>e. e\<lparr>e_activation_for := x\<rparr>)
      (update_where (is_row customer ?s) (entitled a customer ?s charge) es))" for es x
    using assms(2) rests_on_entitled[OF assms(2)]
    by (auto simp: update_where_def list_all2_map2 unconfirmed_def is_row_def intro!: list_all2_refl)
  then show ?thesis using assms(1) by (auto simp: rows_written_def)
qed

text \<open>C1: a plan is granted by the subscription and by nothing else.  Whatever the event's subscription
  says and whatever Stripe answers, every account's row is afterwards as it was, or it belongs to that
  customer or account, carries the subscription's status, and holds the free plan or the plan of the
  price paid for, which then is in force, undisputed, and not overdue under the trial's rules.\<close>

theorem plan_rests_on_subscription:
  "list_all2 (rests_on a v) (entitlements (w_db w))
     (entitlements (w_db (snd (apply_subscription a now v w))))"
proof -
  have "moves (\<lambda>w w'. list_all2 (rests_on a v) (entitlements (w_db w)) (entitlements (w_db w')))
      (record_subscription a now customer (read_subscription a v) row email first_name charge)"
    if "get_str ''customer'' v = Some customer" for customer row email first_name charge
    using record_subscription_db[of a now customer "read_subscription a v" row email first_name charge]
      rows_written_rest[OF _ that] resting.stay unfolding moves_def by metis
  then have "moves (\<lambda>w w'. list_all2 (rests_on a v) (entitlements (w_db w)) (entitlements (w_db w')))
      (apply_subscription a now v)"
    by (intro resting.handler_moves)
      (simp_all add: moves_def asks_def mailing_def claiming_db claim_trial_def list_all2_refl split: option.split)
  then show ?thesis by (simp add: moves_def)
qed

text \<open>C40: the handler ends no subscription but the one it was told about.  The only requests it makes
  are reads, the preview of a trial's first invoice, and the end of the event's own subscription; the
  one an account keeps is never touched.\<close>

theorem only_own_subscription_ended:
  "requests (subscription_call a (get_str ''id'' v)) w (snd (apply_subscription a now v w))"
proof -
  have "moves (requests (subscription_call a (get_str ''id'' v))) (apply_subscription a now v)"
    by (intro calling.handler_moves mailing_moves asks_requests) (simp_all add: moves_def requests_def)
  then show ?thesis by (simp add: moves_def)
qed

text \<open>A dispute leaves the free plan in the row, so that when it is lost and the subscription ends, the
  row says that no paid plan was lost and the owner is not told.\<close>

lemma lost_dispute_unannounced:
  assumes "sb_disputed held"
  shows "notice_of_end a s (Some (entitled a customer held charge e)) email w = w"
  using assms by (simp add: notice_of_end_def previous_plan_def entitled_def plan_of_def
      allows_scheduling_def split: option.split)

end
