(* ===== verification/Webhook.thy ===== *)
theory Webhook
  imports Subscriptions
begin

text \<open>
  \<open>crates/api/src/routes/billing.rs\<close>: the endpoint Stripe calls.  The signature is checked before the
  body is read; an event is claimed before it is worked on and completed after; a subscription is read
  back from Stripe rather than taken from the event, under the customer's lock.
\<close>

subsection \<open>Disputes\<close>

definition DISPUTE_LOST_COMMENT :: string where
  "DISPUTE_LOST_COMMENT = ''dispute_lost''"

datatype dispute_state = Open | Lost | Cleared

definition dispute_outcome :: "string \<Rightarrow> dispute_state" where
  "dispute_outcome status =
     (if status = ''lost'' then Lost
      else if status \<in> {''won'', ''warning_closed'', ''prevented''} then Cleared
      else Open)"

text \<open>An object given as its id or in full.\<close>

definition id_of :: "json \<Rightarrow> string option" where
  "id_of v = (case as_str v of Some s \<Rightarrow> Some s | None \<Rightarrow> get_str ''id'' v)"

definition disputed_invoice :: "app \<Rightarrow> string \<Rightarrow> json \<Rightarrow> json option action" where
  "disputed_invoice a secret dispute =
     (case id_of (jidx dispute ''payment_intent'') of
        None \<Rightarrow> done_with None
      | Some intent \<Rightarrow>
          and_then (stripe_get a secret (stripe_url a ''/v1/invoice_payments'')
              [(''payment[type]'', ''payment_intent''), (''payment[payment_intent]'', intent),
               (''limit'', ''1'')])
          (\<lambda>paid.
             case id_of (jidx (jat (jidx paid ''data'') 0) ''invoice'') of
               None \<Rightarrow> done_with None
             | Some invoice \<Rightarrow>
                 and_then (stripe_get a secret (stripe_url a (''/v1/invoices/'' @ invoice)) [])
                   (\<lambda>v. done_with (Some v))))"

text \<open>A key that may not read disputes leaves the event's own copy.\<close>

definition current_dispute_outcome :: "app \<Rightarrow> string \<Rightarrow> string \<Rightarrow> json \<Rightarrow> dispute_state action" where
  "current_dispute_outcome a secret charge dispute =
     and_then (asking a (HttpGet secret (stripe_url a ''/v1/disputes'') [(''charge'', charge)])) (\<lambda>r.
       case r of
         NoReply err \<Rightarrow> stop_with (Internal (''could not reach Stripe: '' @ err))
       | Reply status body \<Rightarrow>
           if status = 403
           then done_with (dispute_outcome (or_empty (get_str ''status'' dispute)))
           else if \<not> success status then stop_with (Internal ''Stripe refused'')
           else
             (let listed = (case body of None \<Rightarrow> JNull | Some v \<Rightarrow> v);
                  i = get_str ''id'' dispute in
              of_option (Internal ''the dispute is not listed yet; Stripe redelivers'')
                (map_option dispute_outcome
                  (Option.bind (find (\<lambda>row. i = None \<or> get_str ''id'' row = i) (data_rows listed))
                     (get_str ''status'')))))"

text \<open>What is done to the subscription at Stripe, by outcome.\<close>

definition settle_at_stripe ::
    "app \<Rightarrow> string \<Rightarrow> string \<Rightarrow> string \<Rightarrow> json \<Rightarrow> dispute_state \<Rightarrow> unit action" where
  "settle_at_stripe a secret charge i v outcome =
     (let status = or_empty (get_str ''status'' v);
          marked = or_empty (get_str DISPUTE_MARK (jidx v ''metadata''));
          path = stripe_url a (''/v1/subscriptions/'' @ i);
          mark = ''metadata['' @ DISPUTE_MARK @ '']'' in
      case outcome of
        Lost \<Rightarrow>
          if status \<noteq> ''canceled'' then cancel_subscription a i DISPUTE_LOST_COMMENT else done_with ()
      | Open \<Rightarrow>
          if marked = [] \<and> status_grants_access status
          then and_then (stripe_post a secret path
                 [(''pause_collection[behavior]'', ''void''), (mark, charge)]) (\<lambda>_. done_with ())
          else done_with ()
      | Cleared \<Rightarrow>
          if marked = charge
          then and_then (stripe_post a secret path [(''pause_collection'', []), (mark, [])])
                 (\<lambda>_. done_with ())
          else done_with ())"

definition settle_dispute :: "app \<Rightarrow> time \<Rightarrow> json \<Rightarrow> unit action" where
  "settle_dispute a now dispute =
     (case (get_str ''charge'' dispute, env_set a ''STRIPE_SECRET_KEY'') of
        (Some charge, Some secret) \<Rightarrow>
          and_then (disputed_invoice a secret dispute) (\<lambda>found.
            case found of
              None \<Rightarrow> done_with ()
            | Some invoice \<Rightarrow>
                (case invoice_subscription invoice of
                   None \<Rightarrow> done_with ()
                 | Some i \<Rightarrow>
                     and_then (reading (other_product a invoice i)) (\<lambda>other.
                       if other then done_with ()
                       else with_customer_lock a invoice
                         (and_then (fetch_subscription a i) (\<lambda>sub.
                            case sub of
                              None \<Rightarrow> done_with ()
                            | Some v \<Rightarrow>
                                and_then (current_dispute_outcome a secret charge dispute) (\<lambda>outcome.
                                  and_then (settle_at_stripe a secret charge i v outcome) (\<lambda>_.
                                    and_then (fetch_subscription a i) (\<lambda>fresh.
                                      case fresh of
                                        None \<Rightarrow> done_with ()
                                      | Some u \<Rightarrow> apply_subscription a now u))))))))
      | _ \<Rightarrow> done_with ())"

subsection \<open>One event\<close>

definition ACCESS_STATES :: "string list" where
  "ACCESS_STATES = [''active'', ''trialing'', ''past_due'']"

text \<open>\<open>checkout.session.completed\<close> binds the customer, never over one whose subscription is live.\<close>

definition may_rebind :: "uid \<Rightarrow> string \<Rightarrow> entitlement \<Rightarrow> bool" where
  "may_rebind user customer e \<longleftrightarrow> e_user e = user \<and> e_product e = ''glarion''
     \<and> (e_customer e = None \<or> e_customer e = Some customer
        \<or> (case e_status e of None \<Rightarrow> True | Some s \<Rightarrow> s \<notin> set ACCESS_STATES))"

definition bind_customer :: "app \<Rightarrow> json \<Rightarrow> unit action" where
  "bind_customer a v =
     (case (Option.bind (get_str ''client_reference_id'' v) (ap_read_uuid a), get_str ''customer'' v) of
        (Some user, Some customer) \<Rightarrow>
          updating_rows (update_where (may_rebind user customer) (\<lambda>e. e\<lparr>e_customer := Some customer\<rparr>))
      | _ \<Rightarrow> done_with ())"

text \<open>The two ways an event leads to a subscription read back: without a key, the event's own copy is
  applied, or nothing is when the event is about an invoice.\<close>

definition apply_read_back :: "app \<Rightarrow> time \<Rightarrow> json \<Rightarrow> string \<Rightarrow> json option \<Rightarrow> unit action" where
  "apply_read_back a now v i fallback =
     and_then (reading (other_product a v i)) (\<lambda>other.
       if other then done_with ()
       else with_customer_lock a v
         (and_then (fetch_subscription a i) (\<lambda>found.
            case found of
              Some fresh \<Rightarrow> apply_subscription a now fresh
            | None \<Rightarrow> (case fallback of None \<Rightarrow> done_with () | Some u \<Rightarrow> apply_subscription a now u))))"

definition apply_event :: "app \<Rightarrow> time \<Rightarrow> string \<Rightarrow> json \<Rightarrow> unit action" where
  "apply_event a now kind event =
     (case jpath [''data'', ''object''] event of
        None \<Rightarrow> stop_with (BadRequest ''event has no object'')
      | Some v \<Rightarrow>
          if kind = ''checkout.session.completed'' then bind_customer a v
          else if kind \<in> {''customer.subscription.created'', ''customer.subscription.updated'',
                          ''customer.subscription.deleted''} then
            (case get_str ''id'' v of
               None \<Rightarrow> done_with ()
             | Some i \<Rightarrow> apply_read_back a now v i (Some v))
          else if kind \<in> {''invoice.paid'', ''invoice.payment_failed'', ''invoice.payment_action_required''} then
            (case invoice_subscription v of
               None \<Rightarrow> done_with ()
             | Some i \<Rightarrow> apply_read_back a now v i None)
          else if kind \<in> {''charge.dispute.created'', ''charge.dispute.closed''} then
            settle_dispute a now v
          else done_with ())"

subsection \<open>The endpoint\<close>

text \<open>The claim: a new row, or an unfinished one whose claim is more than two minutes old.\<close>

definition stale_claim :: "time \<Rightarrow> stripe_event \<Rightarrow> bool" where
  "stale_claim now ev \<longleftrightarrow> ev_completed ev = None \<and> ev_received ev < now - minutes 2"

definition event_row :: "db \<Rightarrow> string \<Rightarrow> stripe_event option" where
  "event_row d i = find (\<lambda>ev. ev_id ev = i) (events d)"

definition claim_event :: "time \<Rightarrow> string \<Rightarrow> string \<Rightarrow> db \<Rightarrow> bool \<times> db" where
  "claim_event now i kind d =
     (case event_row d i of
        None \<Rightarrow> (True, d\<lparr>events := events d @
                   [\<lparr>ev_id = i, ev_type = kind, ev_received = now, ev_completed = None\<rparr>]\<rparr>)
      | Some ev \<Rightarrow>
          if stale_claim now ev
          then (True, d\<lparr>events := update_where (\<lambda>r. ev_id r = i) (\<lambda>r. r\<lparr>ev_received := now\<rparr>) (events d)\<rparr>)
          else (False, d))"

definition complete_event :: "time \<Rightarrow> string \<Rightarrow> db \<Rightarrow> db" where
  "complete_event now i d =
     d\<lparr>events := update_where (\<lambda>r. ev_id r = i) (\<lambda>r. r\<lparr>ev_completed := Some now\<rparr>) (events d)\<rparr>"

definition take_event :: "app \<Rightarrow> time \<Rightarrow> json \<Rightarrow> string action" where
  "take_event a now event w =
     (case get_str ''id'' event of
        None \<Rightarrow> (Inl (BadRequest ''event has no id''), w)
      | Some i \<Rightarrow>
          (let kind = or_empty (get_str ''type'' event);
               (claimed, d) = claim_event now i kind (w_db w) in
           if \<not> claimed
           then (if Option.bind (event_row d i) ev_completed \<noteq> None
                 then (Inr ''duplicate'', w\<lparr>w_db := d\<rparr>)
                 else (Inl (Conflict ''event is still being processed''), w\<lparr>w_db := d\<rparr>))
           else and_then (apply_event a now kind event) (\<lambda>_.
                  and_then (writing (complete_event now i)) (\<lambda>_. done_with ''ok'')) (w\<lparr>w_db := d\<rparr>)))"

definition webhook :: "app \<Rightarrow> time \<Rightarrow> headers \<Rightarrow> string \<Rightarrow> string action" where
  "webhook a now h body =
     (case env_set a ''STRIPE_WEBHOOK_SECRET'' of
        None \<Rightarrow> stop_with (Internal ''billing is not configured'')
      | Some secret \<Rightarrow>
          (case verify_signature (ap_hmac a) body
                  (or_empty (Option.bind (h ''stripe-signature'') to_str)) secret (timestamp now) of
             Inl _ \<Rightarrow> stop_with Unauthorized
           | Inr _ \<Rightarrow>
               (case ap_json a body of
                  None \<Rightarrow> stop_with (BadRequest ''malformed event'')
                | Some event \<Rightarrow> take_event a now event)))"


subsection \<open>What an event leaves behind\<close>

lemma moves_outcome:
  "moves R x \<Longrightarrow> moves R y \<Longrightarrow> moves R z \<Longrightarrow>
     moves R (case out of Open \<Rightarrow> x | Lost \<Rightarrow> y | Cleared \<Rightarrow> z)"
  by (cases out) simp_all

context action_relation
begin

lemma invoice_moves:
  "asks (\<lambda>_. True) R \<Longrightarrow> moves R (disputed_invoice a secret dispute)"
  unfolding disputed_invoice_def by (intro plain get) simp_all

lemma outcome_moves:
  "asks (\<lambda>_. True) R \<Longrightarrow> moves R (current_dispute_outcome a secret charge dispute)"
  unfolding current_dispute_outcome_def Let_def by (intro plain asked) simp_all

lemma settle_moves:
  "asks (\<lambda>_. True) R \<Longrightarrow> moves R (settle_at_stripe a secret charge i v outcome)"
  unfolding settle_at_stripe_def Let_def
  by (intro moves_outcome plain post cancel) simp_all

lemma event_moves:
  assumes c: "asks (\<lambda>_. True) R"
    and s: "\<And>v. moves R (apply_subscription a now v)"
    and b: "\<And>v. moves R (bind_customer a v)"
  shows "moves R (apply_event a now kind event)"
proof -
  have r: "moves R (apply_read_back a now v i fallback)" for v i fallback
    unfolding apply_read_back_def by (intro plain fetch[OF c] s) simp_all
  have d: "moves R (settle_dispute a now v)" for v
    unfolding settle_dispute_def
    by (intro plain fetch[OF c] invoice_moves[OF c] outcome_moves[OF c] settle_moves[OF c] s) simp_all
  show ?thesis
    unfolding apply_event_def by (intro plain r d b)
qed

lemma webhook_moves:
  assumes c: "asks (\<lambda>_. True) R"
    and s: "\<And>v. moves R (apply_subscription a now v)"
    and b: "\<And>v. moves R (bind_customer a v)"
    and e: "\<And>w f. R w (w\<lparr>w_db := (w_db w)\<lparr>events := f\<rparr>\<rparr>)"
  shows "moves R (webhook a now h body)"
proof -
  have w: "moves R (writing (complete_event now i))" for i
    using e by (simp add: moves_def writing_def complete_event_def)
  have t: "moves R (take_event a now event)" for event
    unfolding moves_def
  proof (rule allI)
    fix w
    show "R w (snd (take_event a now event w))"
    proof (cases "get_str ''id'' event")
      case None
      then show ?thesis by (simp add: take_event_def stay)
    next
      case (Some i)
      let ?kind = "or_empty (get_str ''type'' event)"
      obtain claimed d where k: "claim_event now i ?kind (w_db w) = (claimed, d)" by fastforce
      then obtain f where "d = (w_db w)\<lparr>events := f\<rparr>"
        using that[of "events (w_db w)"]
        by (cases "event_row (w_db w) i")
          (auto simp: claim_event_def split: if_splits intro: that[of "events (w_db w)"])
      then have a1: "R w (w\<lparr>w_db := d\<rparr>)" using e by simp
      have "moves R (and_then (apply_event a now ?kind event) (\<lambda>_.
          and_then (writing (complete_event now i)) (\<lambda>_. done_with ''ok'')))"
        by (intro plain event_moves[OF c s b] w)
      then have "R w (snd (and_then (apply_event a now ?kind event) (\<lambda>_.
          and_then (writing (complete_event now i)) (\<lambda>_. done_with ''ok'')) (w\<lparr>w_db := d\<rparr>)))"
        using a1 unfolding moves_def by (blast intro: chain)
      then show ?thesis using a1 by (simp add: take_event_def Some k)
    qed
  qed
  show ?thesis
    unfolding webhook_def by (intro plain t)
qed

end


lemma bind_customer_frame [simp]:
  "\<exists>rows. w_db (snd (bind_customer a v w)) = (w_db w)\<lparr>entitlements := rows\<rparr>"
proof (cases "w_db (snd (bind_customer a v w)) = w_db w")
  case True
  then show ?thesis by (intro exI[of _ "entitlements (w_db w)"]) simp
next
  case False
  then show ?thesis
    by (auto simp: bind_customer_def done_with_def updating_rows_def Let_def split: option.splits if_splits)
qed

lemma bind_customer_tables [simp]:
  "events (w_db (snd (bind_customer a v w))) = events (w_db w)"
  "claims (w_db (snd (bind_customer a v w))) = claims (w_db w)"
  "targets (w_db (snd (bind_customer a v w))) = targets (w_db w)"
  using bind_customer_frame[of a v w] by (auto simp del: bind_customer_frame)

text \<open>The tables no event touches.\<close>

definition beyond_events :: "db \<Rightarrow> user list \<times> proof_row list \<times> authorization list \<times> job list
    \<times> result_row list \<times> consent list \<times> preview_send list \<times> bucket_table \<times> ((int \<times> string \<times> string) \<times> int) list" where
  "beyond_events d = (users d, proofs d, authorizations d, jobs d, results d, consents d, preview_sends d, buckets d, growth d)"

lemma beyond_events_simps [simp]:
  "beyond_events (d\<lparr>entitlements := x\<rparr>) = beyond_events d"
  "beyond_events (d\<lparr>events := y\<rparr>) = beyond_events d"
  by (simp_all add: beyond_events_def)

lemma webhook_beyond:
  "beyond_events (w_db (snd (webhook a now h body w))) = beyond_events (w_db w)"
proof -
  have "moves (same beyond_events) (webhook a now h body)"
  proof (intro frame.webhook_moves asks_same)
    show "moves (same beyond_events) (apply_subscription a now v)" for v
      using apply_subscription_elsewhere[of a now v]
      by (simp add: moves_def same_def elsewhere_def beyond_events_def)
    show "moves (same beyond_events) (bind_customer a v)" for v
      unfolding moves_def same_def using bind_customer_frame[of a v] beyond_events_simps(1) by metis
  qed (simp add: same_def)
  then show ?thesis by (simp add: moves_def same_def)
qed

lemma webhook_one_trial:
  "one_trial_each (w_db w) \<Longrightarrow> one_trial_each (w_db (snd (webhook a now h body w)))"
proof -
  have "moves (maintains one_trial_each) (webhook a now h body)"
  proof (intro invariant.webhook_moves asks_maintains)
    show "moves (maintains one_trial_each) (apply_subscription a now v)" for v
      by (simp add: moves_def maintains_def apply_subscription_one_trial)
    show "moves (maintains one_trial_each) (bind_customer a v)" for v
      by (simp add: moves_def maintains_def one_trial_each_def)
  qed (simp add: maintains_def one_trial_each_def)
  then show "one_trial_each (w_db w) \<Longrightarrow> one_trial_each (w_db (snd (webhook a now h body w)))"
    by (simp add: moves_def maintains_def)
qed

subsection \<open>Each event once\<close>

definition finished :: "string \<Rightarrow> db \<Rightarrow> bool" where
  "finished i d \<longleftrightarrow> Option.bind (event_row d i) ev_completed \<noteq> None"

lemma event_row_update:
  "(\<And>r. ev_id (f r) = ev_id r) \<Longrightarrow>
   event_row (d\<lparr>events := update_where P f (events d)\<rparr>) i =
     map_option (\<lambda>r. if P r then f r else r) (event_row d i)"
proof -
  assume f: "\<And>r. ev_id (f r) = ev_id r"
  have "find (\<lambda>ev. ev_id ev = i) (map (\<lambda>r. if P r then f r else r) rs) =
      map_option (\<lambda>r. if P r then f r else r) (find (\<lambda>ev. ev_id ev = i) rs)" for rs
    by (induction rs) (auto simp: f)
  then show ?thesis by (simp add: event_row_def update_where_def)
qed

lemma event_row_append:
  "event_row (d\<lparr>events := events d @ [ev]\<rparr>) i =
     (case event_row d i of Some r \<Rightarrow> Some r | None \<Rightarrow> if ev_id ev = i then Some ev else None)"
proof -
  have "find (\<lambda>e. ev_id e = i) (rs @ [ev]) =
     (case find (\<lambda>e. ev_id e = i) rs of Some r \<Rightarrow> Some r | None \<Rightarrow> if ev_id ev = i then Some ev else None)" for rs
    by (induction rs) auto
  then show ?thesis by (simp add: event_row_def)
qed

lemma claim_finished:
  assumes "finished j d"
  shows "finished j (snd (claim_event now i kind d))"
  using assms
  by (auto simp: claim_event_def finished_def event_row_update event_row_append stale_claim_def
      split: option.splits)

lemma complete_finished:
  "finished j d \<Longrightarrow> finished j (complete_event now i d)"
  by (cases "event_row d j") (auto simp: complete_event_def finished_def event_row_update)

lemma event_row_id: "event_row d i = Some r \<Longrightarrow> ev_id r = i"
  by (auto simp: event_row_def dest: find_SomeD)

lemma apply_event_events:
  "events (w_db (snd (apply_event a now kind event w))) = events (w_db w)"
proof -
  have "moves (same events) (apply_event a now kind event)"
  proof (intro frame.event_moves asks_same)
    show "moves (same events) (apply_subscription a now v)" for v
      using apply_subscription_elsewhere[of a now v] by (simp add: moves_def same_def elsewhere_def)
    show "moves (same events) (bind_customer a v)" for v
      by (simp add: moves_def same_def)
  qed
  then show ?thesis by (simp add: moves_def same_def)
qed

lemma finished_cong: "events d = events d' \<Longrightarrow> finished i d = finished i d'"
  by (simp add: finished_def event_row_def)

text \<open>The three ways an event with an id is taken.\<close>

lemma take_event_cases:
  assumes "get_str ''id'' event = Some i"
  obtains "take_event a now event w = (Inr ''duplicate'', w)" "finished i (w_db w)"
  | "take_event a now event w = (Inl (Conflict ''event is still being processed''), w)"
      "\<not> finished i (w_db w)"
  | r w' d where "claim_event now i (or_empty (get_str ''type'' event)) (w_db w) = (True, d)"
      "\<not> finished i (w_db w)" "event_row d i \<noteq> None"
      "apply_event a now (or_empty (get_str ''type'' event)) event (w\<lparr>w_db := d\<rparr>) = (r, w')"
      "take_event a now event w = (case r of Inl e \<Rightarrow> (Inl e, w')
         | Inr _ \<Rightarrow> (Inr ''ok'', w'\<lparr>w_db := complete_event now i (w_db w')\<rparr>))"
proof (cases "claim_event now i (or_empty (get_str ''type'' event)) (w_db w)")
  case (Pair claimed d)
  show thesis
  proof (cases claimed)
    case True
    obtain r w' where e: "apply_event a now (or_empty (get_str ''type'' event)) event (w\<lparr>w_db := d\<rparr>) = (r, w')"
      by fastforce
    have f: "\<not> finished i (w_db w)" "event_row d i \<noteq> None"
      using Pair True
      by (auto simp: claim_event_def finished_def stale_claim_def event_row_append event_row_update
          split: option.splits if_splits)
    have "take_event a now event w = (case r of Inl e \<Rightarrow> (Inl e, w')
         | Inr _ \<Rightarrow> (Inr ''ok'', w'\<lparr>w_db := complete_event now i (w_db w')\<rparr>))"
      using Pair True e assms
      by (simp add: take_event_def and_then_def writing_def done_with_def split: sum.split)
    with that(3)[OF _ f e] Pair True show thesis by simp
  next
    case False
    then have "d = w_db w" "\<exists>ev. event_row (w_db w) i = Some ev"
      using Pair by (auto simp: claim_event_def split: option.splits if_splits)
    then show thesis
      using that(1,2) Pair False assms by (cases "finished i (w_db w)")
        (auto simp: take_event_def finished_def)
  qed
qed

lemma take_event_finished:
  assumes "finished j (w_db w)"
  shows "finished j (w_db (snd (take_event a now event w)))"
proof (cases "get_str ''id'' event")
  case None
  then show ?thesis using assms by (simp add: take_event_def)
next
  case (Some i)
  then show ?thesis
  proof (cases rule: take_event_cases[of event i a now w])
    case (3 r w' d)
    have "finished j d" using claim_finished[OF assms, of now i] 3(1) by (metis snd_conv)
    then have "finished j (w_db w')"
      using apply_event_events[of a now "or_empty (get_str ''type'' event)" event "w\<lparr>w_db := d\<rparr>"] 3(4)
        finished_cong[of "w_db w'" d j] by simp
    then show ?thesis using 3(5) complete_finished by (simp split: sum.split)
  qed (use assms in simp_all)
qed

lemma webhook_Inr:
  assumes "webhook a now h body w = (Inr r, w')"
  obtains event i where "ap_json a body = Some event" "get_str ''id'' event = Some i"
    "take_event a now event w = (Inr r, w')" "env_set a ''STRIPE_WEBHOOK_SECRET'' \<noteq> None"
proof -
  from assms obtain event where e: "ap_json a body = Some event" "take_event a now event w = (Inr r, w')"
      "env_set a ''STRIPE_WEBHOOK_SECRET'' \<noteq> None"
    by (auto simp: webhook_def stop_with_def split: option.splits sum.splits)
  then obtain i where "get_str ''id'' event = Some i"
    by (cases "get_str ''id'' event") (simp_all add: take_event_def)
  with e that show thesis by blast
qed

lemma webhook_finished: "finished j (w_db w) \<Longrightarrow> finished j (w_db (snd (webhook a now h body w)))"
  by (simp add: webhook_def stop_with_def take_event_finished split: option.split sum.split)

text \<open>Any further deliveries, one after the other.\<close>

definition deliver_all :: "app \<Rightarrow> (time \<times> headers \<times> string) list \<Rightarrow> world \<Rightarrow> world" where
  "deliver_all a ds w = foldl (\<lambda>w (now, h, body). snd (webhook a now h body w)) w ds"

lemma deliver_all_finished: "finished j (w_db w) \<Longrightarrow> finished j (w_db (deliver_all a ds w))"
  unfolding deliver_all_def
  by (induction ds arbitrary: w) (auto simp: webhook_finished)

lemma accepted_finished:
  assumes "take_event a now event w = (Inr r, w')" "get_str ''id'' event = Some i"
  shows "finished i (w_db w')"
proof (cases rule: take_event_cases[OF assms(2), of a now w])
  case (3 r' u d)
  then have "event_row (w_db u) i \<noteq> None"
    using apply_event_events[of a now "or_empty (get_str ''type'' event)" event "w\<lparr>w_db := d\<rparr>"]
    by (simp add: event_row_def)
  then show ?thesis using 3(5) assms(1)
    by (auto simp: finished_def complete_event_def event_row_update event_row_id split: sum.splits)
qed (use assms in simp_all)

text \<open>C4: an event is applied at most once.  After a delivery that was accepted, whatever else Stripe
  delivers in between, the same body delivered again (in however many copies, whenever) changes nothing,
  asks Stripe nothing and mails nobody: it is a duplicate, or its signature no longer counts.\<close>

theorem event_applied_once:
  "case webhook a now h body w of
     (Inl _, _) \<Rightarrow> True
   | (Inr _, w') \<Rightarrow>
       (let w'' = deliver_all a ds w' in
        webhook a now' h' body w'' \<in> {(Inr ''duplicate'', w''), (Inl Unauthorized, w'')})"
proof (cases "webhook a now h body w")
  case (Pair res w')
  show ?thesis
  proof (cases res)
    case (Inr r)
    with Pair have "webhook a now h body w = (Inr r, w')" by simp
    then obtain event i where e: "ap_json a body = Some event" "get_str ''id'' event = Some i"
        "take_event a now event w = (Inr r, w')" "env_set a ''STRIPE_WEBHOOK_SECRET'' \<noteq> None"
      by (rule webhook_Inr)
    have f: "finished i (w_db (deliver_all a ds w'))"
      using deliver_all_finished accepted_finished[OF e(3,2)] by blast
    have "take_event a now' event (deliver_all a ds w') = (Inr ''duplicate'', deliver_all a ds w')"
      using f by (cases rule: take_event_cases[OF e(2), of a now' "deliver_all a ds w'"]) simp_all
    then have "webhook a now' h' body (deliver_all a ds w')
        \<in> {(Inr ''duplicate'', deliver_all a ds w'), (Inl Unauthorized, deliver_all a ds w')}"
      using e(1,4) by (auto simp: webhook_def stop_with_def split: sum.split)
    then show ?thesis by (simp only: Pair Inr Let_def prod.case sum.case)
  qed (simp add: Pair)
qed

end
