(* ===== verification/Promo.thy ===== *)
theory Promo
  imports Plans Clock
begin

text \<open>
  \<open>crates/api/src/promo.rs\<close>: the Halloween offer.  The two RFC 3339 dates are kept as the text that is
  published and as the instant \<open>chrono\<close> reads from it; the server's clock in the public answer is the
  instant itself.
\<close>

definition PROMO_ID :: string where "PROMO_ID = ''halloween50-2026''"
definition STARTS_AT :: string where "STARTS_AT = ''2026-10-10T00:00:00Z''"
definition ENDS_AT :: string where "ENDS_AT = ''2026-11-06T23:00:00Z''"
definition GRACE_SECONDS :: int where "GRACE_SECONDS = 30 * 60"

definition promo_start :: time where "promo_start = seconds 1791590400"
definition promo_end :: time where "promo_end = seconds 1794006000"

record offer =
  of_plan :: plan
  of_interval :: billing_interval
  of_regular :: int
  of_reference :: int
  of_price :: int

definition mk_offer :: "plan \<Rightarrow> billing_interval \<Rightarrow> int \<Rightarrow> int \<Rightarrow> int \<Rightarrow> offer" where
  "mk_offer p i regular reference price =
     \<lparr>of_plan = p, of_interval = i, of_regular = regular, of_reference = reference, of_price = price\<rparr>"

definition OFFERS :: "offer list" where
  "OFFERS =
     [mk_offer Solo Per_Month 1900 1900 900,
      mk_offer Solo Per_Year 17000 17000 8500,
      mk_offer Studio Per_Month 3900 3900 1900,
      mk_offer Studio Per_Year 35000 35000 17500,
      mk_offer Agency Per_Month 9900 9900 4900,
      mk_offer Agency Per_Year 75000 75000 37500]"

fun interval_str :: "billing_interval \<Rightarrow> string" where
  "interval_str Per_Month = ''monthly''"
| "interval_str Per_Year = ''yearly''"

definition coupon_id :: "plan \<Rightarrow> billing_interval \<Rightarrow> string" where
  "coupon_id p i = PROMO_ID @ ''-glarion-'' @ plan_db_str p @ ''-'' @ interval_str i"

definition percent_off :: "int \<Rightarrow> int \<Rightarrow> int" where
  "percent_off reference price = tdiv ((reference - price) * 100) reference"

definition promo_enabled :: "environment \<Rightarrow> bool" where
  "promo_enabled env \<longleftrightarrow> env ''PROMO_ID'' = Some PROMO_ID \<and> env ''PROMO_DISABLED'' \<noteq> Some ''1''"

record public_offer =
  po_plan :: string
  po_interval :: string
  po_currency :: string
  po_regular :: int
  po_reference :: int
  po_price :: int
  po_percent_off :: int
  po_first_period_only :: bool

record public_promo =
  pp_server_time :: time
  pp_id :: "string option"
  pp_status :: string
  pp_starts_at :: "string option"
  pp_ends_at :: "string option"
  pp_offers :: "public_offer list"

definition public_offers :: "public_offer list" where
  "public_offers =
     map (\<lambda>o'. \<lparr>po_plan = plan_db_str (of_plan o'), po_interval = interval_str (of_interval o'),
                po_currency = ''eur'', po_regular = of_regular o', po_reference = of_reference o',
                po_price = of_price o', po_percent_off = percent_off (of_reference o') (of_price o'),
                po_first_period_only = True\<rparr>)
       (filter (\<lambda>o'. of_price o' < of_reference o' \<and> of_reference o' \<le> of_regular o') OFFERS)"

definition promo_state :: "bool \<Rightarrow> time \<Rightarrow> public_promo" where
  "promo_state enabled now =
     (let state = \<lparr>pp_server_time = now, pp_id = None, pp_status = ''disabled'', pp_starts_at = None,
                   pp_ends_at = None, pp_offers = []\<rparr> in
      if \<not> enabled \<or> now \<ge> promo_end then state
      else
        (let state = state\<lparr>pp_id := Some PROMO_ID, pp_starts_at := Some STARTS_AT,
                           pp_ends_at := Some ENDS_AT\<rparr> in
         if now < promo_start then state\<lparr>pp_status := ''scheduled''\<rparr>
         else state\<lparr>pp_status := ''active'', pp_offers := public_offers\<rparr>))"

definition expires_at :: "time \<Rightarrow> int option" where
  "expires_at now =
     (let now_seconds = timestamp now; end_seconds = timestamp promo_end in
      if end_seconds - now_seconds < 23 * 3600 + 1800
      then Some (max end_seconds (now_seconds + GRACE_SECONDS + 60)) else None)"

definition checkout_fields ::
    "bool \<Rightarrow> time \<Rightarrow> plan \<Rightarrow> billing_interval \<Rightarrow> (string \<times> string) list" where
  "checkout_fields enabled now p i =
     (let state = promo_state enabled now;
          offered = list_ex (\<lambda>o'. po_plan o' = plan_db_str p \<and> po_interval o' = interval_str i)
            (pp_offers state) in
      if pp_status state \<noteq> ''active'' \<or> \<not> offered then []
      else [(''discounts[0][coupon]'', coupon_id p i),
            (''metadata[promo_id]'', PROMO_ID),
            (''subscription_data[metadata][promo_id]'', PROMO_ID)]
           @ (case expires_at now of None \<Rightarrow> [] | Some t \<Rightarrow> [(''expires_at'', show_int t)]))"

subsection \<open>Lemmas\<close>

lemma promo_state_active:
  "pp_status (promo_state enabled now) = ''active'' \<longleftrightarrow> enabled \<and> promo_start \<le> now \<and> now < promo_end"
  by (auto simp: promo_state_def Let_def)

lemma public_offers_values:
  "map (\<lambda>o'. (po_plan o', po_interval o', po_price o', po_percent_off o')) public_offers =
     [(''solo'', ''monthly'', 900, 52), (''solo'', ''yearly'', 8500, 50),
      (''studio'', ''monthly'', 1900, 51), (''studio'', ''yearly'', 17500, 50),
      (''agency'', ''monthly'', 4900, 50), (''agency'', ''yearly'', 37500, 50)]"
  by code_simp

lemma timestamp_seconds [simp]: "timestamp (seconds n) = n"
  by (simp add: timestamp_def seconds_def)

lemma timestamp_mono: "a \<le> b \<Longrightarrow> timestamp a \<le> timestamp b"
  by (simp add: timestamp_def zdiv_mono1)

lemma offered_iff [simp]:
  "list_ex (\<lambda>o'. po_plan o' = plan_db_str p \<and> po_interval o' = interval_str i) public_offers \<longleftrightarrow> p \<noteq> Free"
  by (cases p; cases i; hypsubst; code_simp)

text \<open>The discount is given by the server's clock and by nothing else, and cannot be paid long after
  the end.  A checkout carries the plan's coupon exactly inside the window while the offer is switched
  on; the session then closes by itself within 31 minutes of the end, through the time it names, which
  Stripe accepts (more than half an hour and less than a day ahead), or through Stripe's own day.\<close>

lemma promo_checkout_closes:
  "if enabled \<and> promo_start \<le> now \<and> now < promo_end \<and> p \<noteq> Free
   then (''discounts[0][coupon]'', coupon_id p i) \<in> set (checkout_fields enabled now p i)
     \<and> (case expires_at now of
          None \<Rightarrow> timestamp now + 24 * 3600 \<le> timestamp promo_end + GRACE_SECONDS
        | Some t \<Rightarrow> (''expires_at'', show_int t) \<in> set (checkout_fields enabled now p i)
            \<and> t \<le> timestamp promo_end + GRACE_SECONDS + 60
            \<and> timestamp now + GRACE_SECONDS < t \<and> t < timestamp now + 24 * 3600)
   else checkout_fields enabled now p i = []"
proof (cases "enabled \<and> promo_start \<le> now \<and> now < promo_end \<and> p \<noteq> Free")
  case True
  then have "timestamp now \<le> timestamp promo_end" by (simp add: timestamp_mono)
  with True show ?thesis
    by (auto simp: checkout_fields_def promo_state_def Let_def expires_at_def GRACE_SECONDS_def)
next
  case False
  then show ?thesis
    using offered_iff[of Free i] by (auto simp: checkout_fields_def promo_state_def Let_def)
qed

end
