(* ===== verification/Checkout.thy ===== *)
theory Checkout
  imports Subscriptions Promo
begin

text \<open>
  \<open>crates/api/src/routes/billing.rs\<close>: what an account has, and starting a Stripe Checkout session.  The
  form sent to Stripe is the list of its fields in order.
\<close>

subsection \<open>What an account has\<close>

record trial_limits =
  tl_max_targets :: int
  tl_scans :: int
  tl_branded :: bool

record subscription_view =
  sv_plan :: string
  sv_plan_name :: string
  sv_max_targets :: int
  sv_targets_used :: int
  sv_scheduling :: bool
  sv_full_scan :: bool
  sv_status :: "string option"
  sv_period_end :: "time option"
  sv_manageable :: bool
  sv_trial_enabled :: bool
  sv_trial_days :: int
  sv_state :: string
  sv_blocked :: string
  sv_trial_ends :: "time option"
  sv_cancel :: bool
  sv_can_start_trial :: bool
  sv_interval :: "string option"
  sv_trial_limits :: "trial_limits option"
  sv_first_charge :: "(int \<times> string) option"
  sv_terms :: string

definition account_email :: "uid \<Rightarrow> string action" where
  "account_email user w = of_option NotFound (map_option u_email (user_by_id (w_db w) user)) w"

text \<open>\<open>trial_available\<close>: the switch is on and neither the account nor its mailbox had a trial.\<close>

definition trial_claimed :: "app \<Rightarrow> uid \<Rightarrow> string \<Rightarrow> db \<Rightarrow> bool" where
  "trial_claimed a user email d \<longleftrightarrow>
     list_ex (\<lambda>c. c_user c = user \<or> c_email_hash c = shown_email_hash a email) (claims d)"

definition trial_available :: "app \<Rightarrow> uid \<Rightarrow> string option \<Rightarrow> bool action" where
  "trial_available a user email =
     (if \<not> trial_enabled (ap_env a) then done_with False
      else and_then (case email of Some e \<Rightarrow> done_with e | None \<Rightarrow> account_email user) (\<lambda>e.
             and_then (reading (trial_claimed a user e)) (\<lambda>claimed. done_with (\<not> claimed))))"

text \<open>Rows written before the trial existed carry no reason; it is derived as the webhook derives it.\<close>

definition blocked_view :: "plan \<Rightarrow> string option \<Rightarrow> string option \<Rightarrow> string" where
  "blocked_view p status stored =
     (case (p, status) of
        (Free, Some s) \<Rightarrow>
          (case stored of
             Some r \<Rightarrow>
               if r \<in> {''trial_already_used'', ''payment_failed'', ''canceled'', ''disputed''} then r
               else blocked_reason s None
           | None \<Rightarrow> blocked_reason s None)
      | _ \<Rightarrow> ''none'')"

definition account_state :: "plan \<Rightarrow> string option \<Rightarrow> string \<Rightarrow> string" where
  "account_state p status reason =
     (if p = Free then (if reason \<noteq> ''none'' then ''blocked'' else ''none'')
      else if status = Some ''trialing'' then ''trialing'' else ''active'')"

definition get_subscription :: "app \<Rightarrow> uid \<Rightarrow> subscription_view action" where
  "get_subscription a user w =
     (let d = w_db w;
          row = entitlement_of d user;
          status = Option.bind row e_status;
          access = current_access d user;
          p = a_plan access;
          reason = blocked_view p status (Option.bind row e_blocked);
          st = account_state p status reason;
          customer = Option.bind row e_customer in
      and_then (if customer = None then trial_available a user None else done_with False)
        (\<lambda>can_start. done_with
           \<lparr>sv_plan = plan_db_str p, sv_plan_name = display_name p,
            sv_max_targets = access_max_targets access,
            sv_targets_used = int (length (filter (\<lambda>t. tg_user t = user) (targets d))),
            sv_scheduling = allows_scheduling p, sv_full_scan = allows_full_scan p,
            sv_status = status, sv_period_end = Option.bind row e_period_end,
            sv_manageable = (customer \<noteq> None),
            sv_trial_enabled = trial_enabled (ap_env a), sv_trial_days = TRIAL_DAYS,
            sv_state = st, sv_blocked = reason,
            sv_trial_ends = (if st = ''trialing'' then Option.bind row e_trial_ends else None),
            sv_cancel = (case row of None \<Rightarrow> False | Some e \<Rightarrow> e_cancel e),
            sv_can_start_trial = can_start, sv_interval = Option.bind row e_interval,
            sv_trial_limits =
              (if a_trial access
               then Some \<lparr>tl_max_targets = access_max_targets access,
                          tl_scans = TRIAL_MAX_SCANS_PER_TARGET_PER_DAY, tl_branded = False\<rparr>
               else None),
            sv_first_charge =
              (case (st = ''trialing'', Option.bind row e_charge_amount, Option.bind row e_charge_currency) of
                 (True, Some amount, Some currency) \<Rightarrow> Some (amount, currency)
               | _ \<Rightarrow> None),
            sv_terms = TERMS_VERSION\<rparr>) w)"

subsection \<open>Checkout\<close>

record checkout_request =
  cr_plan :: string
  cr_interval :: string
  cr_start_trial :: "bool option"
  cr_consent :: "(bool \<times> string) option"
    \<comment> \<open>accepted, terms version\<close>

record checkout_response =
  ck_url :: string
  ck_trial :: bool
  ck_trial_days :: "int option"

text \<open>The ticked box, and whether the Terms it names will do.\<close>

definition consent_version :: "checkout_request \<Rightarrow> string option" where
  "consent_version body =
     (case cr_consent body of
        Some (True, version) \<Rightarrow> Some (take_chars 32 (trim version))
      | _ \<Rightarrow> None)"

definition consent_refused :: "app \<Rightarrow> checkout_request \<Rightarrow> api_error option" where
  "consent_refused a body =
     (if \<not> consent_required (ap_env a) then None
      else (case consent_version body of
        None \<Rightarrow> Some (BadRequest ''Tick the box to accept the Terms before checkout.'')
      | Some version \<Rightarrow>
          if version \<noteq> TERMS_VERSION
          then Some (Conflict (''The Terms have changed since this page was opened. Reload it ''
                 @ ''and tick the box again.''))
          else None))"

definition price_for :: "app \<Rightarrow> plan \<Rightarrow> billing_interval \<Rightarrow> string option" where
  "price_for a p i = Option.bind (price_env_var p i) (env_set a)"

definition already_subscribed :: "uid \<Rightarrow> db \<Rightarrow> bool" where
  "already_subscribed user d =
     (case entitlement_of d user of
        None \<Rightarrow> False
      | Some e \<Rightarrow> e_subscription e \<noteq> None \<and> grants (e_status e))"

definition existing_customer :: "uid \<Rightarrow> db \<Rightarrow> string option" where
  "existing_customer user d = Option.bind (entitlement_of d user) e_customer"

definition completed_checkout_customer :: "app \<Rightarrow> string \<Rightarrow> uid \<Rightarrow> string \<Rightarrow> string option action" where
  "completed_checkout_customer a secret user email =
     and_then (stripe_get a secret (stripe_url a ''/v1/checkout/sessions'')
         [(''customer_details[email]'', email), (''status'', ''complete''), (''limit'', ''10'')])
       (\<lambda>sessions. done_with (find_map (get_str ''customer'')
          (filter (\<lambda>session. get_str ''client_reference_id'' session = Some (ap_show_uuid a user))
             (data_rows sessions))))"

definition has_live_subscription :: "app \<Rightarrow> string \<Rightarrow> string \<Rightarrow> bool action" where
  "has_live_subscription a secret customer =
     and_then (stripe_get a secret (stripe_url a ''/v1/subscriptions'')
         [(''customer'', customer), (''limit'', ''10'')])
       (\<lambda>found. done_with (list_ex (\<lambda>v. grants (get_str ''status'' v)) (data_rows found)))"

definition base_form :: "app \<Rightarrow> uid \<Rightarrow> string \<Rightarrow> (string \<times> string) list" where
  "base_form a user price_id =
     (let plan_page = app_link_of a ''/plan'' in
      [(''mode'', ''subscription''),
       (''line_items[0][price]'', price_id),
       (''line_items[0][quantity]'', ''1''),
       (''success_url'', plan_page @ ''?checkout={CHECKOUT_SESSION_ID}''),
       (''cancel_url'', plan_page),
       (''client_reference_id'', ap_show_uuid a user),
       (''subscription_data[metadata][user_id]'', ap_show_uuid a user),
       (''automatic_tax[enabled]'', ''true''),
       (''billing_address_collection'', ''required'')])"

definition trial_form :: "int option \<Rightarrow> bool \<Rightarrow> (string \<times> string) list" where
  "trial_form trial three_day =
     (case trial of
        None \<Rightarrow> []
      | Some n \<Rightarrow>
          [(''subscription_data[trial_period_days]'', show_int n),
           (''payment_method_collection'', ''always''),
           (''subscription_data[trial_settings][end_behavior][missing_payment_method]'', ''cancel'')])
     @ (if three_day
        then [(''subscription_data[metadata]['' @ TRIAL_MARKER_KEY @ '']'', TRIAL_MARKER_VALUE),
              (''metadata['' @ TRIAL_MARKER_KEY @ '']'', TRIAL_MARKER_VALUE)]
        else [])"

definition customer_form :: "string option \<Rightarrow> string \<Rightarrow> (string \<times> string) list" where
  "customer_form customer email =
     (case customer of
        Some i \<Rightarrow> [(''customer'', i), (''customer_update[address]'', ''auto'')]
      | None \<Rightarrow> [(''customer_email'', email), (''tax_id_collection[enabled]'', ''true'')])"

definition consent_form :: "string \<Rightarrow> string \<Rightarrow> (string \<times> string) list" where
  "consent_form i version =
     concat (map (\<lambda>prefix.
       [(prefix @ ''['' @ CONSENT_KEY @ '']'', i), (prefix @ ''[terms_version]'', version)])
       [''metadata'', ''subscription_data[metadata]''])"

text \<open>Which trial, if any: whether it is the three-day one, and its days.\<close>

definition choose_trial ::
    "app \<Rightarrow> uid \<Rightarrow> checkout_request \<Rightarrow> plan \<Rightarrow> string option \<Rightarrow> string \<Rightarrow> (bool \<times> int option) action" where
  "choose_trial a user body p customer email =
     (if cr_start_trial body = Some True then
        (if customer \<noteq> None then stop_with TrialUnavailable
         else and_then (trial_available a user (Some email)) (\<lambda>available.
                if available then done_with (True, Some TRIAL_DAYS) else stop_with TrialUnavailable))
      else if cr_start_trial body = None \<and> \<not> trial_enabled (ap_env a)
        then done_with (False, trial_days p (customer \<noteq> None))
      else done_with (False, None))"

text \<open>The consent's row, written before Stripe is asked, and named with its session after.\<close>

definition consent_row ::
    "uid \<Rightarrow> time \<Rightarrow> uid \<Rightarrow> string \<Rightarrow> headers \<Rightarrow> plan \<Rightarrow> billing_interval \<Rightarrow> string \<Rightarrow> consent" where
  "consent_row i now user peer h p interval version =
     \<lparr>co_id = i, co_user = Some user, co_product = ''glarion'',
      co_plan = plan_db_str p @ ''_'' @ interval_str interval, co_terms = version,
      co_accepted = now, co_ip = Some peer,
      co_agent = Some (user_agent_family (or_empty (Option.bind (h ''user-agent'') to_str))),
      co_session = None\<rparr>"

definition name_session :: "uid \<Rightarrow> string option \<Rightarrow> db \<Rightarrow> db" where
  "name_session i session d =
     d\<lparr>consents := update_where (\<lambda>c. co_id c = i) (\<lambda>c. c\<lparr>co_session := session\<rparr>) (consents d)\<rparr>"

definition open_session ::
    "app \<Rightarrow> uid \<Rightarrow> time \<Rightarrow> string \<Rightarrow> headers \<Rightarrow> uid \<Rightarrow> string option \<Rightarrow> plan \<Rightarrow> billing_interval
     \<Rightarrow> string \<Rightarrow> (string \<times> string) list \<Rightarrow> string action" where
  "open_session a new_id now peer h user consent p interval secret form =
     and_then (writing (\<lambda>d. case consent of None \<Rightarrow> d
         | Some version \<Rightarrow> d\<lparr>consents := consents d @ [consent_row new_id now user peer h p interval version]\<rparr>))
     (\<lambda>_. and_then (stripe_post a secret (stripe_url a ''/v1/checkout/sessions'')
              (form @ (case consent of None \<Rightarrow> []
                       | Some version \<Rightarrow> consent_form (ap_show_uuid a new_id) version)))
     (\<lambda>session. and_then (of_option (Internal ''Stripe returned no checkout url'') (get_str ''url'' session))
     (\<lambda>url. and_then (writing (case consent of None \<Rightarrow> id
         | Some _ \<Rightarrow> name_session new_id (get_str ''id'' session)))
     (\<lambda>_. done_with url))))"

text \<open>Everything that is decided before the session is opened.\<close>

record checkout_terms =
  ct_price :: string
  ct_secret :: string
  ct_email :: string
  ct_customer :: "string option"
  ct_three_day :: bool
  ct_trial :: "int option"

definition checkout_guards :: "app \<Rightarrow> uid \<Rightarrow> checkout_request \<Rightarrow> checkout_terms action" where
  "checkout_guards a user body =
     (let p = from_db_str (cr_plan body);
          interval = from_str_or_monthly (cr_interval body) in
      if p = Free then stop_with (BadRequest ''choose a paid plan to subscribe'')
      else (case consent_refused a body of
        Some e \<Rightarrow> stop_with e
      | None \<Rightarrow>
          (case price_for a p interval of
             None \<Rightarrow> stop_with (Internal ''billing is not configured'')
           | Some price_id \<Rightarrow>
              and_then (reading (already_subscribed user)) (\<lambda>subscribed.
              if subscribed
              then stop_with (Conflict ''you already have a subscription; change plan from Manage billing'')
              else and_then (stripe_secret a) (\<lambda>secret.
              and_then (account_email user) (\<lambda>email.
              and_then (reading (existing_customer user)) (\<lambda>stored.
              and_then (case stored of Some i \<Rightarrow> done_with (Some i)
                        | None \<Rightarrow> completed_checkout_customer a secret user email) (\<lambda>customer.
              and_then (case customer of None \<Rightarrow> done_with False
                        | Some c \<Rightarrow> has_live_subscription a secret c) (\<lambda>live.
              if live
              then stop_with (Conflict (''Your payment is still being confirmed by Stripe. Your plan ''
                     @ ''appears on this page as soon as it is, so there is no need to pay again.''))
              else and_then (choose_trial a user body p customer email) (\<lambda>(three_day, trial).
              done_with \<lparr>ct_price = price_id, ct_secret = secret, ct_email = email,
                         ct_customer = customer, ct_three_day = three_day, ct_trial = trial\<rparr>))))))))))"

definition session_form :: "app \<Rightarrow> time \<Rightarrow> uid \<Rightarrow> checkout_request \<Rightarrow> checkout_terms \<Rightarrow> (string \<times> string) list" where
  "session_form a now user body t =
     base_form a user (ct_price t) @ trial_form (ct_trial t) (ct_three_day t)
     @ checkout_fields (promo_enabled (ap_env a)) now (from_db_str (cr_plan body))
         (from_str_or_monthly (cr_interval body))
     @ customer_form (ct_customer t) (ct_email t)"

definition start_checkout ::
    "app \<Rightarrow> uid \<Rightarrow> time \<Rightarrow> string \<Rightarrow> headers \<Rightarrow> uid \<Rightarrow> checkout_request \<Rightarrow> checkout_response action" where
  "start_checkout a new_id now peer h user body =
     and_then (checkout_guards a user body) (\<lambda>t.
     and_then (open_session a new_id now peer h user (consent_version body) (from_db_str (cr_plan body))
         (from_str_or_monthly (cr_interval body)) (ct_secret t) (session_form a now user body t)) (\<lambda>url.
     done_with \<lparr>ck_url = url, ck_trial = (ct_trial t \<noteq> None), ck_trial_days = ct_trial t\<rparr>))"

subsection \<open>Looking without touching\<close>

fun is_get :: "call \<Rightarrow> bool" where
  "is_get (HttpGet _ _ _) = True"
| "is_get _ = False"

definition looks :: "world \<Rightarrow> world \<Rightarrow> bool" where
  "looks w w' \<longleftrightarrow> (\<exists>gets. w_calls w' = w_calls w @ gets \<and> list_all is_get gets)
     \<and> w_db w' = w_db w \<and> w_mail w' = w_mail w"

interpretation looking: action_relation looks
  by unfold_locales (auto simp: looks_def)

lemma asks_looks [simp]: "asks is_get looks"
  by (auto simp: asks_def looks_def)

lemma account_email_looks: "moves looks (account_email user)"
  by (simp add: moves_def account_email_def of_option_def done_with_def stop_with_def looks_def
      split: option.split)

lemma trial_available_looks: "moves looks (trial_available a user email)"
  unfolding trial_available_def by (intro looking.plain account_email_looks)

lemma choose_trial_looks: "moves looks (choose_trial a user body p customer email)"
  unfolding choose_trial_def by (intro looking.plain trial_available_looks)

lemma live_looks: "moves looks (has_live_subscription a secret customer)"
  unfolding has_live_subscription_def by (intro looking.plain looking.get[OF asks_looks]) simp

lemma completed_looks: "moves looks (completed_checkout_customer a secret user email)"
  unfolding completed_checkout_customer_def by (intro looking.plain looking.get[OF asks_looks]) simp

lemma checkout_guards_looks: "moves looks (checkout_guards a user body)"
  unfolding checkout_guards_def Let_def
  by (intro looking.plain account_email_looks choose_trial_looks live_looks completed_looks)

lemma and_thenE:
  assumes "and_then m k w = (r, w'')"
  obtains e w' where "m w = (Inl e, w')" "r = Inl e" "w'' = w'"
  | x w' where "m w = (Inr x, w')" "k x w' = (r, w'')"
  using assms by (auto simp: and_then_def split: prod.splits sum.splits)

lemma looks_db: "moves looks m \<Longrightarrow> m w = (r, w') \<Longrightarrow> w_db w' = w_db w"
  by (drule (1) movesD) (simp add: looks_def)

lemma trial_available_True:
  assumes "trial_available a user (Some email) w = (Inr True, w')"
  shows "trial_enabled (ap_env a)" "\<not> trial_claimed a user email (w_db w)"
  using assms by (auto simp: trial_available_def done_with_def split: if_splits)

lemma choose_trial_three_day:
  assumes "choose_trial a user body p customer email w = (Inr (True, trial), w')"
  shows "cr_start_trial body = Some True" "customer = None" "trial_enabled (ap_env a)"
    "\<not> trial_claimed a user email (w_db w)" "trial = Some TRIAL_DAYS"
  using assms trial_available_True[of a user email w]
  by (auto simp: choose_trial_def done_with_def stop_with_def and_then_Inr_iff split: if_splits)

lemma account_email_Inr:
  "account_email user w = (r, w') \<Longrightarrow> w' = w \<and>
     (case r of Inr email \<Rightarrow> \<exists>u. user_by_id (w_db w) user = Some u \<and> email = u_email u | Inl _ \<Rightarrow> True)"
  by (auto simp: account_email_def of_option_def done_with_def stop_with_def split: option.splits)

lemma checkout_guards_Inr:
  assumes "checkout_guards a user body w = (Inr t, w')"
  shows "from_db_str (cr_plan body) \<noteq> Free" "consent_refused a body = None"
    "\<not> already_subscribed user (w_db w)"
    "ct_three_day t \<Longrightarrow> cr_start_trial body = Some True \<and> ct_customer t = None
       \<and> existing_customer user (w_db w) = None \<and> trial_enabled (ap_env a)
       \<and> \<not> trial_claimed a user (ct_email t) (w_db w) \<and> ct_trial t = Some TRIAL_DAYS"
proof -
  let ?p = "from_db_str (cr_plan body)" and ?i = "from_str_or_monthly (cr_interval body)"
  show p: "?p \<noteq> Free"
    using assms by (cases "?p = Free") (simp_all add: checkout_guards_def stop_with_def)
  show c: "consent_refused a body = None"
    using assms p by (cases "consent_refused a body") (simp_all add: checkout_guards_def stop_with_def)
  obtain price where pr: "price_for a ?p ?i = Some price"
    using assms p c by (cases "price_for a ?p ?i") (simp_all add: checkout_guards_def stop_with_def)
  show s: "\<not> already_subscribed user (w_db w)"
    using assms p c pr by (cases "already_subscribed user (w_db w)") (simp_all add: checkout_guards_def stop_with_def)
  obtain secret where k: "env_set a ''STRIPE_SECRET_KEY'' = Some secret"
    using assms p c pr s by (cases "env_set a ''STRIPE_SECRET_KEY''")
      (simp_all add: checkout_guards_def stripe_secret_def of_option_def stop_with_def)
  assume three: "ct_three_day t"
  from assms p c pr s k obtain email customer w1 live w2 three_day trial w3 where
    e: "account_email user w = (Inr email, w)"
    and cu: "(case existing_customer user (w_db w) of Some i \<Rightarrow> done_with (Some i)
              | None \<Rightarrow> completed_checkout_customer a secret user email) w = (Inr customer, w1)"
    and li: "(case customer of None \<Rightarrow> done_with False
              | Some cu \<Rightarrow> has_live_subscription a secret cu) w1 = (Inr live, w2)"
    and tr: "choose_trial a user body ?p customer email w2 = (Inr (three_day, trial), w3)"
    and t: "t = \<lparr>ct_price = price, ct_secret = secret, ct_email = email,
                 ct_customer = customer, ct_three_day = three_day, ct_trial = trial\<rparr>"
    using account_email_Inr[of user w]
    by (auto simp: checkout_guards_def stripe_secret_def of_option_def and_then_Inr_iff stop_with_def
        done_with_def split: if_splits)
  have d1: "w_db w1 = w_db w"
    using cu completed_looks looks_db[of "completed_checkout_customer a secret user email" w]
    by (auto simp: done_with_def split: option.splits)
  have d2: "w_db w2 = w_db w"
    using li d1 live_looks looks_db[of "has_live_subscription a secret _" w1]
    by (auto simp: done_with_def split: option.splits)
  show "cr_start_trial body = Some True \<and> ct_customer t = None
       \<and> existing_customer user (w_db w) = None \<and> trial_enabled (ap_env a)
       \<and> \<not> trial_claimed a user (ct_email t) (w_db w) \<and> ct_trial t = Some TRIAL_DAYS"
    using choose_trial_three_day[of a user body ?p customer email w2 trial w3] tr t three d2 cu
    by (auto simp: done_with_def split: option.splits)
qed


subsection \<open>Opening the session\<close>

definition sent_form :: "app \<Rightarrow> uid \<Rightarrow> checkout_request \<Rightarrow> (string \<times> string) list \<Rightarrow> (string \<times> string) list" where
  "sent_form a new_id body form =
     form @ (case consent_version body of None \<Rightarrow> []
             | Some version \<Rightarrow> consent_form (ap_show_uuid a new_id) version)"

definition consent_kept :: "uid \<Rightarrow> uid \<Rightarrow> checkout_request \<Rightarrow> db \<Rightarrow> bool" where
  "consent_kept new_id user body d \<longleftrightarrow>
     (case consent_version body of
        None \<Rightarrow> True
      | Some version \<Rightarrow> list_ex (\<lambda>c. co_id c = new_id \<and> co_user c = Some user \<and> co_terms c = version) (consents d))"

lemma consents_unchanged [simp]: "\<exists>cs. d = d\<lparr>consents := cs\<rparr>"
  by (rule exI[of _ "consents d"]) simp

lemma open_session_effect:
  assumes "open_session a new_id now peer h user (consent_version body) p interval secret form w = (r, w')"
  shows "w_calls w' = w_calls w @
      [HttpPost secret (stripe_url a ''/v1/checkout/sessions'') (sent_form a new_id body form)]"
    and "consent_kept new_id user body (w_db w')"
    and "w_mail w' = w_mail w"
    and "\<exists>cs. w_db w' = (w_db w)\<lparr>consents := cs\<rparr>"
  using assms
  by (cases "consent_version body";
      force simp: open_session_def sent_form_def consent_kept_def consent_row_def name_session_def
        update_where_def stripe_post_def ask_def and_then_def writing_def of_option_def done_with_def
        stop_with_def list_ex_iff split: sum.splits option.splits)+


end
