(* ===== verification/ManageBilling.thy ===== *)
theory ManageBilling
  imports Checkout "HOL-Library.Word"
begin

text \<open>
  \<open>crates/api/src/routes/billing.rs\<close>: the Manage subscription panel: the caller's subscription as Stripe
  has it now, cancelling it at the end of the period, and resuming it.
\<close>

definition CANCEL_REASONS :: "(string \<times> string) list" where
  "CANCEL_REASONS =
     [(''too_expensive'', ''Too expensive''),
      (''unused'', ''I don'' @ [CHR 0x27] @ ''t use it enough''),
      (''missing_features'', ''Missing a feature I need''),
      (''switched_service'', ''Switching to another tool''),
      (''low_quality'', ''Technical problems / bugs''),
      (''too_complex'', ''Too complicated to use''),
      (''customer_service'', ''Problems with support''),
      (''other'', ''Other'')]"

definition CANCEL_COMMENT_MAX :: nat where "CANCEL_COMMENT_MAX = 500"
definition MANAGE_WINDOW_SECS :: int where "MANAGE_WINDOW_SECS = 15 * 60"
definition MANAGE_READS_PER_WINDOW :: int where "MANAGE_READS_PER_WINDOW = 120"
definition MANAGE_WRITES_PER_WINDOW :: int where "MANAGE_WRITES_PER_WINDOW = 20"

subsection \<open>The feedback\<close>

text \<open>The length in bytes of the white space or control character a string starts with: beyond White_Space,
  U+0000..1F, U+007F and U+0080..9F.\<close>

definition blank_len :: "string \<Rightarrow> nat" where
  "blank_len s =
     (if ws_len s > 0 then ws_len s
      else (case s of [] \<Rightarrow> 0
        | a # s' \<Rightarrow> if code_of a < 32 \<or> code_of a = 127 then 1
            else (case s' of [] \<Rightarrow> 0
              | b # _ \<Rightarrow> if code_of a = 194 \<and> 128 \<le> code_of b \<and> code_of b \<le> 159 then 2 else 0)))"

text \<open>\<open>split(blank).filter(|word| !word.is_empty())\<close>, with the word read so far.\<close>

function words_of :: "string \<Rightarrow> string \<Rightarrow> string list" where
  "words_of w s =
     (case s of
        [] \<Rightarrow> if w = [] then [] else [w]
      | c # cs \<Rightarrow>
          if blank_len s > 0
          then (if w = [] then [] else [w]) @ words_of [] (drop (blank_len s) s)
          else words_of (w @ [c]) cs)"
  by pat_completeness auto
termination
  by (relation "measure (\<lambda>(w, s). length s)") auto

declare words_of.simps [simp del]

definition some_text :: "string \<Rightarrow> string option" where
  "some_text s = (if s = [] then None else Some s)"

definition clean_cancel_feedback ::
    "string option \<Rightarrow> string option \<Rightarrow> api_error + string option \<times> string option" where
  "clean_cancel_feedback reason note =
     bind_res
       (case Option.bind (map_option trim reason) some_text of
          None \<Rightarrow> Inr None
        | Some v \<Rightarrow> ok_or (BadRequest ''unknown cancellation reason'')
                     (map_option Some (find (\<lambda>code. code = v) (map fst CANCEL_REASONS))))
       (\<lambda>code.
          let c = join '' '' (words_of [] (or_empty note)) in
          if chars_count c > CANCEL_COMMENT_MAX
          then Inl (BadRequest (''the comment is longer than '' @ show_nat CANCEL_COMMENT_MAX @ '' characters''))
          else Inr (code, some_text c))"

subsection \<open>The caller's records\<close>

record owned_billing =
  ow_email :: string
  ow_customer :: "string option"
  ow_subscription :: "string option"
  ow_sites :: int

definition owned_of :: "uid \<Rightarrow> db \<Rightarrow> owned_billing option" where
  "owned_of user d =
     map_option (\<lambda>u. \<lparr>ow_email = u_email u,
         ow_customer = Option.bind (entitlement_of d user) e_customer,
         ow_subscription = Option.bind (entitlement_of d user) e_subscription,
         ow_sites = int (length (filter (\<lambda>t. tg_user t = user) (targets d)))\<rparr>)
       (user_by_id d user)"

definition owned :: "uid \<Rightarrow> owned_billing action" where
  "owned user = and_then (reading (owned_of user)) (of_option NotFound)"

definition sha_hex :: "app \<Rightarrow> string \<Rightarrow> string" where
  "sha_hex a s = encode_hex (ap_sha256 a s)"

definition manage_rate_limit :: "app \<Rightarrow> time \<Rightarrow> uid \<Rightarrow> string \<Rightarrow> int \<Rightarrow> unit action" where
  "manage_rate_limit a now user scope limit w =
     (let (allowed, d) = check_shared (sha_hex a) limit MANAGE_WINDOW_SECS scope (ap_show_uuid a user) now (w_db w)
      in (if allowed then Inr () else Inl TooManyRequests, w\<lparr>w_db := d\<rparr>))"

text \<open>A failure at Stripe reads as billing being unavailable.\<close>

definition unavailable :: "'a action \<Rightarrow> 'a action" where
  "unavailable = with_error (\<lambda>_. BillingUnavailable)"

definition LIVE_STATES :: "string list" where
  "LIVE_STATES = [''active'', ''trialing'', ''past_due'', ''unpaid'', ''paused'']"

definition is_live :: "string \<Rightarrow> json \<Rightarrow> bool" where
  "is_live customer v \<longleftrightarrow> get_str ''customer'' v = Some customer
     \<and> (case get_str ''status'' v of None \<Rightarrow> False | Some s \<Rightarrow> s \<in> set LIVE_STATES)"

definition live_subscription :: "app \<Rightarrow> owned_billing \<Rightarrow> json option action" where
  "live_subscription a ow =
     (case (ow_customer ow, ow_subscription ow) of
        (Some customer, Some i) \<Rightarrow>
          and_then (unavailable (stripe_secret a)) (\<lambda>secret.
          and_then (unavailable (stripe_get a secret (stripe_url a (''/v1/subscriptions/'' @ i))
                     [(''expand[]'', ''default_payment_method'')])) (\<lambda>v.
          done_with (if is_live customer v then Some v else None)))
      | _ \<Rightarrow> done_with None)"

subsection \<open>The panel\<close>

record managed =
  mg_plan :: string
  mg_plan_name :: string
  mg_interval :: "string option"
  mg_amount :: "int option"
  mg_currency :: "string option"
  mg_status :: string
  mg_trial_end :: "time option"
  mg_period_end :: "time option"
  mg_cancel_at_period_end :: bool
  mg_cancel_at :: "time option"
  mg_card :: "(string \<times> string) option"
  mg_can_cancel :: bool
  mg_can_resume :: bool
  mg_sites_used :: int
  mg_max_sites :: int
  mg_portal :: bool

definition free_view :: "access \<Rightarrow> owned_billing \<Rightarrow> managed" where
  "free_view access ow =
     \<lparr>mg_plan = plan_db_str (a_plan access), mg_plan_name = display_name (a_plan access),
      mg_interval = None, mg_amount = None, mg_currency = None, mg_status = ''none'',
      mg_trial_end = None, mg_period_end = None, mg_cancel_at_period_end = False, mg_cancel_at = None,
      mg_card = None, mg_can_cancel = False, mg_can_resume = False, mg_sites_used = ow_sites ow,
      mg_max_sites = access_max_targets access, mg_portal = (ow_customer ow \<noteq> None)\<rparr>"

text \<open>\<open>amount * quantity\<close> on \<open>i64\<close>, as a release build multiplies.\<close>

definition times_i64 :: "int \<Rightarrow> int \<Rightarrow> int" where
  "times_i64 x y = sint (word_of_int (x * y) :: 64 word)"

definition managed_view :: "app \<Rightarrow> json option \<Rightarrow> access \<Rightarrow> owned_billing \<Rightarrow> managed" where
  "managed_view a subscription access ow =
     (let base = free_view access ow in
      case subscription of
        None \<Rightarrow> base
      | Some v \<Rightarrow>
          (let item = jat (jidx (jidx v ''items'') ''data'') 0;
               price = jidx item ''price'';
               named = Option.bind (get_str ''id'' price) (plan_for a);
               status = (case get_str ''status'' v of None \<Rightarrow> ''none'' | Some s \<Rightarrow> s);
               at_period_end = (as_bool (jidx v ''cancel_at_period_end'') = Some True);
               at = timestamp_of (jidx v ''cancel_at'');
               card = jidx (jidx v ''default_payment_method'') ''card'';
               running = (status \<in> {''active'', ''trialing'', ''past_due''});
               ending = (at_period_end \<or> at \<noteq> None) in
           base\<lparr>mg_plan := (case named of None \<Rightarrow> mg_plan base | Some p \<Rightarrow> plan_db_str p),
                mg_plan_name := (case named of None \<Rightarrow> mg_plan_name base | Some p \<Rightarrow> display_name p),
                mg_interval := get_str ''interval'' (jidx price ''recurring''),
                mg_amount := map_option (\<lambda>amount. times_i64 amount
                    (case as_i64 (jidx item ''quantity'') of None \<Rightarrow> 1 | Some n \<Rightarrow> n))
                  (as_i64 (jidx price ''unit_amount'')),
                mg_currency := get_str ''currency'' price,
                mg_status := status,
                mg_trial_end := (if status = ''trialing'' then timestamp_of (jidx v ''trial_end'') else None),
                mg_period_end := (case timestamp_of (jidx item ''current_period_end'') of
                    Some t \<Rightarrow> Some t | None \<Rightarrow> timestamp_of (jidx v ''current_period_end'')),
                mg_cancel_at_period_end := at_period_end,
                mg_cancel_at := at,
                mg_card := (case (get_str ''brand'' card, get_str ''last4'' card) of
                    (Some b, Some l) \<Rightarrow> Some (b, l) | _ \<Rightarrow> None),
                mg_can_cancel := running \<and> \<not> ending,
                mg_can_resume := running \<and> ending\<rparr>))"

definition manage_subscription :: "app \<Rightarrow> time \<Rightarrow> uid \<Rightarrow> managed action" where
  "manage_subscription a now user =
     and_then (manage_rate_limit a now user ''billing_read'' MANAGE_READS_PER_WINDOW) (\<lambda>_.
     and_then (owned user) (\<lambda>ow.
     and_then (live_subscription a ow) (\<lambda>v.
     and_then (reading (\<lambda>d. current_access d user)) (\<lambda>access.
     done_with (managed_view a v access ow)))))"

subsection \<open>Cancelling and resuming\<close>

definition record_cancel_flag :: "uid \<Rightarrow> bool \<Rightarrow> db \<Rightarrow> db" where
  "record_cancel_flag user ending d =
     d\<lparr>entitlements := update_where (\<lambda>e. e_user e = user \<and> e_product e = ''glarion'')
         (\<lambda>e. e\<lparr>e_cancel := ending\<rparr>) (entitlements d)\<rparr>"

definition customer_country :: "app \<Rightarrow> string option \<Rightarrow> string option action" where
  "customer_country a customer =
     (case (env_set a ''STRIPE_SECRET_KEY'', customer) of
        (Some secret, Some c) \<Rightarrow>
          and_then (attempt (stripe_get a secret (stripe_url a (''/v1/customers/'' @ c)) [])) (\<lambda>r.
            done_with (case r of Inl _ \<Rightarrow> None
              | Inr found \<Rightarrow> get_str ''country'' (jidx found ''address'')))
      | _ \<Rightarrow> done_with None)"

text \<open>One notice per subscription and end date, claimed before it is sent.\<close>

definition notice_key :: "string \<Rightarrow> time \<Rightarrow> string \<times> string" where
  "notice_key i ends = (''cancel_notice'', i @ '':'' @ show_int (timestamp ends))"

definition notify_owner_of_cancellation ::
    "app \<Rightarrow> time \<Rightarrow> owned_billing \<Rightarrow> managed \<Rightarrow> string \<Rightarrow> string option \<Rightarrow> string option \<Rightarrow> unit action" where
  "notify_owner_of_cancellation a now ow view i reason note =
     (case (case mg_cancel_at view of Some t \<Rightarrow> Some t | None \<Rightarrow> mg_period_end view) of
        None \<Rightarrow> done_with ()
      | Some ends \<Rightarrow>
          and_then (reading (\<lambda>d. map_of (buckets d) (notice_key i ends) \<noteq> None)) (\<lambda>taken.
          if taken then done_with ()
          else
            and_then (writing (\<lambda>d. d\<lparr>buckets := AList.update (notice_key i ends) (now, 1) (buckets d)\<rparr>)) (\<lambda>_.
            and_then (customer_country a (ow_customer ow)) (\<lambda>country.
            mailing a OWNER_NOTICE_TO
              (CancellationNoticeEmail
                 (mg_plan_name view @ '' '' @ em_dash @ '' ''
                  @ (if mg_interval view = Some ''year'' then ''Yearly''
                     else if mg_interval view = Some ''month'' then ''Monthly'' else ''Subscription''))
                 (ow_email ow) country ends
                 (Option.bind reason (map_of CANCEL_REASONS)) note i)))))"

definition cancel_form :: "string option \<Rightarrow> string option \<Rightarrow> (string \<times> string) list" where
  "cancel_form reason note =
     [(''cancel_at_period_end'', ''true''), (''expand[]'', ''default_payment_method'')]
     @ (case reason of None \<Rightarrow> [] | Some r \<Rightarrow> [(''cancellation_details[feedback]'', r)])
     @ (case note of None \<Rightarrow> [] | Some c \<Rightarrow> [(''cancellation_details[comment]'', c)])"

definition post_subscription :: "app \<Rightarrow> string \<Rightarrow> (string \<times> string) list \<Rightarrow> json action" where
  "post_subscription a i form =
     and_then (unavailable (stripe_secret a)) (\<lambda>secret.
       unavailable (stripe_post a secret (stripe_url a (''/v1/subscriptions/'' @ i)) form))"

text \<open>The read-only part of both requests.\<close>

definition look_up :: "app \<Rightarrow> time \<Rightarrow> uid \<Rightarrow> (json \<times> access \<times> owned_billing) action" where
  "look_up a now user =
     and_then (manage_rate_limit a now user ''billing_write'' MANAGE_WRITES_PER_WINDOW) (\<lambda>_.
     and_then (owned user) (\<lambda>ow.
     and_then (live_subscription a ow) (\<lambda>found.
     and_then (of_option NotFound found) (\<lambda>current.
     and_then (reading (\<lambda>d. current_access d user)) (\<lambda>access. done_with (current, access, ow))))))"

definition schedule_cancellation ::
    "app \<Rightarrow> time \<Rightarrow> uid \<Rightarrow> string option \<Rightarrow> string option \<Rightarrow> managed action" where
  "schedule_cancellation a now user reason0 note0 =
     (case clean_cancel_feedback reason0 note0 of
        Inl e \<Rightarrow> stop_with e
      | Inr (reason, note) \<Rightarrow>
          and_then (look_up a now user) (\<lambda>(current, access, ow).
          let view = managed_view a (Some current) access ow in
          if mg_can_resume view then done_with view
          else if \<not> mg_can_cancel view
            then stop_with (Conflict ''this subscription can only be changed in the billing portal'')
          else (let i = or_empty (get_str ''id'' current) in
            and_then (post_subscription a i (cancel_form reason note)) (\<lambda>updated.
            let view = managed_view a (Some updated) access ow in
            and_then (writing (record_cancel_flag user (mg_can_resume view))) (\<lambda>_.
            and_then (notify_owner_of_cancellation a now ow view i reason note) (\<lambda>_.
            done_with view))))))"

definition resume_form :: "managed \<Rightarrow> (string \<times> string) list" where
  "resume_form view =
     [if mg_cancel_at_period_end view then (''cancel_at_period_end'', ''false'') else (''cancel_at'', []),
      (''expand[]'', ''default_payment_method'')]"

definition resume_subscription :: "app \<Rightarrow> time \<Rightarrow> uid \<Rightarrow> managed action" where
  "resume_subscription a now user =
     and_then (look_up a now user) (\<lambda>(current, access, ow).
     let view = managed_view a (Some current) access ow in
     if \<not> mg_can_resume view then done_with view
     else
       and_then (post_subscription a (or_empty (get_str ''id'' current)) (resume_form view)) (\<lambda>updated.
       let view = managed_view a (Some updated) access ow in
       and_then (writing (record_cancel_flag user (mg_can_resume view))) (\<lambda>_.
       done_with view)))"

subsection \<open>What a request may change\<close>

text \<open>Reads at Stripe, and nothing but the counters of the limiter.\<close>

definition observes :: "world \<Rightarrow> world \<Rightarrow> bool" where
  "observes w w' \<longleftrightarrow> (\<exists>gets. w_calls w' = w_calls w @ gets \<and> list_all is_get gets)
     \<and> (\<exists>table. w_db w' = (w_db w)\<lparr>buckets := table\<rparr>) \<and> w_mail w' = w_mail w"

lemma buckets_unchanged [simp]: "\<exists>table. d = d\<lparr>buckets := table\<rparr>"
  by (rule exI[of _ "buckets d"]) simp

interpretation observing: action_relation observes
proof
  show "observes w w" for w by (auto simp: observes_def)
  show "observes u w" if "observes u v" "observes v w" for u v w
    using that by (auto simp: observes_def)
qed

lemma asks_observes [simp]: "asks is_get observes"
  by (auto simp: asks_def observes_def)

lemma rate_limit_observes: "moves observes (manage_rate_limit a now user scope limit)"
  by (auto simp: moves_def observes_def manage_rate_limit_def check_shared_def Let_def split: prod.split)

lemma owned_observes: "moves observes (owned user)"
  unfolding owned_def by (intro observing.plain)

lemma live_observes: "moves observes (live_subscription a ow)"
  unfolding live_subscription_def unavailable_def by (intro observing.plain observing.get[OF asks_observes]) simp

lemma country_observes: "moves observes (customer_country a c)"
  unfolding customer_country_def by (intro observing.plain observing.get[OF asks_observes]) simp

lemma manage_subscription_observes: "moves observes (manage_subscription a now user)"
  unfolding manage_subscription_def
  by (intro observing.plain rate_limit_observes owned_observes live_observes)

lemma live_subscription_SomeD:
  assumes "live_subscription a ow w = (Inr (Some v), w')"
  shows "\<exists>customer. ow_customer ow = Some customer \<and> is_live customer v"
  using assms
  by (auto simp: live_subscription_def done_with_def and_then_Inr_iff split: option.splits if_splits)

lemma owned_InrD:
  assumes "owned user w = (Inr ow, w')"
  shows "ow_customer ow = existing_customer user (w_db w)"
  using assms by (auto simp: owned_def owned_of_def of_option_def done_with_def stop_with_def
      existing_customer_def split: option.splits)


lemma look_up_observes: "moves observes (look_up a now user)"
  unfolding look_up_def by (intro observing.plain rate_limit_observes owned_observes live_observes)

lemma observes_customer: "observes w w' \<Longrightarrow> existing_customer user (w_db w') = existing_customer user (w_db w)"
  by (auto simp: observes_def existing_customer_def entitlement_of_def)

lemma look_up_InrD:
  assumes "look_up a now user w = (Inr (v, access, ow), w')"
  shows "\<exists>customer. existing_customer user (w_db w) = Some customer \<and> is_live customer v"
proof -
  from assms obtain w1 w2 found w3 where
    m: "manage_rate_limit a now user ''billing_write'' MANAGE_WRITES_PER_WINDOW w = (Inr (), w1)"
    and o: "owned user w1 = (Inr ow, w2)"
    and l: "live_subscription a ow w2 = (Inr (Some v), w3)"
    by (auto simp: look_up_def and_then_Inr_iff done_with_def of_option_def stop_with_def
        reading_def split: option.splits)
  have "observes w w1" using movesD[OF rate_limit_observes m] .
  then show ?thesis
    using live_subscription_SomeD[OF l] owned_InrD[OF o] observes_customer by simp
qed

lemma customer_country_Inr: "\<exists>x w'. customer_country a c w = (Inr x, w') \<and> observes w w'"
proof -
  obtain r w' where c: "customer_country a c w = (r, w')" by fastforce
  then have "observes w w'" using movesD[OF country_observes] by blast
  moreover have "\<exists>x. r = Inr x"
    using c by (cases "env_set a ''STRIPE_SECRET_KEY''"; cases c)
      (simp_all add: customer_country_def done_with_def and_then_def attempt_def split: prod.splits sum.splits,
       blast+)
  ultimately show ?thesis using c by blast
qed

definition few_effects :: "world \<Rightarrow> world \<Rightarrow> bool" where
  "few_effects w w' \<longleftrightarrow> (\<exists>gets. w_calls w' = w_calls w @ gets \<and> list_all is_get gets)
     \<and> (\<exists>table. w_db w' = (w_db w)\<lparr>buckets := table\<rparr>) \<and> length (w_mail w') \<le> Suc (length (w_mail w))"

lemma few_effects_mail: "observes (w\<lparr>w_db := (w_db w)\<lparr>buckets := t\<rparr>\<rparr>) w' \<Longrightarrow> few_effects w (deliver_mail a to m w')"
  by (auto simp: observes_def few_effects_def deliver_mail_def)

lemma notify_effect:
  "few_effects w (snd (notify_owner_of_cancellation a now ow view i reason note w))"
proof -
  have stay: "few_effects w w" by (auto simp: few_effects_def)
  show ?thesis
  proof (cases "case mg_cancel_at view of Some t \<Rightarrow> Some t | None \<Rightarrow> mg_period_end view")
    case None
    then show ?thesis using stay by (simp add: notify_owner_of_cancellation_def done_with_def)
  next
    case (Some ends)
    show ?thesis
    proof (cases "map_of (buckets (w_db w)) (notice_key i ends) \<noteq> None")
      case True
      then show ?thesis using Some stay by (simp add: notify_owner_of_cancellation_def done_with_def)
    next
      case False
      obtain country w2 where c: "customer_country a (ow_customer ow)
          (w\<lparr>w_db := (w_db w)\<lparr>buckets := AList.update (notice_key i ends) (now, 1) (buckets (w_db w))\<rparr>\<rparr>)
            = (Inr country, w2)"
        and o: "observes (w\<lparr>w_db := (w_db w)\<lparr>buckets := AList.update (notice_key i ends) (now, 1)
            (buckets (w_db w))\<rparr>\<rparr>) w2"
        using customer_country_Inr by blast
      have "\<exists>m. snd (notify_owner_of_cancellation a now ow view i reason note w) =
          deliver_mail a OWNER_NOTICE_TO m w2"
        unfolding notify_owner_of_cancellation_def Some option.case
        using False c by (simp add: and_then_def[of "customer_country _ _"] mailing_def exI)
      then show ?thesis using few_effects_mail[OF o] by auto
    qed
  qed
qed

lemma post_subscription_effect:
  assumes "post_subscription a i form w = (r, w')"
  shows "(w' = w \<and> (\<exists>e. r = Inl e)) \<or>
    (\<exists>secret. w' = w\<lparr>w_calls := w_calls w @ [HttpPost secret (stripe_url a (''/v1/subscriptions/'' @ i)) form]\<rparr>)"
  using assms
  by (auto simp: post_subscription_def unavailable_def with_error_def stripe_secret_def of_option_def
      stop_with_def done_with_def stripe_post_def ask_def and_then_def split: option.splits sum.splits)

text \<open>One write at Stripe among reads, with what may follow from it: the flag, counters, one mail.\<close>

definition one_write :: "app \<Rightarrow> uid \<Rightarrow> string \<Rightarrow> (string \<times> string) list \<Rightarrow> world \<Rightarrow> world \<Rightarrow> bool" where
  "one_write a user i form w w' \<longleftrightarrow> (\<exists>gets gets' secret flag table.
     w_calls w' = w_calls w @ gets @ [HttpPost secret (stripe_url a (''/v1/subscriptions/'' @ i)) form] @ gets'
     \<and> list_all is_get (gets @ gets')
     \<and> (w_db w' = (w_db w)\<lparr>buckets := table\<rparr> \<or> w_db w' = (record_cancel_flag user flag (w_db w))\<lparr>buckets := table\<rparr>)
     \<and> length (w_mail w') \<le> Suc (length (w_mail w)))"

lemma observed_one_write:
  assumes "observes w w1" "one_write a user i form w1 w'"
  shows "one_write a user i form w w'"
proof -
  obtain before table where w1: "w_calls w1 = w_calls w @ before" "list_all is_get before"
    "w_db w1 = (w_db w)\<lparr>buckets := table\<rparr>" "w_mail w1 = w_mail w"
    using assms(1) by (auto simp: observes_def)
  have flag: "(record_cancel_flag user flag (d\<lparr>buckets := t\<rparr>))\<lparr>buckets := t'\<rparr>
      = (record_cancel_flag user flag d)\<lparr>buckets := t'\<rparr>" for flag d t t'
    by (simp add: record_cancel_flag_def)
  obtain gets gets' secret flag table' where w': "w_calls w' = w_calls w1 @ gets
      @ [HttpPost secret (stripe_url a (''/v1/subscriptions/'' @ i)) form] @ gets'" "list_all is_get (gets @ gets')"
    "w_db w' = (w_db w1)\<lparr>buckets := table'\<rparr> \<or> w_db w' = (record_cancel_flag user flag (w_db w1))\<lparr>buckets := table'\<rparr>"
    "length (w_mail w') \<le> Suc (length (w_mail w1))"
    using assms(2) unfolding one_write_def by blast
  show ?thesis
    unfolding one_write_def
    by (intro exI[of _ "before @ gets"] exI[of _ gets'] exI[of _ secret] exI[of _ flag] exI[of _ table'])
      (use w' in \<open>simp add: w1 flag\<close>)
qed

lemma cancelling_effect:
  assumes "and_then (post_subscription a i form) (\<lambda>updated.
      let view = managed_view a (Some updated) access ow in
      and_then (writing (record_cancel_flag user (mg_can_resume view))) (\<lambda>_.
      and_then (notify_owner_of_cancellation a now ow view i code wording) (\<lambda>_. done_with view))) w = (r, w')"
  shows "w' = w \<or> one_write a user i form w w'"
proof -
  obtain p w2 where p: "post_subscription a i form w = (p, w2)" by fastforce
  show ?thesis
  proof (cases "w2 = w \<and> (\<exists>e. p = Inl e)")
    case True
    then show ?thesis using assms p by (auto simp: and_then_def)
  next
    case False
    then obtain secret where w2: "w2 = w\<lparr>w_calls := w_calls w
        @ [HttpPost secret (stripe_url a (''/v1/subscriptions/'' @ i)) form]\<rparr>"
      using post_subscription_effect[OF p] by blast
    show ?thesis
    proof (cases p)
      case (Inl e)
      then have "w' = w2" using assms p by (simp add: and_then_def)
      then show ?thesis
        unfolding one_write_def
        by (intro disjI2 exI[of _ "[]"] exI[of _ secret] exI[of _ True] exI[of _ "buckets (w_db w)"]) (simp add: w2)
    next
      case (Inr updated)
      let ?view = "managed_view a (Some updated) access ow"
      let ?w3 = "w2\<lparr>w_db := record_cancel_flag user (mg_can_resume ?view) (w_db w2)\<rparr>"
      obtain n w4 where n: "notify_owner_of_cancellation a now ow ?view i code wording ?w3 = (n, w4)" by fastforce
      have "w' = w4" using assms p Inr n
        by (simp add: and_then_def writing_def done_with_def Let_def split: sum.splits)
      have "few_effects ?w3 w4" using notify_effect[of ?w3] n by (metis snd_conv)
      then obtain gets' table where m: "w_calls w4 = w_calls ?w3 @ gets'"
        "list_all is_get gets'" "w_db w4 = (w_db ?w3)\<lparr>buckets := table\<rparr>"
        "length (w_mail w4) \<le> Suc (length (w_mail ?w3))" unfolding few_effects_def by blast
      show ?thesis
        unfolding one_write_def \<open>w' = w4\<close>
        by (intro disjI2 exI[of _ "[]"] exI[of _ gets'] exI[of _ secret] exI[of _ "mg_can_resume ?view"] exI[of _ table])
          (use m w2 in simp)
    qed
  qed
qed

lemma live_view:
  assumes "\<not> (mg_can_resume (managed_view a (Some v) access ow) \<or> \<not> mg_can_cancel (managed_view a (Some v) access ow))"
  shows "get_str ''status'' v \<in> {Some ''active'', Some ''trialing'', Some ''past_due''}
    \<and> as_bool (jidx v ''cancel_at_period_end'') \<noteq> Some True"
  using assms by (auto simp: managed_view_def Let_def split: option.splits)


end
