(* ===== verification/Portal.thy ===== *)
theory Portal
  imports ManageBilling "HOL-Library.Product_Lexorder"
begin

text \<open>
  \<open>crates/api/src/routes/billing.rs\<close>: the customer portal, the public prices, and the mail to somebody
  whose first payment failed.  What the process remembers (the portal's configuration, the prices) is an
  argument and a result.
\<close>

subsection \<open>Loops\<close>

text \<open>A loop whose body may stop the whole with an error.\<close>

fun for_each :: "('x \<Rightarrow> 'y action) \<Rightarrow> 'x list \<Rightarrow> 'y list action" where
  "for_each f [] = done_with []"
| "for_each f (x # xs) = and_then (f x) (\<lambda>y. and_then (for_each f xs) (\<lambda>ys. done_with (y # ys)))"

context action_relation
begin

lemma loop: "(\<And>x. moves R (f x)) \<Longrightarrow> moves R (for_each f xs)"
  by (induction xs) (auto intro: finish seq)

end

subsection \<open>The portal\<close>

definition PORTAL_MARK :: string where "PORTAL_MARK = ''glarion-portal-v1''"

definition portal_base_form :: "(string \<times> string) list" where
  "portal_base_form =
     [(''business_profile[headline]'', ''Manage your Glarion subscription''),
      (''features[customer_update][enabled]'', ''true''),
      (''features[customer_update][allowed_updates][]'', ''name''),
      (''features[customer_update][allowed_updates][]'', ''email''),
      (''features[customer_update][allowed_updates][]'', ''address''),
      (''features[customer_update][allowed_updates][]'', ''phone''),
      (''features[invoice_history][enabled]'', ''true''),
      (''features[payment_method_update][enabled]'', ''true''),
      (''features[subscription_cancel][enabled]'', ''true''),
      (''features[subscription_cancel][mode]'', ''at_period_end''),
      (''features[subscription_cancel][proration_behavior]'', ''none''),
      (''features[subscription_update][enabled]'', ''true''),
      (''features[subscription_update][default_allowed_updates][]'', ''price''),
      (''features[subscription_update][proration_behavior]'', ''always_invoice''),
      (''features[subscription_update][trial_update_behavior]'', ''continue_trial''),
      (''metadata[glarion]'', PORTAL_MARK)]"

text \<open>The prices grouped by product, in the order first seen.\<close>

fun add_price :: "string \<Rightarrow> string \<Rightarrow> (string \<times> string list) list \<Rightarrow> (string \<times> string list) list" where
  "add_price product price [] = [(product, [price])]"
| "add_price product price ((i, ps) # rest) =
     (if i = product then (i, ps @ [price]) # rest else (i, ps) # add_price product price rest)"

definition slot_prices :: "app \<Rightarrow> string list" where
  "slot_prices a = List.map_filter (\<lambda>(p, i). price_for a p i) plan_slots"

fun group_products ::
    "app \<Rightarrow> string \<Rightarrow> string list \<Rightarrow> (string \<times> string list) list \<Rightarrow> (string \<times> string list) list action" where
  "group_products a secret [] found = done_with found"
| "group_products a secret (price # prices) found =
     and_then (stripe_get a secret (stripe_url a (''/v1/prices/'' @ price)) []) (\<lambda>v.
       group_products a secret prices
         (case get_str ''product'' v of None \<Rightarrow> found | Some product \<Rightarrow> add_price product price found))"

definition product_form :: "nat \<Rightarrow> string \<times> string list \<Rightarrow> (string \<times> string) list" where
  "product_form index = (\<lambda>(product, prices).
     (let prefix = ''features[subscription_update][products]['' @ show_nat index @ '']'' in
      (prefix @ ''[product]'', product) # map (\<lambda>p. (prefix @ ''[prices][]'', p)) prices))"

definition ensure_portal_configuration :: "app \<Rightarrow> string \<Rightarrow> string action" where
  "ensure_portal_configuration a secret =
     and_then (stripe_get a secret (stripe_url a ''/v1/billing_portal/configurations'')
         [(''active'', ''true''), (''limit'', ''100'')]) (\<lambda>existing.
     case Option.bind (find (\<lambda>config. jidx (jidx config ''metadata'') ''glarion'' = JStr PORTAL_MARK)
            (data_rows existing)) (get_str ''id'') of
       Some i \<Rightarrow> done_with i
     | None \<Rightarrow>
         and_then (group_products a secret (slot_prices a) []) (\<lambda>products.
         if products = [] then stop_with (Internal ''no plan prices configured'')
         else and_then (stripe_post a secret (stripe_url a ''/v1/billing_portal/configurations'')
                (portal_base_form @ concat (map (\<lambda>(n, p). product_form n p) (enumerate 0 products))))
           (\<lambda>created. of_option (Internal ''Stripe returned no configuration id'') (get_str ''id'' created))))"

text \<open>\<open>cell\<close> is the configuration found earlier in this process.\<close>

definition portal_configuration :: "app \<Rightarrow> string option \<Rightarrow> (string option \<times> string option) action" where
  "portal_configuration a cell =
     (case (case ap_env a ''STRIPE_PORTAL_CONFIGURATION'' of
              Some v \<Rightarrow> if prefix ''bpc_'' v then Some v else None | None \<Rightarrow> None) of
        Some i \<Rightarrow> done_with (Some i, cell)
      | None \<Rightarrow>
          (case (env_set a ''STRIPE_SECRET_KEY'', cell) of
             (None, _) \<Rightarrow> done_with (None, cell)
           | (Some _, Some i) \<Rightarrow> done_with (Some i, cell)
           | (Some secret, None) \<Rightarrow>
               and_then (attempt (ensure_portal_configuration a secret)) (\<lambda>r.
                 done_with (case r of Inl _ \<Rightarrow> (None, None) | Inr i \<Rightarrow> (Some i, Some i)))))"

definition open_portal :: "app \<Rightarrow> string option \<Rightarrow> uid \<Rightarrow> (string \<times> string option) action" where
  "open_portal a cell user =
     and_then (stripe_secret a) (\<lambda>secret.
     and_then (reading (existing_customer user)) (\<lambda>stored.
     and_then (of_option (BadRequest ''there is no subscription to manage'') stored) (\<lambda>customer.
     and_then (portal_configuration a cell) (\<lambda>(configuration, cell').
     and_then (stripe_post a secret (stripe_url a ''/v1/billing_portal/sessions'')
        ([(''customer'', customer), (''return_url'', app_link_of a ''/plan'')]
         @ (case configuration of None \<Rightarrow> [] | Some c \<Rightarrow> [(''configuration'', c)]))) (\<lambda>session.
     and_then (of_option (Internal ''Stripe returned no portal url'') (get_str ''url'' session)) (\<lambda>url.
     done_with (url, cell')))))))"

subsection \<open>Public prices\<close>

record plan_price =
  pl_plan :: string
  pl_interval :: string
  pl_amount :: int
  pl_currency :: string
  pl_tax :: string

definition PRICE_CACHE_SECS :: int where "PRICE_CACHE_SECS = 600"
definition PRICE_RETRY_SECS :: int where "PRICE_RETRY_SECS = 60"

fun stripe_interval :: "billing_interval \<Rightarrow> string" where
  "stripe_interval Per_Month = ''month''"
| "stripe_interval Per_Year = ''year''"

text \<open>A price that cannot be read, is not active, or is not the slot's interval is left out.\<close>

definition published_price :: "plan \<Rightarrow> billing_interval \<Rightarrow> json \<Rightarrow> plan_price option" where
  "published_price p i price =
     (case (Option.bind (jget ''unit_amount'' price) as_i64,
            Option.bind (jpath [''recurring'', ''interval''] price) as_str) of
        (Some amount, Some found) \<Rightarrow>
          if Option.bind (jget ''active'' price) as_bool = Some True \<and> amount > 0 \<and> found = stripe_interval i
          then Some \<lparr>pl_plan = plan_db_str p, pl_interval = interval_str i, pl_amount = amount,
                     pl_currency = (case get_str ''currency'' price of None \<Rightarrow> ''eur'' | Some c \<Rightarrow> c),
                     pl_tax = (case get_str ''tax_behavior'' price of None \<Rightarrow> ''unspecified'' | Some t \<Rightarrow> t)\<rparr>
          else None
      | _ \<Rightarrow> None)"

definition price_slots :: "app \<Rightarrow> ((nat \<times> string) \<times> plan \<times> billing_interval \<times> string) list" where
  "price_slots a =
     concat (map (\<lambda>(rank, p). List.map_filter (\<lambda>i.
         map_option (\<lambda>price_id. ((rank, interval_str i), p, i, price_id)) (price_for a p i))
       [Per_Month, Per_Year]) (enumerate 0 PAID_PLANS))"

definition read_price ::
    "app \<Rightarrow> string \<Rightarrow> (nat \<times> string) \<times> plan \<times> billing_interval \<times> string
     \<Rightarrow> ((nat \<times> string) \<times> plan_price) option action" where
  "read_price a secret = (\<lambda>(key, p, i, price_id).
     and_then (attempt (stripe_get a secret (stripe_url a (''/v1/prices/'' @ price_id)) [])) (\<lambda>r.
       done_with (case r of Inl _ \<Rightarrow> None
         | Inr price \<Rightarrow> map_option (\<lambda>v. (key, v)) (published_price p i price))))"

text \<open>The reads run side by side and finish in any order; \<open>arrival\<close> is that order.\<close>

definition read_prices ::
    "app \<Rightarrow> (((nat \<times> string) \<times> plan_price) option list \<Rightarrow> ((nat \<times> string) \<times> plan_price) option list)
     \<Rightarrow> plan_price list action" where
  "read_prices a arrival =
     (case env_set a ''STRIPE_SECRET_KEY'' of
        None \<Rightarrow> done_with []
      | Some secret \<Rightarrow>
          and_then (for_each (read_price a secret) (price_slots a)) (\<lambda>reads.
            done_with (map snd (sort_key fst (List.map_filter id (arrival reads))))))"

definition cached_prices :: "time \<Rightarrow> (time \<times> plan_price list) option \<Rightarrow> plan_price list option" where
  "cached_prices now cache =
     (case cache of
        None \<Rightarrow> None
      | Some (at, prices) \<Rightarrow>
          if num_seconds (duration_since now at) < (if prices = [] then PRICE_RETRY_SECS else PRICE_CACHE_SECS)
          then Some prices else None)"

record public_prices =
  pr_server_time :: time
  pr_trial_enabled :: bool
  pr_trial_days :: int
  pr_prices :: "plan_price list"

definition prices_answer :: "app \<Rightarrow> time \<Rightarrow> plan_price list \<Rightarrow> public_prices" where
  "prices_answer a now prices =
     \<lparr>pr_server_time = now, pr_trial_enabled = trial_enabled (ap_env a), pr_trial_days = TRIAL_DAYS,
      pr_prices = prices\<rparr>"

definition get_prices ::
    "app \<Rightarrow> (((nat \<times> string) \<times> plan_price) option list \<Rightarrow> ((nat \<times> string) \<times> plan_price) option list)
     \<Rightarrow> time \<Rightarrow> (time \<times> plan_price list) option
     \<Rightarrow> (public_prices \<times> (time \<times> plan_price list) option) action" where
  "get_prices a arrival now cache =
     (case cached_prices now cache of
        Some prices \<Rightarrow> done_with (prices_answer a now prices, cache)
      | None \<Rightarrow>
          and_then (read_prices a arrival) (\<lambda>fresh.
            done_with (prices_answer a now fresh, Some (now, fresh))))"

subsection \<open>Failed first payments\<close>

definition plan_and_interval_for_price :: "app \<Rightarrow> string \<Rightarrow> (plan \<times> billing_interval) option" where
  "plan_and_interval_for_price a price_id =
     find_map (\<lambda>(p, i). if price_for a p i = Some price_id then Some (p, i) else None) plan_slots"

text \<open>One recovery per account and plan a day, claimed before it is sent.\<close>

definition recovery_key :: "app \<Rightarrow> uid \<Rightarrow> plan \<Rightarrow> string \<times> string" where
  "recovery_key a user p = (''checkout_recovery'', ap_show_uuid a user @ '':'' @ plan_db_str p)"

definition claim_recovery :: "time \<Rightarrow> string \<times> string \<Rightarrow> db \<Rightarrow> bool \<times> db" where
  "claim_recovery now key d =
     (case map_of (buckets d) key of
        None \<Rightarrow> (True, d\<lparr>buckets := AList.update key (now, 1) (buckets d)\<rparr>)
      | Some (started, n) \<Rightarrow>
          if started \<le> now - hours 24
          then (True, d\<lparr>buckets := AList.update key (now, n) (buckets d)\<rparr>)
          else (False, d))"

definition claiming_recovery :: "time \<Rightarrow> string \<times> string \<Rightarrow> bool action" where
  "claiming_recovery now key w = (case claim_recovery now key (w_db w) of (ok, d) \<Rightarrow> (Inr ok, w\<lparr>w_db := d\<rparr>))"

text \<open>The failed attempt's session: the newest one opened before it; and who and what it was for.\<close>

definition failed_intent :: "json \<Rightarrow> (string \<times> int) option" where
  "failed_intent event =
     (let intent = jidx (jidx event ''data'') ''object'' in
      if get_str ''description'' intent \<noteq> Some ''Subscription creation'' then None
      else (case (get_str ''customer'' intent, as_i64 (jidx intent ''created'')) of
              (Some customer, Some failed_at) \<Rightarrow> Some (customer, failed_at)
            | _ \<Rightarrow> None))"

definition failed_session :: "app \<Rightarrow> int \<Rightarrow> json \<Rightarrow> (string \<times> uid) option" where
  "failed_session a failed_at sessions =
     (case find (\<lambda>s. case as_i64 (jidx s ''created'') of None \<Rightarrow> False | Some at \<Rightarrow> at \<le> failed_at)
         (data_rows sessions) of
        None \<Rightarrow> None
      | Some s \<Rightarrow>
          if get_str ''status'' s = Some ''complete'' then None
          else (case (get_str ''id'' s, Option.bind (get_str ''client_reference_id'' s) (ap_read_uuid a)) of
                  (Some i, Some user) \<Rightarrow> Some (i, user)
                | _ \<Rightarrow> None))"

definition line_item_price :: "json \<Rightarrow> string option" where
  "line_item_price items = get_str ''id'' (jidx (jat (jidx items ''data'') 0) ''price'')"

text \<open>Whether a mail went out.\<close>

definition send_recovery :: "app \<Rightarrow> time \<Rightarrow> uid \<Rightarrow> plan \<Rightarrow> billing_interval \<Rightarrow> bool action" where
  "send_recovery a now user p interval =
     and_then (reading (\<lambda>d. (user_by_id d user, Option.bind (entitlement_of d user) e_status)))
       (\<lambda>(account, status).
        case account of
          None \<Rightarrow> done_with False
        | Some u \<Rightarrow>
            if grants status then done_with False
            else and_then (claiming_recovery now (recovery_key a user p)) (\<lambda>claimed.
              if \<not> claimed then done_with False
              else (let message = CheckoutFailedEmail (or_empty (u_first_name u)) (display_name p)
                         (app_link_of a (''/plan?plan='' @ plan_db_str p @ ''&interval='' @ interval_str interval)) in
                    and_then (mailing a (u_email u) message)
                      (\<lambda>_. done_with (ap_deliver a (u_email u) message)))))"

definition recover_one :: "app \<Rightarrow> time \<Rightarrow> string \<Rightarrow> json \<Rightarrow> bool action" where
  "recover_one a now secret event =
     (case failed_intent event of
        None \<Rightarrow> done_with False
      | Some (customer, failed_at) \<Rightarrow>
          and_then (attempt (stripe_get a secret (stripe_url a ''/v1/checkout/sessions'')
              [(''customer'', customer), (''limit'', ''10'')])) (\<lambda>sessions.
            case sessions of
              Inl _ \<Rightarrow> done_with False
            | Inr v \<Rightarrow>
                (case failed_session a failed_at v of
                   None \<Rightarrow> done_with False
                 | Some (session_id, user) \<Rightarrow>
                     and_then (attempt (stripe_get a secret
                         (stripe_url a (''/v1/checkout/sessions/'' @ session_id @ ''/line_items'')) []))
                       (\<lambda>items.
                         case items of
                           Inl _ \<Rightarrow> done_with False
                         | Inr u \<Rightarrow>
                             (case Option.bind (line_item_price u) (plan_and_interval_for_price a) of
                                None \<Rightarrow> done_with False
                              | Some (p, interval) \<Rightarrow> send_recovery a now user p interval)))))"

definition recover_failed_checkouts :: "app \<Rightarrow> time \<Rightarrow> nat action" where
  "recover_failed_checkouts a now =
     (case env_set a ''STRIPE_SECRET_KEY'' of
        None \<Rightarrow> done_with 0
      | Some secret \<Rightarrow>
          and_then (stripe_get a secret (stripe_url a ''/v1/events'')
            [(''type'', ''payment_intent.payment_failed''),
             (''created[gte]'', show_int (timestamp (now - hours 24))),
             (''created[lte]'', show_int (timestamp (now - minutes 30))),
             (''limit'', ''100'')]) (\<lambda>events.
          and_then (for_each (recover_one a now secret) (data_rows events)) (\<lambda>sent.
            done_with (length (filter id sent)))))"

text \<open>The same pass deletes consents accepted before \<open>cutoff\<close>, thirteen calendar months ago.\<close>

definition purge_consents :: "time \<Rightarrow> db \<Rightarrow> db" where
  "purge_consents cutoff d = d\<lparr>consents := filter (\<lambda>c. \<not> co_accepted c < cutoff) (consents d)\<rparr>"

definition recovery_pass :: "app \<Rightarrow> time \<Rightarrow> time \<Rightarrow> unit action" where
  "recovery_pass a now cutoff =
     and_then (attempt (recover_failed_checkouts a now)) (\<lambda>_. writing (purge_consents cutoff))"

end
