(* ===== verification/Tls.thy ===== *)
theory Tls
  imports Verification Domain Finding
begin

text \<open>
  \<open>crates/orchestrator/src/tools/tls.rs\<close>: what the certificate check reads from a handshake and what
  it makes of it.  The resolver, the connection, rustls and the X.509 parser are arguments; the two
  renderings of a date are chrono's.
\<close>

definition HANDSHAKE_TIMEOUT_SECS :: nat where "HANDSHAKE_TIMEOUT_SECS = 15"
definition MEDIUM_AFTER_DAYS :: int where "MEDIUM_AFTER_DAYS = 30"
definition HIGH_AFTER_DAYS :: int where "HIGH_AFTER_DAYS = 14"
definition CRITICAL_AFTER_DAYS :: int where "CRITICAL_AFTER_DAYS = 7"

record certificate_facts =
  cf_not_before :: time
  cf_not_after :: time
  cf_issuer :: string
  cf_subject :: string
  cf_dns_names :: "string list"
  cf_self_signed :: bool

datatype tls_error =
    TlsInvalidTarget string
  | TlsRefused string
  | TlsUnreachable string
  | HandshakeFailed string
  | NoCertificate
  | Unreadable string

fun tls_error_msg :: "tls_error \<Rightarrow> string" where
  "tls_error_msg (TlsInvalidTarget m) = ''invalid target: '' @ m"
| "tls_error_msg (TlsRefused m) = ''refusing to connect: '' @ m"
| "tls_error_msg (TlsUnreachable h) = ''could not connect to '' @ h @ '':443''"
| "tls_error_msg (HandshakeFailed m) = ''the TLS handshake did not complete: '' @ m"
| "tls_error_msg NoCertificate = ''the server presented no certificate''"
| "tls_error_msg (Unreadable m) = ''the certificate could not be parsed: '' @ m"

subsection \<open>Judging a certificate\<close>

definition days_remaining :: "time \<Rightarrow> time \<Rightarrow> int" where
  "days_remaining not_after now = num_days (not_after - now)"

definition bare_name :: "string \<Rightarrow> string" where
  "bare_name name = to_ascii_lowercase (trim_end_char CHR ''.'' name)"

definition covers_domain :: "string list \<Rightarrow> string \<Rightarrow> bool" where
  "covers_domain dns_names domain =
     (let d = bare_name domain in
      list_ex (\<lambda>n. let name = bare_name n in
        case strip_prefix ''*.'' name of
          Some sfx \<Rightarrow> (case split_once CHR ''.'' d of Some (_, rest) \<Rightarrow> rest = sfx | None \<Rightarrow> False)
        | None \<Rightarrow> name = d) dns_names)"

definition expiry_matcher :: "int \<Rightarrow> string" where
  "expiry_matcher remaining =
     (if remaining < 0 then ''expired''
      else if remaining \<le> CRITICAL_AFTER_DAYS then ''critical''
      else if remaining \<le> HIGH_AFTER_DAYS then ''soon''
      else if remaining \<le> MEDIUM_AFTER_DAYS then ''approaching''
      else ''valid'')"

text \<open>\<open>format("%-d %B %Y")\<close> and \<open>to_rfc3339()\<close>.\<close>

record date_format =
  df_long :: "time \<Rightarrow> string"
  df_rfc3339 :: "time \<Rightarrow> string"

definition expires_in :: "int \<Rightarrow> string" where
  "expires_in remaining = ''TLS certificate expires in '' @ show_int remaining @ '' days''"

definition expiry_verdict ::
  "date_format \<Rightarrow> certificate_facts \<Rightarrow> int \<Rightarrow> severity \<times> string \<times> string" where
  "expiry_verdict fmt facts remaining =
     (let on = df_long fmt (cf_not_after facts) in
      if remaining < 0 then
        (Critical, ''TLS certificate has expired'',
         ''The certificate expired on '' @ on @ '' '' @ em_dash @ '' '' @ show_int \<bar>remaining\<bar> @ '' day''
           @ (if \<bar>remaining\<bar> = 1 then [] else ''s'')
           @ '' ago. Browsers refuse the site with a full-page warning, so it is unreachable for ''
           @ ''visitors, not merely insecure. Renew it now.'')
      else if remaining \<le> CRITICAL_AFTER_DAYS then
        (Critical, expires_in remaining,
         ''The certificate expires on '' @ on @ ''. If renewal is automated it has already failed ''
           @ ''several times; if it is manual it needs doing now. On the expiry date the site stops ''
           @ ''loading for every visitor.'')
      else if remaining \<le> HIGH_AFTER_DAYS then
        (High, expires_in remaining,
         ''The certificate expires on '' @ on @ ''. Automated renewal normally completes with 30 days ''
           @ ''to spare, so this is late enough to check that the renewal is running at all.'')
      else if remaining \<le> MEDIUM_AFTER_DAYS then
        (Medium, expires_in remaining,
         ''The certificate expires on '' @ on @ ''. This is the point at which an automated renewal ''
           @ ''should have taken place. Worth confirming it is scheduled.'')
      else
        (Info, ''TLS certificate validity'',
         ''Valid until '' @ on @ '' ('' @ show_int remaining @ '' days remaining), issued by ''
           @ cf_issuer facts @ ''.''))"

definition expiry_finding :: "date_format \<Rightarrow> certificate_facts \<Rightarrow> int \<Rightarrow> finding" where
  "expiry_finding fmt facts remaining =
     (case expiry_verdict fmt facts remaining of
        (severity, title, description) \<Rightarrow>
          \<lparr>f_severity = severity, f_title = title, f_description = Some description,
           f_raw = JObj [(''template-id'', JStr ''tls-certificate-expiry''),
             (''matcher-name'', JStr (expiry_matcher remaining)),
             (''not-after'', JStr (df_rfc3339 fmt (cf_not_after facts))),
             (''not-before'', JStr (df_rfc3339 fmt (cf_not_before facts))),
             (''days-remaining'', JInt remaining), (''issuer'', JStr (cf_issuer facts)),
             (''subject'', JStr (cf_subject facts))]\<rparr>)"

definition mismatch_finding :: "certificate_facts \<Rightarrow> string \<Rightarrow> finding" where
  "mismatch_finding facts domain =
     \<lparr>f_severity = Critical, f_title = ''TLS certificate does not cover this domain'',
      f_description = Some (''The certificate served for '' @ domain @ '' is valid for ''
        @ (if cf_dns_names facts = [] then ''no listed name'' else join '', '' (cf_dns_names facts))
        @ '' instead. Browsers reject a name mismatch outright, so visitors see a warning page rather ''
        @ ''than the site.''),
      f_raw = JObj [(''template-id'', JStr ''tls-certificate-name-mismatch''),
        (''matcher-name'', JStr ''san''), (''domain'', JStr domain),
        (''dns-names'', JArr (map JStr (cf_dns_names facts)))]\<rparr>"

definition self_signed_finding :: "certificate_facts \<Rightarrow> finding" where
  "self_signed_finding facts =
     \<lparr>f_severity = High, f_title = ''TLS certificate is self-signed'',
      f_description = Some (''The certificate was issued by itself rather than by a certificate ''
        @ ''authority, so no browser will trust it. This is usually a default certificate left in ''
        @ ''place because the real one never installed.''),
      f_raw = JObj [(''template-id'', JStr ''tls-certificate-self-signed''),
        (''matcher-name'', JStr ''issuer''), (''issuer'', JStr (cf_issuer facts)),
        (''subject'', JStr (cf_subject facts))]\<rparr>"

definition assess :: "date_format \<Rightarrow> certificate_facts \<Rightarrow> string \<Rightarrow> time \<Rightarrow> finding list" where
  "assess fmt facts domain now =
     [expiry_finding fmt facts (days_remaining (cf_not_after facts) now)]
     @ (if covers_domain (cf_dns_names facts) domain then [] else [mismatch_finding facts domain])
     @ (if cf_self_signed facts then [self_signed_finding facts] else [])"

subsection \<open>Reading a certificate\<close>

datatype general_name = DnsName string | OtherName

text \<open>A parsed leaf; the alternative names are \<open>None\<close> where the extension is missing or broken.\<close>

record leaf =
  lf_not_before :: int
  lf_not_after :: int
  lf_issuer :: string
  lf_subject :: string
  lf_names :: "general_name list option"

definition impossible_date :: string where
  "impossible_date = ''certificate carries an impossible date''"

definition dns_name_of :: "general_name \<Rightarrow> string option" where
  "dns_name_of n = (case n of DnsName s \<Rightarrow> Some s | OtherName \<Rightarrow> None)"

definition parse_leaf ::
  "(string \<Rightarrow> string + leaf) \<Rightarrow> string \<Rightarrow> nat \<Rightarrow> tls_error + certificate_facts" where
  "parse_leaf x509 der chain_length =
     (case x509 der of
        Inl err \<Rightarrow> Inl (Unreadable err)
      | Inr cert \<Rightarrow>
          bind_res (ok_or (Unreadable impossible_date) (timestamp_opt (lf_not_before cert))) (\<lambda>not_before.
          bind_res (ok_or (Unreadable impossible_date) (timestamp_opt (lf_not_after cert))) (\<lambda>not_after.
          Inr \<lparr>cf_not_before = not_before, cf_not_after = not_after, cf_issuer = lf_issuer cert,
            cf_subject = lf_subject cert,
            cf_dns_names = (case lf_names cert of
              None \<Rightarrow> [] | Some names \<Rightarrow> List.map_filter dns_name_of names),
            cf_self_signed = (chain_length = 1 \<and> lf_issuer cert = lf_subject cert)\<rparr>)))"

subsection \<open>The handshake\<close>

text \<open>How a handshake ends: the time limit, an error, or the chain the peer presented.\<close>

datatype handshake = HandshakeTimeout | HandshakeError string | Presented "string list option"

record tls_net =
  tn_lookup :: "string \<Rightarrow> (ip \<times> nat) list option"
  tn_connects :: "ip \<times> nat \<Rightarrow> bool"
  tn_config_error :: "string option"
  tn_name_error :: "string \<Rightarrow> string option"
  tn_handshake :: "string \<Rightarrow> ip \<times> nat \<Rightarrow> handshake"
  tn_x509 :: "string \<Rightarrow> string + leaf"
  tn_show_ip :: "ip \<Rightarrow> string"

fun net_guard_msg :: "(ip \<Rightarrow> string) \<Rightarrow> net_guard_error \<Rightarrow> string" where
  "net_guard_msg show_ip (Unresolvable domain) = ''could not resolve '' @ [CHR 0x27] @ domain @ [CHR 0x27]"
| "net_guard_msg show_ip (NonPublicAddress domain address) =
     [CHR 0x27] @ domain @ [CHR 0x27] @ '' resolves to a non-public address ('' @ show_ip address
       @ '') and will not be contacted''"

definition shake_hands :: "tls_net \<Rightarrow> string \<Rightarrow> ip \<times> nat \<Rightarrow> tls_error + certificate_facts" where
  "shake_hands n domain address =
     (if \<not> tn_connects n address then Inl (TlsUnreachable domain)
      else case tn_config_error n of
        Some err \<Rightarrow> Inl (HandshakeFailed err)
      | None \<Rightarrow>
          (case tn_name_error n domain of
             Some err \<Rightarrow> Inl (TlsInvalidTarget err)
           | None \<Rightarrow>
               (case tn_handshake n domain address of
                  HandshakeTimeout \<Rightarrow> Inl (HandshakeFailed ''timed out'')
                | HandshakeError err \<Rightarrow> Inl (HandshakeFailed err)
                | Presented None \<Rightarrow> Inl NoCertificate
                | Presented (Some []) \<Rightarrow> Inl NoCertificate
                | Presented (Some (leaf # rest)) \<Rightarrow> parse_leaf (tn_x509 n) leaf (length (leaf # rest)))))"

definition inspect :: "tls_net \<Rightarrow> string \<Rightarrow> tls_error + certificate_facts" where
  "inspect n domain =
     bind_res (map_err (\<lambda>e. TlsInvalidTarget (domain_error_msg e)) (normalize_target domain)) (\<lambda>host.
     bind_res (map_err (\<lambda>e. TlsRefused (net_guard_msg (tn_show_ip n) e))
         (resolve_public_addresses (tn_lookup n) host)) (\<lambda>addresses.
       case addresses of [] \<Rightarrow> Inl (TlsUnreachable host) | address # _ \<Rightarrow> shake_hands n host address))"

definition tls_run :: "tls_net \<Rightarrow> date_format \<Rightarrow> time \<Rightarrow> string \<Rightarrow> tls_error + finding list" where
  "tls_run n fmt now domain =
     bind_res (inspect n domain) (\<lambda>facts. Inr (assess fmt facts domain now))"

subsection \<open>Which names a certificate covers\<close>

text \<open>The labels of a name; a pattern covers a name label by label, its first label being a name's
  only label that a star stands for.\<close>

definition labels :: "string \<Rightarrow> string list" where
  "labels name = split_char CHR ''.'' (bare_name name)"

definition pattern_covers :: "string list \<Rightarrow> string list \<Rightarrow> bool" where
  "pattern_covers pattern name \<longleftrightarrow>
     (if 2 \<le> length pattern \<and> hd pattern = ''*''
      then 2 \<le> length name \<and> tl name = tl pattern
      else name = pattern)"

lemma split_char_inj: "split_char d s = split_char d t \<longleftrightarrow> s = t"
  using join_split_char by metis

lemma split_char_once:
  "split_once d s = Some (a, b) \<Longrightarrow> split_char d s = a # split_char d b"
  using split_once_SomeD[of d s a b] split_char_sep[of d a b] split_on_id[of a "\<lambda>c. c = d"]
  by (auto simp: split_char_def)

lemma split_char_single: "split_once d s = None \<Longrightarrow> split_char d s = [s]"
  using split_on_id[of s "\<lambda>c. c = d"] by (auto simp: split_once_None_iff split_char_def)

lemma split_char_two_iff: "2 \<le> length (split_char d s) \<longleftrightarrow> split_once d s \<noteq> None"
proof (cases "split_once d s")
  case None
  then show ?thesis by (simp add: split_char_single)
next
  case (Some p)
  moreover obtain a b where "p = (a, b)" by (cases p)
  ultimately have "split_char d s = a # split_char d b" by (simp add: split_char_once)
  moreover have "split_char d b \<noteq> []" by (simp add: split_char_def)
  ultimately show ?thesis using Some by (cases "split_char d b") auto
qed

lemma strip_star:
  "strip_prefix ''*.'' s = Some t \<longleftrightarrow>
     2 \<le> length (split_char CHR ''.'' s) \<and> hd (split_char CHR ''.'' s) = ''*''
       \<and> tl (split_char CHR ''.'' s) = split_char CHR ''.'' t"
proof
  assume "strip_prefix ''*.'' s = Some t"
  then have s: "s = ''*'' @ CHR ''.'' # t"
    by (auto simp: strip_prefix_def prefix_def split: if_splits)
  have "split_once CHR ''.'' s = Some (''*'', t)" unfolding s by (rule split_once_app) simp
  then show "2 \<le> length (split_char CHR ''.'' s) \<and> hd (split_char CHR ''.'' s) = ''*''
       \<and> tl (split_char CHR ''.'' s) = split_char CHR ''.'' t"
    using split_char_two_iff[of "CHR ''.''" s] by (simp add: split_char_once)
next
  assume a: "2 \<le> length (split_char CHR ''.'' s) \<and> hd (split_char CHR ''.'' s) = ''*''
       \<and> tl (split_char CHR ''.'' s) = split_char CHR ''.'' t"
  then obtain a' b where once: "split_once CHR ''.'' s = Some (a', b)"
    by (auto simp: split_char_two_iff)
  moreover have "a' = ''*''" using a split_char_once[OF once] by simp
  ultimately have "split_once CHR ''.'' s = Some (''*'', b)" by simp
  then have "s = ''*'' @ CHR ''.'' # b" "split_char CHR ''.'' b = split_char CHR ''.'' t"
    using a by (auto dest: split_once_SomeD split_char_once)
  then show "strip_prefix ''*.'' s = Some t"
    by (simp add: strip_prefix_def split_char_inj)
qed

lemma strip_star_None:
  "strip_prefix ''*.'' s = None \<longleftrightarrow>
     \<not> (2 \<le> length (split_char CHR ''.'' s) \<and> hd (split_char CHR ''.'' s) = ''*'')"
proof (cases "strip_prefix ''*.'' s")
  case None
  have "False" if two: "2 \<le> length (split_char CHR ''.'' s)" "hd (split_char CHR ''.'' s) = ''*''"
  proof -
    obtain a b where "split_once CHR ''.'' s = Some (a, b)"
      using two(1) by (auto simp: split_char_two_iff)
    then have "strip_prefix ''*.'' s = Some b"
      using two by (simp add: strip_star split_char_once)
    then show False using None by simp
  qed
  then show ?thesis using None by blast
next
  case (Some t)
  then show ?thesis using strip_star[of s t] by simp
qed

text \<open>C32: A certificate covers a domain exactly when one of its names does, compared label by label
  without regard to case and a root dot: the same labels, or a star in place of the first label of two or
  more and the same labels after it.\<close>

theorem covers_domain_spec:
  "covers_domain dns_names domain \<longleftrightarrow>
     list_ex (\<lambda>name. pattern_covers (labels name) (labels domain)) dns_names"
proof -
  have "(case strip_prefix ''*.'' (bare_name name) of
          Some sfx \<Rightarrow> (case split_once CHR ''.'' (bare_name domain) of
            Some (_, rest) \<Rightarrow> rest = sfx | None \<Rightarrow> False)
        | None \<Rightarrow> bare_name name = bare_name domain)
      \<longleftrightarrow> pattern_covers (labels name) (labels domain)" for name
  proof (cases "strip_prefix ''*.'' (bare_name name)")
    case None
    then show ?thesis
      using strip_star_None[of "bare_name name"]
      by (auto simp: pattern_covers_def labels_def split_char_inj)
  next
    case (Some sfx)
    then have p: "2 \<le> length (labels name)" "hd (labels name) = ''*''"
        "tl (labels name) = split_char CHR ''.'' sfx"
      by (simp_all add: strip_star labels_def)
    show ?thesis
    proof (cases "split_once CHR ''.'' (bare_name domain)")
      case None
      then show ?thesis
        using p Some split_char_two_iff[of "CHR ''.''" "bare_name domain"]
        by (simp add: pattern_covers_def labels_def)
    next
      case two: (Some ab)
      obtain a b where ab: "ab = (a, b)" by (cases ab)
      then have "labels domain = a # split_char CHR ''.'' b"
        using two by (simp add: labels_def split_char_once)
      moreover have "2 \<le> length (labels domain)"
        using two split_char_two_iff[of "CHR ''.''" "bare_name domain"] by (simp add: labels_def)
      ultimately show ?thesis
        using p Some two ab by (auto simp: pattern_covers_def split_char_inj)
    qed
  qed
  then show ?thesis by (simp add: covers_domain_def Let_def list_ex_iff)
qed

subsection \<open>Expiry\<close>

text \<open>The first finding grades the time left to the microsecond: critical below eight full days,
  high below fifteen, medium below thirty-one and for information from there on, and its matcher says
  expired exactly from a full day after the end.\<close>

lemma expiry_graded:
  "let f = hd (assess fmt facts domain now); left = cf_not_after facts - now in
     f_severity f = (if left < days 8 then Critical else if left < days 15 then High
       else if left < days 31 then Medium else Info)
     \<and> (get_str ''matcher-name'' (f_raw f) = Some ''expired'' \<longleftrightarrow> left \<le> - days 1)"
proof -
  let ?left = "cf_not_after facts - now"
  have "num_days ?left \<le> 7 \<longleftrightarrow> ?left < days 8" "num_days ?left \<le> 14 \<longleftrightarrow> ?left < days 15"
      "num_days ?left \<le> 30 \<longleftrightarrow> ?left < days 31"
    using num_days_le_iff[of 7 ?left] num_days_le_iff[of 14 ?left] num_days_le_iff[of 30 ?left] by simp_all
  moreover have "num_days ?left < 0 \<longleftrightarrow> ?left \<le> - days 1" by (rule num_days_neg_iff)
  moreover have "days 1 > 0" by (simp add: duration_defs)
  ultimately show ?thesis
    by (auto simp: assess_def expiry_finding_def expiry_verdict_def days_remaining_def expiry_matcher_def
        Let_def get_str_def CRITICAL_AFTER_DAYS_def HIGH_AFTER_DAYS_def MEDIUM_AFTER_DAYS_def
        duration_defs simp del: append.simps)
qed

text \<open>A certificate that ended up to a day ago is announced as one that expires in 0 days.\<close>

lemma just_expired_expires_in_zero_days:
  assumes "now - days 1 < cf_not_after facts" "cf_not_after facts < now"
  shows "days_remaining (cf_not_after facts) now = 0
     \<and> f_title (hd (assess fmt facts domain now)) = ''TLS certificate expires in 0 days''"
proof -
  have "\<not> num_days (cf_not_after facts - now) < 0" "num_days (cf_not_after facts - now) \<le> 0"
    using assms num_days_neg_iff[of "cf_not_after facts - now"] num_days_le_iff[of 0 "cf_not_after facts - now"]
    by (simp_all add: duration_defs)
  then have "num_days (cf_not_after facts - now) = 0" by linarith
  moreover have "show_nat 0 = ''0''" by code_simp
  ultimately show ?thesis
    by (simp add: days_remaining_def assess_def expiry_finding_def expiry_verdict_def Let_def
        CRITICAL_AFTER_DAYS_def expires_in_def show_int_def)
qed

subsection \<open>What a check contacts\<close>

text \<open>Two networks that agree on the addresses of a host and on what its public ones do.\<close>

definition same_net_at :: "string \<Rightarrow> tls_net \<Rightarrow> tls_net \<Rightarrow> bool" where
  "same_net_at host n n' \<longleftrightarrow>
     tn_lookup n' (host @ '':443'') = tn_lookup n (host @ '':443'')
     \<and> tn_config_error n' = tn_config_error n \<and> tn_name_error n' host = tn_name_error n host
     \<and> tn_x509 n' = tn_x509 n \<and> tn_show_ip n' = tn_show_ip n
     \<and> (\<forall>a. is_public_ip (fst a) \<longrightarrow>
          tn_connects n' a = tn_connects n a \<and> tn_handshake n' host a = tn_handshake n host a)"

lemma resolve_same:
  "same_net_at host n n' \<Longrightarrow>
     resolve_public_addresses (tn_lookup n') host = resolve_public_addresses (tn_lookup n) host"
  by (simp add: resolve_public_addresses_def same_net_at_def)

lemma resolved_first_public:
  "resolve_public_addresses lookup domain = Inr (a # rest) \<Longrightarrow> is_public_ip (fst a)"
  by (auto simp: resolve_public_addresses_def find_None_all split: option.splits if_splits)

lemma shake_hands_same:
  assumes "same_net_at host n n'" "is_public_ip (fst a)"
  shows "shake_hands n' host a = shake_hands n host a"
proof -
  have same: "tn_connects n' a = tn_connects n a" "tn_handshake n' host a = tn_handshake n host a"
      "tn_config_error n' = tn_config_error n" "tn_name_error n' host = tn_name_error n host"
      "tn_x509 n' = tn_x509 n"
    using assms unfolding same_net_at_def by blast+
  show ?thesis unfolding shake_hands_def same ..
qed

lemma tls_contacts_only_public:
  assumes "\<And>host. normalize_target domain = Inr host \<Longrightarrow> same_net_at host n n'"
  shows "tls_run n' fmt now domain = tls_run n fmt now domain"
proof (cases "normalize_target domain")
  case (Inl e)
  then show ?thesis by (simp add: inspect_def tls_run_def)
next
  case (Inr host)
  then have same: "same_net_at host n n'" by (rule assms)
  then have show_ip: "tn_show_ip n' = tn_show_ip n" by (simp add: same_net_at_def)
  have hands: "shake_hands n' host a = shake_hands n host a"
    if "resolve_public_addresses (tn_lookup n) host = Inr (a # rest)" for a rest
    using shake_hands_same[OF same] resolved_first_public[OF that] by blast
  show ?thesis
  proof (cases "resolve_public_addresses (tn_lookup n) host")
    case (Inl e)
    then show ?thesis by (simp add: tls_run_def inspect_def \<open>normalize_target domain = Inr host\<close>
        resolve_same[OF same] show_ip)
  next
    case addresses: (Inr addrs)
    then show ?thesis using hands Inr
      by (cases addrs) (simp_all add: tls_run_def inspect_def resolve_same[OF same] show_ip)
  qed
qed

end
