(* ===== verification/Preview.thy ===== *)
theory Preview
  imports Tls Growth
begin

text \<open>
  \<open>crates/orchestrator/src/preview.rs\<close>: the check that needs no permission.  The resolver, the
  certificate check's network and the HTTPS client are arguments; a response is its status and its
  headers, under lower-case names in the order they came.
\<close>

definition PUBLIC_FILES :: "string list" where
  "PUBLIC_FILES = [''/robots.txt'', ''/.well-known/security.txt'']"

record observation =
  ob_label :: string
  ob_value :: string
  ob_finding :: bool

record preview =
  pv_observations :: "observation list"
  pv_notes :: "string list"

datatype preview_error = PreviewInvalid string | PreviewUnreachable string

definition HEADERS :: "(string \<times> string) list" where
  "HEADERS =
     [(''content-security-policy'', ''Content-Security-Policy''),
      (''strict-transport-security'', ''HTTPS enforcement (HSTS)''),
      (''x-frame-options'', ''Clickjacking protection''),
      (''x-content-type-options'', ''MIME sniffing protection''),
      (''referrer-policy'', ''Referrer policy''),
      (''permissions-policy'', ''Camera, microphone and location'')]"

definition DISCLOSURE_HEADERS :: "string list" where
  "DISCLOSURE_HEADERS = [''x-powered-by'', ''x-aspnet-version'', ''x-generator'']"

subsection \<open>What each fact comes to\<close>

definition observed :: "string \<Rightarrow> string \<Rightarrow> bool \<Rightarrow> observation" where
  "observed label said bad = \<lparr>ob_label = label, ob_value = said, ob_finding = bad\<rparr>"

definition first_policy :: "string \<Rightarrow> string list \<Rightarrow> string option" where
  "first_policy tag records =
     find (\<lambda>v. prefix tag (to_ascii_lowercase v)) (map trim records)"

definition spf_summary :: "string list \<Rightarrow> observation" where
  "spf_summary records =
     (case first_policy ''v=spf1'' records of
        None \<Rightarrow> observed ''Email spoofing (SPF)'' ''Not published'' True
      | Some record \<Rightarrow>
          (let lowered = to_ascii_lowercase record;
               (said, bad) =
                 (if str_contains ''-all'' lowered
                  then (''Unlisted senders fail SPF; receiver decides handling'', False)
                  else if str_contains ''~all'' lowered
                  then (''Soft fail for unlisted senders; receiver decides handling'', True)
                  else if str_contains ''?all'' lowered
                  then (''Neutral '' @ em_dash @ '' states no opinion'', True)
                  else (''Published; no explicit all policy found'', True))
           in observed ''Email spoofing (SPF)'' said bad))"

definition dmarc_policy :: "string \<Rightarrow> string option" where
  "dmarc_policy record =
     find_map (\<lambda>part. map_option trim (strip_prefix ''p='' part))
       (map trim (split_char CHR '';'' (to_ascii_lowercase record)))"

definition dmarc_summary :: "string list \<Rightarrow> observation" where
  "dmarc_summary records =
     (case first_policy ''v=dmarc1'' records of
        None \<Rightarrow> observed ''Email spoofing (DMARC)'' ''Not published'' True
      | Some record \<Rightarrow>
          (let policy = dmarc_policy record;
               (said, bad) =
                 (if policy = Some ''reject''
                  then (''Rejection requested for mail that fails DMARC'', False)
                  else if policy = Some ''quarantine''
                  then (''Quarantine requested for mail that fails DMARC'', False)
                  else if policy = Some ''none''
                  then (''Monitoring policy; no DMARC rejection requested'', True)
                  else (''Published without a policy'', True))
           in observed ''Email spoofing (DMARC)'' said bad))"

definition flag_missing :: "string list \<Rightarrow> string \<Rightarrow> bool" where
  "flag_missing cookies flag = list_ex (\<lambda>c. \<not> str_contains flag (to_ascii_lowercase c)) cookies"

definition missing_flags :: "string list \<Rightarrow> string list" where
  "missing_flags cookies =
     (if flag_missing cookies ''httponly'' then [''HttpOnly''] else [])
     @ (if flag_missing cookies ''secure'' then [''Secure''] else [])
     @ (if flag_missing cookies ''samesite'' then [''SameSite''] else [])"

definition cookie_summary :: "string list \<Rightarrow> observation option" where
  "cookie_summary cookies =
     (if cookies = [] then None
      else
        (let missing = missing_flags cookies;
             noun = (if length cookies = 1 then ''cookie'' else ''cookies'')
         in Some (if missing = []
            then observed ''Cookie protection''
              (show_nat (length cookies) @ '' '' @ noun @ '', all flagged'') False
            else observed ''Cookie protection''
              (show_nat (length cookies) @ '' '' @ noun @ '' missing '' @ join '', '' missing) True)))"

definition disclosure_summary :: "string list \<Rightarrow> observation option" where
  "disclosure_summary values =
     (if values = [] then None
      else Some (observed ''Version disclosure'' (take_chars 80 (join '', '' values))
        (list_ex (list_ex is_digit) values)))"

type_synonym header_list = "(string \<times> string) list"

definition header_value :: "header_list \<Rightarrow> string \<Rightarrow> string option" where
  "header_value headers name =
     (case map_option trim (Option.bind (map_of headers name) to_str) of
        Some (c # cs) \<Rightarrow> Some (c # cs) | _ \<Rightarrow> None)"

definition max_age :: "string \<Rightarrow> nat option" where
  "max_age value =
     Option.bind (find_map (strip_prefix ''max-age='') (map trim (split_char CHR '';'' value)))
       (\<lambda>age. parse_u64 (trim age))"

definition is_weak :: "string \<Rightarrow> string \<Rightarrow> bool" where
  "is_weak name value \<longleftrightarrow>
     name = ''strict-transport-security''
     \<and> (case max_age value of None \<Rightarrow> False | Some age \<Rightarrow> age < 31536000)"

definition summarise :: "string \<Rightarrow> string \<Rightarrow> string" where
  "summarise name value =
     (if name = ''strict-transport-security''
      then (case max_age value of
          Some age \<Rightarrow> show_nat (age div 86400) @ '' days'' | None \<Rightarrow> take_chars 60 value)
      else if chars_count value > 60 then take_chars 59 value @ ellipsis
      else value)"

subsection \<open>Collecting\<close>

record page =
  pg_status :: nat
  pg_headers :: header_list

record preview_net =
  pn_lookup :: "string \<Rightarrow> (ip \<times> nat) list option"
  pn_tls :: tls_net
  pn_resolver :: "string \<Rightarrow> dns_outcome"
  pn_client :: "string \<Rightarrow> ip \<times> nat \<Rightarrow> bool"
  pn_get :: "string \<Rightarrow> ip \<times> nat \<Rightarrow> string \<Rightarrow> page option"
  pn_in_time :: bool

definition certificate_part ::
  "date_format \<Rightarrow> time \<Rightarrow> tls_error + certificate_facts \<Rightarrow> observation list \<times> string list" where
  "certificate_part fmt now certificate =
     (case certificate of
        Inr facts \<Rightarrow>
          (let remaining = days_remaining (cf_not_after facts) now;
               expires = df_long fmt (cf_not_after facts)
           in ([observed ''Certificate''
                (if remaining < 0 then ''Expired on '' @ expires
                 else ''Valid until '' @ expires @ '' ('' @ show_int remaining @ '' days)'')
                (remaining \<le> MEDIUM_AFTER_DAYS)], []))
      | Inl e \<Rightarrow> ([], [''The certificate could not be read: '' @ tls_error_msg e]))"

definition mail_part ::
  "dns_error + string list \<Rightarrow> dns_error + string list \<Rightarrow> observation list \<times> string list" where
  "mail_part spf dmarc =
     (case (spf, dmarc) of
        (Inr s, Inr d) \<Rightarrow> ([spf_summary s, dmarc_summary d], [])
      | _ \<Rightarrow> ([], [''The mail records could not be read just now.'']))"

definition header_row :: "header_list \<Rightarrow> string \<times> string \<Rightarrow> observation" where
  "header_row headers name_label =
     (case header_value headers (fst name_label) of
        Some value \<Rightarrow>
          observed (snd name_label) (summarise (fst name_label) value) (is_weak (fst name_label) value)
      | None \<Rightarrow> observed (snd name_label) ''Not set'' True)"

definition opt_list :: "'a option \<Rightarrow> 'a list" where
  "opt_list x = (case x of None \<Rightarrow> [] | Some y \<Rightarrow> [y])"

definition page_part :: "page \<Rightarrow> observation list" where
  "page_part response =
     (let headers = pg_headers response;
          cookies = List.map_filter to_str (map snd (filter (\<lambda>h. fst h = ''set-cookie'') headers));
          disclosed = List.map_filter (header_value headers) DISCLOSURE_HEADERS
      in opt_list (map_option (\<lambda>server. observed ''Server'' server False) (header_value headers ''server''))
         @ map (header_row headers) HEADERS
         @ opt_list (cookie_summary cookies)
         @ opt_list (disclosure_summary disclosed))"

definition front_page_url :: "string \<Rightarrow> string" where
  "front_page_url domain = ''https://'' @ domain @ ''/''"

definition file_url :: "string \<Rightarrow> string \<Rightarrow> string" where
  "file_url domain path = ''https://'' @ domain @ path"

definition file_row :: "(string \<Rightarrow> page option) \<Rightarrow> string \<Rightarrow> string \<Rightarrow> observation" where
  "file_row fetch domain path =
     observed (trim_start_char CHR ''/'' path)
       (case fetch (file_url domain path) of
          Some file \<Rightarrow>
            if 200 \<le> pg_status file \<and> pg_status file < 300 then ''Published'' else ''Not published''
        | None \<Rightarrow> ''Not published'')
       False"

definition collect ::
  "preview_net \<Rightarrow> date_format \<Rightarrow> time \<Rightarrow> string \<Rightarrow> ip \<times> nat \<Rightarrow> preview_error + preview" where
  "collect n fmt now domain pinned =
     (let fetch = pn_get n domain pinned;
          (cert_obs, cert_notes) = certificate_part fmt now (inspect (pn_tls n) domain);
          (mail_obs, mail_notes) = mail_part (txt_records_at (pn_resolver n) domain)
            (txt_records_at (pn_resolver n) (''_dmarc.'' @ domain))
      in case fetch (front_page_url domain) of
           None \<Rightarrow> Inl (PreviewUnreachable domain)
         | Some response \<Rightarrow>
             Inr \<lparr>pv_observations = cert_obs @ mail_obs @ page_part response
                    @ map (file_row fetch domain) PUBLIC_FILES,
                  pv_notes = cert_notes @ mail_notes
                    @ (if 300 \<le> pg_status response \<and> pg_status response < 400
                       then [''The front page redirects, so header checks may be incomplete.'']
                       else [])\<rparr>)"

text \<open>The client is built for the checked address; \<open>pn_in_time\<close> says whether twelve seconds were enough.\<close>

definition run_check :: "preview_net \<Rightarrow> date_format \<Rightarrow> time \<Rightarrow> string \<Rightarrow> preview_error + preview" where
  "run_check n fmt now input =
     bind_res (map_err (\<lambda>e. PreviewInvalid (domain_error_msg e)) (normalize_target input)) (\<lambda>domain.
     bind_res (map_err (\<lambda>_. PreviewUnreachable domain) (resolve_public_addresses (pn_lookup n) domain))
       (\<lambda>addresses.
       case addresses of
         [] \<Rightarrow> Inl (PreviewUnreachable domain)
       | pinned # _ \<Rightarrow>
           if \<not> pn_client n domain pinned \<or> \<not> pn_in_time n then Inl (PreviewUnreachable domain)
           else collect n fmt now domain pinned))"

subsection \<open>What the check contacts\<close>

text \<open>Two networks that agree on the lookups of a host, on its certificate, on the TXT records of its two
  mail names, and on three requests to public addresses.\<close>

definition published_urls :: "string \<Rightarrow> string list" where
  "published_urls host = front_page_url host # map (file_url host) PUBLIC_FILES"

definition same_published :: "string \<Rightarrow> preview_net \<Rightarrow> preview_net \<Rightarrow> bool" where
  "same_published host n n' \<longleftrightarrow>
     pn_lookup n' (host @ '':443'') = pn_lookup n (host @ '':443'')
     \<and> same_net_at host (pn_tls n) (pn_tls n')
     \<and> pn_resolver n' host = pn_resolver n host
     \<and> pn_resolver n' (''_dmarc.'' @ host) = pn_resolver n (''_dmarc.'' @ host)
     \<and> pn_in_time n' = pn_in_time n
     \<and> (\<forall>a. is_public_ip (fst a) \<longrightarrow> pn_client n' host a = pn_client n host a
          \<and> (\<forall>url\<in>set (published_urls host). pn_get n' host a url = pn_get n host a url))"

lemma inspect_same:
  assumes "same_net_at host n n'" "public_hostname host"
  shows "inspect n' host = inspect n host"
proof -
  have norm: "normalize_target host = Inr host" using assms(2) by (rule normalize_target_fixed)
  have show_ip: "tn_show_ip n' = tn_show_ip n" using assms(1) by (simp add: same_net_at_def)
  have hands: "shake_hands n' host a = shake_hands n host a"
    if "resolve_public_addresses (tn_lookup n) host = Inr (a # rest)" for a rest
    using shake_hands_same[OF assms(1)] resolved_first_public[OF that] by blast
  show ?thesis
  proof (cases "resolve_public_addresses (tn_lookup n) host")
    case (Inl e)
    then show ?thesis by (simp add: inspect_def norm resolve_same[OF assms(1)] show_ip)
  next
    case (Inr addrs)
    then show ?thesis using hands
      by (cases addrs) (simp_all add: inspect_def norm resolve_same[OF assms(1)] show_ip)
  qed
qed

lemma collect_same:
  assumes "same_published host n n'" "public_hostname host" "is_public_ip (fst a)"
  shows "collect n' fmt now host a = collect n fmt now host a"
proof -
  have cert: "inspect (pn_tls n') host = inspect (pn_tls n) host"
    using assms(1,2) inspect_same by (simp add: same_published_def)
  have records: "txt_records_at (pn_resolver n') host = txt_records_at (pn_resolver n) host"
      "txt_records_at (pn_resolver n') (''_dmarc.'' @ host) = txt_records_at (pn_resolver n) (''_dmarc.'' @ host)"
    using assms(1) by (simp_all add: same_published_def txt_records_at_def del: append.simps)
  have get: "pn_get n' host a url = pn_get n host a url" if "url \<in> set (published_urls host)" for url
    using assms(1,3) that unfolding same_published_def by blast
  have front: "pn_get n' host a (front_page_url host) = pn_get n host a (front_page_url host)"
    by (rule get) (simp add: published_urls_def)
  have "map (file_row (pn_get n' host a) host) PUBLIC_FILES = map (file_row (pn_get n host a) host) PUBLIC_FILES"
    using get by (simp add: file_row_def published_urls_def)
  then show ?thesis by (simp only: collect_def Let_def cert records front)
qed

text \<open>C9: The check that needs no permission reads what a site publishes and nothing else.  Networks that
  agree on the addresses of the host, its handshake, the TXT records of the host and of its DMARC name,
  and on the front page, \<open>/robots.txt\<close> and \<open>/.well-known/security.txt\<close> at its public addresses give the
  same preview, whatever else they would answer to whom.\<close>

theorem preview_reads_what_is_published:
  assumes "\<And>host. normalize_target input = Inr host \<Longrightarrow> same_published host n n'"
  shows "run_check n' fmt now input = run_check n fmt now input"
proof (cases "normalize_target input")
  case (Inl e)
  then show ?thesis by (simp add: run_check_def)
next
  case (Inr host)
  then have same: "same_published host n n'" and host: "public_hostname host"
    using assms normalize_target_public by blast+
  have lookup: "resolve_public_addresses (pn_lookup n') host = resolve_public_addresses (pn_lookup n) host"
    using same by (simp add: resolve_public_addresses_def same_published_def)
  show ?thesis
  proof (cases "resolve_public_addresses (pn_lookup n) host")
    case (Inl e)
    then show ?thesis by (simp add: run_check_def \<open>normalize_target input = Inr host\<close> lookup)
  next
    case addresses: (Inr addrs)
    show ?thesis
    proof (cases addrs)
      case Nil
      then show ?thesis by (simp add: run_check_def Inr lookup addresses)
    next
      case (Cons a rest)
      then have pub: "is_public_ip (fst a)" using addresses resolved_first_public by blast
      have "pn_client n' host a = pn_client n host a" "pn_in_time n' = pn_in_time n"
        using same pub unfolding same_published_def by blast+
      then show ?thesis
        by (simp add: run_check_def Inr lookup addresses Cons collect_same[OF same host pub])
    qed
  qed
qed

definition quiet_net :: preview_net where
  "quiet_net =
     \<lparr>pn_lookup = (\<lambda>_. Some [(V4 (1, 1, 1, 1), 443)]),
      pn_tls = \<lparr>tn_lookup = (\<lambda>_. None), tn_connects = (\<lambda>_. False), tn_config_error = None,
        tn_name_error = (\<lambda>_. None), tn_handshake = (\<lambda>_ _. HandshakeTimeout),
        tn_x509 = (\<lambda>_. Inl ''empty''), tn_show_ip = (\<lambda>_. ''1.1.1.1'')\<rparr>,
      pn_resolver = (\<lambda>_. LookupFailed), pn_client = (\<lambda>_ _. True),
      pn_get = (\<lambda>_ _ _. Some \<lparr>pg_status = 200, pg_headers = []\<rparr>), pn_in_time = True\<rparr>"

definition plain_dates :: date_format where
  "plain_dates = \<lparr>df_long = (\<lambda>_. []), df_rfc3339 = (\<lambda>_. [])\<rparr>"

theorem preview_reads_what_is_published_witness:
  "run_check (quiet_net\<lparr>pn_get := (\<lambda>_ _ url. if url \<in> set (published_urls ''example.com'')
       then Some \<lparr>pg_status = 200, pg_headers = []\<rparr> else None)\<rparr>) plain_dates 0 ''example.com''
   = run_check quiet_net plain_dates 0 ''example.com''"
proof (rule preview_reads_what_is_published)
  fix host
  assume "normalize_target ''example.com'' = Inr host"
  moreover have "normalize_target ''example.com'' = Inr ''example.com''" by code_simp
  ultimately have "host = ''example.com''" by simp
  then show "same_published host quiet_net (quiet_net\<lparr>pn_get := (\<lambda>_ _ url. if url \<in> set (published_urls ''example.com'')
       then Some \<lparr>pg_status = 200, pg_headers = []\<rparr> else None)\<rparr>)"
    by (simp add: same_published_def same_net_at_def quiet_net_def del: append.simps)
qed

subsection \<open>What the summaries say\<close>

text \<open>The free check and the report agree about a certificate: the preview flags it exactly when the
  scan grades it above information, and says expired exactly when the scan does.\<close>

lemma preview_grades_as_the_scan:
  "let f = hd (assess fmt facts domain now); obs = hd (fst (certificate_part fmt now (Inr facts))) in
     (ob_finding obs \<longleftrightarrow> Info < f_severity f)
     \<and> (prefix ''Expired'' (ob_value obs) \<longleftrightarrow> f_title f = ''TLS certificate has expired'')"
proof -
  let ?r = "days_remaining (cf_not_after facts) now"
  have "f_title (expiry_finding fmt facts ?r) = ''TLS certificate has expired'' \<longleftrightarrow> ?r < 0"
    by (simp add: expiry_finding_def expiry_verdict_def Let_def expires_in_def)
  moreover have "Info < f_severity (expiry_finding fmt facts ?r) \<longleftrightarrow> ?r \<le> MEDIUM_AFTER_DAYS"
    by (auto simp: expiry_finding_def expiry_verdict_def Let_def less_severity_def CRITICAL_AFTER_DAYS_def
        HIGH_AFTER_DAYS_def MEDIUM_AFTER_DAYS_def simp del: append.simps)
  ultimately show ?thesis
    by (simp add: assess_def certificate_part_def observed_def Let_def)
qed

text \<open>The summaries search for bare substrings, so a name that happens to contain one passes for the
  policy, and a cookie called after the attribute for one that has it.\<close>

lemma spf_all_inside_a_name_passes:
  "\<not> ob_finding (spf_summary [''v=spf1 include:mail-all.example ~all''])"
  by code_simp

lemma cookie_named_after_the_flag_passes:
  "map_option ob_finding (cookie_summary [''insecure_id=1; HttpOnly; SameSite=Lax'']) = Some False"
  by code_simp

end
