(* ===== verification/Auth.thy ===== *)
theory Auth
  imports Growth Signature
begin

text \<open>
  \<open>crates/api/src/auth.rs\<close>: password hashes, session tokens and the extractor that every protected
  handler starts with.  Argon2, HMAC-SHA256, base64url and the JSON of the claims are library code:
  fields of \<open>vault\<close>.  A random value (a salt) is an argument.
\<close>

definition TOKEN_TTL_HOURS :: int where "TOKEN_TTL_HOURS = 12"

definition HEADER_JSON :: string where
  \<open>HEADER_JSON = ''{"alg":"HS256","typ":"JWT"}''\<close>

record token_claims =
  tc_sub :: uid
  tc_version :: int
  tc_exp :: int
  tc_iat :: int

record vault =
  va_secret :: string
  va_hmac :: "string \<Rightarrow> string \<Rightarrow> string option"
  va_encode :: "string \<Rightarrow> string"
  va_decode :: "string \<Rightarrow> string option"
  va_show_claims :: "token_claims \<Rightarrow> string option"
  va_read_claims :: "string \<Rightarrow> token_claims option"
  va_hash :: "string \<Rightarrow> string \<Rightarrow> string option"
    \<comment> \<open>salt, password\<close>
  va_parse_hash :: "string \<Rightarrow> string option"
  va_verify :: "string \<Rightarrow> string \<Rightarrow> bool"
    \<comment> \<open>password, parsed hash\<close>
  va_upper :: "string \<Rightarrow> bool"
    \<comment> \<open>\<open>char::is_uppercase\<close> of a character beyond ASCII, given by its UTF-8 bytes\<close>
  va_read_date :: "string \<Rightarrow> date option"
    \<comment> \<open>\<open>NaiveDate::parse_from_str(_, "%Y-%m-%d")\<close>\<close>
  va_date :: "time \<Rightarrow> date"

subsection \<open>Passwords\<close>

definition hash_password :: "vault \<Rightarrow> string \<Rightarrow> string \<Rightarrow> api_error + string" where
  "hash_password v salt password = ok_or (Internal ''password hashing failed'') (va_hash v salt password)"

definition verify_password :: "vault \<Rightarrow> string \<Rightarrow> string \<Rightarrow> bool" where
  "verify_password v password stored =
     (case va_parse_hash v stored of Some parsed \<Rightarrow> va_verify v password parsed | None \<Rightarrow> False)"

subsection \<open>Tokens\<close>

definition new_claims :: "time \<Rightarrow> uid \<Rightarrow> int \<Rightarrow> token_claims" where
  "new_claims now user version =
     \<lparr>tc_sub = user, tc_version = version, tc_exp = timestamp (now + hours TOKEN_TTL_HOURS),
      tc_iat = timestamp now\<rparr>"

definition issue_token :: "vault \<Rightarrow> time \<Rightarrow> uid \<Rightarrow> int \<Rightarrow> api_error + string" where
  "issue_token v now user version =
     bind_res (ok_or (Internal ''token encoding failed'') (va_show_claims v (new_claims now user version)))
       (\<lambda>claims_json.
     let signing_input = va_encode v HEADER_JSON @ ''.'' @ va_encode v claims_json in
     bind_res (ok_or (Internal ''bad JWT secret'') (va_hmac v (va_secret v) signing_input)) (\<lambda>mac.
     Inr (signing_input @ ''.'' @ va_encode v mac)))"

definition decode_token :: "vault \<Rightarrow> time \<Rightarrow> string \<Rightarrow> api_error + token_claims" where
  "decode_token v now token =
     (case split_char CHR ''.'' token of
        [header_b64, claims_b64, signature_b64] \<Rightarrow>
          if va_decode v header_b64 \<noteq> Some HEADER_JSON then Inl Unauthorized
          else bind_res (ok_or Unauthorized (va_decode v signature_b64)) (\<lambda>signature.
            bind_res (ok_or (Internal ''bad JWT secret'')
                (va_hmac v (va_secret v) (header_b64 @ ''.'' @ claims_b64))) (\<lambda>mac.
            if mac \<noteq> signature then Inl Unauthorized
            else bind_res (ok_or Unauthorized (va_decode v claims_b64)) (\<lambda>claims_bytes.
              bind_res (ok_or Unauthorized (va_read_claims v claims_bytes)) (\<lambda>claims.
              if tc_exp claims < timestamp now then Inl Unauthorized else Inr claims))))
      | _ \<Rightarrow> Inl Unauthorized)"

subsection \<open>The extractor\<close>

definition session_cookie :: "string \<Rightarrow> string option" where
  "session_cookie header =
     find_map (\<lambda>part.
       case split_once CHR ''='' (trim part) of
         None \<Rightarrow> None
       | Some (name, value) \<Rightarrow>
           if name = ''glarion_session'' \<and> value \<noteq> [] then Some value else None)
       (split_char CHR '';'' header)"

definition header_text :: "headers \<Rightarrow> string \<Rightarrow> string option" where
  "header_text h name = Option.bind (h name) to_str"

definition bearer_of :: "headers \<Rightarrow> string option" where
  "bearer_of h = map_option trim (Option.bind (header_text h ''authorization'') (strip_prefix ''Bearer ''))"

definition token_version :: "db \<Rightarrow> uid \<Rightarrow> int option" where
  "token_version d i = map_option u_version (user_by_id d i)"

text \<open>A request: its verb and its headers.\<close>

definition auth_user :: "vault \<Rightarrow> time \<Rightarrow> string \<Rightarrow> headers \<Rightarrow> db \<Rightarrow> api_error + uid" where
  "auth_user v now verb h d =
     (let bearer = bearer_of h;
          cookie = Option.bind (header_text h ''cookie'') session_cookie in
      bind_res (ok_or Unauthorized (case bearer of None \<Rightarrow> cookie | Some t \<Rightarrow> Some t)) (\<lambda>token.
      if bearer = None \<and> verb \<notin> {''GET'', ''HEAD'', ''OPTIONS''}
          \<and> header_text h ''x-glarion-csrf'' \<noteq> Some ''1''
      then Inl Unauthorized
      else bind_res (decode_token v now token) (\<lambda>claims.
        (case token_version d (tc_sub claims) of
           Some version \<Rightarrow> if version = tc_version claims then Inr (tc_sub claims) else Inl Unauthorized
         | None \<Rightarrow> Inl Unauthorized))))"

subsection \<open>What a token is worth\<close>

lemma decode_token_time:
  "decode_token v now t = Inr c \<Longrightarrow> decode_token v now' t = Inr c' \<Longrightarrow> c' = c"
  by (auto simp: decode_token_def bind_res_Inr_iff split: list.splits if_splits)

lemma decode_token_alive: "decode_token v now t = Inr c \<Longrightarrow> timestamp now \<le> tc_exp c"
  by (auto simp: decode_token_def bind_res_Inr_iff split: list.splits if_splits)

definition presented :: "headers \<Rightarrow> string option" where
  "presented h = (case bearer_of h of
     None \<Rightarrow> Option.bind (header_text h ''cookie'') session_cookie | Some t \<Rightarrow> Some t)"

lemma auth_userE:
  assumes "auth_user v now verb h d = Inr u"
  obtains t c where "decode_token v now t = Inr c" "tc_sub c = u" "token_version d u = Some (tc_version c)"
    "presented h = Some t"
  using assms by (auto simp: auth_user_def presented_def[symmetric] bind_res_Inr_iff Let_def split: if_splits option.splits)

text \<open>Two requests with the same headers are the same session: as long as both are let in, the
  account's version is the same.\<close>

lemma auth_user_version:
  assumes "auth_user v now verb h d = Inr u" "auth_user v now' verb' h d' = Inr u'"
  shows "u' = u \<and> token_version d' u = token_version d u"
proof -
  obtain t c where t: "decode_token v now t = Inr c" "tc_sub c = u" "token_version d u = Some (tc_version c)"
    "presented h = Some t"
    using assms(1) by (rule auth_userE)
  obtain t' c' where t': "decode_token v now' t' = Inr c'" "tc_sub c' = u'"
      "token_version d' u' = Some (tc_version c')"
    "presented h = Some t'"
    using assms(2) by (rule auth_userE)
  have "t' = t" using t(4) t'(4) by (simp only: option.inject)
  then have "c' = c" using decode_token_time t(1) t'(1) by metis
  then show ?thesis using t t' by simp
qed

text \<open>A session lasts twelve hours and no longer.  The token a sign-in issues is read back as exactly
  what was signed while its second is not past the twelfth hour, and refused after.\<close>

lemma token_lives_twelve_hours:
  assumes "\<And>x. va_decode v (va_encode v x) = Some x" "\<And>x. CHR ''.'' \<notin> set (va_encode v x)"
    and "\<And>c js. va_show_claims v c = Some js \<Longrightarrow> va_read_claims v js = Some c"
    and "issue_token v now user version = Inr token"
  shows "decode_token v later token =
    (if timestamp later \<le> timestamp now + 12 * 3600 then Inr (new_claims now user version)
     else Inl Unauthorized)"
proof -
  let ?c = "new_claims now user version"
  obtain js mac where i: "va_show_claims v ?c = Some js"
      "va_hmac v (va_secret v) (va_encode v HEADER_JSON @ ''.'' @ va_encode v js) = Some mac"
      "token = va_encode v HEADER_JSON @ ''.'' @ va_encode v js @ ''.'' @ va_encode v mac"
    using assms(4) by (auto simp: issue_token_def bind_res_Inr_iff Let_def ok_or_def split: option.splits)
  have s: "split_char CHR ''.'' token = [va_encode v HEADER_JSON, va_encode v js, va_encode v mac]"
    using assms(2) by (simp add: i(3) split_char_sep split_char_id)
  have "tc_exp ?c = timestamp now + 12 * 3600"
    by (simp add: new_claims_def TOKEN_TTL_HOURS_def timestamp_def duration_defs)
  then show ?thesis
    using assms(3)[OF i(1)] assms(1) i(2) by (simp add: decode_token_def s)
qed

definition demo_vault :: vault where
  "demo_vault = \<lparr>va_secret = ''k'', va_hmac = demo_hmac, va_encode = encode_hex, va_decode = decode_hex,
     va_show_claims = (\<lambda>c. if c = new_claims 0 7 3 then Some ''{}'' else None),
     va_read_claims = (\<lambda>t. if t = ''{}'' then Some (new_claims 0 7 3) else None),
     va_hash = (\<lambda>salt p. Some (salt @ p)), va_parse_hash = Some, va_verify = (\<lambda>p h. suffix p h),
     va_upper = (\<lambda>_. False), va_read_date = (\<lambda>_. None), va_date = (\<lambda>_. (2026, 10, 31))\<rparr>"

lemma token_lives_twelve_hours_witness:
  "\<exists>token. issue_token demo_vault 0 7 3 = Inr token
     \<and> decode_token demo_vault (hours 12) token = Inr (new_claims 0 7 3)
     \<and> decode_token demo_vault (hours 13) token = Inl Unauthorized"
proof -
  have i: "issue_token demo_vault 0 7 3 = Inr (projr (issue_token demo_vault 0 7 3))"
    by (simp add: issue_token_def demo_vault_def demo_hmac_def)
  have v: "va_decode demo_vault (va_encode demo_vault x) = Some x"
      "CHR ''.'' \<notin> set (va_encode demo_vault x)"
      "va_show_claims demo_vault c = Some js \<Longrightarrow> va_read_claims demo_vault js = Some c" for x c js
    using encode_hex_chars[of "CHR ''.''" x]
    by (auto simp: demo_vault_def is_alnum_def code_of_def is_digit_def is_lower_def is_upper_def split: if_splits)
  show ?thesis
    using i token_lives_twelve_hours[OF v i, of "hours 12"] token_lives_twelve_hours[OF v i, of "hours 13"]
    by (intro exI[of _ "projr (issue_token demo_vault 0 7 3)"]) (simp add: timestamp_def duration_defs)
qed

end
