(* ===== verification/Accounts.thy ===== *)
theory Accounts
  imports Auth Stripe "HOL-Library.Product_Lexorder"
begin

text \<open>
  \<open>crates/api/src/routes/accounts.rs\<close>: registration, confirmation, sign-in, password reset, password and
  address change, deletion.  A handler is an action on the process (\<open>Stripe\<close>) that may fail.  What it
  draws at random (a row's key, a salt, a link's token) is an argument; a mail it spawns is delivered
  where it is spawned.
\<close>

subsection \<open>What a form may hold\<close>

definition MIN_PASSWORD_LEN :: nat where "MIN_PASSWORD_LEN = 8"
definition MAX_PASSWORD_LEN :: nat where "MAX_PASSWORD_LEN = 256"
definition MAX_NAME_LEN :: nat where "MAX_NAME_LEN = 80"
definition MIN_AGE_YEARS :: int where "MIN_AGE_YEARS = 18"
definition VERIFICATION_VALID_HOURS :: int where "VERIFICATION_VALID_HOURS = 24"
definition RESEND_COOLDOWN_MINUTES :: int where "RESEND_COOLDOWN_MINUTES = 2"
definition RESET_VALID_MINUTES :: int where "RESET_VALID_MINUTES = 60"
definition RESET_COOLDOWN_MINUTES :: int where "RESET_COOLDOWN_MINUTES = 2"
definition EMAIL_CHANGE_VALID_MINUTES :: int where "EMAIL_CHANGE_VALID_MINUTES = 60"

definition is_uppercase :: "vault \<Rightarrow> string \<Rightarrow> bool" where
  "is_uppercase v c = (case c of [b] \<Rightarrow> is_upper b | _ \<Rightarrow> va_upper v c)"

definition is_ascii_punctuation :: "char \<Rightarrow> bool" where
  "is_ascii_punctuation c \<longleftrightarrow>
     (33 \<le> code_of c \<and> code_of c \<le> 47) \<or> (58 \<le> code_of c \<and> code_of c \<le> 64)
     \<or> (91 \<le> code_of c \<and> code_of c \<le> 96) \<or> (123 \<le> code_of c \<and> code_of c \<le> 126)"

definition validate_password :: "vault \<Rightarrow> string \<Rightarrow> api_error + unit" where
  "validate_password v password =
     (if chars_count password < MIN_PASSWORD_LEN
      then Inl (BadRequest (''password must be at least '' @ show_nat MIN_PASSWORD_LEN @ '' characters''))
      else if chars_count password > MAX_PASSWORD_LEN
      then Inl (BadRequest (''password must be at most '' @ show_nat MAX_PASSWORD_LEN @ '' characters''))
      else if \<not> list_ex (is_uppercase v) (scalars password) \<or> \<not> list_ex is_ascii_punctuation password
      then Inl (BadRequest ''password must contain an uppercase letter and a special character'')
      else Inr ())"

definition required_name :: "string \<Rightarrow> string \<Rightarrow> api_error + string" where
  "required_name input label =
     (let trimmed = trim input in
      if trimmed = [] then Inl (BadRequest (label @ '' is required''))
      else if chars_count trimmed > MAX_NAME_LEN
      then Inl (BadRequest (label @ '' must be at most '' @ show_nat MAX_NAME_LEN @ '' characters''))
      else Inr trimmed)"

definition normalize_address :: "string \<Rightarrow> api_error + string" where
  "normalize_address input =
     (let email = to_ascii_lowercase (trim input) in
      if email = [] \<or> CHR ''@'' \<notin> set email \<or> length email > 320
      then Inl (BadRequest ''a valid email is required'') else Inr email)"

fun age_on :: "date \<Rightarrow> date \<Rightarrow> int" where
  "age_on (birth_year, birth_month, birth_day) (year, month, day) =
     (if (month, day) < (birth_month, birth_day) then year - birth_year - 1 else year - birth_year)"

definition parse_date_of_birth :: "vault \<Rightarrow> string \<Rightarrow> date \<Rightarrow> api_error + date" where
  "parse_date_of_birth v input today =
     bind_res (ok_or (BadRequest ''date of birth must be a valid date'') (va_read_date v (trim input)))
       (\<lambda>date.
     if date > today then Inl (BadRequest ''date of birth cannot be in the future'')
     else if age_on date today < MIN_AGE_YEARS
     then Inl (BadRequest (''you must be at least '' @ show_int MIN_AGE_YEARS @ '' to open an account''))
     else Inr date)"

definition hash_token :: "app \<Rightarrow> string \<Rightarrow> string" where
  "hash_token a token = encode_hex (ap_sha256 a token)"

subsection \<open>Sessions\<close>

definition cookie_flags :: "string \<Rightarrow> string" where
  "cookie_flags public_url =
     ''; HttpOnly; SameSite=Strict'' @ (if prefix ''https://'' public_url then ''; Secure'' else [])"

definition session_cookie_value :: "string \<Rightarrow> string \<Rightarrow> string" where
  "session_cookie_value public_url token =
     ''glarion_session='' @ token @ ''; Path=/; Max-Age=43200'' @ cookie_flags public_url"

definition clear_session_cookie_value :: "string \<Rightarrow> string" where
  "clear_session_cookie_value public_url =
     ''glarion_session=; Path=/; Max-Age=0'' @ cookie_flags public_url"

text \<open>\<open>HeaderValue::from_str\<close> takes the bytes \<open>to_str\<close> gives back.\<close>

definition session_header :: "app \<Rightarrow> string \<Rightarrow> api_error + string" where
  "session_header a token = ok_or Unauthorized (to_str (session_cookie_value (ap_url a) token))"

definition of_result :: "api_error + 'a \<Rightarrow> 'a action" where
  "of_result r w = (r, w)"

text \<open>Every way in ends like this: the cookie, and the account.\<close>

definition start_session :: "app \<Rightarrow> vault \<Rightarrow> time \<Rightarrow> uid \<Rightarrow> int \<Rightarrow> (string \<times> uid) action" where
  "start_session a v now user version =
     of_result (bind_res (issue_token v now user version) (\<lambda>token.
       bind_res (session_header a token) (\<lambda>cookie. Inr (cookie, user))))"

subsection \<open>Statements on accounts\<close>

text \<open>\<open>update users \<dots> returning\<close>, which gives the first row it changed.  The address is unique: a
  statement that would leave two accounts with one fails and changes nothing.\<close>

definition unique_emails :: "user list \<Rightarrow> bool" where
  "unique_emails us \<longleftrightarrow> distinct (map u_email us)"

definition update_users :: "(user \<Rightarrow> bool) \<Rightarrow> (user \<Rightarrow> user) \<Rightarrow> user option action" where
  "update_users P f w =
     (Inr (map_option f (find P (users (w_db w)))),
      w\<lparr>w_db := (w_db w)\<lparr>users := update_where P f (users (w_db w))\<rparr>\<rparr>)"

definition move_users :: "(user \<Rightarrow> bool) \<Rightarrow> (user \<Rightarrow> user) \<Rightarrow> user option action" where
  "move_users P f w =
     (if unique_emails (update_where P f (users (w_db w))) then update_users P f w
      else (Inl (Internal ''duplicate key value violates unique constraint''), w))"

definition user_by_email :: "db \<Rightarrow> string \<Rightarrow> user option" where
  "user_by_email d email = find (\<lambda>u. u_email u = email) (users d)"

definition auth_limited :: "app \<Rightarrow> time \<Rightarrow> string \<Rightarrow> unit action" where
  "auth_limited a now peer w =
     (let (ok, d) = check_shared (hash_token a) AUTH_ATTEMPTS_PER_WINDOW AUTH_WINDOW_SECS ''auth'' peer now (w_db w)
      in (if ok then Inr () else Inl TooManyRequests, w\<lparr>w_db := d\<rparr>))"

text \<open>A link's time stamp after the cutoff; \<open>null\<close> compares with nothing.\<close>

definition sent_after :: "time option \<Rightarrow> time \<Rightarrow> bool" where
  "sent_after sent cutoff = (case sent of None \<Rightarrow> False | Some t \<Rightarrow> cutoff < t)"

definition name_of :: "user \<Rightarrow> string" where
  "name_of u = (case u_first_name u of None \<Rightarrow> [] | Some n \<Rightarrow> n)"

definition verified_by :: "time \<Rightarrow> user \<Rightarrow> time option" where
  "verified_by now u = (case u_verified u of None \<Rightarrow> Some now | Some t \<Rightarrow> Some t)"

subsection \<open>Signing up\<close>

record signup_request =
  su_first_name :: string
  su_last_name :: string
  su_birth :: string
  su_email :: string
  su_password :: string
  su_confirmation :: string

record signup_response =
  sr_email :: string
  sr_message :: string
  sr_delivered :: bool

definition signup_answer :: "bool \<Rightarrow> string \<Rightarrow> signup_response" where
  "signup_answer delivered email =
     \<lparr>sr_email = email,
      sr_message = (if delivered then ''Check your email to confirm your address.''
        else ''Your account exists, but the confirmation email could not be sent. Try the resend link ''
          @ ''in a few minutes, or use the contact address on glarion.app.''),
      sr_delivered = delivered\<rparr>"

definition send_verification :: "app \<Rightarrow> string \<Rightarrow> string \<Rightarrow> string \<Rightarrow> unit action" where
  "send_verification a email first_name token =
     mailing a email (VerificationEmail first_name (verification_link (ap_url a) token))"

record signup_form =
  sf_first_name :: string
  sf_last_name :: string
  sf_birth :: date
  sf_email :: string
  sf_hash :: string

text \<open>Everything that is checked before the database is asked.\<close>

definition read_signup :: "vault \<Rightarrow> string \<Rightarrow> time \<Rightarrow> signup_request \<Rightarrow> api_error + signup_form" where
  "read_signup v salt now body =
     bind_res (required_name (su_first_name body) ''first name'') (\<lambda>first_name.
     bind_res (required_name (su_last_name body) ''last name'') (\<lambda>last_name.
     bind_res (normalize_address (su_email body)) (\<lambda>email.
     bind_res (parse_date_of_birth v (su_birth body) (va_date v now)) (\<lambda>birth.
     if su_password body \<noteq> su_confirmation body then Inl (BadRequest ''the passwords do not match'')
     else bind_res (validate_password v (su_password body)) (\<lambda>_.
     bind_res (hash_password v salt (su_password body)) (\<lambda>password_hash.
     Inr \<lparr>sf_first_name = first_name, sf_last_name = last_name, sf_birth = birth, sf_email = email,
          sf_hash = password_hash\<rparr>))))))"

text \<open>\<open>on conflict do nothing returning id\<close>.\<close>

definition insert_user :: "user \<Rightarrow> bool action" where
  "insert_user u w =
     (if user_by_email (w_db w) (u_email u) \<noteq> None then (Inr False, w)
      else (Inr True, w\<lparr>w_db := (w_db w)\<lparr>users := users (w_db w) @ [u]\<rparr>\<rparr>))"

definition free_entitlement :: "uid \<Rightarrow> entitlement" where
  "free_entitlement user =
     \<lparr>e_user = user, e_product = ''glarion'', e_plan = ''free'', e_max_targets = 1, e_customer = None,
      e_subscription = None, e_status = None, e_period_end = None, e_trial_ends = None, e_cancel = False,
      e_blocked = None, e_interval = None, e_charge_amount = None, e_charge_currency = None,
      e_reminder_for = None, e_activation_for = None\<rparr>"

definition insert_entitlement :: "entitlement \<Rightarrow> db \<Rightarrow> db" where
  "insert_entitlement e d =
     (if list_ex (\<lambda>r. e_user r = e_user e \<and> e_product r = e_product e) (entitlements d) then d
      else d\<lparr>entitlements := entitlements d @ [e]\<rparr>)"

definition signed_up :: "app \<Rightarrow> uid \<Rightarrow> string \<Rightarrow> time \<Rightarrow> signup_form \<Rightarrow> user" where
  "signed_up a new_id token now f =
     (user_row new_id (sf_email f) (sf_hash f))\<lparr>u_first_name := Some (sf_first_name f),
       u_last_name := Some (sf_last_name f), u_birth := Some (sf_birth f),
       u_verify_hash := Some (hash_token a token), u_verify_sent := Some now\<rparr>"

definition signup ::
    "app \<Rightarrow> vault \<Rightarrow> uid \<Rightarrow> string \<Rightarrow> string \<Rightarrow> bool \<Rightarrow> time \<Rightarrow> string \<Rightarrow> headers \<Rightarrow> signup_request
     \<Rightarrow> signup_response action" where
  "signup a v new_id salt token mail_healthy now peer h body =
     and_then (auth_limited a now peer) (\<lambda>_.
     and_then (of_result (read_signup v salt now body)) (\<lambda>f.
     and_then (insert_user (signed_up a new_id token now f)) (\<lambda>fresh.
     if \<not> fresh then done_with (signup_answer mail_healthy (sf_email f))
     else and_then (writing (insert_entitlement (free_entitlement new_id))) (\<lambda>_.
     and_then (writing (record_event h ''signup_created'' now)) (\<lambda>_.
     and_then (send_verification a (sf_email f) (sf_first_name f) token) (\<lambda>_.
     done_with (signup_answer mail_healthy (sf_email f))))))))"

subsection \<open>Confirming the address\<close>

definition CONFIRM_EXPIRED :: string where
  "CONFIRM_EXPIRED = ''This confirmation link has expired or was already used. If you ''
     @ ''confirmed your address already, just sign in; otherwise sign in to request a new link.''"

definition RESET_EXPIRED :: string where
  "RESET_EXPIRED = ''This reset link is no longer valid. Request a new one.''"

definition CHANGE_EXPIRED :: string where
  "CHANGE_EXPIRED = ''This link is no longer valid. Request the change again from your account.''"

definition verify_email :: "app \<Rightarrow> vault \<Rightarrow> time \<Rightarrow> string \<Rightarrow> (string \<times> uid) action" where
  "verify_email a v now token =
     and_then (update_users
        (\<lambda>u. u_verify_hash u = Some (hash_token a (trim token))
           \<and> sent_after (u_verify_sent u) (now - hours VERIFICATION_VALID_HOURS))
        (\<lambda>u. u\<lparr>u_verified := verified_by now u, u_verify_hash := None\<rparr>))
     (\<lambda>row. case row of
        None \<Rightarrow> stop_with (BadRequest CONFIRM_EXPIRED)
      | Some u \<Rightarrow>
          and_then (mailing a (u_email u) (WelcomeEmail (name_of u) (app_link_of a ''/targets''))) (\<lambda>_.
          start_session a v now (u_id u) (u_version u)))"

text \<open>A link went out less than \<open>pause\<close> ago.\<close>

definition cooling :: "time \<Rightarrow> duration \<Rightarrow> time option \<Rightarrow> bool" where
  "cooling now pause sent = (case sent of None \<Rightarrow> False | Some t \<Rightarrow> now - t < pause)"

definition RESEND_ANSWER :: string where
  "RESEND_ANSWER = ''If that address still needs confirming and no link went to it in the last two ''
     @ ''minutes, a new one is on its way.''"

definition resend_verification :: "app \<Rightarrow> string \<Rightarrow> time \<Rightarrow> string \<Rightarrow> string \<Rightarrow> string action" where
  "resend_verification a token now peer address =
     and_then (auth_limited a now peer) (\<lambda>_.
     and_then (of_result (normalize_address address)) (\<lambda>email.
     and_then (reading (\<lambda>d. user_by_email d email)) (\<lambda>row.
       case row of
         None \<Rightarrow> done_with RESEND_ANSWER
       | Some u \<Rightarrow>
           if u_verified u \<noteq> None \<or> cooling now (minutes RESEND_COOLDOWN_MINUTES) (u_verify_sent u)
           then done_with RESEND_ANSWER
           else and_then (update_users (\<lambda>r. u_id r = u_id u)
                  (\<lambda>r. r\<lparr>u_verify_hash := Some (hash_token a token), u_verify_sent := Some now\<rparr>)) (\<lambda>_.
                and_then (send_verification a email (name_of u) token) (\<lambda>_. done_with RESEND_ANSWER)))))"

subsection \<open>Signing in and out\<close>

text \<open>An unknown address costs a decoy verification, whose result is dropped.\<close>

definition login :: "app \<Rightarrow> vault \<Rightarrow> time \<Rightarrow> string \<Rightarrow> string \<Rightarrow> string \<Rightarrow> (string \<times> uid) action" where
  "login a v now peer address password =
     and_then (auth_limited a now peer) (\<lambda>_.
     if length password > MAX_PASSWORD_LEN * 4 then stop_with InvalidCredentials
     else and_then (of_result (normalize_address address)) (\<lambda>email.
     and_then (reading (\<lambda>d. user_by_email d email)) (\<lambda>row.
       case row of
         None \<Rightarrow> stop_with InvalidCredentials
       | Some u \<Rightarrow>
           if \<not> verify_password v password (u_password u) then stop_with InvalidCredentials
           else if u_verified u = None then stop_with EmailNotVerified
           else start_session a v now (u_id u) (u_version u))))"

definition logout :: "app \<Rightarrow> headers \<Rightarrow> api_error + string" where
  "logout a h =
     (if header_text h ''x-glarion-csrf'' \<noteq> Some ''1'' then Inl Unauthorized
      else ok_or Unauthorized (to_str (clear_session_cookie_value (ap_url a))))"

subsection \<open>A forgotten password\<close>

definition FORGOT_ANSWER :: string where
  "FORGOT_ANSWER = ''If that address has an account, a reset link is on its way.''"

definition forgot_password :: "app \<Rightarrow> string \<Rightarrow> time \<Rightarrow> string \<Rightarrow> string \<Rightarrow> string action" where
  "forgot_password a token now peer address =
     and_then (auth_limited a now peer) (\<lambda>_.
     and_then (of_result (normalize_address address)) (\<lambda>email.
     and_then (reading (\<lambda>d. user_by_email d email)) (\<lambda>row.
       case row of
         None \<Rightarrow> done_with FORGOT_ANSWER
       | Some u \<Rightarrow>
           if cooling now (minutes RESET_COOLDOWN_MINUTES) (u_reset_sent u) then done_with FORGOT_ANSWER
           else and_then (update_users (\<lambda>r. u_id r = u_id u)
                  (\<lambda>r. r\<lparr>u_reset_hash := Some (hash_token a token), u_reset_sent := Some now\<rparr>)) (\<lambda>_.
                and_then (mailing a email
                  (PasswordResetEmail (name_of u) (reset_link (ap_url a) token) RESET_VALID_MINUTES)) (\<lambda>_.
                done_with FORGOT_ANSWER)))))"

record reset_request =
  rr_token :: string
  rr_password :: string
  rr_confirmation :: string

definition resettable :: "app \<Rightarrow> time \<Rightarrow> string \<Rightarrow> user \<Rightarrow> bool" where
  "resettable a now token u \<longleftrightarrow>
     u_reset_hash u = Some (hash_token a (trim token))
     \<and> sent_after (u_reset_sent u) (now - minutes RESET_VALID_MINUTES)"

text \<open>The statement that consumes the link.\<close>

definition reset_row :: "time \<Rightarrow> string \<Rightarrow> user \<Rightarrow> user" where
  "reset_row now password_hash u =
     u\<lparr>u_password := password_hash, u_reset_hash := None, u_reset_sent := None,
       u_verified := verified_by now u, u_version := u_version u + 1\<rparr>"

definition reset_password ::
    "app \<Rightarrow> vault \<Rightarrow> string \<Rightarrow> time \<Rightarrow> string \<Rightarrow> reset_request \<Rightarrow> (string \<times> uid) action" where
  "reset_password a v salt now peer body =
     and_then (auth_limited a now peer) (\<lambda>_.
     if rr_password body \<noteq> rr_confirmation body
     then stop_with (BadRequest ''the passwords do not match'')
     else and_then (of_result (validate_password v (rr_password body))) (\<lambda>_.
     and_then (of_result (hash_password v salt (rr_password body))) (\<lambda>password_hash.
     and_then (update_users (resettable a now (rr_token body)) (reset_row now password_hash)) (\<lambda>row.
       case row of
         None \<Rightarrow> stop_with (BadRequest RESET_EXPIRED)
       | Some u \<Rightarrow>
           and_then (mailing a (u_email u) (PasswordChangedEmail (name_of u))) (\<lambda>_.
           start_session a v now (u_id u) (u_version u))))))"

subsection \<open>A new password\<close>

record password_request =
  pr_current :: string
  pr_new :: string
  pr_confirmation :: string

definition changed_row :: "string \<Rightarrow> user \<Rightarrow> user" where
  "changed_row new_hash u =
     u\<lparr>u_password := new_hash, u_reset_hash := None, u_reset_sent := None, u_version := u_version u + 1\<rparr>"

definition CHANGED_ANSWER :: string where
  "CHANGED_ANSWER = ''Password changed. Every other signed-in device has been signed out.''"

text \<open>\<open>fetch_one\<close> on an account that has just been read finds it.\<close>

definition change_password ::
    "app \<Rightarrow> vault \<Rightarrow> string \<Rightarrow> time \<Rightarrow> uid \<Rightarrow> password_request \<Rightarrow> (string \<times> string) action" where
  "change_password a v salt now user body =
     (if length (pr_current body) > MAX_PASSWORD_LEN * 4 then stop_with InvalidCredentials
      else if pr_new body \<noteq> pr_confirmation body
      then stop_with (BadRequest ''the new passwords do not match'')
      else and_then (of_result (validate_password v (pr_new body))) (\<lambda>_.
      and_then (reading (\<lambda>d. user_by_id d user)) (\<lambda>row.
        case row of
          None \<Rightarrow> stop_with Unauthorized
        | Some u \<Rightarrow>
            if \<not> verify_password v (pr_current body) (u_password u) then stop_with InvalidCredentials
            else if pr_new body = pr_current body
            then stop_with (BadRequest ''that is already the password on this account'')
            else and_then (of_result (hash_password v salt (pr_new body))) (\<lambda>new_hash.
            and_then (update_users (\<lambda>r. u_id r = user) (changed_row new_hash)) (\<lambda>changed.
            and_then (of_option (Internal ''no rows returned'') changed) (\<lambda>u'.
            and_then (mailing a (u_email u) (PasswordChangedEmail (name_of u))) (\<lambda>_.
            and_then (start_session a v now user (u_version u')) (\<lambda>(cookie, _).
            done_with (cookie, CHANGED_ANSWER)))))))))"

subsection \<open>A new address\<close>

definition EMAIL_ANSWER :: string where
  "EMAIL_ANSWER = ''If that address can be used, a link to confirm it is on its way.''"

definition change_email ::
    "app \<Rightarrow> vault \<Rightarrow> string \<Rightarrow> time \<Rightarrow> uid \<Rightarrow> string \<Rightarrow> string \<Rightarrow> string action" where
  "change_email a v token now user new_address password =
     and_then (of_result (normalize_address new_address)) (\<lambda>new_email.
     and_then (reading (\<lambda>d. user_by_id d user)) (\<lambda>row.
       case row of
         None \<Rightarrow> stop_with Unauthorized
       | Some u \<Rightarrow>
           if \<not> verify_password v password (u_password u) then stop_with InvalidCredentials
           else if new_email = u_email u
           then stop_with (BadRequest ''that is already the address on this account'')
           else and_then (reading (\<lambda>d. user_by_email d new_email)) (\<lambda>taken.
             if taken \<noteq> None then done_with EMAIL_ANSWER
             else and_then (update_users (\<lambda>r. u_id r = user)
                    (\<lambda>r. r\<lparr>u_pending_email := Some new_email, u_change_hash := Some (hash_token a token),
                           u_change_sent := Some now\<rparr>)) (\<lambda>_.
                  and_then (mailing a new_email (EmailChangeConfirmation (name_of u)
                    (app_link_of a (''/confirm-email/'' @ token)) EMAIL_CHANGE_VALID_MINUTES)) (\<lambda>_.
                  and_then (mailing a (u_email u) (EmailChangeAlert (name_of u) new_email)) (\<lambda>_.
                  done_with EMAIL_ANSWER))))))"

text \<open>The guard of the statement that moves the account, \<open>not exists\<close> included.\<close>

definition movable :: "app \<Rightarrow> time \<Rightarrow> string \<Rightarrow> db \<Rightarrow> user \<Rightarrow> bool" where
  "movable a now token d u \<longleftrightarrow>
     u_change_hash u = Some (hash_token a (trim token))
     \<and> sent_after (u_change_sent u) (now - minutes EMAIL_CHANGE_VALID_MINUTES)
     \<and> u_pending_email u \<noteq> None
     \<and> \<not> list_ex (\<lambda>other. Some (u_email other) = u_pending_email u) (users d)"

definition moved_row :: "time \<Rightarrow> user \<Rightarrow> user" where
  "moved_row now u =
     u\<lparr>u_email := (case u_pending_email u of None \<Rightarrow> u_email u | Some e \<Rightarrow> e), u_pending_email := None,
       u_change_hash := None, u_change_sent := None, u_verified := verified_by now u,
       u_version := u_version u + 1\<rparr>"

definition MOVED_ANSWER :: string where
  "MOVED_ANSWER = ''Your address has been changed. Sign in again with the new one.''"

definition confirm_email_change :: "app \<Rightarrow> time \<Rightarrow> string \<Rightarrow> string \<Rightarrow> string action" where
  "confirm_email_change a now peer token =
     and_then (auth_limited a now peer) (\<lambda>_.
     and_then (reading id) (\<lambda>d.
     and_then (move_users (movable a now token d) (moved_row now)) (\<lambda>changed.
       if changed = None
       then stop_with (BadRequest CHANGE_EXPIRED)
       else done_with MOVED_ANSWER)))"

subsection \<open>Leaving\<close>

definition deleted_row :: "app \<Rightarrow> string \<Rightarrow> user \<Rightarrow> user" where
  "deleted_row a unusable_hash u =
     u\<lparr>u_email := ''deleted-'' @ ap_show_uuid a (u_id u) @ ''@deleted.invalid'', u_password := unusable_hash,
       u_first_name := None, u_last_name := None, u_birth := None, u_agency := None, u_logo := None,
       u_verified := None, u_verify_hash := None, u_verify_sent := None, u_version := u_version u + 1\<rparr>"

definition still_subscribed :: "uid \<Rightarrow> db \<Rightarrow> bool" where
  "still_subscribed user d =
     (case Option.bind (entitlement_of d user) e_status of
        None \<Rightarrow> False | Some s \<Rightarrow> status_grants_access s)"

definition drop_entitlement :: "uid \<Rightarrow> db \<Rightarrow> db" where
  "drop_entitlement user d =
     d\<lparr>entitlements := filter (\<lambda>e. \<not> (e_user e = user \<and> e_product e = ''glarion'')) (entitlements d)\<rparr>"

definition DELETED_ANSWER :: string where
  "DELETED_ANSWER = ''Your account has been deleted.''"

text \<open>\<open>nobody\<close> is the random value whose hash no one knows the password of.\<close>

definition delete_account ::
    "app \<Rightarrow> vault \<Rightarrow> string \<Rightarrow> string \<Rightarrow> uid \<Rightarrow> string \<Rightarrow> string action" where
  "delete_account a v salt nobody user password =
     and_then (reading (\<lambda>d. user_by_id d user)) (\<lambda>row.
       case row of
         None \<Rightarrow> stop_with Unauthorized
       | Some u \<Rightarrow>
           if \<not> verify_password v password (u_password u) then stop_with InvalidCredentials
           else and_then (reading (still_subscribed user)) (\<lambda>live.
             if live
             then stop_with (BadRequest
               ''Cancel your subscription from Manage billing before deleting your account.'')
             else and_then (of_result (hash_password v salt nobody)) (\<lambda>unusable_hash.
               and_then (move_users (\<lambda>r. u_id r = user) (deleted_row a unusable_hash)) (\<lambda>_.
               and_then (writing (drop_entitlement user)) (\<lambda>_.
               done_with DELETED_ANSWER)))))"

subsection \<open>What the handlers do to the tables\<close>

text \<open>An address as \<open>normalize_email\<close> leaves it.\<close>

definition address_ok :: "string \<Rightarrow> bool" where
  "address_ok e \<longleftrightarrow> to_ascii_lowercase e = e \<and> CHR ''@'' \<in> set e"

text \<open>An edit of a row that keeps who it is: the key and the address stay, the version does not go
  back, and a pending address is as it was, or none, or a normalised one.\<close>

definition keeps_who :: "(user \<Rightarrow> user) \<Rightarrow> bool" where
  "keeps_who f \<longleftrightarrow> (\<forall>u. u_id (f u) = u_id u \<and> u_email (f u) = u_email u \<and> u_version u \<le> u_version (f u)
     \<and> (case u_pending_email (f u) of None \<Rightarrow> True
        | Some e \<Rightarrow> u_pending_email u = Some e \<or> address_ok e))"

locale account_relation = action_relation R for R +
  fixes a :: app
  assumes limited: "moves R (auth_limited a now peer)"
    and mails: "moves R (mailing a to m)"
    and edits: "keeps_who f \<Longrightarrow> moves R (update_users P f)"
    and moved: "moves R (move_users P (moved_row now))"
    and erased: "moves R (move_users P (deleted_row a h))"
    and joins: "address_ok (u_email u) \<Longrightarrow> u_pending_email u = None \<Longrightarrow> moves R (insert_user u)"
    and entitles: "moves R (writing (insert_entitlement e))"
    and drops: "moves R (writing (drop_entitlement user))"
    and counts: "moves R (writing (record_event hs ev now))"
begin

lemma result: "moves R (of_result r)"
  by (simp add: moves_def of_result_def stay)

lemma result_seq: "(\<And>x. r = Inr x \<Longrightarrow> moves R (k x)) \<Longrightarrow> moves R (and_then (of_result r) k)"
  by (auto simp: moves_def and_then_def of_result_def stay split: sum.split)

lemma session: "moves R (start_session a v now user version)"
  by (simp add: start_session_def result)

lemmas steps = finish stop read option seq moves_cases result session limited mails
  moved erased entitles drops counts

end

lemma normalize_address_ok: "normalize_address s = Inr e \<Longrightarrow> address_ok e"
  by (auto simp: normalize_address_def address_ok_def Let_def split: if_splits)

lemma read_signup_ok: "read_signup v salt now body = Inr f \<Longrightarrow> address_ok (sf_email f)"
  by (auto simp: read_signup_def bind_res_Inr_iff normalize_address_ok split: if_splits)

lemma keeps_whoI:
  "(\<And>u. u_id (f u) = u_id u) \<Longrightarrow> (\<And>u. u_email (f u) = u_email u) \<Longrightarrow> (\<And>u. u_version u \<le> u_version (f u)) \<Longrightarrow>
   (\<And>u e. u_pending_email (f u) = Some e \<Longrightarrow> u_pending_email u = Some e \<or> address_ok e) \<Longrightarrow> keeps_who f"
  by (simp add: keeps_who_def split: option.split)

lemma rows_keep_who [simp]:
  "keeps_who (reset_row now h)" "keeps_who (changed_row h)"
  "keeps_who (\<lambda>u. u\<lparr>u_verified := verified_by now u, u_verify_hash := None\<rparr>)"
  "keeps_who (\<lambda>r. r\<lparr>u_verify_hash := x, u_verify_sent := y\<rparr>)"
  "keeps_who (\<lambda>r. r\<lparr>u_reset_hash := x, u_reset_sent := y\<rparr>)"
  "address_ok e \<Longrightarrow> keeps_who (\<lambda>r. r\<lparr>u_pending_email := Some e, u_change_hash := x, u_change_sent := y\<rparr>)"
  by (rule keeps_whoI; simp add: reset_row_def changed_row_def)+

context account_relation
begin

lemma signup_moves: "moves R (signup a v new_id salt token mail_healthy now peer h body)"
  unfolding signup_def send_verification_def
  by (intro steps result_seq joins) (simp_all add: signed_up_def read_signup_ok)

lemma verify_moves: "moves R (verify_email a v now token)"
  unfolding verify_email_def by (intro steps edits) simp_all

lemma resend_moves: "moves R (resend_verification a token now peer address)"
  unfolding resend_verification_def send_verification_def by (intro steps edits) simp_all

lemma login_moves: "moves R (login a v now peer address password)"
  unfolding login_def by (intro steps)

lemma forgot_moves: "moves R (forgot_password a token now peer address)"
  unfolding forgot_password_def by (intro steps edits) simp_all

lemma reset_moves: "moves R (reset_password a v salt now peer body)"
  unfolding reset_password_def by (intro steps edits) simp_all

lemma change_password_moves: "moves R (change_password a v salt now user body)"
  unfolding change_password_def by (intro steps edits) simp_all

lemma change_email_moves: "moves R (change_email a v token now user address password)"
  unfolding change_email_def by (intro result_seq steps edits) (simp_all add: normalize_address_ok)

lemma confirm_moves: "moves R (confirm_email_change a now peer token)"
  unfolding confirm_email_change_def by (intro steps)

lemma delete_moves: "moves R (delete_account a v salt nobody user password)"
  unfolding delete_account_def by (intro steps)

lemmas handler_moves = signup_moves verify_moves resend_moves login_moves forgot_moves reset_moves
  change_password_moves change_email_moves confirm_moves delete_moves

end

subsection \<open>Three relations the handlers go along\<close>

lemma update_where_find:
  "(\<And>u. u_id (f u) = u_id u) \<Longrightarrow>
   find (\<lambda>u. u_id u = i) (update_where P f us) =
     map_option (\<lambda>u. if P u then f u else u) (find (\<lambda>u. u_id u = i) us)"
  by (induction us) (simp_all add: update_where_def)

lemma limited_db:
  "w_db (snd (auth_limited a now peer w)) = (w_db w)\<lparr>buckets := snd (check_shared_key (hash_token a)
     AUTH_ATTEMPTS_PER_WINDOW AUTH_WINDOW_SECS ''auth'' peer now (buckets (w_db w)))\<rparr>"
  by (simp add: auth_limited_def check_shared_def Let_def split: prod.split)

lemma mailing_db: "w_db (snd (mailing a to m w)) = w_db w"
  by (simp add: mailing_def deliver_mail_def)

lemma update_users_db: "w_db (snd (update_users P f w)) = (w_db w)\<lparr>users := update_where P f (users (w_db w))\<rparr>"
  by (simp add: update_users_def)

lemma move_users_db:
  "w_db (snd (move_users P f w)) = (if unique_emails (update_where P f (users (w_db w)))
     then (w_db w)\<lparr>users := update_where P f (users (w_db w))\<rparr> else w_db w)"
  by (simp add: move_users_def update_users_def)

lemma insert_user_db:
  "w_db (snd (insert_user u w)) = (if user_by_email (w_db w) (u_email u) \<noteq> None then w_db w
     else (w_db w)\<lparr>users := users (w_db w) @ [u]\<rparr>)"
  by (simp add: insert_user_def)

lemma writing_db: "w_db (snd (writing f w)) = f (w_db w)"
  by (simp add: writing_def)

lemma insert_entitlement_db:
  "insert_entitlement e d = d\<lparr>entitlements :=
     (if list_ex (\<lambda>r. e_user r = e_user e \<and> e_product r = e_product e) (entitlements d)
      then entitlements d else entitlements d @ [e])\<rparr>"
  by (simp add: insert_entitlement_def)

lemma record_event_users [simp]: "users (record_event h ev now d) = users d"
  by (simp add: record_event_def Let_def split: option.split)

lemmas account_dbs = limited_db insert_entitlement_db mailing_db update_users_db move_users_db insert_user_db writing_db drop_entitlement_def

text \<open>The tables no account handler touches.\<close>

definition beyond_accounts :: "db \<Rightarrow> target list \<times> proof_row list \<times> authorization list \<times> job list
    \<times> result_row list \<times> trial_claim list \<times> stripe_event list \<times> consent list \<times> preview_send list" where
  "beyond_accounts d = (targets d, proofs d, authorizations d, jobs d, results d, claims d, events d,
     consents d, preview_sends d)"

lemma beyond_accounts_simps [simp]:
  "beyond_accounts (d\<lparr>users := us\<rparr>) = beyond_accounts d"
  "beyond_accounts (d\<lparr>entitlements := es\<rparr>) = beyond_accounts d"
  "beyond_accounts (d\<lparr>buckets := b\<rparr>) = beyond_accounts d"
  "beyond_accounts (record_event h ev now d) = beyond_accounts d"
  by (simp_all add: beyond_accounts_def record_event_def Let_def split: option.split)

interpretation beyond: account_relation "same beyond_accounts" a for a
  by unfold_locales (simp_all add: moves_def same_def account_dbs)

text \<open>An account's version never goes back, and an account is never gone.\<close>

definition ages :: "db \<Rightarrow> db \<Rightarrow> bool" where
  "ages d d' \<longleftrightarrow> (\<forall>i k. token_version d i = Some k \<longrightarrow> (\<exists>k'\<ge>k. token_version d' i = Some k'))"

lemma ages_users: "users d' = users d \<Longrightarrow> ages d d'"
  by (auto simp: ages_def token_version_def user_by_id_def)

lemma ages_update:
  assumes "\<And>u. u_id (f u) = u_id u" "\<And>u. u_version u \<le> u_version (f u)"
  shows "ages d (d\<lparr>users := update_where P f (users d)\<rparr>)"
  unfolding ages_def token_version_def user_by_id_def
proof (intro allI impI)
  fix i k assume "map_option u_version (find (\<lambda>u. u_id u = i) (users d)) = Some k"
  then obtain u where "find (\<lambda>u. u_id u = i) (users d) = Some u" "u_version u = k" by auto
  then show "\<exists>k'\<ge>k. map_option u_version (find (\<lambda>u. u_id u = i)
      (users (d\<lparr>users := update_where P f (users d)\<rparr>))) = Some k'"
    using assms(2)[of u] by (simp add: update_where_find[OF assms(1)])
qed

lemma find_append: "find P (xs @ ys) = (case find P xs of None \<Rightarrow> find P ys | Some x \<Rightarrow> Some x)"
  by (induction xs) simp_all

lemma ages_insert: "ages d (d\<lparr>users := users d @ [u]\<rparr>)"
  by (auto simp: ages_def token_version_def user_by_id_def find_append)

definition aging :: "world \<Rightarrow> world \<Rightarrow> bool" where
  "aging w w' \<longleftrightarrow> ages (w_db w) (w_db w')"

lemma ages_refl: "ages d d"
  by (auto simp: ages_def)

lemma ages_trans: "ages a b \<Longrightarrow> ages b c \<Longrightarrow> ages a c"
  unfolding ages_def by (meson order_trans)

interpretation age: account_relation aging a for a
proof unfold_locales
  show "aging w w" for w by (simp add: aging_def ages_refl)
  show "aging u w" if "aging u v" "aging v w" for u v w using that ages_trans by (auto simp: aging_def)
  show "moves aging (update_users P f)" if "keeps_who f" for P f
    using that by (simp add: moves_def aging_def update_users_db keeps_who_def ages_update)
qed (simp_all add: moves_def aging_def account_dbs ages_users ages_update ages_insert ages_refl
      moved_row_def deleted_row_def)

text \<open>Addresses are unique, and each is normalised, or the one a deleted account is left with.\<close>

definition row_ok :: "app \<Rightarrow> user \<Rightarrow> bool" where
  "row_ok a u \<longleftrightarrow> (address_ok (u_email u) \<or> u_email u = ''deleted-'' @ ap_show_uuid a (u_id u) @ ''@deleted.invalid'')
     \<and> (case u_pending_email u of None \<Rightarrow> True | Some e \<Rightarrow> address_ok e)"

definition addresses_ok :: "app \<Rightarrow> db \<Rightarrow> bool" where
  "addresses_ok a d \<longleftrightarrow> unique_emails (users d) \<and> list_all (row_ok a) (users d)"

lemma rows_updated:
  assumes "list_all (row_ok a) us" "\<And>u. row_ok a u \<Longrightarrow> row_ok a (f u)"
  shows "list_all (row_ok a) (update_where P f us)"
  using assms by (induction us) (simp_all add: update_where_def)

lemma row_ok_kept:
  assumes "keeps_who f" "row_ok a u"
  shows "row_ok a (f u)"
proof -
  have k: "u_id (f u) = u_id u" "u_email (f u) = u_email u"
    "case u_pending_email (f u) of None \<Rightarrow> True | Some e \<Rightarrow> u_pending_email u = Some e \<or> address_ok e"
    using assms(1) by (simp_all add: keeps_who_def)
  show ?thesis
    using k(3) assms(2) by (cases "u_pending_email (f u)") (auto simp: row_ok_def k(1,2))
qed

lemma row_ok_moved: "row_ok a u \<Longrightarrow> row_ok a (moved_row now u)"
  by (auto simp: row_ok_def moved_row_def split: option.split)

lemma row_ok_deleted: "row_ok a u \<Longrightarrow> row_ok a (deleted_row a h u)"
  by (simp add: row_ok_def deleted_row_def split: option.split)

lemma emails_kept: "keeps_who f \<Longrightarrow> unique_emails (update_where P f us) = unique_emails us"
  by (simp add: unique_emails_def keeps_who_def map_update_where)

lemma addresses_ok_users: "users d' = users d \<Longrightarrow> addresses_ok a d' = addresses_ok a d"
  by (simp add: addresses_ok_def)

interpretation address: account_relation "maintains (addresses_ok a)" a for a
proof unfold_locales
  show "moves (maintains (addresses_ok a)) (update_users P f)" if "keeps_who f" for P f
    using that
    by (simp add: moves_def maintains_def update_users_db addresses_ok_def emails_kept rows_updated row_ok_kept)
  show "moves (maintains (addresses_ok a)) (insert_user u)"
    if "address_ok (u_email u)" "u_pending_email u = None" for u
    using that by (auto simp: moves_def maintains_def insert_user_db addresses_ok_def unique_emails_def
        user_by_email_def find_None_iff row_ok_def)
qed (simp_all add: moves_def maintains_def account_dbs addresses_ok_def rows_updated row_ok_moved row_ok_deleted)

end
