(* ===== verification/FreeReport.thy ===== *)
theory FreeReport
  imports Preview Accounts
begin

text \<open>
  \<open>crates/api/src/routes/preview.rs\<close>: the free check on the page and the free report by mail, with the
  limits that stand between them and their abuse.
\<close>

definition RECIPIENT_COOLDOWN_MINUTES :: int where "RECIPIENT_COOLDOWN_MINUTES = 30"
definition RECIPIENT_LIFETIME_LIMIT :: int where "RECIPIENT_LIFETIME_LIMIT = 12"

record preview_response =
  pr_domain :: string
  pr_observations :: "observation list"
  pr_notes :: "string list"
  pr_caveat :: string

definition CAVEAT :: string where
  "CAVEAT = ''This reads only what the site publishes to any visitor. A full scan checks far more, and ''
     @ ''needs the domain'' @ [CHR 0x27] @ ''s owner to confirm the request.''"

record email_preview_request =
  epr_domain :: string
  epr_email :: string

definition preview_limited :: "app \<Rightarrow> time \<Rightarrow> string \<Rightarrow> unit action" where
  "preview_limited a now peer w =
     (let (ok, d) = check_shared (hash_token a) VERIFICATION_CHECKS_PER_WINDOW VERIFICATION_WINDOW_SECS
            ''preview'' peer now (w_db w)
      in (if ok then Inr () else Inl TooManyRequests, w\<lparr>w_db := d\<rparr>))"

definition normalize_recipient :: "string \<Rightarrow> api_error + string" where
  "normalize_recipient input =
     (let email = to_ascii_lowercase (trim input) in
      if email = [] \<or> CHR ''@'' \<notin> set email \<or> length email > 320
      then Inl (BadRequest ''a valid email is required'') else Inr email)"

definition preview_failure :: "preview_error \<Rightarrow> api_error" where
  "preview_failure e =
     (case e of PreviewInvalid m \<Rightarrow> BadRequest m
      | PreviewUnreachable domain \<Rightarrow> BadRequest (''We could not reach '' @ domain @ ''.''))"

subsection \<open>One slot per recipient\<close>

definition sent_row :: "db \<Rightarrow> string \<Rightarrow> preview_send option" where
  "sent_row d hash = find (\<lambda>r. ps_hash r = hash) (preview_sends d)"

definition claim_recipient_slot :: "app \<Rightarrow> time \<Rightarrow> string \<Rightarrow> bool action" where
  "claim_recipient_slot a now email =
     (let hash = hash_token a email in
      and_then (reading (\<lambda>d. sent_row d hash)) (\<lambda>existing.
      if (case existing of None \<Rightarrow> False
          | Some r \<Rightarrow> ps_count r \<ge> RECIPIENT_LIFETIME_LIMIT
              \<or> now - ps_last r < minutes RECIPIENT_COOLDOWN_MINUTES)
      then done_with False
      else and_then (writing (\<lambda>d. d\<lparr>preview_sends :=
          (if existing = None
           then preview_sends d @ [\<lparr>ps_hash = hash, ps_last = now, ps_count = 1\<rparr>]
           else update_where (\<lambda>r. ps_hash r = hash)
             (\<lambda>r. r\<lparr>ps_last := now, ps_count := ps_count r + 1\<rparr>) (preview_sends d))\<rparr>))
        (\<lambda>_. done_with True)))"

definition report_lines :: "preview \<Rightarrow> (string \<times> string \<times> bool) list" where
  "report_lines p = map (\<lambda>o'. (ob_label o', ob_value o', ob_finding o')) (pv_observations p)"

definition report_answer :: string where
  "report_answer = ''If that address can receive it, the report is on its way.''"

definition email_preview ::
  "app \<Rightarrow> preview_net \<Rightarrow> date_format \<Rightarrow> time \<Rightarrow> string \<Rightarrow> email_preview_request \<Rightarrow> string action" where
  "email_preview a n fmt now peer body =
     and_then (preview_limited a now peer) (\<lambda>_.
     and_then (of_result (normalize_recipient (epr_email body))) (\<lambda>email.
     and_then (of_result (map_err preview_failure (run_check n fmt now (epr_domain body)))) (\<lambda>result.
     and_then (of_result (map_err (\<lambda>e. BadRequest (domain_error_msg e))
         (normalize_target (epr_domain body)))) (\<lambda>domain.
     and_then (claim_recipient_slot a now email) (\<lambda>claimed.
     if \<not> claimed then done_with report_answer
     else and_then (mailing a email (PreviewReportEmail domain (report_lines result) (ap_url a)))
       (\<lambda>_. done_with report_answer))))))"

subsection \<open>On the page\<close>

definition counting :: "headers \<Rightarrow> string \<Rightarrow> time \<Rightarrow> unit action" where
  "counting h event now = writing (record_event h event now)"

definition outcome_event :: "preview_error + preview \<Rightarrow> string" where
  "outcome_event r =
     (case r of Inr _ \<Rightarrow> ''preview_completed'' | Inl (PreviewInvalid _) \<Rightarrow> ''preview_rejected''
      | Inl (PreviewUnreachable _) \<Rightarrow> ''preview_failed'')"

definition run_preview ::
  "app \<Rightarrow> preview_net \<Rightarrow> date_format \<Rightarrow> headers \<Rightarrow> time \<Rightarrow> string \<Rightarrow> string \<Rightarrow> preview_response action" where
  "run_preview a n fmt h now peer input =
     and_then (preview_limited a now peer) (\<lambda>_.
     and_then (counting h ''preview_started'' now) (\<lambda>_.
     let checked = run_check n fmt now input in
     and_then (counting h (outcome_event checked) now) (\<lambda>_.
     and_then (of_result (map_err preview_failure checked)) (\<lambda>result.
     and_then (of_result (map_err (\<lambda>e. BadRequest (domain_error_msg e)) (normalize_target input))) (\<lambda>domain.
     done_with \<lparr>pr_domain = domain, pr_observations = pv_observations result,
       pr_notes = pv_notes result, pr_caveat = CAVEAT\<rparr>)))))"

subsection \<open>How many reports an address gets\<close>

definition is_report :: "message \<Rightarrow> bool" where
  "is_report m = (case m of PreviewReportEmail _ _ _ \<Rightarrow> True | _ \<Rightarrow> False)"

definition reports_to :: "app \<Rightarrow> string \<Rightarrow> outbox \<Rightarrow> int" where
  "reports_to a hash mails =
     int (length (filter (\<lambda>m. is_report (snd m) \<and> hash_token a (fst m) = hash) mails))"

definition slots_taken :: "db \<Rightarrow> string \<Rightarrow> int" where
  "slots_taken d hash = (case sent_row d hash of None \<Rightarrow> 0 | Some r \<Rightarrow> ps_count r)"

definition within_slots :: "app \<Rightarrow> world \<Rightarrow> bool" where
  "within_slots a w \<longleftrightarrow>
     (\<forall>hash. reports_to a hash (w_mail w) \<le> slots_taken (w_db w) hash
        \<and> slots_taken (w_db w) hash \<le> RECIPIENT_LIFETIME_LIMIT)"

text \<open>What happens on the process: free reports asked for, at any time and by anyone, and any other change
  that leaves the recipients' table and sends no free report.\<close>

inductive report_run :: "app \<Rightarrow> world \<Rightarrow> world \<Rightarrow> bool" for a where
  start: "report_run a w w"
| asked: "report_run a w u \<Longrightarrow> report_run a w (snd (email_preview a n fmt now peer body u))"
| other: "report_run a w u \<Longrightarrow> preview_sends (w_db v) = preview_sends (w_db u) \<Longrightarrow>
    filter (\<lambda>m. is_report (snd m)) (w_mail v) = filter (\<lambda>m. is_report (snd m)) (w_mail u) \<Longrightarrow>
    report_run a w v"

lemma slots_after_insert:
  "sent_row d hash = None \<Longrightarrow>
     slots_taken (d\<lparr>preview_sends := preview_sends d @ [\<lparr>ps_hash = hash, ps_last = now, ps_count = 1\<rparr>]\<rparr>) h
       = slots_taken d h + (if h = hash then 1 else 0)"
  by (auto simp: slots_taken_def sent_row_def find_append split: option.splits)

lemma slots_after_update:
  assumes "sent_row d hash = Some r"
  shows "slots_taken (d\<lparr>preview_sends := update_where (\<lambda>r. ps_hash r = hash)
      (\<lambda>r. r\<lparr>ps_last := now, ps_count := ps_count r + 1\<rparr>) (preview_sends d)\<rparr>) h
    = slots_taken d h + (if h = hash then 1 else 0)"
proof -
  have found: "find (\<lambda>r. ps_hash r = h) (update_where (\<lambda>r. ps_hash r = hash)
      (\<lambda>r. r\<lparr>ps_last := now, ps_count := ps_count r + 1\<rparr>) rows)
    = map_option (\<lambda>r. if h = hash then r\<lparr>ps_last := now, ps_count := ps_count r + 1\<rparr> else r)
        (find (\<lambda>r. ps_hash r = h) rows)" for rows
    by (induction rows) (auto simp: update_where_def)
  show ?thesis
    using assms found[of "preview_sends d"]
    by (cases "h = hash") (simp_all add: slots_taken_def sent_row_def option.map_ident)
qed

lemma claim_recipient_slot_cases:
  obtains (refused) "claim_recipient_slot a now email w = (Inr False, w)"
  | (granted) w' where "claim_recipient_slot a now email w = (Inr True, w')" "w_mail w' = w_mail w"
      "slots_taken (w_db w) (hash_token a email) < RECIPIENT_LIFETIME_LIMIT"
      "\<And>h. slots_taken (w_db w') h
          = slots_taken (w_db w) h + (if h = hash_token a email then 1 else 0)"
proof (cases "sent_row (w_db w) (hash_token a email)")
  case None
  have "slots_taken (w_db w) (hash_token a email) < RECIPIENT_LIFETIME_LIMIT"
    using None by (simp add: slots_taken_def RECIPIENT_LIFETIME_LIMIT_def)
  then show ?thesis
    using None slots_after_insert[OF None]
    by (intro granted[where w' = "snd (claim_recipient_slot a now email w)"])
      (simp_all add: claim_recipient_slot_def Let_def done_with_def)
next
  case (Some r)
  show ?thesis
  proof (cases "ps_count r \<ge> RECIPIENT_LIFETIME_LIMIT \<or> now - ps_last r < minutes RECIPIENT_COOLDOWN_MINUTES")
    case True
    then show ?thesis
      using Some by (intro refused) (simp add: claim_recipient_slot_def Let_def done_with_def)
  next
    case False
    then have "slots_taken (w_db w) (hash_token a email) < RECIPIENT_LIFETIME_LIMIT"
      using Some by (simp add: slots_taken_def)
    then show ?thesis
      using Some False slots_after_update[OF Some]
      by (intro granted[where w' = "snd (claim_recipient_slot a now email w)"])
        (simp_all add: claim_recipient_slot_def Let_def done_with_def)
  qed
qed

lemma preview_limited_frame:
  "w_mail (snd (preview_limited a now peer w)) = w_mail w"
  "preview_sends (w_db (snd (preview_limited a now peer w))) = preview_sends (w_db w)"
  by (simp_all add: preview_limited_def check_shared_def Let_def split: prod.split)

lemma slots_taken_cong: "preview_sends d' = preview_sends d \<Longrightarrow> slots_taken d' = slots_taken d"
  by (simp add: slots_taken_def sent_row_def fun_eq_iff)

lemma reports_to_append:
  "reports_to a h (mails @ [(to, m)]) = reports_to a h mails + (if is_report m \<and> hash_token a to = h then 1 else 0)"
  by (simp add: reports_to_def)

lemma claimed_mail_within_slots:
  assumes "within_slots a w"
  shows "within_slots a (snd (and_then (claim_recipient_slot a now email) (\<lambda>claimed.
     if \<not> claimed then done_with report_answer
     else and_then (mailing a email (PreviewReportEmail site lines url)) (\<lambda>_. done_with report_answer)) w))"
proof (cases rule: claim_recipient_slot_cases[of a now email w])
  case refused
  then show ?thesis using assms by (simp add: and_then_def done_with_def)
next
  case (granted w')
  have old: "reports_to a h (w_mail w) \<le> slots_taken (w_db w) h"
      "slots_taken (w_db w) h \<le> RECIPIENT_LIFETIME_LIMIT" for h
    using assms by (simp_all add: within_slots_def)
  have "reports_to a h (w_mail w) \<le> slots_taken (w_db w) h + 1" for h using old(1)[of h] by linarith
  then show ?thesis
    using granted old
    by (auto simp: and_then_def mailing_def deliver_mail_def done_with_def within_slots_def
        reports_to_append is_report_def)
qed

lemma email_preview_within_slots:
  assumes "within_slots a w"
  shows "within_slots a (snd (email_preview a n fmt now peer body w))"
proof -
  obtain ok u where limited: "preview_limited a now peer w = (ok, u)" by fastforce
  have u: "within_slots a u"
    using assms preview_limited_frame[of a now peer w] slots_taken_cong[of "w_db u" "w_db w"] limited
    by (simp add: within_slots_def)
  then show ?thesis
    using claimed_mail_within_slots[OF u] limited
    unfolding email_preview_def and_then_def[of "preview_limited a now peer"]
    by (auto simp: and_then_def[of "of_result r" for r] of_result_def split: sum.split prod.split)
qed

lemma report_run_within_slots:
  "report_run a w v \<Longrightarrow> within_slots a w \<Longrightarrow> within_slots a v"
proof (induction rule: report_run.induct)
  case (asked w u n fmt now peer body)
  then show ?case by (simp add: email_preview_within_slots)
next
  case (other w u v)
  have "reports_to a h (w_mail v) = reports_to a h (w_mail u)" for h
    using arg_cong[OF other.hyps(3), of "\<lambda>ms. length (filter (\<lambda>m. hash_token a (fst m) = h) ms)"]
    by (simp add: reports_to_def conj_commute)
  then show ?case
    using other slots_taken_cong[OF other.hyps(2)] by (simp add: within_slots_def)
qed

text \<open>C10: An address is sent at most twelve free reports ever, whoever asks, from however many clients and
  with whatever else going on in between.\<close>

theorem recipient_gets_at_most_twelve:
  assumes "report_run a w v" "preview_sends (w_db w) = []" "w_mail w = []"
  shows "length (filter (\<lambda>(to, m). to = email \<and> is_report m) (w_mail v)) \<le> 12"
proof -
  have "within_slots a w"
    using assms(2,3) by (simp add: within_slots_def reports_to_def slots_taken_def sent_row_def
        RECIPIENT_LIFETIME_LIMIT_def)
  then have "reports_to a (hash_token a email) (w_mail v) \<le> 12"
    using report_run_within_slots[OF assms(1)] unfolding within_slots_def RECIPIENT_LIFETIME_LIMIT_def
    by (meson order_trans)
  have "length (filter (\<lambda>(to, m). to = email \<and> is_report m) ms)
      \<le> length (filter (\<lambda>m. is_report (snd m) \<and> hash_token a (fst m) = hash_token a email) ms)" for ms
    by (induction ms) auto
  from this[of "w_mail v"] show ?thesis
    using \<open>reports_to a (hash_token a email) (w_mail v) \<le> 12\<close> unfolding reports_to_def by linarith
qed

definition free_app :: app where
  "free_app = \<lparr>ap_env = (\<lambda>_. None), ap_debug = False, ap_url = ''https://g.app'', ap_deliver = (\<lambda>_ _. True),
     ap_stripe = (\<lambda>_ _. NoReply []), ap_locked = (\<lambda>_. False), ap_sha256 = id,
     ap_hmac = (\<lambda>_ _. None), ap_lower = id, ap_json = (\<lambda>_. None), ap_show_uuid = show_nat,
     ap_read_uuid = (\<lambda>_. None)\<rparr>"

definition fresh_world :: world where
  "fresh_world = \<lparr>w_db = \<lparr>users = [], targets = [], proofs = [], authorizations = [], jobs = [], results = [],
     entitlements = [], claims = [], events = [], consents = [], preview_sends = [], buckets = [], growth = []\<rparr>,
     w_calls = [], w_mail = []\<rparr>"

theorem recipient_gets_at_most_twelve_witness:
  "length (filter (\<lambda>(to, m). to = ''o@a'' \<and> is_report m)
     (w_mail (snd (email_preview free_app quiet_net plain_dates 0 ''p''
        \<lparr>epr_domain = ''example.com'', epr_email = ''o@a''\<rparr> fresh_world)))) \<le> 12"
  by (rule recipient_gets_at_most_twelve[where a = free_app and w = fresh_world])
    (auto intro: report_run.intros simp: fresh_world_def)

end
