(* ===== verification/Report.thy ===== *)
theory Report
  imports Triage Mail
begin

text \<open>
  \<open>crates/report/src/html.rs\<close>: the report an agency forwards.  The functions append to one buffer; here
  each is the text it appends.  The stylesheet (a file) and chrono's long date are arguments.
\<close>

definition nl :: string where "nl = [CHR 0x0A]"
definition middle_dot :: string where "middle_dot = [CHR 0xC2, CHR 0xB7]"

record report_meta =
  agency_name :: string
  agency_logo_url :: "string option"
  client_name :: string
  target_domain :: string
  scanned_at :: time

definition escape_char :: "char \<Rightarrow> string" where
  "escape_char c =
     (if c = CHR ''&'' then ''&amp;''
      else if c = CHR ''<'' then ''&lt;''
      else if c = CHR ''>'' then ''&gt;''
      else if c = CHR 0x22 then ''&quot;''
      else if c = CHR 0x27 then ''&#x27;''
      else [c])"

definition escape :: "string \<Rightarrow> string" where
  "escape s = concat (map escape_char s)"

definition image_prefixes :: "string list" where
  "image_prefixes =
     [''https://'', ''data:image/png;base64,'', ''data:image/jpeg;base64,'',
      ''data:image/svg+xml;base64,'', ''data:image/webp;base64,'']"

definition safe_image_src :: "string \<Rightarrow> string option" where
  "safe_image_src url =
     (if list_ex (\<lambda>p. prefix p (to_ascii_lowercase (trim url))) image_prefixes
      then Some (escape (trim url)) else None)"

fun priority_label :: "priority \<Rightarrow> string" where
  "priority_label PUrgent = ''Urgent''"
| "priority_label PHigh = ''High''"
| "priority_label PMedium = ''Medium''"
| "priority_label PLow = ''Low''"
| "priority_label PNone = ''Noted''"

fun priority_class :: "priority \<Rightarrow> string" where
  "priority_class PUrgent = ''p-urgent''"
| "priority_class PHigh = ''p-high''"
| "priority_class PMedium = ''p-medium''"
| "priority_class PLow = ''p-low''"
| "priority_class PNone = ''p-none''"

definition report_headline :: "triaged_scan \<Rightarrow> string" where
  "report_headline scan =
     (if needs_attention scan = 0 then ''No issues requiring action were found.''
      else if needs_attention scan = 1 then ''One issue needs attention.''
      else show_nat (needs_attention scan) @ '' issues need attention.'')"

text \<open>Every scalar as a CSS escape.\<close>

definition css_text :: "string \<Rightarrow> string" where
  "css_text s = concat (map (\<lambda>c. CHR 0x5C # show_hex (scalar_value c) @ '' '') (scalars s))"

definition render_save_bar :: string where
  \<open>render_save_bar =
     ''<div class="save">'' @ nl
     @ ''<button type="button" onclick="window.print()">Save as PDF</button>'' @ nl
     @ ''<span>Use Print or Ctrl/Cmd+P, then choose &ldquo;Save as PDF&rdquo;. ''
     @ ''Turn off browser headers and footers.</span>'' @ nl
     @ ''</div>'' @ nl\<close>

definition render_logo :: "report_meta \<Rightarrow> string" where
  \<open>render_logo meta =
     (case Option.bind (agency_logo_url meta) safe_image_src of
        None \<Rightarrow> []
      | Some logo \<Rightarrow>
          ''<img class="logo" src="'' @ logo @ ''" alt="'' @ escape (agency_name meta) @ ''">'' @ nl)\<close>

definition render_header :: "(time \<Rightarrow> string) \<Rightarrow> report_meta \<Rightarrow> triaged_scan \<Rightarrow> string" where
  \<open>render_header long_date meta scan =
     ''<header class="cover">'' @ nl
     @ render_logo meta
     @ ''<p class="by">Prepared by '' @ escape (agency_name meta) @ ''</p>'' @ nl
     @ ''<h1>Website security review</h1>'' @ nl
     @ ''<p class="subject"><strong>'' @ escape (target_domain meta) @ ''</strong> '' @ em_dash
     @ '' prepared for '' @ escape (client_name meta) @ ''</p>'' @ nl
     @ ''<p class="date">Scanned '' @ escape (trim (long_date (scanned_at meta))) @ ''</p>'' @ nl
     @ ''<div class="overview"><p class="headline">'' @ escape (report_headline scan) @ ''</p>'' @ nl
     @ ''<p class="summary-note">A snapshot of the website's public surface. Use the findings below to plan ''
     @ ''fixes and review decisions.</p>'' @ nl
     @ ''<dl class="tally">'' @ nl
     @ ''<div><dt>Need attention</dt><dd>'' @ show_nat (length (actionable scan)) @ ''</dd></div>'' @ nl
     @ ''<div><dt>Worth a decision</dt><dd>'' @ show_nat (length (review scan)) @ ''</dd></div>'' @ nl
     @ ''<div><dt>For reference</dt><dd>'' @ show_nat (length (inventory scan)) @ ''</dd></div>'' @ nl
     @ ''</dl></div>'' @ nl @ ''</header>'' @ nl\<close>

text \<open>\<open>iter().enumerate()\<close> with \<open>index + 1\<close>.\<close>

definition numbered :: "(triaged \<Rightarrow> nat \<Rightarrow> string) \<Rightarrow> triaged list \<Rightarrow> string" where
  "numbered item findings = concat (map (\<lambda>(n, f). item f (Suc n)) (enumerate 0 findings))"

definition plan_item :: "triaged \<Rightarrow> nat \<Rightarrow> string" where
  \<open>plan_item finding n =
     ''<li><span class="pill '' @ priority_class (t_priority finding) @ ''">''
     @ priority_label (t_priority finding) @ ''</span><a href="#action-'' @ show_nat n @ ''">''
     @ escape (t_title finding)
     @ ''<span class="plan-arrow" aria-hidden="true"> &rarr;</span></a></li>'' @ nl\<close>

definition render_action_plan :: "triaged_scan \<Rightarrow> string" where
  \<open>render_action_plan scan =
     ''<nav class="report-nav" aria-label="Report sections"><a href="#actions">Action required</a>''
     @ (if review scan \<noteq> [] then ''<a href="#decisions">Decisions</a>'' else [])
     @ (if inventory scan \<noteq> [] then ''<a href="#reference">Reference</a>'' else [])
     @ ''<a href="#scope">Scope &amp; limits</a></nav>'' @ nl
     @ (if actionable scan = [] then []
        else
          ''<section class="action-plan"><h2>Start with these actions</h2><p class="blurb">Review these ''
          @ ''priorities with the team responsible for the website. Each item links to its evidence and ''
          @ ''recommended fix.</p><ol class="plan-list">'' @ nl
          @ numbered plan_item (take 3 (actionable scan))
          @ ''</ol>''
          @ (if length (actionable scan) > 3
             then ''<a class="all-actions" href="#actions">View all ''
               @ show_nat (length (actionable scan)) @ '' actions</a>''
             else [])
          @ ''</section>'' @ nl)\<close>

definition render_guidance :: "guidance option \<Rightarrow> string" where
  \<open>render_guidance g =
     (case g of
        Some x \<Rightarrow>
          ''<div class="finding-body"><div class="impact"><h4>Why it matters</h4><p class="why">''
          @ escape (g_why x) @ ''</p></div>'' @ nl
          @ ''<div class="fix"><h4 class="fix-label">What to do</h4><p>'' @ escape (g_fix x)
          @ ''</p></div></div>'' @ nl
      | None \<Rightarrow>
          ''<p class="why">Confirm this observation with the website team and decide whether a change is ''
          @ ''needed. No specific remediation guidance is available for this finding.</p>'' @ nl)\<close>

definition render_evidence :: "string option \<Rightarrow> string" where
  \<open>render_evidence e =
     (case e of
        None \<Rightarrow> []
      | Some x \<Rightarrow>
          ''<div class="evidence"><h4 class="evidence-label">Observed evidence</h4><code>'' @ escape x
          @ ''</code></div>'' @ nl)\<close>

definition render_finding :: "string \<Rightarrow> triaged \<Rightarrow> nat \<Rightarrow> string" where
  \<open>render_finding pre finding number =
     ''<article class="finding" id="'' @ pre @ ''-'' @ show_nat number @ ''">'' @ nl
     @ ''<div class="finding-head"><span class="finding-ref">''
     @ (if pre = ''action'' then ''Action'' else ''Decision'') @ '' '' @ pad2 (int number) @ ''</span>'' @ nl
     @ ''<span class="pill '' @ priority_class (t_priority finding) @ ''">''
     @ escape (priority_label (t_priority finding)) @ ''</span>'' @ nl
     @ ''<h3>'' @ escape (t_title finding) @ ''</h3>'' @ nl
     @ ''</div>'' @ nl
     @ (if t_occurrences finding > 1
        then ''<p class="seen">Observed '' @ show_nat (t_occurrences finding) @ '' times.</p>'' @ nl
        else [])
     @ render_guidance (t_guidance finding)
     @ render_evidence (t_evidence finding)
     @ ''</article>'' @ nl\<close>

definition render_section :: "string \<Rightarrow> string \<Rightarrow> triaged list \<Rightarrow> disposition \<Rightarrow> string" where
  \<open>render_section heading blurb findings disposition =
     (if findings = [] then
        (if disposition = Act
         then ''<section id="actions">'' @ nl @ ''<h2>Needs attention</h2>'' @ nl
           @ ''<p class="empty">Nothing in this scan requires a fix.</p>'' @ nl @ ''</section>'' @ nl
         else [])
      else
        (let (section_id, pre) =
           (if disposition = Act then (''actions'', ''action'') else (''decisions'', ''decision'')) in
         ''<section id="'' @ section_id @ ''">'' @ nl
         @ ''<h2>'' @ escape heading @ ''</h2>'' @ nl
         @ ''<p class="blurb">'' @ escape blurb @ ''</p>'' @ nl
         @ numbered (render_finding pre) findings
         @ ''</section>'' @ nl))\<close>

definition render_inventory :: "triaged_scan \<Rightarrow> string" where
  \<open>render_inventory scan =
     (if inventory scan = [] then []
      else
        ''<section class="'' @ (if length (inventory scan) > 8 then ''appendix appendix-long'' else ''appendix'')
        @ ''" id="reference">'' @ nl @ ''<h2>For reference</h2>'' @ nl
        @ ''<p class="blurb">Observations kept for context, not classified as actions or decisions. These are ''
        @ ''not a count of passed security tests.</p>'' @ nl @ ''<ul>'' @ nl
        @ concat (map (\<lambda>f. ''<li>'' @ escape (t_title f) @ ''</li>'' @ nl) (inventory scan))
        @ ''</ul>'' @ nl @ ''</section>'' @ nl)\<close>

definition render_running_footer :: "(time \<Rightarrow> string) \<Rightarrow> report_meta \<Rightarrow> string" where
  \<open>render_running_footer long_date meta =
     ''<div class="running">'' @ escape (target_domain meta) @ '' &middot; prepared by ''
     @ escape (agency_name meta) @ '' &middot; '' @ escape (trim (long_date (scanned_at meta)))
     @ ''</div>'' @ nl\<close>

definition render_footer :: "report_meta \<Rightarrow> string" where
  \<open>render_footer meta =
     ''<footer id="scope">'' @ nl @ ''<h2>Scope &amp; limits</h2>'' @ nl
     @ ''<p>Prepared by '' @ escape (agency_name meta) @ '' for '' @ escape (client_name meta) @ ''.</p>'' @ nl
     @ ''<p class="caveat">An automated scan reports what it can observe from outside. ''
     @ ''Findings describe the scan date; they do not prove a website is secure today. ''
     @ ''This report is not a manual penetration test or a compliance certification.</p>'' @ nl
     @ ''</footer>'' @ nl\<close>

text \<open>The title, and the identity band of the printed page, inside a style element.\<close>

definition render_head :: "(time \<Rightarrow> string) \<Rightarrow> string \<Rightarrow> report_meta \<Rightarrow> string" where
  \<open>render_head long_date styles meta =
     ''<!doctype html>'' @ nl @ ''<html lang="en">'' @ nl @ ''<head>'' @ nl
     @ ''<meta charset="utf-8">'' @ nl
     @ ''<meta name="viewport" content="width=device-width, initial-scale=1">'' @ nl
     @ ''<title>Security review '' @ em_dash @ '' '' @ escape (target_domain meta) @ '' '' @ em_dash @ '' ''
     @ escape (trim (long_date (scanned_at meta))) @ ''</title>'' @ nl
     @ ''<style>'' @ nl @ styles @ nl @ ''</style>'' @ nl
     @ ''<style>@page { @bottom-center { content: "''
     @ css_text (target_domain meta @ '' '' @ middle_dot @ '' prepared by '' @ agency_name meta @ '' ''
         @ middle_dot @ '' '' @ long_date (scanned_at meta))
     @ ''"; font: 8pt/1.4 'Segoe UI', sans-serif; color: #695174; vertical-align: middle; ''
     @ ''overflow-wrap: anywhere; } }</style>'' @ nl
     @ ''</head>'' @ nl\<close>

definition render_html :: "(time \<Rightarrow> string) \<Rightarrow> string \<Rightarrow> report_meta \<Rightarrow> triaged_scan \<Rightarrow> string" where
  \<open>render_html long_date styles meta scan =
     render_head long_date styles meta
     @ ''<body>'' @ nl
     @ render_running_footer long_date meta
     @ render_save_bar
     @ ''<main class="report" id="report">'' @ nl
     @ render_header long_date meta scan
     @ render_action_plan scan
     @ render_section ''Needs attention'' ''Findings with a concrete fix, most important first.''
         (actionable scan) Act
     @ render_section ''Worth a decision'' ''Whether these matter depends on how the site is used.''
         (review scan) Review
     @ render_inventory scan
     @ render_footer meta
     @ ''</main>'' @ nl
     @ ''</body>'' @ nl @ ''</html>'' @ nl\<close>

subsection \<open>Nothing a scanned site or a customer says becomes markup\<close>

text \<open>The characters with which text can open or close a tag or an attribute.\<close>

definition marks :: "char \<Rightarrow> bool" where
  "marks c \<longleftrightarrow> c \<in> {CHR ''<'', CHR ''>'', CHR 0x22, CHR 0x27}"

definition markup :: "string \<Rightarrow> string" where
  "markup s = filter marks s"

lemma markup_append: "markup (s @ t) = markup s @ markup t"
  by (simp add: markup_def)

lemma markup_concat: "markup (concat ss) = concat (map markup ss)"
  by (induction ss) (simp_all add: markup_def)

lemma markup_Nil_iff: "markup s = [] \<longleftrightarrow> (\<forall>c\<in>set s. \<not> marks c)"
  by (simp add: markup_def filter_empty_conv)

lemma markup_escape: "markup (escape s) = []"
proof -
  have "markup (escape_char c) = []" for c
    by (simp add: escape_char_def markup_def marks_def)
  then show ?thesis by (simp add: escape_def markup_concat)
qed

lemma marks_codes: "marks c \<Longrightarrow> code_of c \<in> {34, 39, 60, 62}"
  by (auto simp: marks_def code_of_def)

lemma markup_show_nat: "markup (show_nat n) = []"
proof -
  have "\<not> marks c" if "c \<in> set (show_nat n)" for c
    using show_nat_digits[of n] that marks_codes[of c] by (auto simp: list_all_iff is_digit_def)
  then show ?thesis by (simp add: markup_Nil_iff)
qed

lemma hex_digit_plain: "d < 16 \<Longrightarrow> \<not> marks (hex_digit d)"
  using marks_codes[of "hex_digit d"] by (auto simp: hex_digit_def code_of_def)

lemma markup_show_hex: "markup (show_hex n) = []"
proof (induction n rule: show_hex.induct)
  case (1 n)
  then show ?case
    by (subst show_hex.simps) (simp add: markup_append, simp add: markup_def hex_digit_plain)
qed

lemma markup_css: "markup (css_text s) = []"
proof -
  have "markup (CHR 0x5C # show_hex n @ '' '') = []" for n
    using markup_append[of "[CHR 0x5C]" "show_hex n @ '' ''"] markup_append[of "show_hex n" "'' ''"] markup_show_hex[of n]
    by (simp add: markup_def marks_def)
  then show ?thesis by (simp add: css_text_def markup_concat comp_def)
qed

lemma markup_pad2: "markup (pad2 (int n)) = []"
  using markup_show_nat[of n] by (simp add: pad2_def show_int_def, simp add: markup_def marks_def)

lemma markup_label: "markup (priority_label p) = []"
  by (cases p) (simp_all add: markup_def marks_def)

lemmas markup_simps = markup_append markup_escape markup_show_nat markup_css markup_pad2 markup_label

text \<open>What the layout depends on: how many findings there are in each section, the priority of each, whether
  it was seen more than once and has guidance and evidence, and whether there is a logo to show.\<close>

definition item_shape :: "triaged \<Rightarrow> priority \<times> bool \<times> bool \<times> bool" where
  "item_shape f = (t_priority f, t_occurrences f > 1, t_guidance f = None, t_evidence f = None)"

definition report_shape ::
    "report_meta \<Rightarrow> triaged_scan \<Rightarrow> (priority \<times> bool \<times> bool \<times> bool) list list \<times> nat \<times> bool" where
  "report_shape meta scan =
     ([map item_shape (actionable scan), map item_shape (review scan)], length (inventory scan),
      Option.bind (agency_logo_url meta) safe_image_src = None)"

lemma markup_src: "safe_image_src url = Some l \<Longrightarrow> markup l = []"
  by (auto simp: safe_image_src_def markup_escape split: if_splits)

lemma markup_empty [simp]: "markup [] = []"
  by (simp add: markup_def)

lemma markup_numbered:
  assumes "map item_shape fs = map item_shape gs"
    and "\<And>f g n. item_shape f = item_shape g \<Longrightarrow> markup (item f n) = markup (item g n)"
  shows "markup (numbered item fs) = markup (numbered item gs)"
proof -
  have "length fs = length gs" using assms(1) by (rule map_eq_imp_length_eq)
  then have "markup (concat (map (\<lambda>(n, f). item f (Suc n)) (enumerate k fs)))
      = markup (concat (map (\<lambda>(n, f). item f (Suc n)) (enumerate k gs)))" for k
    using assms(1)
  proof (induction fs gs arbitrary: k rule: list_induct2)
    case (Cons f fs g gs)
    then show ?case using assms(2)[of f g "Suc k"] by (simp add: markup_append)
  qed simp
  then show ?thesis by (simp add: numbered_def)
qed

lemma markup_plan_item: "item_shape f = item_shape g \<Longrightarrow> markup (plan_item f n) = markup (plan_item g n)"
  by (simp add: plan_item_def markup_simps item_shape_def del: append.simps)

lemma markup_guidance: "(g = None) = (h = None) \<Longrightarrow> markup (render_guidance g) = markup (render_guidance h)"
  by (cases g; cases h) (simp_all add: render_guidance_def markup_simps del: append.simps)

lemma markup_evidence: "(e = None) = (f = None) \<Longrightarrow> markup (render_evidence e) = markup (render_evidence f)"
  by (cases e; cases f) (simp_all add: render_evidence_def markup_simps del: append.simps)

lemma markup_finding:
  assumes "item_shape f = item_shape g"
  shows "markup (render_finding pre f n) = markup (render_finding pre g n)"
  using assms markup_guidance[of "t_guidance f" "t_guidance g"] markup_evidence[of "t_evidence f" "t_evidence g"]
  by (simp add: render_finding_def markup_simps item_shape_def del: append.simps)

lemma markup_section:
  assumes "map item_shape fs = map item_shape gs"
  shows "markup (render_section heading blurb fs d) = markup (render_section heading blurb gs d)"
proof -
  have "fs = [] \<longleftrightarrow> gs = []" using assms by auto
  moreover have "markup (numbered (render_finding pre) fs) = markup (numbered (render_finding pre) gs)" for pre
    using assms markup_finding by (rule markup_numbered)
  ultimately show ?thesis
    by (simp add: render_section_def markup_append split: prod.split del: append.simps)
qed

lemma markup_plan:
  assumes "map item_shape (actionable s) = map item_shape (actionable s')"
    "review s = [] \<longleftrightarrow> review s' = []" "inventory s = [] \<longleftrightarrow> inventory s' = []"
  shows "markup (render_action_plan s) = markup (render_action_plan s')"
proof -
  have "map item_shape (take 3 (actionable s)) = map item_shape (take 3 (actionable s'))"
    using assms(1) by (simp add: take_map[symmetric])
  then have "markup (numbered plan_item (take 3 (actionable s))) = markup (numbered plan_item (take 3 (actionable s')))"
    using markup_plan_item by (rule markup_numbered)
  moreover have "length (actionable s) = length (actionable s')" using assms(1) by (rule map_eq_imp_length_eq)
  moreover have "actionable s = [] \<longleftrightarrow> actionable s' = []" using assms(1) by auto
  ultimately show ?thesis
    using assms(2,3) by (simp add: render_action_plan_def markup_simps del: append.simps)
qed

lemma markup_inventory:
  assumes "length (inventory s) = length (inventory s')"
  shows "markup (render_inventory s) = markup (render_inventory s')"
proof -
  have "markup (concat (map (\<lambda>f. ''<li>'' @ escape (t_title f) @ ''</li>'' @ nl) fs))
      = concat (replicate (length fs) (markup ''<li>'' @ markup ''</li>'' @ markup nl))" for fs
    by (induction fs) (simp_all add: markup_simps del: append.simps)
  note items = this[of "inventory s"] this[of "inventory s'"]
  have "inventory s = [] \<longleftrightarrow> inventory s' = []" using assms by auto
  then show ?thesis
    unfolding render_inventory_def markup_append if_distrib[of markup] items assms by simp
qed

lemma markup_logo:
  \<open>markup (render_logo m) = (if Option.bind (agency_logo_url m) safe_image_src = None then []
     else markup ''<img class="logo" src="'' @ markup ''" alt="'' @ markup ''">'' @ markup nl)\<close>
proof (cases "Option.bind (agency_logo_url m) safe_image_src")
  case (Some l)
  then have "markup l = []" by (auto simp: bind_eq_Some_conv dest: markup_src)
  then show ?thesis by (simp add: render_logo_def Some markup_simps del: append.simps)
qed (simp add: render_logo_def)

lemma markup_header:
  assumes "(Option.bind (agency_logo_url m) safe_image_src = None) = (Option.bind (agency_logo_url m') safe_image_src = None)"
  shows "markup (render_header ld m s) = markup (render_header ld m' s')"
proof -
  have "markup (render_logo m) = markup (render_logo m')"
    using assms markup_logo[of m] markup_logo[of m'] by simp
  then show ?thesis by (simp add: render_header_def markup_simps del: append.simps)
qed

text \<open>C12: nothing that was scanned and nothing a customer typed becomes markup.  The characters of the
  document that can open or close a tag or an attribute are the same, in the same order, for any two
  reports of the same layout, whatever their titles, evidence, guidance, names, dates and logo say.\<close>

theorem report_markup_fixed:
  assumes "report_shape meta scan = report_shape meta' scan'"
  shows "markup (render_html long_date styles meta scan) = markup (render_html long_date styles meta' scan')"
proof -
  note s = assms[unfolded report_shape_def prod.inject list.inject]
  have l: "inventory scan = [] \<longleftrightarrow> inventory scan' = []" "review scan = [] \<longleftrightarrow> review scan' = []"
    using s by auto
  show ?thesis
    using s l markup_plan[of scan scan'] markup_inventory[of scan scan']
      markup_header[of meta meta' long_date scan scan'] markup_section[of "actionable scan" "actionable scan'"]
      markup_section[of "review scan" "review scan'"]
    by (simp add: render_html_def render_head_def render_running_footer_def render_footer_def markup_simps
        del: append.simps)
qed

definition demo_finding_item :: "string \<Rightarrow> triaged" where
  "demo_finding_item title = \<lparr>t_title = title, t_disposition = Act, t_priority = PHigh, t_severity = High,
     t_guidance = None, t_evidence = Some title, t_template = [], t_matcher = [], t_occurrences = 1\<rparr>"

definition demo_meta :: "string \<Rightarrow> report_meta" where
  "demo_meta name = \<lparr>agency_name = name, agency_logo_url = None, client_name = name, target_domain = name,
     scanned_at = 0\<rparr>"

definition demo_report :: "string \<Rightarrow> triaged_scan" where
  "demo_report title = \<lparr>actionable = [demo_finding_item title], review = [], inventory = [demo_finding_item title]\<rparr>"

theorem report_markup_fixed_witness:
  "markup (render_html (\<lambda>_. ''1 May'') [] (demo_meta ''</title><script>'') (demo_report ''<img src=x>''))
   = markup (render_html (\<lambda>_. ''1 May'') [] (demo_meta ''Acme'') (demo_report ''ok''))"
  by (rule report_markup_fixed) (simp add: report_shape_def demo_meta_def demo_report_def demo_finding_item_def item_shape_def)

text \<open>An https logo is a request the document makes when it is opened.\<close>

lemma https_logo_is_fetched:
  assumes "agency_logo_url meta = Some (''https://'' @ rest)" "trim (''https://'' @ rest) = ''https://'' @ rest"
  shows "safe_image_src (''https://'' @ rest) = Some (escape (''https://'' @ rest))"
  using assms(2) by (simp add: safe_image_src_def image_prefixes_def to_ascii_lowercase_def lower_char_def is_upper_def code_of_def)

end
