(* ===== verification/Results.thy ===== *)
theory Results
  imports Accounts Report
begin

text \<open>
  \<open>crates/api/src/routes/results.rs\<close> and \<open>profile.rs\<close>: reading scans back, the report an agency
  forwards, and the branding it carries.  The handlers only read, but for \<open>update_profile\<close>.  The two
  renderings of a date are chrono's, the style sheet is a constant of the renderer.
\<close>

subsection \<open>Scans\<close>

record scan_summary =
  ss_id :: uid
  ss_target :: uid
  ss_domain :: string
  ss_tool :: string
  ss_status :: string
  ss_failure :: "string option"
  ss_created :: time
  ss_completed :: "time option"
  ss_findings :: int
  ss_actionable :: int

fun status_str :: "job_status \<Rightarrow> string" where
  "status_str Queued = ''queued''"
| "status_str Running = ''running''"
| "status_str Completed = ''completed''"
| "status_str Failed = ''failed''"

definition summary_of :: "db \<Rightarrow> job \<Rightarrow> target \<Rightarrow> scan_summary" where
  "summary_of d j t =
     \<lparr>ss_id = j_id j, ss_target = j_target j, ss_domain = tg_domain t, ss_tool = j_tool j,
      ss_status = status_str (j_status j), ss_failure = j_reason j, ss_created = j_created j,
      ss_completed = j_completed j,
      ss_findings = int (length (filter (\<lambda>r. r_job r = j_id j) (results d))), ss_actionable = 0\<rparr>"

text \<open>\<open>join targets t on t.id = j.target_id where t.user_id = \<dots>\<close>, in the order of the jobs.\<close>

definition owned_scans :: "db \<Rightarrow> uid \<Rightarrow> (job \<times> target) list" where
  "owned_scans d user =
     concat (map (\<lambda>j. map (\<lambda>t. (j, t)) (filter (\<lambda>t. tg_id t = j_target j \<and> tg_user t = user) (targets d)))
       (jobs d))"

text \<open>\<open>order by created_at desc\<close>.\<close>

definition newest_first :: "(job \<times> target) list \<Rightarrow> (job \<times> target) list" where
  "newest_first xs = sort_key (\<lambda>x. - j_created (fst x)) xs"

text \<open>The query over \<open>any($1)\<close> has no order: \<open>shuffle\<close> is the order the database gives the rows.\<close>

definition fill_actionable_counts ::
  "(result_row list \<Rightarrow> result_row list) \<Rightarrow> db \<Rightarrow> scan_summary list \<Rightarrow> scan_summary list" where
  "fill_actionable_counts shuffle d scans =
     (let ids = map ss_id (filter (\<lambda>s. ss_status s = ''completed'' \<and> ss_findings s > 0) scans);
          rows = shuffle (filter (\<lambda>r. r_job r \<in> set ids) (results d))
      in if ids = [] then scans
         else map (\<lambda>s.
           let own = filter (\<lambda>r. r_job r = ss_id s) rows in
           if own = [] then s
           else s\<lparr>ss_actionable := int (length (actionable (triage_scan (map finding_of_row own))))\<rparr>) scans)"

definition list_scans ::
  "(result_row list \<Rightarrow> result_row list) \<Rightarrow> uid \<Rightarrow> uid option \<Rightarrow> db \<Rightarrow> api_error + scan_summary list" where
  "list_scans shuffle user wanted d =
     Inr (fill_actionable_counts shuffle d
       (map (\<lambda>(j, t). summary_of d j t)
         (take 100 (newest_first (filter
           (\<lambda>(j, t). case wanted of None \<Rightarrow> True | Some i \<Rightarrow> j_target j = i) (owned_scans d user))))))"

definition load_summary :: "uid \<Rightarrow> uid \<Rightarrow> db \<Rightarrow> api_error + scan_summary" where
  "load_summary user scan_id d =
     ok_or NotFound (map_option (\<lambda>(j, t). summary_of d j t)
       (find (\<lambda>(j, t). j_id j = scan_id) (owned_scans d user)))"

definition stored_findings :: "db \<Rightarrow> uid \<Rightarrow> finding list" where
  "stored_findings d scan_id = map finding_of_row (filter (\<lambda>r. r_job r = scan_id) (results d))"

definition get_scan :: "uid \<Rightarrow> uid \<Rightarrow> db \<Rightarrow> api_error + scan_summary \<times> triaged_scan" where
  "get_scan user scan_id d =
     bind_res (load_summary user scan_id d) (\<lambda>summary.
       let triaged = triage_scan (stored_findings d scan_id) in
       Inr (summary\<lparr>ss_actionable := int (length (actionable triaged))\<rparr>, triaged))"

subsection \<open>The report as a download\<close>

record report_dates =
  rd_long :: "time \<Rightarrow> string"
  rd_iso :: "time \<Rightarrow> string"

record report_response =
  rp_headers :: "(string \<times> string) list"
  rp_html :: string

definition safe_char :: "char \<Rightarrow> bool" where
  "safe_char c \<longleftrightarrow> is_alnum c \<or> c = CHR ''.'' \<or> c = CHR ''-''"

text \<open>\<open>chars().map(\<dots>).take(80)\<close>: a scalar of several bytes becomes one underscore.\<close>

definition safe_scalar :: "string \<Rightarrow> char" where
  "safe_scalar s = (case s of [c] \<Rightarrow> if safe_char c then c else CHR ''_'' | _ \<Rightarrow> CHR ''_'')"

definition report_filename :: "(time \<Rightarrow> string) \<Rightarrow> string \<Rightarrow> time \<Rightarrow> string" where
  "report_filename date_str domain at =
     ''security-review-'' @ take 80 (map safe_scalar (scalars domain)) @ ''-'' @ date_str at @ ''.html''"

definition scan_meta :: "uid \<Rightarrow> scan_summary \<Rightarrow> db \<Rightarrow> report_meta" where
  "scan_meta user summary d =
     (let (name, logo) =
          (if access_allows_branding (current_access d user)
           then (case user_by_id d user of None \<Rightarrow> (None, None) | Some u \<Rightarrow> (u_agency u, u_logo u))
           else (None, None));
          client = Option.bind (target_by_id d (ss_target summary)) tg_client
      in \<lparr>agency_name = (case name of None \<Rightarrow> ''Security review'' | Some n \<Rightarrow> n),
          agency_logo_url = logo,
          client_name = (case client of None \<Rightarrow> ss_domain summary | Some c \<Rightarrow> c),
          target_domain = ss_domain summary,
          scanned_at = (case ss_completed summary of None \<Rightarrow> ss_created summary | Some t \<Rightarrow> t)\<rparr>)"

text \<open>\<open>HeaderValue::from_str\<close> takes the bytes \<open>to_str\<close> gives back.\<close>

definition report_headers :: "string \<Rightarrow> (string \<times> string) list" where
  "report_headers filename =
     [(''content-type'', ''text/html; charset=utf-8''),
      (''content-security-policy'',
       ''default-src '' @ [CHR 0x27] @ ''none'' @ [CHR 0x27] @ ''; style-src '' @ [CHR 0x27]
         @ ''unsafe-inline'' @ [CHR 0x27] @ ''; img-src https: data:; sandbox allow-popups''),
      (''x-content-type-options'', ''nosniff'')]
     @ (case to_str (''attachment; filename='' @ [CHR 0x22] @ filename @ [CHR 0x22]) of
          None \<Rightarrow> [] | Some v \<Rightarrow> [(''content-disposition'', v)])"

definition get_scan_report ::
  "report_dates \<Rightarrow> string \<Rightarrow> uid \<Rightarrow> uid \<Rightarrow> db \<Rightarrow> api_error + report_response" where
  "get_scan_report dates styles user scan_id d =
     bind_res (load_summary user scan_id d) (\<lambda>summary.
     if ss_status summary \<noteq> ''completed'' then Inl (BadRequest ''this scan has not finished yet'')
     else
       let meta = scan_meta user summary d in
       Inr \<lparr>rp_headers = report_headers (report_filename (rd_iso dates) (ss_domain summary) (scanned_at meta)),
            rp_html = render_html (rd_long dates) styles meta (triage_scan (stored_findings d scan_id))\<rparr>)"

subsection \<open>The profile\<close>

definition MAX_AGENCY_NAME :: nat where "MAX_AGENCY_NAME = 120"
definition MAX_LOGO_URL :: nat where "MAX_LOGO_URL = 2048"

record profile =
  pf_agency :: "string option"
  pf_logo :: "string option"
  pf_email :: "string option"

definition normalize_setting :: "string option \<Rightarrow> nat \<Rightarrow> string \<Rightarrow> api_error + string option" where
  "normalize_setting value limit label =
     (case value of
        None \<Rightarrow> Inr None
      | Some v \<Rightarrow>
          (let trimmed = trim v in
           if trimmed = [] then Inr None
           else if chars_count trimmed > limit
           then Inl (BadRequest (label @ '' must be at most '' @ show_nat limit @ '' characters''))
           else Inr (Some trimmed)))"

definition is_acceptable_logo_url :: "string \<Rightarrow> bool" where
  "is_acceptable_logo_url url \<longleftrightarrow>
     (let lowered = to_ascii_lowercase (trim url) in
      prefix ''https://'' lowered \<or> prefix ''data:image/png;base64,'' lowered
      \<or> prefix ''data:image/jpeg;base64,'' lowered \<or> prefix ''data:image/svg+xml;base64,'' lowered
      \<or> prefix ''data:image/webp;base64,'' lowered)"

definition get_profile :: "uid \<Rightarrow> db \<Rightarrow> api_error + profile" where
  "get_profile user d =
     bind_res (ok_or NotFound (user_by_id d user)) (\<lambda>u.
       Inr \<lparr>pf_agency = u_agency u, pf_logo = u_logo u, pf_email = Some (u_email u)\<rparr>)"

definition update_profile :: "uid \<Rightarrow> string option \<Rightarrow> string option \<Rightarrow> profile action" where
  "update_profile user name logo =
     and_then (of_result (normalize_setting name MAX_AGENCY_NAME ''agency name'')) (\<lambda>agency.
     and_then (of_result (normalize_setting logo MAX_LOGO_URL ''logo URL'')) (\<lambda>logo_url.
     and_then (if agency \<noteq> None \<or> logo_url \<noteq> None
               then and_then (reading (\<lambda>d. current_plan d user)) (\<lambda>plan.
                 if allows_branding plan then done_with ()
                 else stop_with (PlanLimit ''reports carry your agency name and logo on the paid plans''))
               else done_with ()) (\<lambda>_.
     if (case logo_url of None \<Rightarrow> False | Some url \<Rightarrow> \<not> is_acceptable_logo_url url)
     then stop_with (BadRequest ''logo URL must be an https address or an inline image'')
     else and_then (writing (\<lambda>d. d\<lparr>users := update_where (\<lambda>u. u_id u = user)
         (\<lambda>u. u\<lparr>u_agency := agency, u_logo := logo_url\<rparr>) (users d)\<rparr>))
       (\<lambda>_. done_with \<lparr>pf_agency = agency, pf_logo = logo_url, pf_email = None\<rparr>))))"

subsection \<open>What a user reads is the user's own\<close>

definition own_targets :: "db \<Rightarrow> uid \<Rightarrow> target list" where
  "own_targets d user = filter (\<lambda>t. tg_user t = user) (targets d)"

definition own_jobs :: "db \<Rightarrow> uid \<Rightarrow> job list" where
  "own_jobs d user = filter (\<lambda>j. j_target j \<in> tg_id ` set (own_targets d user)) (jobs d)"

definition own_results :: "db \<Rightarrow> uid \<Rightarrow> result_row list" where
  "own_results d user = filter (\<lambda>r. r_job r \<in> j_id ` set (own_jobs d user)) (results d)"

text \<open>Two databases that hold the same rows of one user.\<close>

definition same_own :: "uid \<Rightarrow> db \<Rightarrow> db \<Rightarrow> bool" where
  "same_own user d d' \<longleftrightarrow>
     own_targets d' user = own_targets d user \<and> own_jobs d' user = own_jobs d user
     \<and> own_results d' user = own_results d user \<and> user_by_id d' user = user_by_id d user
     \<and> current_access d' user = current_access d user"

lemma owned_scans_own:
  "owned_scans d user =
     concat (map (\<lambda>j. map (\<lambda>t. (j, t)) (filter (\<lambda>t. tg_id t = j_target j) (own_targets d user)))
       (own_jobs d user))"
proof -
  have "concat (map (\<lambda>j. map (\<lambda>t. (j, t)) (filter (\<lambda>t. tg_id t = j_target j \<and> tg_user t = user) ts)) js)
      = concat (map (\<lambda>j. map (\<lambda>t. (j, t)) (filter (\<lambda>t. tg_id t = j_target j) (filter (\<lambda>t. tg_user t = user) ts)))
          (filter (\<lambda>j. j_target j \<in> tg_id ` set (filter (\<lambda>t. tg_user t = user) ts)) js))" for js ts
  proof (induction js)
    case (Cons j js)
    have split: "filter (\<lambda>t. tg_id t = j_target j \<and> tg_user t = user) ts
        = filter (\<lambda>t. tg_id t = j_target j) (filter (\<lambda>t. tg_user t = user) ts)"
      by (simp add: conj_commute)
    show ?case
    proof (cases "j_target j \<in> tg_id ` set (filter (\<lambda>t. tg_user t = user) ts)")
      case True
      then show ?thesis using Cons split by simp
    next
      case False
      have "\<not> (tg_user t = user \<and> tg_id t = j_target j)" if "t \<in> set ts" for t
      proof
        assume t: "tg_user t = user \<and> tg_id t = j_target j"
        then have "tg_id t \<in> tg_id ` set (filter (\<lambda>t. tg_user t = user) ts)" using that by (intro imageI) simp
        then show False using False t by simp
      qed
      then have "filter (\<lambda>t. tg_id t = j_target j) (filter (\<lambda>t. tg_user t = user) ts) = []"
        by (simp add: filter_empty_conv)
      then show ?thesis using Cons split False by simp
    qed
  qed simp
  then show ?thesis by (simp add: owned_scans_def own_jobs_def own_targets_def)
qed

lemma owned_scans_mem:
  "(j, t) \<in> set (owned_scans d user) \<Longrightarrow>
     j \<in> set (own_jobs d user) \<and> t \<in> set (own_targets d user) \<and> tg_id t = j_target j"
  by (auto simp: owned_scans_own)

lemma results_of_own_job:
  "j \<in> set (own_jobs d user) \<Longrightarrow>
     filter (\<lambda>r. r_job r = j_id j) (results d) = filter (\<lambda>r. r_job r = j_id j) (own_results d user)"
  by (auto simp: own_results_def intro: filter_cong)

lemma summary_of_own:
  assumes "same_own user d d'" "j \<in> set (own_jobs d user)"
  shows "summary_of d' j t = summary_of d j t"
  using assms results_of_own_job[of j d user] results_of_own_job[of j d' user]
  by (simp add: summary_of_def same_own_def)

lemma owned_scans_same: "same_own user d d' \<Longrightarrow> owned_scans d' user = owned_scans d user"
  by (simp add: owned_scans_own same_own_def)

lemma load_summary_same:
  assumes "same_own user d d'"
  shows "load_summary user i d' = load_summary user i d"
proof (cases "find (\<lambda>(j, t). j_id j = i) (owned_scans d user)")
  case None
  then show ?thesis by (simp add: load_summary_def owned_scans_same[OF assms])
next
  case (Some jt)
  obtain j t where jt: "jt = (j, t)" by (cases jt)
  then have "j \<in> set (own_jobs d user)" using Some by (auto dest!: find_SomeD owned_scans_mem)
  then show ?thesis
    using Some jt by (simp add: load_summary_def owned_scans_same[OF assms] summary_of_own[OF assms])
qed

lemma load_summaryE:
  assumes "load_summary user i d = Inr s"
  obtains j t where "j \<in> set (own_jobs d user)" "t \<in> set (own_targets d user)" "tg_id t = j_target j"
    "j_id j = i" "s = summary_of d j t"
  using assms by (fastforce simp: load_summary_def dest: find_SomeD owned_scans_mem)

lemma stored_findings_same:
  assumes "same_own user d d'" "load_summary user i d = Inr s"
  shows "stored_findings d' i = stored_findings d i"
proof -
  obtain j where j: "j \<in> set (own_jobs d user)" "j_id j = i" using assms(2) by (rule load_summaryE)
  then have "j \<in> set (own_jobs d' user)" using assms(1) by (simp add: same_own_def)
  then show ?thesis
    using results_of_own_job[of j d user] results_of_own_job[of j d' user] j assms(1)
    by (simp add: stored_findings_def same_own_def)
qed

lemma find_key: "distinct (map k xs) \<Longrightarrow> x \<in> set xs \<Longrightarrow> find (\<lambda>y. k y = k x) xs = Some x"
  by (induction xs) (auto simp: image_iff)

lemma own_target_by_id:
  assumes "distinct (map tg_id (targets d))" "t \<in> set (own_targets d user)"
  shows "target_by_id d (tg_id t) = Some t"
proof -
  have "t \<in> set (targets d)" using assms(2) by (simp add: own_targets_def)
  with assms(1) show ?thesis
    unfolding target_by_id_def by (rule find_key[where k = tg_id])
qed

text \<open>C2: Nobody reads another account's data.  Two databases that hold the same targets, jobs, results,
  plan and profile of a user give that user the same list of scans, the same scan, the same report and the
  same profile, whatever they hold of everybody else.\<close>

theorem reads_are_isolated:
  assumes same: "same_own user d d'"
    and keys: "distinct (map tg_id (targets d))" "distinct (map tg_id (targets d'))"
  shows "list_scans id user wanted d' = list_scans id user wanted d
    \<and> get_scan user i d' = get_scan user i d
    \<and> get_scan_report dates styles user i d' = get_scan_report dates styles user i d
    \<and> get_profile user d' = get_profile user d"
proof (intro conjI)
  let ?wanted = "\<lambda>(j :: job, t :: target). case wanted of None \<Rightarrow> True | Some i \<Rightarrow> j_target j = i"
  let ?scans = "take 100 (newest_first (filter ?wanted (owned_scans d user)))"
  have mem: "j \<in> set (own_jobs d user)" if "(j, t) \<in> set ?scans" for j t
    using that owned_scans_mem by (fastforce simp: newest_first_def dest: in_set_takeD)
  define ss where "ss = map (\<lambda>(j, t). summary_of d j t) ?scans"
  have ss': "map (\<lambda>(j, t). summary_of d' j t) ?scans = ss"
    using mem summary_of_own[OF same] by (auto simp: ss_def)
  define ids where "ids = map ss_id (filter (\<lambda>s. ss_status s = ''completed'' \<and> ss_findings s > 0) ss)"
  have "set ids \<subseteq> j_id ` set (own_jobs d user)"
    using mem by (fastforce simp: ids_def ss_def summary_of_def)
  then have rows: "filter (\<lambda>r. r_job r \<in> set ids) (results e) = filter (\<lambda>r. r_job r \<in> set ids) (own_results e user)"
    if "own_jobs e user = own_jobs d user" for e
    using that by (auto simp: own_results_def intro!: filter_cong)
  have "filter (\<lambda>r. r_job r \<in> set ids) (results d') = filter (\<lambda>r. r_job r \<in> set ids) (results d)"
    using rows[of d] rows[of d'] same by (simp add: same_own_def)
  then have "fill_actionable_counts id d' ss = fill_actionable_counts id d ss"
    unfolding fill_actionable_counts_def Let_def ids_def[symmetric] by simp
  then show "list_scans id user wanted d' = list_scans id user wanted d"
    unfolding list_scans_def owned_scans_same[OF same] ss' ss_def[symmetric] by simp
  show "get_scan user i d' = get_scan user i d"
    using load_summary_same[OF same] stored_findings_same[OF same]
    by (cases "load_summary user i d") (simp_all add: get_scan_def)
  show "get_profile user d' = get_profile user d"
    using same by (simp add: get_profile_def same_own_def)
  show "get_scan_report dates styles user i d' = get_scan_report dates styles user i d"
  proof (cases "load_summary user i d")
    case (Inl e)
    then show ?thesis by (simp add: get_scan_report_def load_summary_same[OF same])
  next
    case (Inr s)
    then obtain j t where t: "t \<in> set (own_targets d user)" "tg_id t = ss_target s"
      by (rule load_summaryE) (simp add: summary_of_def)
    then have "t \<in> set (own_targets d' user)" using same by (simp add: same_own_def)
    then have "target_by_id d' (ss_target s) = target_by_id d (ss_target s)"
      using own_target_by_id keys t by metis
    then have "scan_meta user s d' = scan_meta user s d"
      using same by (simp add: scan_meta_def same_own_def)
    then show ?thesis
      using Inr stored_findings_same[OF same Inr] by (simp add: get_scan_report_def load_summary_same[OF same])
  qed
qed

definition two_owners :: db where
  "two_owners =
     \<lparr>users = [user_row 1 ''o@a'' [], user_row 2 ''p@a'' []],
      targets = [\<lparr>tg_id = 3, tg_user = 1, tg_domain = ''a.example'', tg_client = None, tg_cadence = ''manual'',
          tg_last_scheduled = None, tg_created = 0\<rparr>,
        \<lparr>tg_id = 4, tg_user = 2, tg_domain = ''b.example'', tg_client = None, tg_cadence = ''manual'',
          tg_last_scheduled = None, tg_created = 0\<rparr>],
      proofs = [], authorizations = [],
      jobs = [\<lparr>j_id = 5, j_target = 3, j_auth = 0, j_status = Completed, j_tool = ''tls'', j_created = 0,
          j_started = Some 1, j_completed = Some 2, j_reason = None\<rparr>,
        \<lparr>j_id = 6, j_target = 4, j_auth = 0, j_status = Completed, j_tool = ''tls'', j_created = 0,
          j_started = Some 1, j_completed = Some 2, j_reason = None\<rparr>],
      results = [\<lparr>r_job = 6, r_severity = ''high'', r_title = ''t'', r_description = None, r_raw = JNull\<rparr>],
      entitlements = [], claims = [], events = [], consents = [], preview_sends = [], buckets = [], growth = []\<rparr>"

definition plain_report_dates :: report_dates where
  "plain_report_dates = \<lparr>rd_long = (\<lambda>_. ''1 May 2026''), rd_iso = (\<lambda>_. ''2026-05-01'')\<rparr>"

theorem reads_are_isolated_witness:
  "let d' = two_owners\<lparr>results := []\<rparr> in
   list_scans id 1 None d' = list_scans id 1 None two_owners
   \<and> get_scan 1 6 d' = get_scan 1 6 two_owners
   \<and> get_scan_report plain_report_dates [] 1 5 d' = get_scan_report plain_report_dates [] 1 5 two_owners
   \<and> get_profile 1 d' = get_profile 1 two_owners"
proof -
  have own: "own_targets two_owners 1 = [hd (targets two_owners)]" "own_jobs two_owners 1 = [hd (jobs two_owners)]"
    by (simp_all add: own_targets_def own_jobs_def two_owners_def)
  have "same_own 1 two_owners (two_owners\<lparr>results := []\<rparr>)"
    using own by (simp add: same_own_def own_targets_def own_jobs_def own_results_def user_by_id_def
        current_access_def entitlement_of_def two_owners_def)
  moreover have "distinct (map tg_id (targets two_owners))" by (simp add: two_owners_def)
  ultimately show ?thesis
    using reads_are_isolated[of 1 two_owners "two_owners\<lparr>results := []\<rparr>" None 6 plain_report_dates "[]"]
      reads_are_isolated[of 1 two_owners "two_owners\<lparr>results := []\<rparr>" None 5 plain_report_dates "[]"]
    by (simp add: Let_def)
qed

subsection \<open>What the list says, the scan says\<close>

lemma actionable_mset:
  "mset fs = mset gs \<Longrightarrow> length (actionable (triage_scan fs)) = length (actionable (triage_scan gs))"
  using arg_cong[OF bucket_summary_mset[of fs gs Act], of length] by (simp add: triage_scan_def)

lemma load_summary_of_owned:
  assumes "distinct (map tg_id (targets d))" "distinct (map j_id (jobs d))"
    and "(j, t) \<in> set (owned_scans d user)"
  shows "load_summary user (j_id j) d = Inr (summary_of d j t)"
proof -
  let ?P = "\<lambda>(j', t' :: target). j_id j' = j_id j"
  obtain j' t' where found: "find ?P (owned_scans d user) = Some (j', t')"
    using assms(3) by (cases "find ?P (owned_scans d user)") (auto simp: find_None_all)
  then have in': "(j', t') \<in> set (owned_scans d user)" "j_id j' = j_id j" by (auto dest: find_SomeD)
  have "j' \<in> set (jobs d)" "j \<in> set (jobs d)" "t' \<in> set (targets d)" "t \<in> set (targets d)"
      "tg_id t' = j_target j'" "tg_id t = j_target j"
    using in'(1) assms(3) by (auto simp: owned_scans_def)
  then have "j' = j" "t' = t"
    using in'(2) assms(1,2) by (metis distinct_map inj_onD)+
  then show ?thesis using found by (simp add: load_summary_def)
qed

text \<open>The batch fills in the count of each scan's own rows.\<close>

lemma filled_count:
  assumes shuffle: "\<And>rows. mset (shuffle rows) = mset rows"
    and ss: "\<And>s0. s0 \<in> set ss \<Longrightarrow> ss_actionable s0 = 0
      \<and> ss_findings s0 = int (length (filter (\<lambda>r. r_job r = ss_id s0) (results d)))"
    and s: "s \<in> set (fill_actionable_counts shuffle d ss)" "ss_status s = ''completed''"
  shows "\<exists>s0. s0 \<in> set ss \<and> s = s0\<lparr>ss_actionable := ss_actionable s\<rparr>
     \<and> ss_actionable s = int (length (actionable (triage_scan (stored_findings d (ss_id s0)))))"
proof -
  define ids where "ids = map ss_id (filter (\<lambda>s. ss_status s = ''completed'' \<and> ss_findings s > 0) ss)"
  define rows where "rows = shuffle (filter (\<lambda>r. r_job r \<in> set ids) (results d))"
  define fill :: "scan_summary \<Rightarrow> scan_summary" where "fill s0 = (let own = filter (\<lambda>r. r_job r = ss_id s0) rows in if own = [] then s0
      else s0\<lparr>ss_actionable := int (length (actionable (triage_scan (map finding_of_row own))))\<rparr>)" for s0
  have filled: "fill_actionable_counts shuffle d ss = (if ids = [] then ss else map fill ss)"
    by (simp add: fill_actionable_counts_def Let_def ids_def rows_def fill_def[abs_def])
  have none: "length (actionable (triage_scan [])) = 0" by code_simp
  obtain s0 where s0: "s0 \<in> set ss" "s = (if ids = [] then s0 else fill s0)"
    using s(1) filled by (auto split: if_splits)
  have status: "ss_status s0 = ''completed''"
    using s(2) s0(2) by (auto simp: fill_def Let_def split: if_splits)
  let ?own = "filter (\<lambda>r. r_job r = ss_id s0) (results d)"
  show ?thesis
  proof (cases "?own = []")
    case True
    have "filter (\<lambda>r. r_job r = ss_id s0) rows = []"
    proof -
      have "set rows \<subseteq> set (results d)"
        using mset_eq_setD[OF shuffle[of "filter (\<lambda>r. r_job r \<in> set ids) (results d)"]] by (auto simp: rows_def)
      then show ?thesis using True by (auto simp: filter_empty_conv)
    qed
    then have "s = s0" using s0(2) by (simp add: fill_def)
    then show ?thesis using s0(1) ss[OF s0(1)] True none by (auto simp: stored_findings_def)
  next
    case False
    then have "ss_findings s0 > 0" using ss[OF s0(1)] by simp
    then have id: "ss_id s0 \<in> set ids" using s0(1) status by (auto simp: ids_def)
    then have ids: "ids \<noteq> []" by auto
    have "mset (filter (\<lambda>r. r_job r = ss_id s0) rows) = mset ?own"
      using id by (auto simp: rows_def shuffle filter_filter_mset intro!: filter_mset_cong)
    note same = this
    have "length (actionable (triage_scan (map finding_of_row (filter (\<lambda>r. r_job r = ss_id s0) rows))))
          = length (actionable (triage_scan (map finding_of_row ?own)))"
      by (rule actionable_mset) (simp only: mset_map same)
    moreover have "filter (\<lambda>r. r_job r = ss_id s0) rows \<noteq> []" using same False by (metis mset_zero_iff)
    ultimately have "s = s0\<lparr>ss_actionable := int (length (actionable (triage_scan (map finding_of_row ?own))))\<rparr>"
      using s0(2) ids by (simp add: fill_def Let_def)
    then show ?thesis using s0(1) by (auto simp: stored_findings_def)
  qed
qed

text \<open>C33: The number beside a completed scan in the list is the number of issues its own page shows,
  in whatever order the database returns the rows the list is counted from.\<close>

theorem list_agrees_with_scan:
  assumes "\<And>rows. mset (shuffle rows) = mset rows" "distinct (map tg_id (targets d))"
    and "list_scans shuffle user wanted d = Inr scans" "s \<in> set scans" "ss_status s = ''completed''"
    and "distinct (map j_id (jobs d))"
  shows "\<exists>triaged. get_scan user (ss_id s) d = Inr (s, triaged)
     \<and> ss_actionable s = int (length (actionable triaged))"
proof -
  let ?wanted = "\<lambda>(j :: job, t :: target). case wanted of None \<Rightarrow> True | Some i \<Rightarrow> j_target j = i"
  define ss where "ss = map (\<lambda>(j, t). summary_of d j t)
      (take 100 (newest_first (filter ?wanted (owned_scans d user))))"
  have scans: "scans = fill_actionable_counts shuffle d ss"
    using assms(3) by (simp add: list_scans_def ss_def)
  have unfilled: "ss_actionable s0 = 0
      \<and> ss_findings s0 = int (length (filter (\<lambda>r. r_job r = ss_id s0) (results d)))" if "s0 \<in> set ss" for s0
    using that by (auto simp: ss_def summary_of_def)
  obtain s0 where s0: "s0 \<in> set ss" "s = s0\<lparr>ss_actionable := ss_actionable s\<rparr>"
      "ss_actionable s = int (length (actionable (triage_scan (stored_findings d (ss_id s0)))))"
    using filled_count[OF assms(1) unfilled assms(4)[unfolded scans] assms(5)] by blast
  obtain j t where jt: "(j, t) \<in> set (owned_scans d user)" "s0 = summary_of d j t"
    using s0(1) by (auto simp: ss_def newest_first_def dest!: in_set_takeD)
  have "load_summary user (ss_id s0) d = Inr s0"
    using load_summary_of_owned[OF assms(2,6) jt(1)] jt(2) by (simp add: summary_of_def)
  moreover have "ss_id s = ss_id s0" using arg_cong[OF s0(2), of ss_id] by simp
  ultimately show ?thesis
    using s0(2,3) by (simp add: get_scan_def Let_def)
qed

theorem list_agrees_with_scan_witness:
  "let s = hd (projr (list_scans rev 2 None two_owners)) in
   \<exists>triaged. get_scan 2 (ss_id s) two_owners = Inr (s, triaged)
     \<and> ss_actionable s = int (length (actionable triaged))"
proof -
  define s where "s = hd (projr (list_scans rev 2 None two_owners))"
  have scans: "list_scans rev 2 None two_owners = Inr (projr (list_scans rev 2 None two_owners))"
    by (simp add: list_scans_def)
  have "map (\<lambda>s. (ss_id s, ss_status s)) (projr (list_scans rev 2 None two_owners)) = [(6, ''completed'')]"
    by code_simp
  then have "s \<in> set (projr (list_scans rev 2 None two_owners))" "ss_status s = ''completed''"
    by (auto simp: s_def map_eq_Cons_conv)
  then show ?thesis
    using list_agrees_with_scan[of rev two_owners 2 None, OF _ _ scans]
    by (simp add: Let_def s_def two_owners_def)
qed

subsection \<open>The download\<close>

text \<open>A file name holds nothing that could end the header or leave the folder, and is bounded.\<close>

lemma report_filename_safe:
  "\<exists>name. report_filename date_str domain at = ''security-review-'' @ name @ ''-'' @ date_str at @ ''.html''
     \<and> length name \<le> 80 \<and> list_all (\<lambda>c. safe_char c \<or> c = CHR ''_'') name"
proof -
  have "safe_scalar s \<noteq> CHR ''_'' \<Longrightarrow> safe_char (safe_scalar s)" for s
    by (auto simp: safe_scalar_def split: list.splits if_splits)
  then have "list_all (\<lambda>c. safe_char c \<or> c = CHR ''_'') (take 80 (map safe_scalar (scalars domain)))"
    by (auto simp: list_all_iff dest!: in_set_takeD)
  then show ?thesis unfolding report_filename_def by (intro exI conjI) auto
qed

text \<open>A free account's and a trial's report carries neither the agency's name nor its logo, whatever
  the profile still holds.\<close>

lemma unpaid_report_is_unbranded:
  "access_allows_branding (current_access d user)
   \<or> (agency_name (scan_meta user summary d) = ''Security review''
      \<and> agency_logo_url (scan_meta user summary d) = None)"
  by (simp add: scan_meta_def Let_def)

subsection \<open>The profile\<close>

text \<open>The two rules for a logo are one.\<close>

lemma acceptable_logo_is_rendered:
  "is_acceptable_logo_url url \<longleftrightarrow> safe_image_src url \<noteq> None"
  by (simp add: is_acceptable_logo_url_def safe_image_src_def image_prefixes_def Let_def del: append.simps)

text \<open>A trial may save a name and a logo that its reports leave out.\<close>

lemma trial_branding_saved_and_left_out:
  assumes "a_trial (current_access (w_db w) user)" "allows_branding (current_plan (w_db w) user)"
    and "normalize_setting name MAX_AGENCY_NAME ''agency name'' = Inr (Some n)"
  shows "fst (update_profile user name None w) = Inr \<lparr>pf_agency = Some n, pf_logo = None, pf_email = None\<rparr>
     \<and> agency_name (scan_meta user summary (w_db (snd (update_profile user name None w)))) = ''Security review''"
proof -
  have "current_access (w_db w\<lparr>users := us\<rparr>) user = current_access (w_db w) user" for us
    by (simp add: current_access_def entitlement_of_def on_trial_def split: option.split)
  moreover have "normalize_setting None MAX_LOGO_URL ''logo URL'' = Inr None" by (simp add: normalize_setting_def)
  ultimately show ?thesis
    using assms by (simp add: update_profile_def and_then_def of_result_def reading_def writing_def done_with_def
        scan_meta_def access_allows_branding_def Let_def)
qed

end
