(* ===== verification/Credentials.thy ===== *)
theory Credentials
  imports Accounts
begin

text \<open>
  What \<open>routes/accounts.rs\<close> promises: who is signed out by what, that a link works once, that an answer
  does not say whether an address has an account; and what a deletion and a new password leave open.
\<close>

subsection \<open>What an accepted request has written\<close>

lemma users_of_limited [simp]: "users (w_db (snd (auth_limited a now peer w))) = users (w_db w)"
  by (simp add: limited_db)

lemma users_mailing [simp]: "users (w_db (snd (mailing a to m w))) = users (w_db w)"
  by (simp add: mailing_db)

lemma start_session_world: "start_session a v now user k w = (r, w') \<Longrightarrow> w' = w"
  by (simp add: start_session_def of_result_def)

lemma and_then_InrE:
  assumes "and_then m k w = (Inr y, w'')"
  obtains x w' where "m w = (Inr x, w')" "k x w' = (Inr y, w'')"
  using assms and_then_Inr_iff by metis

lemma of_result_Inr: "of_result r w = (Inr x, w') \<longleftrightarrow> r = Inr x \<and> w' = w"
  by (auto simp: of_result_def)

lemma limited_users: "auth_limited a now peer w = (r, w') \<Longrightarrow> users (w_db w') = users (w_db w)"
  using users_of_limited[of a now peer w] by simp

lemma mailing_users: "mailing a to m w = (r, w') \<Longrightarrow> users (w_db w') = users (w_db w)"
  using users_mailing[of a to m w] by simp

lemma update_users_Inr: "update_users P f w = (Inr x, w') \<longleftrightarrow>
    x = map_option f (find P (users (w_db w)))
    \<and> w' = w\<lparr>w_db := (w_db w)\<lparr>users := update_where P f (users (w_db w))\<rparr>\<rparr>"
  by (auto simp: update_users_def)

lemmas inr_simps = and_then_Inr_iff of_result_Inr update_users_Inr reading_def writing_def of_option_def
  done_with_def stop_with_def

lemma change_password_users:
  assumes "change_password a v salt now user body w = (Inr r, w')"
  obtains h where "users (w_db w') = update_where (\<lambda>u. u_id u = user) (changed_row h) (users (w_db w))"
  using assms
  by (auto simp: change_password_def inr_simps split: if_splits option.splits
      dest!: mailing_users start_session_world)

lemma reset_password_users:
  assumes "reset_password a v salt now peer body w = (Inr r, w')"
  obtains h where "users (w_db w') = update_where (resettable a now (rr_token body)) (reset_row now h) (users (w_db w))"
  using assms
  by (auto simp: reset_password_def inr_simps split: if_splits option.splits
      dest!: mailing_users start_session_world limited_users)

lemma verify_email_users:
  assumes "verify_email a v now token w = (Inr r, w')"
  shows "users (w_db w') = update_where
      (\<lambda>u. u_verify_hash u = Some (hash_token a (trim token))
           \<and> sent_after (u_verify_sent u) (now - hours VERIFICATION_VALID_HOURS))
      (\<lambda>u. u\<lparr>u_verified := verified_by now u, u_verify_hash := None\<rparr>) (users (w_db w))"
  using assms
  by (auto simp: verify_email_def inr_simps split: if_splits option.splits
      dest!: mailing_users start_session_world)

lemma movable_users: "users d' = users d \<Longrightarrow> movable a now token d' = movable a now token d"
  by (simp add: fun_eq_iff movable_def)

lemma confirm_email_Inr:
  assumes "confirm_email_change a now peer token w = (Inr r, w')"
  shows "users (w_db w') = update_where (movable a now token (w_db w)) (moved_row now) (users (w_db w))
    \<and> unique_emails (users (w_db w')) \<and> find (movable a now token (w_db w)) (users (w_db w)) \<noteq> None"
proof -
  obtain x w1 where l: "auth_limited a now peer w = (Inr x, w1)"
    and m: "users (w_db w') = update_where (movable a now token (w_db w1)) (moved_row now) (users (w_db w1))"
      "unique_emails (users (w_db w'))" "find (movable a now token (w_db w1)) (users (w_db w1)) \<noteq> None"
    using assms
    by (auto simp: confirm_email_change_def inr_simps move_users_def split: if_splits)
  show ?thesis using m movable_users[OF limited_users[OF l]] limited_users[OF l] by simp
qed

lemmas confirm_email_users = confirm_email_Inr[THEN conjunct1]
lemmas confirm_email_unique = confirm_email_Inr[THEN conjunct2, THEN conjunct1]
lemmas confirm_email_found = confirm_email_Inr[THEN conjunct2, THEN conjunct2]

lemma delete_account_users:
  assumes "delete_account a v salt nobody user password w = (Inr r, w')"
  obtains h where "users (w_db w') = update_where (\<lambda>u. u_id u = user) (deleted_row a h) (users (w_db w))"
  using assms
  by (auto simp: delete_account_def inr_simps move_users_def drop_entitlement_def
      split: if_splits option.splits)

subsection \<open>Signing out\<close>

text \<open>No request is let in as the user both before and after, whatever its time and verb.\<close>

definition signed_out :: "vault \<Rightarrow> uid \<Rightarrow> db \<Rightarrow> db \<Rightarrow> bool" where
  "signed_out v user d d' \<longleftrightarrow>
     (\<nexists>h now verb now' verb'. auth_user v now verb h d = Inr user \<and> auth_user v now' verb' h d' = Inr user)"

text \<open>An accepted request signs out the accounts it is about, and no other.\<close>

definition signs_out :: "vault \<Rightarrow> (user \<Rightarrow> bool) \<Rightarrow> 'r action \<Rightarrow> world \<Rightarrow> bool" where
  "signs_out v P m w \<longleftrightarrow>
     (case m w of
        (Inl _, _) \<Rightarrow> True
      | (Inr _, w') \<Rightarrow>
          (\<forall>i. case user_by_id (w_db w) i of
             None \<Rightarrow> True
           | Some u \<Rightarrow>
               if P u then signed_out v i (w_db w) (w_db w')
               else token_version (w_db w') i = token_version (w_db w) i))"

lemma signed_outI: "token_version d' user \<noteq> token_version d user \<Longrightarrow> signed_out v user d d'"
  unfolding signed_out_def using auth_user_version by blast

lemma signs_outI:
  assumes "\<And>r w'. m w = (Inr r, w') \<Longrightarrow> \<exists>f. users (w_db w') = update_where P f (users (w_db w))
      \<and> (\<forall>u. u_id (f u) = u_id u \<and> u_version (f u) = u_version u + 1)"
  shows "signs_out v P m w"
proof (cases "m w")
  case (Pair r w')
  show ?thesis
  proof (cases r)
    case (Inr x)
    then obtain f where f: "users (w_db w') = update_where P f (users (w_db w))"
        "\<And>u. u_id (f u) = u_id u" "\<And>u. u_version (f u) = u_version u + 1"
      using assms Pair by blast
    have "token_version (w_db w') i = (if P u then Some (u_version u + 1) else Some (u_version u))"
      "token_version (w_db w) i = Some (u_version u)"
      if "user_by_id (w_db w) i = Some u" for i u
      using that by (simp_all add: token_version_def user_by_id_def f(1,3) update_where_find[OF f(2)])
    then show ?thesis
      by (auto simp: signs_out_def Pair Inr split: option.split intro: signed_outI)
  qed (simp add: signs_out_def Pair)
qed

text \<open>C6: changing a credential signs everybody out.  When a new password, a reset, a change of address or a
  deletion goes through, no session of that account that was good before is good after, and no other
  account's sessions are touched.\<close>

theorem credentials_sign_out:
  "signs_out v (\<lambda>u. u_id u = user) (change_password a v salt now user passwords) w
   \<and> signs_out v (resettable a now (rr_token reset)) (reset_password a v salt now peer reset) w
   \<and> signs_out v (movable a now token (w_db w)) (confirm_email_change a now peer token) w
   \<and> signs_out v (\<lambda>u. u_id u = user) (delete_account a v salt nobody user password) w"
proof (intro conjI)
  show "signs_out v (\<lambda>u. u_id u = user) (change_password a v salt now user passwords) w"
    by (rule signs_outI, erule change_password_users) (auto simp: changed_row_def)
  show "signs_out v (resettable a now (rr_token reset)) (reset_password a v salt now peer reset) w"
    by (rule signs_outI, erule reset_password_users) (auto simp: reset_row_def)
  show "signs_out v (movable a now token (w_db w)) (confirm_email_change a now peer token) w"
    by (rule signs_outI, drule confirm_email_users) (auto simp: moved_row_def)
  show "signs_out v (\<lambda>u. u_id u = user) (delete_account a v salt nobody user password) w"
    by (rule signs_outI, erule delete_account_users) (auto simp: deleted_row_def)
qed

subsection \<open>A link works once\<close>

text \<open>A refusal that changes no account and mails nobody.\<close>

definition refused :: "'r action \<Rightarrow> world \<Rightarrow> bool" where
  "refused m w \<longleftrightarrow> (\<exists>e. fst (m w) = Inl e) \<and> users (w_db (snd (m w))) = users (w_db w)
     \<and> w_mail (snd (m w)) = w_mail w"

lemma find_updated_None:
  "(\<And>u. P u \<Longrightarrow> \<not> Q (f u)) \<Longrightarrow> (\<And>u. Q u \<Longrightarrow> P u) \<Longrightarrow> find Q (update_where P f us) = None"
  by (induction us) (auto simp: update_where_def)

lemma update_where_None: "find P us = None \<Longrightarrow> update_where P f us = us"
  by (induction us) (auto simp: update_where_def split: if_splits)

lemma update_users_None: "find P (users (w_db w)) = None \<Longrightarrow> update_users P f w = (Inr None, w)"
  by (simp add: update_users_def update_where_None)

lemma sent_after_later: "sent_after t (now + seconds (int n) - x) \<Longrightarrow> sent_after t (now - x)"
  by (auto simp: sent_after_def duration_defs split: option.splits)

lemma refused_after_limit:
  assumes "\<And>w'. users (w_db w') = users (w_db w) \<Longrightarrow> \<exists>e. k w' = (Inl e, w')"
  shows "refused (and_then (auth_limited a now peer) (\<lambda>_. k)) w"
proof (cases "auth_limited a now peer w")
  case (Pair r w')
  have m: "w_mail w' = w_mail w" using Pair by (auto simp: auth_limited_def split: prod.splits)
  note u = limited_users[OF Pair]
  show ?thesis
  proof (cases r)
    case (Inr x)
    obtain e where "k w' = (Inl e, w')" using assms[OF u] by blast
    then show ?thesis by (simp add: refused_def and_then_def Pair Inr u m)
  qed (simp add: refused_def and_then_def Pair u m)
qed

lemma verify_refused:
  assumes "find (\<lambda>u. u_verify_hash u = Some (hash_token a (trim token))
      \<and> sent_after (u_verify_sent u) (now - hours VERIFICATION_VALID_HOURS)) (users (w_db w)) = None"
  shows "refused (verify_email a v now token) w"
  using assms by (simp add: refused_def verify_email_def and_then_def update_users_None stop_with_def)

lemma reset_refused:
  assumes "find (resettable a now (rr_token body)) (users (w_db w)) = None"
  shows "refused (reset_password a v salt now peer body) w"
  unfolding reset_password_def
  by (rule refused_after_limit)
    (use assms in \<open>auto simp: and_then_def of_result_def update_users_None stop_with_def split: sum.split\<close>)

lemma confirm_refused:
  assumes "\<And>d. users d = users (w_db w) \<Longrightarrow> find (movable a now token d) (users (w_db w)) = None"
    and "unique_emails (users (w_db w))"
  shows "refused (confirm_email_change a now peer token) w"
  unfolding confirm_email_change_def
  by (rule refused_after_limit)
    (use assms in \<open>auto simp: and_then_def reading_def move_users_def update_users_None update_where_None
       stop_with_def\<close>)

text \<open>The accounts a change-of-address link was issued to: tokens are 48 random characters, so one.\<close>

definition holders :: "app \<Rightarrow> string \<Rightarrow> user list \<Rightarrow> user list" where
  "holders a token us = filter (\<lambda>u. u_change_hash u = Some (hash_token a (trim token))) us"

lemma moved_none_left:
  assumes "length (holders a token us) \<le> 1" "find (movable a now token d) us \<noteq> None"
  shows "find (movable a later token d') (update_where (movable a now token d) (moved_row now) us) = None"
proof -
  obtain u0 where u0: "u0 \<in> set us" "movable a now token d u0" using assms(2) by (auto simp: find_None_iff)
  then have "u0 \<in> set (holders a token us)" by (auto simp: holders_def movable_def)
  then have only: "set (holders a token us) = {u0}"
    using assms(1) by (cases "holders a token us") (auto simp: le_Suc_eq)
  have "u_change_hash u \<noteq> Some (hash_token a (trim token))"
    if m: "u \<in> set (update_where (movable a now token d) (moved_row now) us)" for u
  proof -
    obtain x where x: "x \<in> set us" "u = (if movable a now token d x then moved_row now x else x)"
      using m by (auto simp: update_where_def)
    show ?thesis
    proof (cases "movable a now token d x")
      case False
      then have "x \<notin> set (holders a token us)" using only u0(2) by auto
      then show ?thesis using x False by (auto simp: holders_def)
    qed (simp add: x(2) moved_row_def)
  qed
  then show ?thesis by (auto simp: find_None_iff movable_def)
qed

text \<open>C14: a link is good for one use.  Once a confirmation, a reset or a change of address has gone through
  with a token, the same request is refused from then on, however much later: it changes no account and
  mails nobody.\<close>

theorem links_work_once:
  assumes "length (holders a token (users (w_db w))) \<le> 1"
  shows "(case verify_email a v now token w of
      (Inl _, _) \<Rightarrow> True
    | (Inr _, w') \<Rightarrow> refused (verify_email a v (now + seconds (int n)) token) w')
   \<and> (case reset_password a v salt now peer body w of
      (Inl _, _) \<Rightarrow> True
    | (Inr _, w') \<Rightarrow> refused (reset_password a v salt' (now + seconds (int n)) peer' body) w')
   \<and> (case confirm_email_change a now peer token w of
      (Inl _, _) \<Rightarrow> True
    | (Inr _, w') \<Rightarrow> refused (confirm_email_change a (now + seconds (int n)) peer' token) w')"
    (is "?v \<and> ?r \<and> ?c")
proof (intro conjI)
  let ?later = "now + seconds (int n)"
  show ?v
  proof (cases "verify_email a v now token w")
    case (Pair r w')
    show ?thesis
    proof (cases r)
      case (Inr x)
      have "refused (verify_email a v ?later token) w'"
        by (rule verify_refused, unfold verify_email_users[OF Pair[unfolded Inr]], rule find_updated_None)
          (auto dest: sent_after_later)
      then show ?thesis by (simp only: Pair Inr prod.case sum.case)
    qed (simp only: Pair prod.case sum.case)
  qed
  show ?r
  proof (cases "reset_password a v salt now peer body w")
    case (Pair r w')
    show ?thesis
    proof (cases r)
      case (Inr x)
      obtain h where h: "users (w_db w') = update_where (resettable a now (rr_token body)) (reset_row now h) (users (w_db w))"
        using reset_password_users[OF Pair[unfolded Inr]] by blast
      have "refused (reset_password a v salt' ?later peer' body) w'"
        by (rule reset_refused, unfold h, rule find_updated_None)
          (auto simp: resettable_def reset_row_def dest: sent_after_later)
      then show ?thesis by (simp only: Pair Inr prod.case sum.case)
    qed (simp only: Pair prod.case sum.case)
  qed
  show ?c
  proof (cases "confirm_email_change a now peer token w")
    case (Pair r w')
    show ?thesis
    proof (cases r)
      case (Inr x)
      note u = confirm_email_users[OF Pair[unfolded Inr]]
      have "refused (confirm_email_change a ?later peer' token) w'"
      proof (rule confirm_refused)
        show "find (movable a ?later token d) (users (w_db w')) = None" for d
          unfolding u by (rule moved_none_left) (use assms in simp, rule confirm_email_found[OF Pair[unfolded Inr]])
        show "unique_emails (users (w_db w'))" by (rule confirm_email_unique[OF Pair[unfolded Inr]])
      qed
      then show ?thesis by (simp only: Pair Inr prod.case sum.case)
    qed (simp only: Pair prod.case sum.case)
  qed
qed

definition demo_app :: app where
  "demo_app = \<lparr>ap_env = (\<lambda>_. None), ap_debug = False, ap_url = ''https://g.app'', ap_deliver = (\<lambda>_ _. True),
     ap_stripe = (\<lambda>_ _. NoReply []), ap_locked = (\<lambda>_. False), ap_sha256 = id,
     ap_hmac = demo_hmac, ap_lower = id, ap_json = (\<lambda>_. None), ap_show_uuid = show_nat,
     ap_read_uuid = (\<lambda>_. None)\<rparr>"

text \<open>An account with a link of each kind under way.\<close>

definition demo_accounts :: world where
  "demo_accounts = \<lparr>w_db = \<lparr>users = [(user_row 7 ''o@a'' ''Old-pass!'')\<lparr>u_verify_hash := Some (encode_hex ''t''),
       u_verify_sent := Some 0, u_reset_hash := Some (encode_hex ''t''), u_reset_sent := Some 0,
       u_pending_email := Some ''n@a'', u_change_hash := Some (encode_hex ''t''), u_change_sent := Some 0\<rparr>],
     targets = [], proofs = [], authorizations = [], jobs = [], results = [], entitlements = [], claims = [],
     events = [], consents = [], preview_sends = [], buckets = [], growth = []\<rparr>,
     w_calls = [], w_mail = []\<rparr>"

definition demo_reset :: reset_request where
  "demo_reset = \<lparr>rr_token = ''t'', rr_password = ''New-pass!'', rr_confirmation = ''New-pass!''\<rparr>"

theorem links_work_once_witness:
  "\<exists>w'. confirm_email_change demo_app 1 ''peer'' ''t'' demo_accounts = (Inr MOVED_ANSWER, w')
     \<and> refused (confirm_email_change demo_app (1 + seconds (int 60)) ''peer'' ''t'') w'"
proof -
  have l: "length (holders demo_app ''t'' (users (w_db demo_accounts))) \<le> 1"
    by code_simp
  have r: "fst (confirm_email_change demo_app 1 ''peer'' ''t'' demo_accounts) = Inr MOVED_ANSWER"
    by code_simp
  obtain w' where w: "confirm_email_change demo_app 1 ''peer'' ''t'' demo_accounts = (Inr MOVED_ANSWER, w')"
    using r by (cases "confirm_email_change demo_app 1 ''peer'' ''t'' demo_accounts") simp
  then show ?thesis
    using links_work_once[OF l, where v = demo_vault and now = 1 and n = 60 and salt = "''s''" and peer = "''peer''"
        and body = demo_reset and salt' = "''s''" and peer' = "''peer''"]
    by simp
qed

subsection \<open>An answer does not say who has an account\<close>

lemma limited_answer:
  "fst (auth_limited a now peer w) =
     (if fst (check_shared_key (hash_token a) AUTH_ATTEMPTS_PER_WINDOW AUTH_WINDOW_SECS ''auth'' peer now
          (buckets (w_db w))) then Inr () else Inl TooManyRequests)"
  by (simp add: auth_limited_def check_shared_def Let_def split: prod.split)

lemma limited_alike:
  assumes "buckets (w_db w1) = buckets (w_db w2)" "\<And>w. users (w_db w) = users (w_db w1) \<Longrightarrow> fst (k w) = x"
    "\<And>w. users (w_db w) = users (w_db w2) \<Longrightarrow> fst (k w) = x"
  shows "fst (and_then (auth_limited a now peer) (\<lambda>_. k) w1) = fst (and_then (auth_limited a now peer) (\<lambda>_. k) w2)"
proof -
  obtain r u1 u2 where r: "auth_limited a now peer w1 = (r, u1)" "auth_limited a now peer w2 = (r, u2)"
    using limited_answer[of a now peer w1] limited_answer[of a now peer w2] assms(1)
    by (cases "auth_limited a now peer w1"; cases "auth_limited a now peer w2") simp
  show ?thesis
    using assms(2)[OF limited_users[OF r(1)]] assms(3)[OF limited_users[OF r(2)]]
    by (cases r) (simp_all add: and_then_def r)
qed

lemma signup_alike:
  "fst (and_then (of_result (read_signup v salt now body)) (\<lambda>f.
     and_then (insert_user (signed_up a new_id token now f)) (\<lambda>fresh.
     if \<not> fresh then done_with (signup_answer mail_healthy (sf_email f))
     else and_then (writing (insert_entitlement (free_entitlement new_id))) (\<lambda>_.
     and_then (writing (record_event h ''signup_created'' now)) (\<lambda>_.
     and_then (send_verification a (sf_email f) (sf_first_name f) token) (\<lambda>_.
     done_with (signup_answer mail_healthy (sf_email f))))))) w)
   = bind_res (read_signup v salt now body) (\<lambda>f. Inr (signup_answer mail_healthy (sf_email f)))"
  by (cases "read_signup v salt now body")
    (simp_all add: and_then_def of_result_def insert_user_def done_with_def writing_def send_verification_def
       mailing_def)

text \<open>Someone who knows the password of the address typed.\<close>

definition knows :: "vault \<Rightarrow> string \<Rightarrow> string \<Rightarrow> db \<Rightarrow> bool" where
  "knows v address password d \<longleftrightarrow>
     (case normalize_address address of
        Inl _ \<Rightarrow> False
      | Inr email \<Rightarrow>
          (case user_by_email d email of None \<Rightarrow> False | Some u \<Rightarrow> verify_password v password (u_password u)))"

lemma knows_users: "users d = users d' \<Longrightarrow> knows v address password d = knows v address password d'"
  by (simp add: knows_def user_by_email_def split: sum.split)

text \<open>C11: no answer tells whether an address has an account.  Two databases that differ in their accounts as
  they like, and agree on what the limiter has counted, give a stranger the same answer: to a registration,
  to a forgotten password, to a request for a new confirmation, and to a sign-in without the password.\<close>

theorem answers_hide_accounts:
  assumes "buckets (w_db w1) = buckets (w_db w2)"
    and "\<not> knows v address password (w_db w1)" "\<not> knows v address password (w_db w2)"
  shows "fst (signup a v new_id salt token healthy now peer h body w1)
       = fst (signup a v new_id salt token healthy now peer h body w2)
    \<and> fst (forgot_password a token now peer address w1) = fst (forgot_password a token now peer address w2)
    \<and> fst (resend_verification a token now peer address w1) = fst (resend_verification a token now peer address w2)
    \<and> fst (login a v now peer address password w1) = fst (login a v now peer address password w2)"
proof (intro conjI)
  show "fst (signup a v new_id salt token healthy now peer h body w1)
      = fst (signup a v new_id salt token healthy now peer h body w2)"
    unfolding signup_def by (rule limited_alike[OF assms(1) signup_alike signup_alike])
  show "fst (forgot_password a token now peer address w1) = fst (forgot_password a token now peer address w2)"
    unfolding forgot_password_def
    by (rule limited_alike[OF assms(1), where x = "bind_res (normalize_address address) (\<lambda>_. Inr FORGOT_ANSWER)"];
        cases "normalize_address address")
      (simp_all add: and_then_def of_result_def reading_def done_with_def update_users_def mailing_def
         split: option.split)
  show "fst (resend_verification a token now peer address w1) = fst (resend_verification a token now peer address w2)"
    unfolding resend_verification_def
    by (rule limited_alike[OF assms(1), where x = "bind_res (normalize_address address) (\<lambda>_. Inr RESEND_ANSWER)"];
        cases "normalize_address address")
      (simp_all add: and_then_def of_result_def reading_def done_with_def update_users_def mailing_def
         send_verification_def split: option.split)
  show "fst (login a v now peer address password w1) = fst (login a v now peer address password w2)"
    unfolding login_def
    by (rule limited_alike[OF assms(1), where x = "if length password > MAX_PASSWORD_LEN * 4
           then Inl InvalidCredentials else bind_res (normalize_address address) (\<lambda>_. Inl InvalidCredentials)"];
        drule knows_users[of _ _ v address password]; cases "normalize_address address")
      (use assms(2,3) in \<open>auto simp: and_then_def of_result_def reading_def stop_with_def knows_def
         split: option.splits\<close>)
qed

theorem answers_hide_accounts_witness:
  "fst (forgot_password demo_app ''x'' 1 ''peer'' ''O@a '' demo_accounts)
     = fst (forgot_password demo_app ''x'' 1 ''peer'' ''O@a '' (demo_accounts\<lparr>w_db := (w_db demo_accounts)\<lparr>users := []\<rparr>\<rparr>))"
proof -
  have "\<not> knows demo_vault ''O@a '' ''guess'' (w_db demo_accounts)"
    "\<not> knows demo_vault ''O@a '' ''guess'' (w_db (demo_accounts\<lparr>w_db := (w_db demo_accounts)\<lparr>users := []\<rparr>\<rparr>))"
    by code_simp+
  moreover have "buckets (w_db demo_accounts)
      = buckets (w_db (demo_accounts\<lparr>w_db := (w_db demo_accounts)\<lparr>users := []\<rparr>\<rparr>))" by simp
  ultimately show ?thesis using answers_hide_accounts by blast
qed

subsection \<open>Age\<close>

lemma of_age:
  "\<not> today < birth \<and> MIN_AGE_YEARS \<le> age_on birth today \<longleftrightarrow> (fst birth + 18, snd birth) \<le> today"
  by (cases birth; cases today) (auto simp: MIN_AGE_YEARS_def)

text \<open>An account is for adults, to the day.  A date of birth is accepted exactly when it parses and the
  eighteenth birthday is not after today, where somebody born on 29 February has it on 1 March in a year
  that has no 29th.\<close>

lemma adults_only:
  "parse_date_of_birth v input today = Inr birth \<longleftrightarrow>
     va_read_date v (trim input) = Some birth
     \<and> (fst birth + 18, snd birth) \<le> today"
  using of_age[of today birth]
  by (cases "va_read_date v (trim input)") (auto simp: parse_date_of_birth_def not_less)

subsection \<open>What stays open\<close>

lemma rows_aligned:
  "(\<And>u. Q u (f u)) \<Longrightarrow> (\<And>u. Q u u) \<Longrightarrow> list_all2 Q us (update_where P f us)"
  by (induction us) (simp_all add: update_where_def)

text \<open>Deleting an account does not close the links that were under way.  Every row keeps its pending
  address, and the reset link and the address link that were good for it are good for it still: either one
  reopens the account that was said to be deleted.\<close>

lemma deletion_leaves_links:
  "case delete_account a v salt nobody user password w of
     (Inl _, _) \<Rightarrow> True
   | (Inr _, w') \<Rightarrow>
       list_all2 (\<lambda>u u'. u_id u' = u_id u \<and> u_pending_email u' = u_pending_email u
           \<and> u_change_hash u' = u_change_hash u \<and> u_change_sent u' = u_change_sent u
           \<and> resettable a now link u' = resettable a now link u)
         (users (w_db w)) (users (w_db w'))"
proof (cases "delete_account a v salt nobody user password w")
  case (Pair r w')
  show ?thesis
  proof (cases r)
    case (Inr x)
    obtain h where "users (w_db w') = update_where (\<lambda>u. u_id u = user) (deleted_row a h) (users (w_db w))"
      using delete_account_users[OF Pair[unfolded Inr]] by blast
    then show ?thesis
      by (simp add: Pair Inr rows_aligned resettable_def deleted_row_def)
  qed (simp add: Pair)
qed

lemma movable_kept:
  assumes "map u_email (users d') = map u_email (users d)" "u_change_hash u' = u_change_hash u"
    "u_change_sent u' = u_change_sent u" "u_pending_email u' = u_pending_email u"
  shows "movable a now link d' u' = movable a now link d u"
proof -
  have "u_email ` set (users d') = u_email ` set (users d)" using assms(1) by (metis set_map)
  then have "list_ex (\<lambda>other. Some (u_email other) = p) (users d')
      = list_ex (\<lambda>other. Some (u_email other) = p) (users d)" for p
    by (cases p) (simp_all add: list_ex_iff image_iff set_eq_iff Bex_def, metis)
  then show ?thesis using assms by (simp add: movable_def)
qed

lemma links_kept:
  assumes "users d' = update_where P f (users d)" "keeps_who f"
    "\<And>u. u_change_hash (f u) = u_change_hash u \<and> u_change_sent (f u) = u_change_sent u
       \<and> u_pending_email (f u) = u_pending_email u"
  shows "list_all2 (\<lambda>u u'. movable a now link d' u' = movable a now link d u) (users d) (users d')"
proof -
  have m: "map u_email (users d') = map u_email (users d)"
    unfolding assms(1) using assms(2) by (intro map_update_where) (simp add: keeps_who_def)
  have "movable a now link d' (f u) = movable a now link d u" "movable a now link d' u = movable a now link d u"
    for u using movable_kept[OF m, of "f u" u] movable_kept[OF m, of u u] assms(3)[of u] by simp_all
  then show ?thesis unfolding assms(1) by (intro rows_aligned) simp_all
qed

text \<open>A new password does not stop a change of address.  Whether the password is changed or reset, each
  address link that was under way can be used after it exactly as before: whoever asked for the move with
  the old password can still take the account to their own mailbox.\<close>

lemma address_link_survives_new_password:
  "(case change_password a v salt now user passwords w of
      (Inl _, _) \<Rightarrow> True
    | (Inr _, w') \<Rightarrow>
        list_all2 (\<lambda>u u'. movable a later link (w_db w') u' = movable a later link (w_db w) u)
          (users (w_db w)) (users (w_db w')))
   \<and> (case reset_password a v salt now peer reset w of
      (Inl _, _) \<Rightarrow> True
    | (Inr _, w') \<Rightarrow>
        list_all2 (\<lambda>u u'. movable a later link (w_db w') u' = movable a later link (w_db w) u)
          (users (w_db w)) (users (w_db w')))"
proof (intro conjI)
  show "case change_password a v salt now user passwords w of (Inl _, _) \<Rightarrow> True
    | (Inr _, w') \<Rightarrow> list_all2 (\<lambda>u u'. movable a later link (w_db w') u' = movable a later link (w_db w) u)
        (users (w_db w)) (users (w_db w'))"
    by (auto split: sum.split prod.split elim!: change_password_users intro!: links_kept simp: changed_row_def)
  show "case reset_password a v salt now peer reset w of (Inl _, _) \<Rightarrow> True
    | (Inr _, w') \<Rightarrow> list_all2 (\<lambda>u u'. movable a later link (w_db w') u' = movable a later link (w_db w) u)
        (users (w_db w)) (users (w_db w'))"
    by (auto split: sum.split prod.split elim!: reset_password_users intro!: links_kept simp: reset_row_def)
qed

end
