(* ===== verification/Service.thy ===== *)
theory Service
  imports System Webhook ManageBilling Portal FreeReport Results Credentials
begin

text \<open>
  The whole service on one process: every handler that changes something, the free report, the billing
  callbacks, and the background loops of \<open>System\<close>, as one step relation over the clock and the process.
  A request runs as one step; who it comes from is an argument, so a step covers every caller.
\<close>

subsection \<open>The handlers\<close>

text \<open>\<open>handler a v now f\<close>: at \<open>now\<close> a request may take the process from \<open>w\<close> to \<open>f w\<close>.\<close>

inductive handler :: "app \<Rightarrow> vault \<Rightarrow> time \<Rightarrow> (Stripe.world \<Rightarrow> Stripe.world) \<Rightarrow> bool" for a v now where
  signs_up: "handler a v now (\<lambda>w. snd (signup a v new_id salt token healthy now peer h form w))"
| confirms: "handler a v now (\<lambda>w. snd (verify_email a v now token w))"
| resends: "handler a v now (\<lambda>w. snd (resend_verification a token now peer address w))"
| signs_in: "handler a v now (\<lambda>w. snd (login a v now peer address password w))"
| forgets: "handler a v now (\<lambda>w. snd (forgot_password a token now peer address w))"
| resets: "handler a v now (\<lambda>w. snd (reset_password a v salt now peer reset w))"
| changes_password: "handler a v now (\<lambda>w. snd (change_password a v salt now user passwords w))"
| changes_address: "handler a v now (\<lambda>w. snd (change_email a v token now user address password w))"
| confirms_address: "handler a v now (\<lambda>w. snd (confirm_email_change a now peer token w))"
| deletes: "handler a v now (\<lambda>w. snd (delete_account a v salt nobody user password w))"
| brands: "handler a v now (\<lambda>w. snd (update_profile user name logo w))"
| buys: "handler a v now (\<lambda>w. snd (start_checkout a new_id now peer h user wanted w))"
| is_told: "handler a v now (\<lambda>w. snd (webhook a now h payload w))"
| cancels: "handler a v now (\<lambda>w. snd (schedule_cancellation a now user reason comment w))"
| resumes: "handler a v now (\<lambda>w. snd (resume_subscription a now user w))"
| opens_portal: "handler a v now (\<lambda>w. snd (open_portal a cell user w))"
| recovers: "handler a v now (\<lambda>w. snd (recovery_pass a now cutoff w))"
| mails_report: "handler a v now (\<lambda>w. snd (email_preview a n fmt now peer email_request w))"
| previews: "handler a v now (\<lambda>w. snd (run_preview a n fmt h now peer site w))"

text \<open>A relation between worlds that every elementary write goes along, every handler goes along.\<close>

locale service_relation = account_relation R a for R a +
  assumes asks_any: "asks (\<lambda>_. True) R"
    and subscribes: "moves R (apply_subscription a now v)"
    and binds: "moves R (bind_customer a v)"
    and flags: "moves R (writing (record_cancel_flag user b))"
    and on_events: "R w (w\<lparr>w_db := (w_db w)\<lparr>events := x1\<rparr>\<rparr>)"
    and on_consents: "R w (w\<lparr>w_db := (w_db w)\<lparr>consents := x2\<rparr>\<rparr>)"
    and on_sends: "R w (w\<lparr>w_db := (w_db w)\<lparr>preview_sends := x3\<rparr>\<rparr>)"
    and on_buckets: "R w (w\<lparr>w_db := (w_db w)\<lparr>buckets := x4\<rparr>\<rparr>)"
begin

lemma call_any: "moves R (stripe_get a secret url q)" "moves R (stripe_post a secret url q)"
  by (rule get[OF asks_any], simp) (rule post[OF asks_any], simp)

lemma buckets_write: "(\<And>w. \<exists>x. w_db (snd (m w)) = (w_db w)\<lparr>buckets := x\<rparr> \<and> snd (m w) = w\<lparr>w_db := w_db (snd (m w))\<rparr>) \<Longrightarrow> moves R m"
  unfolding moves_def by (metis on_buckets)

lemma brand_moves: "moves R (update_profile user name logo)"
proof -
  have "moves R (writing (\<lambda>d. d\<lparr>users := update_where (\<lambda>u. u_id u = user)
      (\<lambda>u. u\<lparr>u_agency := agency, u_logo := logo_url\<rparr>) (users d)\<rparr>))" for agency logo_url
  proof -
    have "keeps_who (\<lambda>u. u\<lparr>u_agency := agency, u_logo := logo_url\<rparr>)" by (rule keeps_whoI) simp_all
    then show ?thesis using edits by (fastforce simp: moves_def writing_def update_users_def)
  qed
  then show ?thesis unfolding update_profile_def by (intro steps)
qed

lemma consents_write: "(\<And>d. \<exists>x. f d = d\<lparr>consents := x\<rparr>) \<Longrightarrow> moves R (writing f)"
  unfolding moves_def writing_def snd_conv using on_consents by metis

lemma guard_moves: "moves R (checkout_guards a user wanted)"
proof -
  have email: "moves R (account_email user)"
    by (simp add: moves_def account_email_def of_option_def done_with_def stop_with_def stay split: option.split)
  show ?thesis
    unfolding checkout_guards_def choose_trial_def trial_available_def has_live_subscription_def
      completed_checkout_customer_def Let_def
    by (intro plain call_any email)
qed

lemma buy_moves: "moves R (start_checkout a new_id now peer h user wanted)"
  unfolding start_checkout_def open_session_def
  by (intro plain guard_moves call_any consents_write)
    (auto simp: name_session_def split: option.split intro: exI[of _ "consents d" for d])

lemma limit_moves: "moves R (manage_rate_limit a now user scope limit)"
  by (rule buckets_write) (auto simp: manage_rate_limit_def check_shared_def Let_def split: prod.split)

lemma preview_limit_moves: "moves R (preview_limited a now peer)"
  by (rule buckets_write) (auto simp: preview_limited_def check_shared_def Let_def split: prod.split)

lemma slot_moves: "moves R (claim_recipient_slot a now email)"
  unfolding claim_recipient_slot_def Let_def
  by (intro plain) (simp add: moves_def writing_def on_sends)

lemma look_moves: "moves R (look_up a now user)"
  unfolding look_up_def owned_def live_subscription_def unavailable_def
  by (intro plain limit_moves call_any)

lemma cancel_moves: "moves R (schedule_cancellation a now user reason comment)"
  unfolding schedule_cancellation_def post_subscription_def unavailable_def notify_owner_of_cancellation_def
    customer_country_def Let_def
  by (intro plain look_moves call_any flags mails buckets_write) (auto simp: writing_def)

lemma resume_moves: "moves R (resume_subscription a now user)"
  unfolding resume_subscription_def post_subscription_def unavailable_def Let_def
  by (intro plain look_moves call_any flags)

lemma products_moves: "moves R (group_products a secret prices found)"
  by (induction prices arbitrary: found) (simp_all only: group_products.simps finish seq call_any)

lemma portal_moves: "moves R (open_portal a cell user)"
  unfolding open_portal_def portal_configuration_def ensure_portal_configuration_def Let_def
  by (intro plain call_any products_moves)

lemma recovery_moves: "moves R (recovery_pass a now cutoff)"
proof -
  have claim: "moves R (claiming_recovery now key)" for key
    by (rule buckets_write) (auto simp: claiming_recovery_def claim_recovery_def split: option.split)
  have one: "moves R (recover_one a now secret event)" for secret event
    unfolding recover_one_def send_recovery_def Let_def by (intro plain call_any claim mails)
  have purge: "moves R (writing (purge_consents cutoff))" by (rule consents_write) (auto simp: purge_consents_def)
  show ?thesis
    unfolding recovery_pass_def recover_failed_checkouts_def by (intro plain call_any loop one purge)
qed

lemma report_moves: "moves R (email_preview a n fmt now peer email_request)"
  unfolding email_preview_def by (intro steps preview_limit_moves slot_moves)

lemma preview_moves: "moves R (run_preview a n fmt h now peer site)"
  unfolding run_preview_def counting_def Let_def by (intro steps preview_limit_moves)

lemma told_moves: "moves R (webhook a now h payload)"
  by (intro webhook_moves asks_any subscribes binds on_events)

lemma moved_state: "moves R m \<Longrightarrow> R w (snd (m w))"
  by (simp add: moves_def)

lemma handled:
  assumes "handler a v now f"
  shows "R w (f w)"
  using assms
  by (cases rule: handler.cases)
    (auto intro!: moved_state handler_moves brand_moves buy_moves told_moves cancel_moves resume_moves
      portal_moves recovery_moves report_moves preview_moves)

end

subsection \<open>What no request touches\<close>

text \<open>Jobs, the paper trail, results and which site belongs to whom are the background's business and the
  scan and target handlers'.\<close>

definition core :: "db \<Rightarrow> job list \<times> proof_row list \<times> authorization list \<times> result_row list
    \<times> (uid \<times> uid \<times> string) list" where
  "core d = (jobs d, proofs d, authorizations d, results d,
     map (\<lambda>t. (tg_id t, tg_user t, tg_domain t)) (targets d))"

lemma core_updates [simp]:
  "core (d\<lparr>users := x1\<rparr>) = core d" "core (d\<lparr>entitlements := x2\<rparr>) = core d"
  "core (d\<lparr>events := x3\<rparr>) = core d" "core (d\<lparr>consents := x4\<rparr>) = core d"
  "core (d\<lparr>preview_sends := x5\<rparr>) = core d" "core (d\<lparr>buckets := x6\<rparr>) = core d"
  "core (d\<lparr>claims := x7\<rparr>) = core d" "core (record_event h ev now d) = core d"
  by (simp_all add: core_def record_event_def Let_def split: option.split)

lemma rows_written_core: "rows_written a customer s charge d d' \<Longrightarrow> core d' = core d"
  by (auto simp: rows_written_def core_def map_update_where)

lemma claim_trial_core: "core (snd (claim_trial c d)) = core d"
  by (simp add: claim_trial_def split: option.split)

lemma bind_customer_entitlements: "\<exists>rows. w_db (snd (bind_customer a v w)) = (w_db w)\<lparr>entitlements := rows\<rparr>"
  by simp

lemma subscription_core: "moves (same core) (apply_subscription a now v)"
  using record_subscription_db rows_written_core
  by (intro frame.handler_moves mailing_moves asks_same)
    (simp_all add: moves_def same_def claiming_db claim_trial_core, metis)

lemma subscription_users: "users (w_db (snd (apply_subscription a now v w))) = users (w_db w)"
  using apply_subscription_elsewhere[of a now v w] by (simp add: elsewhere_def)

lemma bind_users: "users (w_db (snd (bind_customer a v w))) = users (w_db w)"
  using bind_customer_entitlements[of a v w] by (auto simp del: bind_customer_frame)

interpretation untouched: service_relation "same core" a for a
proof unfold_locales
  show "moves (same core) (bind_customer a v)" for v
    unfolding moves_def same_def using bind_customer_entitlements[of a v] core_updates(2) by metis
qed (simp_all add: moves_def same_def account_dbs subscription_core[unfolded moves_def same_def]
    record_cancel_flag_def)

subsection \<open>What the background does not touch\<close>

definition who :: "db \<Rightarrow> user list \<times> trial_claim list" where
  "who d = (users d, claims d)"

lemma who_updates [simp]:
  "who (d\<lparr>targets := x1\<rparr>) = who d" "who (d\<lparr>proofs := x2\<rparr>) = who d"
  "who (d\<lparr>authorizations := x3\<rparr>) = who d" "who (d\<lparr>jobs := x4\<rparr>) = who d"
  "who (d\<lparr>results := x5\<rparr>) = who d" "who (d\<lparr>entitlements := x6\<rparr>) = who d"
  "who (d\<lparr>buckets := x7\<rparr>) = who d" "who (record_event h ev now d) = who d"
  by (simp_all add: who_def record_event_def Let_def split: option.split)

lemma loop_who: "(\<And>s x. who (fst (f s x)) = who (fst s)) \<Longrightarrow> who (fst (foldl f s xs)) = who (fst s)"
  by (induction xs arbitrary: s) simp_all

lemma check_shared_who: "check_shared sha l w sc cl now d = (ok, d') \<Longrightarrow> who d' = who d"
  by (auto simp: check_shared_def Let_def split: prod.splits)

lemma tick_who: "who (tick ids now d) = who d"
proof -
  have "who (tick_one ids now d c) = who d" for d c
    using tick_one_cases[of now d c ids] by (auto simp: enqueue_def Let_def split: option.split prod.split)
  then have "who (foldl (tick_one ids now) d cs) = who d" for cs d
    by (induction cs arbitrary: d) simp_all
  then show ?thesis by (simp add: tick_def)
qed

lemma step_who:
  assumes "step (now, d) (now', d')"
  shows "who d' = who d"
  using assms
proof (cases rule: step.cases)
  case (registers i user site client)
  then show ?thesis by (cases rule: create_target_cases[of i now user site client d]) simp_all
next
  case starts
  then show ?thesis by (simp add: start_verification_def Let_def split: option.split)
next
  case checks
  then show ?thesis
    by (auto simp: check_verification_def complete_proof_def Let_def dest!: check_shared_who split: option.splits prod.splits)
next
  case (schedules user tid body)
  then show ?thesis using set_cadence_db[of now user tid body d] by auto
next
  case requests
  then show ?thesis by (simp add: create_scan_def Let_def split: sum.split)
next
  case ticks
  then show ?thesis by (simp add: tick_who)
next
  case renews
  then show ?thesis unfolding renew_due_def
    by (simp add: renew_one_def renew_proof_def Let_def loop_who split: prod.split)
next
  case reminds
  then show ?thesis
    by (simp add: send_due_def remind_one_def unmark_def Let_def loop_who split: prod.split)
next
  case claims
  then show ?thesis by (simp add: claim_next_job_def split: option.split)
next
  case requeues
  then show ?thesis by (simp add: requeue_interrupted_def)
next
  case (executes c nuclei tls url)
  then show ?thesis
    by (cases rule: execute_cases[of nuclei tls url now now' c d])
      (simp_all add: fail_job_def complete_job_def store_findings_def)
next
  case counts
  then show ?thesis by (auto simp: growth_page_def Let_def dest!: check_shared_who split: prod.splits)
qed simp

subsection \<open>The service\<close>

text \<open>The clock and the process.  Between the handlers the background works on the tables and sends its mail.\<close>

type_synonym service = "time \<times> Stripe.world"

inductive serve :: "app \<Rightarrow> vault \<Rightarrow> service \<Rightarrow> service \<Rightarrow> bool" for a v where
  answers: "handler a v now f \<Longrightarrow> serve a v (now, w) (now, f w)"
| works: "step (now, w_db w) (now', d) \<Longrightarrow>
    serve a v (now, w) (now', w\<lparr>w_db := d, w_mail := w_mail w @ mails\<rparr>)"

inductive_cases serveE: "serve a v s s'"

inductive served :: "app \<Rightarrow> vault \<Rightarrow> service \<Rightarrow> bool" for a v where
  empty: "jobs (w_db w) = [] \<Longrightarrow> targets (w_db w) = [] \<Longrightarrow> users (w_db w) = [] \<Longrightarrow> claims (w_db w) = [] \<Longrightarrow>
    served a v (now, w)"
| serves: "served a v s \<Longrightarrow> serve a v s s' \<Longrightarrow> served a v s'"

lemma served_later: "(serve a v)\<^sup>*\<^sup>* s s' \<Longrightarrow> served a v s \<Longrightarrow> served a v s'"
  by (induction rule: rtranclp_induct) (auto intro: served.serves)

text \<open>A relation every handler goes along, and every change that leaves accounts and claims alone, every
  history of the service goes along.\<close>

locale served_relation = service_relation R a for R a +
  assumes background: "who d = who (w_db w) \<Longrightarrow> R w (w\<lparr>w_db := d, w_mail := mail\<rparr>)"
begin

lemma served_step: "serve a v s s' \<Longrightarrow> R (snd s) (snd s')"
  by (elim serveE) (auto intro: handled background step_who)

lemma served_history: "(serve a v)\<^sup>*\<^sup>* s s' \<Longrightarrow> R (snd s) (snd s')"
proof (induction rule: rtranclp_induct)
  case (step s s')
  then show ?case using chain served_step by blast
qed (rule stay)

end

interpretation aged: served_relation aging a for a
  by unfold_locales (simp_all add: moves_def aging_def asks_def writing_db record_cancel_flag_def ages_users
      subscription_users bind_users who_def)

interpretation addressed: served_relation "maintains (addresses_ok a)" a for a
  by unfold_locales (simp_all add: moves_def maintains_def writing_db record_cancel_flag_def addresses_ok_def
      subscription_users bind_users who_def)

interpretation trials: served_relation "maintains one_trial_each" a for a
  by unfold_locales (simp_all add: moves_def maintains_def account_dbs record_cancel_flag_def one_trial_each_def
      apply_subscription_one_trial[unfolded one_trial_each_def] who_def record_event_def Let_def split: option.split)

subsection \<open>What holds in every served world\<close>

lemma core_fields:
  assumes "core d' = core d"
  shows "jobs d' = jobs d" "proofs d' = proofs d" "authorizations d' = authorizations d" "results d' = results d"
    "map tg_id (targets d') = map tg_id (targets d)"
    "map (\<lambda>t. (tg_user t, tg_domain t)) (targets d') = map (\<lambda>t. (tg_user t, tg_domain t)) (targets d)"
proof -
  have "map (fst \<circ> (\<lambda>t. (tg_id t, tg_user t, tg_domain t))) (targets d')
      = map (fst \<circ> (\<lambda>t. (tg_id t, tg_user t, tg_domain t))) (targets d)"
    "map (snd \<circ> (\<lambda>t. (tg_id t, tg_user t, tg_domain t))) (targets d')
      = map (snd \<circ> (\<lambda>t. (tg_id t, tg_user t, tg_domain t))) (targets d)"
    using assms unfolding map_map[symmetric] by (simp_all add: core_def)
  then show "map tg_id (targets d') = map tg_id (targets d)"
    "map (\<lambda>t. (tg_user t, tg_domain t)) (targets d') = map (\<lambda>t. (tg_user t, tg_domain t)) (targets d)"
    by (simp_all add: comp_def)
qed (use assms in \<open>simp_all add: core_def\<close>)

text \<open>A step of the service is one of \<open>System\<close> on the tables, or leaves the core of them.\<close>

lemma serve_cases:
  assumes "serve a v (now, w) (now', w')"
  obtains (core) "now' = now" "core (w_db w') = core (w_db w)" | (step) "step (now, w_db w) (now', w_db w')"
  using assms
proof (cases rule: serve.cases)
  case (answers f)
  then show ?thesis using untouched.handled[of a v now f w] core by (simp add: same_def)
next
  case works
  then show ?thesis using step by simp
qed

definition sound :: "db \<Rightarrow> bool" where
  "sound d \<longleftrightarrow> keys_ok d \<and> audited d \<and> registry_ok d"

lemma core_sound:
  assumes "core d' = core d" "sound d"
  shows "sound d'"
proof -
  note same = core_fields[OF assms(1)]
  have "audited d'"
    by (rule moves_audited[OF _ same_trail[OF same(2,3)]]) (use assms(2) in \<open>simp_all add: sound_def same(1)\<close>)
  moreover have "registry_ok d'"
    by (rule same_sites_registry[OF same(6)]) (use assms(2) in \<open>simp add: sound_def\<close>)
  ultimately show ?thesis using assms(2) by (simp add: sound_def keys_ok_def same(1,5))
qed

lemma served_sound: "served a v s \<Longrightarrow> sound (w_db (snd s))"
proof (induction rule: served.induct)
  case (empty w now)
  then show ?case by (simp add: sound_def keys_ok_def audited_def registry_ok_def)
next
  case (serves s s')
  obtain now w now' w' where s: "s = (now, w)" "s' = (now', w')" by (cases s; cases s')
  show ?case
    using serves(2)[unfolded s]
  proof (cases rule: serve_cases)
    case core
    then show ?thesis using serves(3) core_sound by (simp add: s)
  next
    case step
    then show ?thesis using serves(3) step_audited[OF step] step_registry[OF step] by (simp add: s sound_def)
  qed
qed

lemma served_keys: "served a v (now, w) \<Longrightarrow> keys_ok (w_db w)"
  using served_sound by (fastforce simp: sound_def)

lemma served_accounts: "served a v s \<Longrightarrow> addresses_ok a (w_db (snd s)) \<and> one_trial_each (w_db (snd s))"
proof (induction rule: served.induct)
  case (empty w now)
  then show ?case by (simp add: addresses_ok_def unique_emails_def one_trial_each_def)
next
  case (serves s s')
  then show ?case
    using addressed.served_step[OF serves(2)] trials.served_step[OF serves(2)] by (simp add: maintains_def)
qed

subsection \<open>A job's life\<close>

text \<open>The specification of one job: it is queued once for a site and a tool, runs, may be put back, and ends
  completed or failed.\<close>

type_synonym phase = "(uid \<times> string \<times> job_status) option"

inductive lifecycle :: "phase \<Rightarrow> phase \<Rightarrow> bool" where
  enters: "lifecycle None (Some (site, tool, Queued))"
| starts: "lifecycle (Some (site, tool, Queued)) (Some (site, tool, Running))"
| returns: "lifecycle (Some (site, tool, Running)) (Some (site, tool, Queued))"
| completes: "lifecycle (Some (site, tool, Running)) (Some (site, tool, Completed))"
| fails: "lifecycle (Some (site, tool, Running)) (Some (site, tool, Failed))"

definition job_phase :: "job \<Rightarrow> uid \<times> string \<times> job_status" where
  "job_phase j = (j_target j, j_tool j, j_status j)"

definition phase_of :: "uid \<Rightarrow> db \<Rightarrow> phase" where
  "phase_of i d = map_option job_phase (find (\<lambda>j. j_id j = i) (jobs d))"

lemma job_moves_lifecycle: "job_moves j j' \<Longrightarrow> lifecycle\<^sup>=\<^sup>= (Some (job_phase j)) (Some (job_phase j'))"
  by (elim job_movesE) (auto simp: job_phase_def intro: lifecycle.intros)

lemma moved_lifecycle:
  "list_all2 job_moves js js' \<Longrightarrow> lifecycle\<^sup>=\<^sup>= (map_option job_phase (find (\<lambda>j. j_id j = i) js))
     (map_option job_phase (find (\<lambda>j. j_id j = i) js'))"
  by (induction rule: list_all2_induct) (auto dest: job_moves_lifecycle job_moves_fields)

lemma appended_lifecycle:
  "\<forall>j\<in>set new. j_status j = Queued \<Longrightarrow> lifecycle\<^sup>=\<^sup>= (map_option job_phase (find (\<lambda>j. j_id j = i) js))
     (map_option job_phase (find (\<lambda>j. j_id j = i) (js @ new)))"
proof (induction js)
  case Nil
  then show ?case
  proof (cases "find (\<lambda>j. j_id j = i) new")
    case (Some j)
    then have "j \<in> set new" by (auto simp: find_Some_iff)
    then show ?thesis using Nil by (simp add: Some job_phase_def lifecycle.enters)
  qed simp
qed simp

lemma step_lifecycle:
  assumes "step (now, d) (now', d')" "keys_ok d"
  shows "lifecycle\<^sup>=\<^sup>= (phase_of i d) (phase_of i d')"
proof -
  consider
      (inplace) "list_all2 job_moves (jobs d) (jobs d')"
    | (gate) a j c b where "d' = snd (create_scan a j now c b d)"
    | (tick) ids where "d' = tick ids now d"
    using step_shape[OF assms] by fastforce
  then consider "list_all2 job_moves (jobs d) (jobs d')"
    | new where "jobs d' = jobs d @ new" "\<forall>j\<in>set new. j_status j = Queued"
    using manual_scan.grows_queue scheduled_scan.grows_queue unfolding authorized_now_def by cases metis+
  then show ?thesis
    unfolding phase_of_def by cases (simp_all only: moved_lifecycle appended_lifecycle)
qed

lemma serve_lifecycle:
  assumes "served a v s" "serve a v s s'"
  shows "lifecycle\<^sup>=\<^sup>= (phase_of i (w_db (snd s))) (phase_of i (w_db (snd s')))"
proof -
  obtain now w now' w' where s: "s = (now, w)" "s' = (now', w')" by (cases s; cases s')
  show ?thesis
    using assms(2)[unfolded s]
  proof (cases rule: serve_cases)
    case core
    then show ?thesis by (simp add: s phase_of_def core_fields(1)[OF core(2)])
  next
    case step
    then show ?thesis using step_lifecycle[OF step] served_keys assms(1) by (simp add: s)
  qed
qed

subsection \<open>Histories\<close>

text \<open>What the background does on an empty service, the service does.\<close>

lemma reachable_served:
  assumes "reachable s" "users (snd s) = []" "claims (snd s) = []"
  shows "served a v (fst s, w\<lparr>w_db := snd s\<rparr>)"
  using assms
proof (induction rule: reachable.induct)
  case (moves s s')
  obtain now d now' d' where s: "s = (now, d)" "s' = (now', d')" by (cases s; cases s')
  have "who d' = who d" using moves(2) step_who by (simp add: s)
  then have "served a v (now, w\<lparr>w_db := d\<rparr>)" using moves by (simp add: s who_def)
  moreover have "serve a v (now, w\<lparr>w_db := d\<rparr>) (now', w\<lparr>w_db := d'\<rparr>)"
    using serve.works[of now "w\<lparr>w_db := d\<rparr>" now' d' a v "[]"] moves(2) by (simp add: s)
  ultimately show ?case using served.serves by (simp add: s)
qed (simp add: served.empty)

definition demo_service :: "db \<Rightarrow> Stripe.world" where
  "demo_service d = \<lparr>w_db = d, w_calls = [], w_mail = []\<rparr>"

lemma served_demo:
  "reachable (now, d) \<Longrightarrow> users d = [] \<Longrightarrow> claims d = [] \<Longrightarrow> served a v (now, demo_service d)"
  using reachable_served[of "(now, d)" a v "demo_service d"] by (simp add: demo_service_def)

lemma world_users:
  "users world1 = []" "claims world1 = []" "users world2 = []" "claims world2 = []"
  "users world3 = []" "claims world3 = []"
  by code_simp+

lemmas served_worlds =
  served_demo[OF reachable_world1' world_users(1,2)] served_demo[OF reachable_world2 world_users(3,4)]
  served_demo[OF reachable_world3 world_users(5,6)]

lemma works_demo: "step (now, d) (now', d') \<Longrightarrow> serve a v (now, demo_service d) (now', demo_service d')"
  using serve.works[of now "demo_service d" now' d' a v "[]"] by (simp add: demo_service_def)

definition demo_change :: "(string \<times> string) action" where
  "demo_change = change_password demo_app demo_vault ''s'' 1 7
     \<lparr>pr_current = ''Old-pass!'', pr_new = ''New-pass!'', pr_confirmation = ''New-pass!''\<rparr>"

text \<open>The same address, typed twice.\<close>

definition demo_adults :: vault where
  "demo_adults = demo_vault\<lparr>va_read_date := (\<lambda>_. Some (2000, 1, 1))\<rparr>"

definition demo_signup :: "signup_response action" where
  "demo_signup = signup demo_app demo_adults 7 ''s'' ''t'' True 6 ''peer'' (\<lambda>_. None)
     \<lparr>su_first_name = ''O'', su_last_name = ''G'', su_birth = ''2000-01-01'', su_email = '' O@g.app'',
      su_password = ''Old-pass!'', su_confirmation = ''Old-pass!''\<rparr>"

definition demo_joined :: Stripe.world where
  "demo_joined = snd (demo_signup (snd (demo_signup (demo_service world1))))"

lemma auth_user_same:
  "token_version d' user = token_version d user \<Longrightarrow> auth_user v now verb h d = Inr user \<Longrightarrow>
   auth_user v now verb h d' = Inr user"
  unfolding auth_user_def Let_def bind_res_Inr_iff
  apply (elim exE conjE)
  apply (rule exI conjI | assumption)+
  apply (split if_split_asm)
  apply simp
  apply (simp only: if_False bind_res_Inr_iff)
  apply (elim exE conjE)
  apply (rule exI conjI | assumption)+
  apply (auto split: option.splits if_splits)
  done

subsection \<open>Properties\<close>

text \<open>C27: no scan without a trace.  In every world the service can reach, whatever the handlers, the callbacks,
  the scheduler and the runner did in whatever order, each job names an authorization of its own target, and
  that authorization names a completed proof of the same target.\<close>

theorem every_job_is_traced:
  assumes "served a v (now, w)" and "j \<in> set (jobs (w_db w))"
  shows "\<exists>x p. x \<in> set (authorizations (w_db w)) \<and> au_id x = j_auth j \<and> au_target x = j_target j
    \<and> p \<in> set (proofs (w_db w)) \<and> v_id p = au_proof x \<and> v_target p = j_target j \<and> v_verified_at p \<noteq> None"
  using served_sound[OF assms(1)] assms(2) unfolding sound_def audited_def traced_def snd_conv by blast

theorem every_job_is_traced_witness:
  "\<exists>x p. x \<in> set (authorizations world2) \<and> au_id x = j_auth (queue_job 6 21 1 20 ''tls'')
    \<and> au_target x = j_target (queue_job 6 21 1 20 ''tls'')
    \<and> p \<in> set (proofs world2) \<and> v_id p = au_proof x
    \<and> v_target p = j_target (queue_job 6 21 1 20 ''tls'') \<and> v_verified_at p \<noteq> None"
  using every_job_is_traced[OF served_worlds(2)[of demo_app demo_vault], of "queue_job 6 21 1 20 ''tls''"]
  by (simp add: demo_service_def world_jobs)

text \<open>C26: jobs enter the queue only through the gate.  Of everything the service does, a step that adds a job
  adds it waiting, with an allowed tool, and together with an authorization accepted at that instant for the
  same target, on a proof of that target which is in force at that instant.\<close>

theorem jobs_only_through_the_gate:
  assumes "served a v (now, w)" and "serve a v (now, w) (now', w')"
    and "j \<in> set (jobs (w_db w'))" and "j_id j \<notin> j_id ` set (jobs (w_db w))"
  shows "j_status j = Queued \<and> is_allowed_tool (j_tool j)
    \<and> (\<exists>x p. x \<in> set (authorizations (w_db w')) \<and> au_id x = j_auth j \<and> au_target x = j_target j
         \<and> au_accepted x = now \<and> p \<in> set (proofs (w_db w')) \<and> v_id p = au_proof x
         \<and> v_target p = j_target j \<and> in_force p now)"
  using assms(2)
proof (cases rule: serve_cases)
  case core
  then show ?thesis using assms(3,4) core_fields(1) by (metis imageI)
next
  case step
  show ?thesis
    using step_new_job[OF step served_keys[OF assms(1)] assms(3,4)] unfolding authorized_now_def by blast
qed

theorem jobs_only_through_the_gate_witness:
  "j_status (queue_job 6 21 1 20 ''tls'') = Queued \<and> is_allowed_tool (j_tool (queue_job 6 21 1 20 ''tls''))
    \<and> (\<exists>x p. x \<in> set (authorizations world2) \<and> au_id x = j_auth (queue_job 6 21 1 20 ''tls'')
         \<and> au_target x = j_target (queue_job 6 21 1 20 ''tls'')
         \<and> au_accepted x = 6 \<and> p \<in> set (proofs world2) \<and> v_id p = au_proof x
         \<and> v_target p = j_target (queue_job 6 21 1 20 ''tls'') \<and> in_force p 6)"
  using jobs_only_through_the_gate[OF served_worlds(1)[of demo_app demo_vault] works_demo[OF step_world2],
      of "queue_job 6 21 1 20 ''tls''"]
  by (simp add: demo_service_def world_jobs)

text \<open>C34: a settled scan stays as it ended.  Once a job is completed or failed, no history of the service
  changes its row or removes it.\<close>

theorem settled_jobs_stay:
  assumes "served a v s" and "(serve a v)\<^sup>*\<^sup>* s s'" and "j \<in> set (jobs (w_db (snd s)))"
    and "j_status j \<in> {Completed, Failed}"
  shows "j \<in> set (jobs (w_db (snd s')))"
  using assms(2)
proof (induction rule: rtranclp_induct)
  case (step s1 s2)
  obtain now w now' w' where s: "s1 = (now, w)" "s2 = (now', w')" by (cases s1; cases s2)
  have "keys_ok (w_db w)" using served_later[OF step(1) assms(1)] served_keys by (simp add: s)
  then show ?case
    using step(2,3) serve_cases[of a v now w now' w'] core_fields(1) step_keeps_settled assms(4)
    unfolding s snd_conv by metis
qed (rule assms(3))

theorem settled_jobs_stay_witness:
  "hd (jobs world3) \<in> set (jobs (w_db (snd (9 :: time, demo_service world3))))"
proof (rule settled_jobs_stay[OF served_worlds(3)[of demo_app demo_vault]])
  show "(serve demo_app demo_vault)\<^sup>*\<^sup>* (8, demo_service world3) (9, demo_service world3)"
    by (intro r_into_rtranclp works_demo step.passes) simp
qed (simp_all add: demo_service_def world3_jobs)

text \<open>C35: only public host names are ever registered, each at most once per account: no order of requests gets
  an address literal, an internal name or a second copy in.\<close>

theorem registry_invariant:
  assumes "served a v (now, w)"
  shows "list_all (\<lambda>t. public_hostname (tg_domain t)) (targets (w_db w))
    \<and> distinct (map (\<lambda>t. (tg_user t, tg_domain t)) (targets (w_db w)))"
  using served_sound[OF assms] by (simp add: sound_def registry_ok_def)

theorem registry_invariant_witness:
  "list_all (\<lambda>t. public_hostname (tg_domain t)) (targets world1)
    \<and> distinct (map (\<lambda>t. (tg_user t, tg_domain t)) (targets world1))"
  using registry_invariant[OF served_worlds(1)[of demo_app demo_vault]] by (simp add: demo_service_def)

text \<open>C21: the account and trial tables stay well formed.  In every world the service can reach, no two accounts
  have the same address, every address is a normalised one or the one a deleted account is left with, every
  address waiting to be confirmed is a normalised one, and no two trials were given to the same account, the
  same card or the same address.\<close>

theorem accounts_well_formed:
  assumes "served a v (now, w)"
  shows "distinct (map u_email (users (w_db w))) \<and> list_all (row_ok a) (users (w_db w)) \<and> one_trial_each (w_db w)"
  using served_accounts[OF assms] by (simp add: addresses_ok_def unique_emails_def)

text \<open>C15: whoever was signed out stays signed out.  Once no session that was good for an account is good any
  more, no history of the service makes one good again.\<close>

theorem signed_out_for_good:
  assumes "(serve a v)\<^sup>*\<^sup>* (t0, w0) (t1, w1)" and "signed_out v user (w_db w0) (w_db w1)"
    and "(serve a v)\<^sup>*\<^sup>* (t1, w1) (t2, w2)"
  shows "signed_out v user (w_db w0) (w_db w2)"
  unfolding signed_out_def
proof (intro notI, elim exE conjE)
  fix h now verb now' verb'
  assume good: "auth_user v now verb h (w_db w0) = Inr user" "auth_user v now' verb' h (w_db w2) = Inr user"
  have k: "token_version (w_db w2) user = token_version (w_db w0) user"
    using auth_user_version[OF good] by simp
  obtain k' where k': "token_version (w_db w0) user = Some k'" by (rule auth_userE[OF good(1)]) blast
  have "ages (w_db w0) (w_db w1)" "ages (w_db w1) (w_db w2)"
    using aged.served_history[OF assms(1)] aged.served_history[OF assms(3)] by (simp_all add: aging_def)
  then have "token_version (w_db w1) user = token_version (w_db w0) user"
    using k k' unfolding ages_def by (metis antisym option.inject)
  then have "auth_user v now verb h (w_db w1) = Inr user" using good(1) auth_user_same by blast
  then show False using assms(2) good(1) unfolding signed_out_def by blast
qed

theorem signed_out_for_good_witness:
  "signed_out demo_vault 7 (w_db demo_accounts) (w_db (snd (demo_change demo_accounts)))"
proof (rule signed_out_for_good)
  have "handler demo_app demo_vault 1 (\<lambda>w. snd (demo_change w))"
    unfolding demo_change_def by (rule handler.changes_password)
  then show "(serve demo_app demo_vault)\<^sup>*\<^sup>* (1, demo_accounts) (1, snd (demo_change demo_accounts))"
    by (intro r_into_rtranclp serve.answers)
  show "signed_out demo_vault 7 (w_db demo_accounts) (w_db (snd (demo_change demo_accounts)))"
    by (rule signed_outI) code_simp
  show "(serve demo_app demo_vault)\<^sup>*\<^sup>* (1, snd (demo_change demo_accounts)) (5, snd (demo_change demo_accounts))"
    using serve.works[OF step.passes, of 1 5 demo_app demo_vault "snd (demo_change demo_accounts)" "[]"] by auto
qed

theorem accounts_well_formed_witness:
  "map u_email (users (w_db demo_joined)) = [''o@g.app''] \<and> row_ok demo_app (hd (users (w_db demo_joined)))"
proof -
  have "served demo_app demo_adults (6, snd (demo_signup w))" if "served demo_app demo_adults (6, w)" for w
    using served.serves[OF that serve.answers] unfolding demo_signup_def by (metis handler.signs_up)
  then have "served demo_app demo_adults (6, demo_joined)"
    unfolding demo_joined_def using served_worlds(1) by blast
  moreover have "map u_email (users (w_db demo_joined)) = [''o@g.app'']"
    by code_simp
  ultimately show ?thesis using accounts_well_formed[of demo_app demo_adults 6 demo_joined]
    by (cases "users (w_db demo_joined)") auto
qed

text \<open>C20: every job follows its specification.  Whatever the service does, what the table says of a job moves as
  the job's life allows, or stays.\<close>

theorem jobs_follow_their_life:
  assumes "served a v s" and "(serve a v)\<^sup>*\<^sup>* s s'"
  shows "lifecycle\<^sup>*\<^sup>* (phase_of i (w_db (snd s))) (phase_of i (w_db (snd s')))"
  using assms(2)
proof (induction rule: rtranclp_induct)
  case (step s1 s2)
  have "lifecycle\<^sup>=\<^sup>= (phase_of i (w_db (snd s1))) (phase_of i (w_db (snd s2)))"
    using serve_lifecycle[OF served_later[OF step(1) assms(1)] step(2)] .
  then show ?case using step(3) by auto
qed simp

theorem jobs_follow_their_life_witness:
  "lifecycle\<^sup>*\<^sup>* (phase_of 21 world1) (phase_of 21 world2)"
  using jobs_follow_their_life[OF served_worlds(1)[of demo_app demo_vault]
      r_into_rtranclp[of "serve demo_app demo_vault", OF works_demo[OF step_world2]], of 21]
  by (simp add: demo_service_def)

end
