(* ===== verification/Worker.thy ===== *)
theory Worker
  imports Service
begin

text \<open>
  The two endless loops of the worker process: \<open>run_forever\<close> of \<open>crates/orchestrator/src/runner.rs\<close> and of
  \<open>scheduler.rs\<close>.  The runner is a machine with three places in its loop; between two of its statements the rest
  of the service goes on, and only the runner ever touches a job that is there.  A pass of the scheduler is one
  function.  Both only make steps of \<open>Service\<close>, so what holds in every served world holds while they run.
\<close>

subsection \<open>The scheduler's pass\<close>

definition TICK_SECS :: int where "TICK_SECS = 300"

text \<open>\<open>now\<close> is read when the pass begins and \<open>ticked\<close> when its middle part does.\<close>

definition scheduler_pass ::
    "net \<Rightarrow> bool \<Rightarrow> string \<Rightarrow> (string \<Rightarrow> message \<Rightarrow> bool) \<Rightarrow> (uid \<Rightarrow> uid \<times> uid \<times> uid) \<Rightarrow> time \<Rightarrow> time \<Rightarrow> db \<Rightarrow> db \<times> outbox" where
  "scheduler_pass net configured url deliver ids now ticked d =
     (let (renewed, warnings) = renew_due net configured url now (seconds TICK_SECS) d;
          queued = tick ids ticked renewed;
          (reminded, reminders) = send_due deliver url now queued
      in (reminded, warnings @ reminders))"

lemma scheduler_pass_serves:
  assumes "keys_ok (tick ids ticked (fst (renew_due net conf url now (seconds TICK_SECS) (w_db w))))" "now \<le> ticked"
    and "scheduler_pass net conf url deliver ids now ticked (w_db w) = (d, mails)"
  shows "(serve a v)\<^sup>*\<^sup>* (now, w) (ticked, w\<lparr>w_db := d, w_mail := w_mail w @ mails\<rparr>)"
proof -
  obtain d1 m1 where renewed: "renew_due net conf url now (seconds TICK_SECS) (w_db w) = (d1, m1)" by fastforce
  define d2 where "d2 = tick ids ticked d1"
  obtain d3 m3 where reminded: "send_due deliver url now d2 = (d3, m3)" by fastforce
  have out: "d = d3" "mails = m1 @ m3"
    using assms(3) by (simp_all add: scheduler_pass_def renewed reminded d2_def[symmetric])
  let ?w1 = "w\<lparr>w_db := d1, w_mail := w_mail w @ m1\<rparr>"
  have "serve a v (now, w) (now, ?w1)"
    using serve.works[OF step.renews[of now "w_db w" net conf url "seconds TICK_SECS"]] by (simp add: renewed)
  moreover have "serve a v (now, ?w1) (ticked, ?w1)"
    using serve.works[OF step.passes[OF assms(2)], of a v ?w1 "[]"] by simp
  moreover have "serve a v (ticked, ?w1) (ticked, w\<lparr>w_db := d2, w_mail := w_mail w @ m1\<rparr>)"
    using serve.works[of ticked ?w1 ticked d2 a v "[]"] step.ticks[of d2 ids ticked d1] assms(1)
    by (simp add: d2_def renewed)
  moreover have "serve a v (ticked, w\<lparr>w_db := d2, w_mail := w_mail w @ m1\<rparr>) (ticked, w\<lparr>w_db := d, w_mail := w_mail w @ mails\<rparr>)"
    using serve.works[of ticked "w\<lparr>w_db := d2, w_mail := w_mail w @ m1\<rparr>" ticked d3 a v m3]
      step.reminds[OF assms(2), of d2 deliver url] by (simp add: reminded out)
  ultimately show ?thesis by (meson rtranclp.intros)
qed

subsection \<open>The runner's loop\<close>

definition IDLE_POLL_SECS :: int where "IDLE_POLL_SECS = 5"

text \<open>\<open>read\<close> and \<open>after\<close> are the process's own clock before and after the sweep, \<open>now\<close> the database's.\<close>

definition sweep :: "time \<Rightarrow> time \<Rightarrow> time \<Rightarrow> time \<Rightarrow> db \<Rightarrow> time \<times> db" where
  "sweep read after last_sweep now d =
     (if seconds 600 \<le> read - last_sweep then (after, requeue_interrupted now d) else (last_sweep, d))"

datatype place = Polling | Claiming | Executing claimed_job

type_synonym worker = "time \<times> place \<times> service"

text \<open>What the rest of the service does leaves the jobs that are there alone.\<close>

definition adds_jobs :: "db \<Rightarrow> db \<Rightarrow> bool" where
  "adds_jobs d d' \<longleftrightarrow> (\<exists>new. jobs d' = jobs d @ new)"

text \<open>\<open>run_forever a v url x n y\<close>: one statement of the loop, or a step of the rest; \<open>n\<close> is 1 where a turn of the
  loop ends.\<close>

inductive run_forever :: "app \<Rightarrow> vault \<Rightarrow> string \<Rightarrow> worker \<Rightarrow> nat \<Rightarrow> worker \<Rightarrow> bool" for a v url where
  sweeps: "sweep read after last_sweep now (w_db w) = (last', d) \<Longrightarrow>
    run_forever a v url (last_sweep, Polling, now, w) 0 (last', Claiming, now, w\<lparr>w_db := d\<rparr>)"
| idles: "claim_next_job now (w_db w) = (None, d) \<Longrightarrow> now + seconds IDLE_POLL_SECS \<le> later \<Longrightarrow>
    run_forever a v url (last_sweep, Claiming, now, w) 1 (last_sweep, Polling, later, w\<lparr>w_db := d\<rparr>)"
| claims: "claim_next_job now (w_db w) = (Some job, d) \<Longrightarrow>
    run_forever a v url (last_sweep, Claiming, now, w) 0 (last_sweep, Executing job, now, w\<lparr>w_db := d\<rparr>)"
| executes: "execute nuclei tls url now later job (w_db w) = (d, mails) \<Longrightarrow> now \<le> later \<Longrightarrow>
    run_forever a v url (last_sweep, Executing job, now, w) 1
      (last_sweep, Polling, later, w\<lparr>w_db := d, w_mail := w_mail w @ mails\<rparr>)"
| elsewhere: "serve a v (now, w) (now', w') \<Longrightarrow> adds_jobs (w_db w) (w_db w') \<Longrightarrow>
    run_forever a v url (last_sweep, at, now, w) 0 (last_sweep, at, now', w')"

inductive_cases run_foreverE: "run_forever a v url x n y"

inductive runs :: "app \<Rightarrow> vault \<Rightarrow> string \<Rightarrow> worker \<Rightarrow> nat \<Rightarrow> worker \<Rightarrow> bool" for a v url x where
  starts: "runs a v url x 0 x"
| goes_on: "runs a v url x n y \<Longrightarrow> run_forever a v url y k z \<Longrightarrow> runs a v url x (n + k) z"

text \<open>The loop never stands still: wherever it is, its next statement can run.\<close>

lemma runner_never_stuck:
  obtains n y where "run_forever a v url (last_sweep, at, now, w) n y" "fst (snd y) \<noteq> at"
proof (cases at)
  case Polling
  then show ?thesis using that run_forever.sweeps by (metis fst_conv place.distinct(1) snd_conv surj_pair)
next
  case Claiming
  obtain c d where c: "claim_next_job now (w_db w) = (c, d)" by fastforce
  show ?thesis
  proof (cases c)
    case None
    then show ?thesis
      using that[of 1 "(last_sweep, Polling, now + seconds IDLE_POLL_SECS, w\<lparr>w_db := d\<rparr>)"] run_forever.idles[of now w d] c Claiming
      by simp
  next
    case (Some job)
    then show ?thesis
      using that[of 0 "(last_sweep, Executing job, now, w\<lparr>w_db := d\<rparr>)"] run_forever.claims[of now w job d] c Claiming by simp
  qed
next
  case (Executing job)
  obtain d m where "execute (\<lambda>_. Inr []) (\<lambda>_. Inr []) url now now job (w_db w) = (d, m)" by fastforce
  then show ?thesis
    using that[of 1 "(last_sweep, Polling, now, w\<lparr>w_db := d, w_mail := w_mail w @ m\<rparr>)"] run_forever.executes[of _ _ url now now job w d m] Executing
    by simp
qed

subsection \<open>The loop only makes steps of the service\<close>

text \<open>What a runner that executes has claimed is still its own.\<close>

definition holds :: "place \<Rightarrow> db \<Rightarrow> bool" where
  "holds at d \<longleftrightarrow> (case at of Executing job \<Rightarrow> holds_claim d job | _ \<Rightarrow> True)"

lemma updated_mem: "x \<in> set xs \<Longrightarrow> Q x \<Longrightarrow> y = f x \<Longrightarrow> y \<in> set (update_where Q f xs)"
  by (auto simp: update_where_def)

lemma kept_mem: "x \<in> set xs \<Longrightarrow> \<not> Q x \<Longrightarrow> x \<in> set (update_where Q f xs)"
  by (auto simp: update_where_def)

lemma adds_jobs_holds: "adds_jobs d d' \<Longrightarrow> holds at d \<Longrightarrow> holds at d'"
  by (auto simp: adds_jobs_def holds_def holds_claim_def split: place.splits)

lemma claim_next_job_SomeD:
  assumes "claim_next_job now d = (Some job, d')"
  obtains j where "j \<in> set (jobs d)" "j_status j = Queued" "cj_id job = j_id j" "cj_target job = j_target j"
    "cj_tool job = j_tool j" "\<And>x. x \<in> set (queued d) \<Longrightarrow> j_created j \<le> j_created x"
    "jobs d' = update_where (\<lambda>x. j_id x = j_id j) (\<lambda>x. x\<lparr>j_status := Running, j_started := Some now\<rparr>) (jobs d)"
proof -
  obtain j where j: "next_queued d = Some j" "job = \<lparr>cj_id = j_id j, cj_target = j_target j, cj_tool = j_tool j\<rparr>"
    using assms by (auto simp: claim_next_job_def split: option.splits)
  then have "j \<in> set (queued d)" "\<And>x. x \<in> set (queued d) \<Longrightarrow> j_created j \<le> j_created x"
    using earliest_by_mem earliest_by_min unfolding next_queued_def queued_def by metis+
  then show ?thesis
    using that[of j] assms j by (auto simp: queued_def claim_next_job_def split: option.splits)
qed

lemma claimed_held: "claim_next_job now d = (Some job, d') \<Longrightarrow> holds (Executing job) d'"
proof (erule claim_next_job_SomeD)
  fix j
  assume j: "j \<in> set (jobs d)" "cj_id job = j_id j" "cj_target job = j_target j" "cj_tool job = j_tool j"
    and d': "jobs d' = update_where (\<lambda>x. j_id x = j_id j) (\<lambda>x. x\<lparr>j_status := Running, j_started := Some now\<rparr>) (jobs d)"
  have "j\<lparr>j_status := Running, j_started := Some now\<rparr> \<in> set (jobs d')"
    unfolding d' by (rule updated_mem) (use j in simp_all)
  then show ?thesis using j(2-4) unfolding holds_def place.case holds_claim_def list_ex_iff by (intro bexI) simp_all
qed

lemma run_forever_serves:
  assumes "run_forever a v url (last_sweep, at, now, w) n (last', at', now', w')" "holds at (w_db w)"
  shows "(serve a v)\<^sup>*\<^sup>* (now, w) (now', w')" and "holds at' (w_db w')"
proof -
  have "(serve a v)\<^sup>*\<^sup>* (now, w) (now', w') \<and> holds at' (w_db w')"
    using assms(1)
  proof (cases rule: run_forever.cases)
    case (sweeps read after d)
    then consider "d = requeue_interrupted now (w_db w)" | "w' = w"
      by (auto simp: sweep_def split: if_splits)
    then have "serve a v (now, w) (now, w\<lparr>w_db := d\<rparr>) \<or> w' = w"
      using serve.works[OF step.requeues, of a v now w "[]"] by cases auto
    then show ?thesis using sweeps by (auto simp: holds_def)
  next
    case (idles d)
    then have "w_db w = d" by (auto simp: claim_next_job_def split: option.splits)
    then have "w' = w" using idles by auto
    moreover have "now \<le> now'" using idles by (simp add: IDLE_POLL_SECS_def seconds_def)
    ultimately show ?thesis
      using idles serve.works[OF step.passes[OF \<open>now \<le> now'\<close>], of a v w "[]"] by (auto simp: holds_def)
  next
    case (claims job d)
    then have "serve a v (now, w) (now, w\<lparr>w_db := d\<rparr>)"
      using serve.works[OF step.claims, of a v now w "[]"] by simp
    then show ?thesis using claims claimed_held by auto
  next
    case (executes nuclei tls job d mails)
    then have "serve a v (now, w) (now', w\<lparr>w_db := d, w_mail := w_mail w @ mails\<rparr>)"
      using serve.works[OF step.executes[of "w_db w" job now now' nuclei tls url], of a v mails] assms(2)
      by (simp add: holds_def)
    then show ?thesis using executes by (auto simp: holds_def)
  next
    case elsewhere
    then show ?thesis using adds_jobs_holds assms(2) by auto
  qed
  then show "(serve a v)\<^sup>*\<^sup>* (now, w) (now', w')" and "holds at' (w_db w')" by auto
qed

lemma runs_serves:
  assumes "runs a v url x n y" "holds (fst (snd x)) (w_db (snd (snd (snd x))))"
  shows "(serve a v)\<^sup>*\<^sup>* (snd (snd x)) (snd (snd y)) \<and> holds (fst (snd y)) (w_db (snd (snd (snd y))))"
  using assms
proof (induction rule: runs.induct)
  case (goes_on n y k z)
  obtain s p t w s' p' t' w' where "y = (s, p, t, w)" "z = (s', p', t', w')" by (metis surj_pair)
  then show ?case using goes_on run_forever_serves[of a v url s p t w k s' p' t' w'] by auto
qed simp

subsection \<open>No job waits for ever\<close>

text \<open>The jobs that are not settled and were queued by \<open>t\<close>.\<close>

definition ahead :: "time \<Rightarrow> db \<Rightarrow> job list" where
  "ahead t d = filter (\<lambda>j. j_status j \<in> {Queued, Running} \<and> j_created j \<le> t) (jobs d)"

definition settled :: "uid \<Rightarrow> db \<Rightarrow> bool" where
  "settled i d \<longleftrightarrow> (\<exists>j\<in>set (jobs d). j_id j = i \<and> j_status j \<in> {Completed, Failed})"

definition waits :: "uid \<Rightarrow> time \<Rightarrow> db \<Rightarrow> bool" where
  "waits i t d \<longleftrightarrow> (\<exists>j\<in>set (jobs d). j_id j = i \<and> j_status j = Queued \<and> j_created j = t)"

text \<open>The runner is on its way to the job \<open>i\<close>: it waits, or is the one being executed.\<close>

definition coming :: "uid \<Rightarrow> time \<Rightarrow> place \<Rightarrow> db \<Rightarrow> bool" where
  "coming i t at d \<longleftrightarrow>
     (case at of
        Executing job \<Rightarrow> (\<exists>k\<in>set (jobs d). j_id k = cj_id job \<and> j_status k = Running \<and> j_created k \<le> t)
          \<and> (cj_id job = i \<or> waits i t d)
      | _ \<Rightarrow> waits i t d)"

lemma filter_update_same:
  "(\<And>x. x \<in> set xs \<Longrightarrow> Q x \<Longrightarrow> P (f x) = P x) \<Longrightarrow> length (filter P (update_where Q f xs)) = length (filter P xs)"
  by (induction xs) (auto simp: update_where_def)

lemma filter_update_less:
  assumes "\<And>x. Q x \<Longrightarrow> \<not> P (f x)" "k \<in> set xs" "Q k" "P k"
  shows "length (filter P (update_where Q f xs)) < length (filter P xs)"
proof -
  have le: "length (filter P (update_where Q f ys)) \<le> length (filter P ys)" for ys
    using assms(1) by (induction ys) (auto simp: update_where_def)
  obtain us vs where "xs = us @ k # vs" using assms(2) by (metis split_list)
  then show ?thesis using le[of us] le[of vs] assms by (simp add: update_where_def)
qed

lemma sweep_ahead:
  assumes "sweep read after last_sweep now d = (last', d')"
  shows "length (ahead t d') = length (ahead t d)" and "waits i t d \<Longrightarrow> waits i t d'" and "settled i d \<Longrightarrow> settled i d'"
proof -
  have jobs: "d' = d \<or> d' = requeue_interrupted now d"
    using assms by (auto simp: sweep_def split: if_splits)
  have "length (ahead t (requeue_interrupted now d)) = length (ahead t d)"
    unfolding ahead_def requeue_interrupted_def by (simp, rule filter_update_same) auto
  then show "length (ahead t d') = length (ahead t d)" using jobs by auto
  show "waits i t d'" if "waits i t d"
    using jobs that by (fastforce simp: waits_def requeue_interrupted_def update_where_def)
  show "settled i d'" if "settled i d"
    using jobs that by (fastforce simp: settled_def requeue_interrupted_def update_where_def)
qed

lemma claim_ahead:
  assumes "claim_next_job now d = (Some job, d')" "distinct (map j_id (jobs d))"
  shows "length (ahead t d') = length (ahead t d)" and "waits i t d \<Longrightarrow> coming i t (Executing job) d'"
    and "settled i d \<Longrightarrow> settled i d'"
proof -
  obtain j where j: "j \<in> set (jobs d)" "j_status j = Queued" "cj_id job = j_id j"
    "\<And>x. x \<in> set (queued d) \<Longrightarrow> j_created j \<le> j_created x"
    and d': "jobs d' = update_where (\<lambda>x. j_id x = j_id j) (\<lambda>x. x\<lparr>j_status := Running, j_started := Some now\<rparr>) (jobs d)"
    by (rule claim_next_job_SomeD[OF assms(1)]) blast
  have only: "x = j" if "x \<in> set (jobs d)" "j_id x = j_id j" for x
    using same_id[OF assms(2) that(1) j(1) that(2)] .
  show "length (ahead t d') = length (ahead t d)"
    unfolding ahead_def d' by (rule filter_update_same) (use only j(2) in auto)
  show "settled i d'" if "settled i d"
    using that only j(2) by (fastforce simp: settled_def d' update_where_def)
  show "coming i t (Executing job) d'" if w: "waits i t d"
  proof -
    obtain x where x: "x \<in> set (jobs d)" "j_id x = i" "j_status x = Queued" "j_created x = t"
      using w by (auto simp: waits_def)
    have "j_created j \<le> t" using j(4)[of x] x by (simp add: queued_def)
    then have "\<exists>k\<in>set (jobs d'). j_id k = cj_id job \<and> j_status k = Running \<and> j_created k \<le> t"
    proof (intro bexI)
      show "j\<lparr>j_status := Running, j_started := Some now\<rparr> \<in> set (jobs d')"
        unfolding d' by (rule updated_mem[OF j(1)]) simp_all
    qed (use j(3) in simp_all)
    moreover have "waits i t d'" if "cj_id job \<noteq> i"
    proof -
      have "x \<in> set (jobs d')" unfolding d' by (rule kept_mem[OF x(1)]) (use x(2) j(3) that in simp)
      then show ?thesis using x unfolding waits_def by blast
    qed
    ultimately show ?thesis unfolding coming_def place.case by blast
  qed
qed

lemma execute_jobs:
  obtains f where "jobs (fst (execute nuclei tls url now later job d)) = update_where (\<lambda>j. j_id j = cj_id job) f (jobs d)"
    "\<And>j. j_status (f j) \<in> {Completed, Failed}" "\<And>j. j_id (f j) = j_id j"
proof (cases rule: execute_cases[of nuclei tls url now later job d])
  case (1 reason t)
  show ?thesis
    by (rule that[of "\<lambda>j. j\<lparr>j_status := Failed, j_completed := Some t, j_reason := Some reason\<rparr>"])
      (simp_all add: 1(1) fail_job_def)
next
  case (2 fs)
  show ?thesis
    by (rule that[of "\<lambda>j. j\<lparr>j_status := Completed, j_completed := Some later\<rparr>"])
      (simp_all add: 2(1) complete_job_def store_findings_def)
qed

lemma execute_ahead:
  assumes "execute nuclei tls url now later job d = (d', mails)" "coming i t (Executing job) d"
  shows "length (ahead t d') < length (ahead t d)" and "settled i d' \<or> waits i t d'"
proof -
  obtain k where k: "k \<in> set (jobs d)" "j_id k = cj_id job" "j_status k = Running" "j_created k \<le> t"
    and i: "cj_id job = i \<or> waits i t d"
    using assms(2) by (auto simp: coming_def)
  obtain f where f: "jobs d' = update_where (\<lambda>j. j_id j = cj_id job) f (jobs d)"
    "\<And>j. j_status (f j) \<in> {Completed, Failed}" "\<And>j. j_id (f j) = j_id j"
    by (rule execute_jobs[of nuclei tls url now later job d, unfolded assms(1) fst_conv]) blast
  show "length (ahead t d') < length (ahead t d)"
    unfolding ahead_def f(1)
  proof (rule filter_update_less[OF _ k(1)])
    show "\<not> (j_status (f x) \<in> {Queued, Running} \<and> j_created (f x) \<le> t)" for x
      using f(2)[of x] by auto
  qed (use k in simp_all)
  show "settled i d' \<or> waits i t d'"
  proof (cases "cj_id job = i")
    case True
    have "f k \<in> set (jobs d')" unfolding f(1) by (rule updated_mem[OF k(1)]) (simp_all add: k(2))
    then have "settled i d'" using f(2)[of k] f(3)[of k] k(2) True unfolding settled_def by metis
    then show ?thesis by simp
  next
    case False
    then obtain x where x: "x \<in> set (jobs d)" "j_id x = i" "j_status x = Queued" "j_created x = t"
      using i by (auto simp: waits_def)
    have "x \<in> set (jobs d')" unfolding f(1) by (rule kept_mem[OF x(1)]) (use x(2) False in simp)
    then show ?thesis using x unfolding waits_def by blast
  qed
qed

lemma execute_settled:
  assumes "settled i d"
  shows "settled i (fst (execute nuclei tls url now later job d))"
proof -
  obtain f where f: "jobs (fst (execute nuclei tls url now later job d)) = update_where (\<lambda>j. j_id j = cj_id job) f (jobs d)"
    "\<And>j. j_status (f j) \<in> {Completed, Failed}" "\<And>j. j_id (f j) = j_id j"
    by (rule execute_jobs[of nuclei tls url now later job d]) blast
  obtain j where j: "j \<in> set (jobs d)" "j_id j = i" "j_status j \<in> {Completed, Failed}"
    using assms by (auto simp: settled_def)
  show ?thesis
  proof (cases "i = cj_id job")
    case True
    have "f j \<in> set (update_where (\<lambda>j. j_id j = cj_id job) f (jobs d))"
      by (rule updated_mem[OF j(1)]) (use j(2) True in simp_all)
    then show ?thesis using f(2)[of j] f(3)[of j] j(2) unfolding settled_def f(1) by metis
  next
    case False
    have "j \<in> set (update_where (\<lambda>j. j_id j = cj_id job) f (jobs d))"
      by (rule kept_mem[OF j(1)]) (use j(2) False in simp)
    then show ?thesis using j unfolding settled_def f(1) by blast
  qed
qed

text \<open>What is added elsewhere is queued at that instant.\<close>

lemma elsewhere_created:
  assumes "serve a v (now, w) (now', w')" "keys_ok (w_db w)" "jobs (w_db w') = jobs (w_db w) @ new" "j \<in> set new"
  shows "j_created j = now"
  using assms(1)
proof (cases rule: serve_cases)
  case core
  then show ?thesis using assms(3,4) core_fields(1)[OF core(2)] by simp
next
  case step
  consider
      (inplace) "list_all2 job_moves (jobs (w_db w)) (jobs (w_db w'))"
    | (gate) x y c b where "w_db w' = snd (create_scan x y now c b (w_db w))"
    | (tick) ids where "w_db w' = tick ids now (w_db w)"
    using step_shape[OF step assms(2)] by fastforce
  then show ?thesis
  proof cases
    case inplace
    then show ?thesis using assms(3,4) by (auto dest: list_all2_lengthD)
  next
    case gate
    then show ?thesis
      using manual_scan.grows_queue[of x y now c b "w_db w"] assms(3,4) by (auto simp: authorized_now_def)
  next
    case tick
    then show ?thesis
      using scheduled_scan.grows_queue[of ids now "w_db w"] assms(3,4) by (auto simp: authorized_now_def)
  qed
qed

lemma elsewhere_ahead:
  assumes "serve a v (now, w) (now', w')" "keys_ok (w_db w)" "adds_jobs (w_db w) (w_db w')" "t < now"
  shows "length (ahead t (w_db w')) = length (ahead t (w_db w))"
    and "coming i t at (w_db w) \<Longrightarrow> coming i t at (w_db w')" and "settled i (w_db w) \<Longrightarrow> settled i (w_db w')"
proof -
  obtain new where new: "jobs (w_db w') = jobs (w_db w) @ new" using assms(3) by (auto simp: adds_jobs_def)
  have "\<forall>j\<in>set new. j_created j = now" using elsewhere_created[OF assms(1,2) new] by blast
  then have "filter (\<lambda>j. j_status j \<in> {Queued, Running} \<and> j_created j \<le> t) new = []"
    using assms(4) by (auto simp: filter_empty_conv)
  then show "length (ahead t (w_db w')) = length (ahead t (w_db w))" by (simp add: ahead_def new)
  show "coming i t at (w_db w) \<Longrightarrow> coming i t at (w_db w')"
    by (auto simp: coming_def waits_def new split: place.splits)
  show "settled i (w_db w) \<Longrightarrow> settled i (w_db w')" by (auto simp: settled_def new)
qed

lemma serve_time: "serve a v (now, w) (now', w') \<Longrightarrow> now \<le> now'"
  by (erule serveE) (auto elim: stepE)

lemma history_time: "(serve a v)\<^sup>*\<^sup>* s s' \<Longrightarrow> fst s \<le> fst s'"
  by (induction rule: rtranclp_induct) (use serve_time in \<open>force+\<close>)

lemma coming_ahead: "coming i t at d \<Longrightarrow> ahead t d \<noteq> []"
  by (fastforce simp: coming_def waits_def ahead_def filter_empty_conv split: place.splits)

text \<open>A statement of the loop keeps a settled job settled, and brings the runner nearer to one that is coming:
  where a turn ends, fewer are ahead.\<close>

definition nearing :: "uid \<Rightarrow> time \<Rightarrow> nat \<Rightarrow> nat \<Rightarrow> place \<Rightarrow> db \<Rightarrow> bool" where
  "nearing i t bound n at d \<longleftrightarrow> settled i d \<or> (coming i t at d \<and> n + length (ahead t d) \<le> bound)"

lemma run_forever_nears:
  assumes "run_forever a v url (last_sweep, at, now, w) k (last', at', now', w')" "keys_ok (w_db w)" "t < now"
    and "nearing i t bound n at (w_db w)"
  shows "nearing i t bound (n + k) at' (w_db w')"
  using assms(1)
proof (cases rule: run_forever.cases)
  case (sweeps read after d)
  then show ?thesis
    using assms(4) sweep_ahead[of read after last_sweep now "w_db w" last' d] by (auto simp: nearing_def coming_def)
next
  case (idles d)
  then have "next_queued (w_db w) = None" by (simp add: claim_next_job_def split: option.splits)
  then have "queued (w_db w) = []" by (simp add: next_queued_def queued_def)
  then have "\<not> waits i t (w_db w)" by (fastforce simp: waits_def queued_def filter_empty_conv)
  moreover have "d = w_db w" using idles by (auto simp: claim_next_job_def split: option.splits)
  ultimately show ?thesis using idles assms(4) by (auto simp: nearing_def coming_def)
next
  case (claims job d)
  have d: "distinct (map j_id (jobs (w_db w)))" using assms(2) by (simp add: keys_ok_def)
  have "coming i t at (w_db w) = waits i t (w_db w)" using claims by (simp add: coming_def)
  then show ?thesis
    using claims assms(4) claim_ahead(1)[OF _ d, of now job _ t] claim_ahead(2,3)[OF _ d, of now job] by (auto simp: nearing_def)
next
  case (executes nuclei tls job d mails)
  note d = executes(6)
  have "settled i d" if "settled i (w_db w)"
    using execute_settled[OF that, of nuclei tls url now now' job] d by simp
  moreover have "waits i t d = coming i t at' d" using executes by (simp add: coming_def)
  ultimately show ?thesis
    using executes assms(4) execute_ahead[OF d, of i t] by (fastforce simp: nearing_def)
next
  case elsewhere
  then show ?thesis
    using assms(4) elsewhere_ahead[OF elsewhere(4) assms(2) elsewhere(5) assms(3)] by (auto simp: nearing_def)
qed

lemma runs_near:
  assumes "runs a v url x n y" "x = (last_sweep, at, now, w)" "holds at (w_db w)" "served a v (now, w)" "t < now"
    and "nearing i t bound 0 at (w_db w)"
  shows "\<exists>last' at' now' w'. y = (last', at', now', w') \<and> holds at' (w_db w') \<and> served a v (now', w') \<and> t < now'
    \<and> nearing i t bound n at' (w_db w')"
  using assms
proof (induction rule: runs.induct)
  case (goes_on n y k z)
  then obtain s1 p1 t1 w1 where y: "y = (s1, p1, t1, w1)" "holds p1 (w_db w1)" "served a v (t1, w1)" "t < t1"
    "nearing i t bound n p1 (w_db w1)" by blast
  obtain s2 p2 t2 w2 where z: "z = (s2, p2, t2, w2)" by (metis surj_pair)
  note step = goes_on(2)[unfolded y z]
  note goes = run_forever_serves[OF step y(2)]
  have "t < t2" using history_time[OF goes(1)] y(4) by simp
  then show ?case
    using goes z served_later[OF goes(1) y(3)] run_forever_nears[OF step served_keys[OF y(3)] y(4,5)] by blast
qed blast

text \<open>C17: no job waits for ever, and none is overtaken by later ones.  While the worker's loop runs, whatever the
  rest of the service does in between, more scans queued included: once the loop has made as many turns as there
  were jobs queued or left running, up to its own time, a job that was waiting is completed or failed.\<close>

theorem waiting_job_is_settled:
  assumes "served a v (now, w)" and "j \<in> set (jobs (w_db w))" and "j_status j = Queued" and "j_created j < now"
    and "runs a v url (last_sweep, Polling, now, w) n (last', at, now', w')"
    and "length (filter (\<lambda>i. j_status i \<in> {Queued, Running} \<and> j_created i \<le> j_created j) (jobs (w_db w))) \<le> n"
  shows "\<exists>j'\<in>set (jobs (w_db w')). j_id j' = j_id j \<and> j_status j' \<in> {Completed, Failed}"
proof -
  have "nearing (j_id j) (j_created j) n 0 Polling (w_db w)"
    using assms(2,3,6) by (auto simp: nearing_def coming_def waits_def ahead_def)
  then have "nearing (j_id j) (j_created j) n n at (w_db w')"
    using runs_near[OF assms(5) refl _ assms(1,4)] by (auto simp: holds_def)
  then show ?thesis using coming_ahead by (fastforce simp: nearing_def settled_def)
qed

definition turned :: db where
  "turned = fst (execute (\<lambda>_. Inr []) (\<lambda>_. Inr []) ''u'' 7 8 \<lparr>cj_id = 21, cj_target = 1, cj_tool = ''tls''\<rparr>
     (snd (claim_next_job 7 world2)))"

lemma one_turn:
  "runs demo_app demo_vault ''u'' (0, Polling, 7, demo_service world2) 1 (0, Polling, 8, demo_service turned)"
proof -
  let ?job = "\<lparr>cj_id = 21, cj_target = 1, cj_tool = ''tls''\<rparr>"
  let ?claimed = "demo_service (snd (claim_next_job 7 world2))"
  have "claim_next_job 7 world2 = (Some ?job, snd (claim_next_job 7 world2))"
    by code_simp
  then have "run_forever demo_app demo_vault ''u'' (0, Claiming, 7, demo_service world2) 0 (0, Executing ?job, 7, ?claimed)"
    using run_forever.claims[of 7 "demo_service world2" ?job] by (simp add: demo_service_def)
  moreover have "execute (\<lambda>_. Inr []) (\<lambda>_. Inr []) ''u'' 7 8 ?job (snd (claim_next_job 7 world2)) = (turned, [])"
    by code_simp
  then have "run_forever demo_app demo_vault ''u'' (0, Executing ?job, 7, ?claimed) 1 (0, Polling, 8, demo_service turned)"
    using run_forever.executes[of _ _ _ 7 8 ?job ?claimed turned "[]"] by (simp add: demo_service_def)
  moreover have "run_forever demo_app demo_vault ''u'' (0, Polling, 7, demo_service world2) 0
      (0, Claiming, 7, demo_service world2)"
    using run_forever.sweeps[of 1 2 0 7 "demo_service world2"] by (simp add: sweep_def seconds_def demo_service_def)
  ultimately show ?thesis
    using runs.goes_on[OF runs.goes_on[OF runs.goes_on[OF runs.starts]]] by fastforce
qed

theorem waiting_job_is_settled_witness:
  "\<exists>j'\<in>set (jobs (w_db (demo_service turned))). j_id j' = 21 \<and> j_status j' \<in> {Completed, Failed}"
proof -
  have "served demo_app demo_vault (7, demo_service world2)"
    using served.serves[OF served_worlds(2) works_demo[OF step.passes[of 6 7]]] by simp
  then show ?thesis
    using waiting_job_is_settled[OF _ _ _ _ one_turn, of "queue_job 6 21 1 20 ''tls''"]
    by (simp add: demo_service_def world_jobs queue_job_def)
qed

end
