(* ===== verification/Registration.thy ===== *)
theory Registration
  imports Credentials
begin

text \<open>
  The way into the service from end to end, across \<open>routes/accounts.rs\<close>, \<open>mailer.rs\<close> and \<open>auth.rs\<close>: a
  registration, the mail it sends, the link in it, the session the link opens, and the first request made with it.
  The encoding of tokens is an argument; that it is base64url is the hypothesis.
\<close>

definition url_safe :: "char \<Rightarrow> bool" where
  "url_safe c \<longleftrightarrow> is_alnum c \<or> c = CHR ''-'' \<or> c = CHR ''_''"

definition base64url :: "vault \<Rightarrow> bool" where
  "base64url v \<longleftrightarrow> (\<forall>x. va_decode v (va_encode v x) = Some x \<and> list_all url_safe (va_encode v x))
     \<and> (\<forall>c js. va_show_claims v c = Some js \<longrightarrow> va_read_claims v js = Some c)"

definition token_char :: "char \<Rightarrow> bool" where
  "token_char c \<longleftrightarrow> c = CHR ''.'' \<or> url_safe c"

lemma url_safe_plain: "url_safe c \<Longrightarrow> c \<noteq> CHR ''.''"
  by (auto simp: url_safe_def is_alnum_def is_digit_def is_upper_def is_lower_def code_of_def)

lemma token_char_plain: "token_char c \<Longrightarrow> c \<noteq> CHR '';'' \<and> graphic c"
  by (auto simp: token_char_def url_safe_def is_alnum_def is_digit_def is_upper_def is_lower_def code_of_def graphic_def)

text \<open>A token is made of characters a cookie and a header can carry.\<close>

lemma issued_text:
  assumes "base64url v" "issue_token v now user version = Inr t"
  shows "t \<noteq> []" and "list_all token_char t"
proof -
  obtain js mac where "va_show_claims v (new_claims now user version) = Some js"
      "va_hmac v (va_secret v) (va_encode v HEADER_JSON @ ''.'' @ va_encode v js) = Some mac"
      and t: "t = va_encode v HEADER_JSON @ ''.'' @ va_encode v js @ ''.'' @ va_encode v mac"
    using assms(2) by (auto simp: issue_token_def bind_res_Inr_iff Let_def ok_or_def split: option.splits)
  have "list_all url_safe (va_encode v x)" for x
    using assms(1) by (simp add: base64url_def)
  then have "list_all token_char (va_encode v x)" for x
    by (rule list.pred_mono_strong) (simp add: token_char_def)
  moreover have "list_all token_char ''.''" by (simp add: token_char_def)
  ultimately show "list_all token_char t" unfolding t list_all_append by blast
  show "t \<noteq> []" unfolding t append_is_Nil_conv by simp
qed

lemma cookie_read_back:
  assumes "t \<noteq> []" "list_all token_char t"
  shows "session_cookie (''glarion_session='' @ t) = Some t"
proof -
  have "list_all (\<lambda>c. c \<noteq> CHR '';'' \<and> graphic c) ''glarion_session=''" by code_simp
  moreover have "list_all (\<lambda>c. c \<noteq> CHR '';'' \<and> graphic c) t"
    using assms(2) token_char_plain by (rule list.pred_mono_strong)
  ultimately have "list_all (\<lambda>c. c \<noteq> CHR '';'' \<and> graphic c) (''glarion_session='' @ t)"
    unfolding list_all_append by blast
  then have plain: "\<forall>c\<in>set (''glarion_session='' @ t). c \<noteq> CHR '';'' \<and> graphic c"
    unfolding list_all_iff .
  have "CHR '';'' \<notin> set (''glarion_session='' @ t)" using plain by blast
  note split = split_char_id[OF this]
  have trim: "trim (''glarion_session='' @ t) = ''glarion_session='' @ t"
    by (rule trim_graphic) (use plain in blast)
  have "split_once CHR ''='' (''glarion_session='' @ t) = Some (''glarion_session'', t)"
    using split_once_app[of "CHR ''=''" "''glarion_session''" t] by simp
  then show ?thesis
    unfolding session_cookie_def split find_map.simps trim using assms(1) by (simp only: option.case prod.case) simp
qed

text \<open>\<open>HeaderValue::to_str\<close> of pieces that pass alone.\<close>

lemma to_str_app: "to_str (x @ y) = Some (x @ y) \<longleftrightarrow> to_str x = Some x \<and> to_str y = Some y"
  by (simp add: to_str_def)

lemma token_to_str: "list_all token_char t \<Longrightarrow> to_str t = Some t"
proof -
  assume "list_all token_char t"
  then have "list_all (\<lambda>c. (32 \<le> code_of c \<and> code_of c < 127) \<or> code_of c = 9) t"
    by (rule list.pred_mono_strong) (use token_char_plain in \<open>fastforce simp: graphic_def\<close>)
  then show ?thesis by (simp add: to_str_def)
qed

lemma session_started:
  assumes "base64url v" "issue_token v now user version = Inr t"
  shows "start_session a v now user version w = (Inr (session_cookie_value (ap_url a) t, user), w)"
proof -
  have pieces: "to_str ''glarion_session='' = Some ''glarion_session=''"
    "to_str ''; Path=/; Max-Age=43200'' = Some ''; Path=/; Max-Age=43200''"
    "to_str ''; HttpOnly; SameSite=Strict'' = Some ''; HttpOnly; SameSite=Strict''"
    "to_str ''; Secure'' = Some ''; Secure''" "to_str [] = Some []"
    by code_simp+
  have "to_str (if b then ''; Secure'' else []) = Some (if b then ''; Secure'' else [])" for b
    by (cases b) (simp_all only: if_True if_False pieces)
  note flag = this
  have "to_str (session_cookie_value (ap_url a) t) = Some (session_cookie_value (ap_url a) t)"
    unfolding session_cookie_value_def cookie_flags_def to_str_app
    using token_to_str[OF issued_text(2)[OF assms]] by (simp only: pieces flag simp_thms)
  note cookie = this
  show ?thesis
    unfolding start_session_def of_result_def session_header_def assms(2) by (simp add: cookie ok_or_def)
qed

text \<open>A link's token and what the row keeps of it; \<open>draw\<close> is what is sampled from rand's \<open>Alphanumeric\<close>.\<close>

definition new_verification_token :: "app \<Rightarrow> (nat \<Rightarrow> char) \<Rightarrow> string \<times> string" where
  "new_verification_token a draw = (let token = map draw [0..<48] in (token, hash_token a token))"

lemma new_token_plain: "new_verification_token a draw = (token, hash) \<Longrightarrow> \<forall>i. is_alnum (draw i) \<Longrightarrow>
    trim token = token \<and> hash = hash_token a token"
proof -
  assume new: "new_verification_token a draw = (token, hash)" and draw: "\<forall>i. is_alnum (draw i)"
  have "graphic (draw i)" for i
    using draw is_alnum_graphic by blast
  then have "trim (map draw [0..<48]) = map draw [0..<48]" by (intro trim_graphic) auto
  then show ?thesis using new unfolding new_verification_token_def Let_def by blast
qed

text \<open>A request that carries the cookie of a session is the account's own, for as long as the token lives.\<close>

lemma session_lets_in:
  assumes "base64url v" "issue_token v now user version = Inr t" "timestamp later \<le> timestamp now + 12 * 3600"
    and "token_version d user = Some version" "h ''cookie'' = Some (''glarion_session='' @ t)" "h ''authorization'' = None"
  shows "auth_user v later ''GET'' h d = Inr user"
proof -
  note chars = issued_text[OF assms(1,2)]
  have "to_str ''glarion_session='' = Some ''glarion_session=''" by code_simp
  then have cookie: "to_str (''glarion_session='' @ t) = Some (''glarion_session='' @ t)"
    unfolding to_str_app using token_to_str[OF chars(2)] by blast
  have "\<And>x. CHR ''.'' \<notin> set (va_encode v x)"
    using assms(1) url_safe_plain by (fastforce simp: base64url_def list_all_iff)
  then have decoded: "decode_token v later t = Inr (new_claims now user version)"
    using token_lives_twelve_hours[of v now user version t later] assms(1-3) by (simp add: base64url_def)
  show ?thesis
    unfolding auth_user_def bearer_of_def header_text_def assms(5,6) bind.bind_lunit bind.bind_lzero cookie
      cookie_read_back[OF chars] using assms(4) decoded
    by (simp add: ok_or_def new_claims_def)
qed

subsection \<open>What a registration leaves\<close>

lemma signup_done:
  assumes "signup a v new_id salt token healthy now peer h body w = (Inr answer, w')"
    and "read_signup v salt now body = Inr f" "user_by_email (w_db w) (sf_email f) = None"
    and "ap_deliver a (sf_email f) (VerificationEmail (sf_first_name f) (verification_link (ap_url a) token))"
  shows "users (w_db w') = users (w_db w) @ [signed_up a new_id token now f]"
    and "(sf_email f, VerificationEmail (sf_first_name f) (verification_link (ap_url a) token)) \<in> set (w_mail w')"
proof -
  obtain w1 where limited: "auth_limited a now peer w = (Inr (), w1)"
    and rest: "and_then (insert_user (signed_up a new_id token now f)) (\<lambda>fresh.
      if \<not> fresh then done_with (signup_answer healthy (sf_email f))
      else and_then (writing (insert_entitlement (free_entitlement new_id))) (\<lambda>_.
      and_then (writing (record_event h ''signup_created'' now)) (\<lambda>_.
      and_then (send_verification a (sf_email f) (sf_first_name f) token) (\<lambda>_.
      done_with (signup_answer healthy (sf_email f)))))) w1 = (Inr answer, w')"
    using assms(1,2) by (auto simp: signup_def and_then_Inr_iff of_result_Inr)
  have users: "users (w_db w1) = users (w_db w)" by (rule limited_users[OF limited])
  have email: "u_email (signed_up a new_id token now f) = sf_email f" by (simp add: signed_up_def)
  have "user_by_email (w_db w1) (sf_email f) = None" using assms(3) by (simp add: user_by_email_def users)
  then have w': "w' = deliver_mail a (sf_email f) (VerificationEmail (sf_first_name f) (verification_link (ap_url a) token))
      (w1\<lparr>w_db := record_event h ''signup_created'' now (insert_entitlement (free_entitlement new_id)
        ((w_db w1)\<lparr>users := users (w_db w1) @ [signed_up a new_id token now f]\<rparr>))\<rparr>)"
    using rest by (simp add: insert_user_def email and_then_def writing_def send_verification_def mailing_def done_with_def)
  have "users (insert_entitlement e d) = users d" for e d by (simp add: insert_entitlement_def)
  then show "users (w_db w') = users (w_db w) @ [signed_up a new_id token now f]"
    unfolding w' deliver_mail_def by (simp add: users assms(4))
  show "(sf_email f, VerificationEmail (sf_first_name f) (verification_link (ap_url a) token)) \<in> set (w_mail w')"
    unfolding w' deliver_mail_def by (simp add: assms(4))
qed

lemma find_only:
  assumes "distinct (map k xs)" "x \<in> set xs" "\<And>y. y \<in> set xs \<Longrightarrow> P y \<longleftrightarrow> k y = k x"
  shows "find P xs = Some x"
  using assms
proof (induction xs)
  case (Cons y ys)
  have eq: "P y \<longleftrightarrow> k y = k x" using Cons.prems(3)[of y] by simp
  show ?case
  proof (cases "k y = k x")
    case True
    then have "y = x" using Cons.prems(1,2) by (metis image_eqI distinct.simps(2) list.simps(9) set_ConsD set_map)
    then show ?thesis using eq True by simp
  next
    case False
    then have "find P ys = Some x" using Cons by (intro Cons.IH) auto
    then show ?thesis using eq False by simp
  qed
qed simp


text \<open>Somebody who registers beside the account of \<open>demo_accounts\<close>.\<close>

definition new_vault :: vault where
  "new_vault = demo_vault\<lparr>va_show_claims := (\<lambda>c. if c = new_claims 60 8 0 then Some ''{}'' else None),
     va_read_claims := (\<lambda>t. if t = ''{}'' then Some (new_claims 60 8 0) else None),
     va_read_date := (\<lambda>_. Some (1990, 1, 1))\<rparr>"

definition new_form :: signup_request where
  "new_form = \<lparr>su_first_name = ''Ada'', su_last_name = ''L'', su_birth = ''1990-01-01'', su_email = ''ada@g.app'',
     su_password = ''Long-pass!'', su_confirmation = ''Long-pass!''\<rparr>"

definition new_app :: app where
  "new_app = demo_app\<lparr>ap_sha256 := (\<lambda>_. ''h'')\<rparr>"

definition new_token :: string where
  "new_token = replicate 48 CHR ''a''"

definition new_session :: string where
  "new_session = projr (issue_token new_vault 60 8 0)"

definition registered :: world where
  "registered = snd (signup new_app new_vault 8 ''s'' new_token True 50 ''peer'' (\<lambda>_. None) new_form demo_accounts)"

definition with_cookie :: headers where
  "with_cookie n = (if n = ''cookie'' then Some (''glarion_session='' @ new_session) else None)"

lemma new_vault_base64url: "base64url new_vault"
proof -
  have "list_all url_safe (encode_hex x)" for x
    using encode_hex_chars by (auto simp: list_all_iff url_safe_def)
  then show ?thesis by (auto simp: base64url_def new_vault_def demo_vault_def)
qed


end
