(* ===== verification/MailRelay.thy ===== *)
theory MailRelay
  imports Mail Json Prelude
begin

text \<open>
  \<open>crates/orchestrator/src/mail_relay.rs\<close> and the delivery half of \<open>mailer.rs\<close>: the chain of mail
  providers behind one \<open>send\<close>.  The providers are a function from the requests they have had so far
  and the new one to the answer; the process environment, Unicode lower case, the JSON parser and the
  file system are arguments too.  Every request is recorded with what became of it.
\<close>

subsection \<open>Configuration\<close>

record endpoints =
  ep_resend :: string
  ep_smtp2go :: string
  ep_mailjet :: string

definition default_endpoints :: endpoints where
  "default_endpoints =
     \<lparr>ep_resend = ''https://api.resend.com/emails'',
      ep_smtp2go = ''https://api.smtp2go.com/v3/email/send'',
      ep_mailjet = ''https://api.mailjet.com/v3.1/send''\<rparr>"

record relay =
  rl_resend :: "string option"
  rl_smtp2go :: "string option"
  rl_mailjet :: "(string \<times> string) option"
  rl_order :: "string list"
  rl_domains :: "(string \<times> string list) list"
  rl_sink :: "string option"
  rl_endpoints :: endpoints

record outgoing =
  og_from :: string
  og_to :: string
  og_subject :: string
  og_html :: string
  og_text :: string
  og_reply_to :: "string option"
  og_key :: string

datatype outcome = Sent | Rejected | Ambiguous | Conflict

record request =
  rq_url :: string
  rq_headers :: "(string \<times> string) list"
  rq_basic :: "(string \<times> string) option"
  rq_body :: json

definition DEFAULT_ORDER :: "string list" where
  "DEFAULT_ORDER = [''resend'', ''smtp2go'', ''mailjet'']"

definition BODY_LIMIT :: nat where "BODY_LIMIT = 16384"

definition non_empty :: "(string \<Rightarrow> string option) \<Rightarrow> string \<Rightarrow> string option" where
  "non_empty env name =
     (case map_option trim (env name) of Some (c # cs) \<Rightarrow> Some (c # cs) | _ \<Rightarrow> None)"

definition relay_from_env ::
  "(string \<Rightarrow> string option) \<Rightarrow> (string \<Rightarrow> string) \<Rightarrow> string \<Rightarrow> relay" where
  "relay_from_env env lower temp_dir =
     \<lparr>rl_resend = non_empty env ''RESEND_API_KEY'',
      rl_smtp2go = non_empty env ''SMTP2GO_API_KEY'',
      rl_mailjet = (case (non_empty env ''MAILJET_API_KEY'', non_empty env ''MAILJET_API_SECRET'') of
        (Some key, Some secret) \<Rightarrow> Some (key, secret) | _ \<Rightarrow> None),
      rl_order = (case non_empty env ''EMAIL_PROVIDERS'' of
        Some value \<Rightarrow> filter (\<lambda>name. name \<noteq> []) (map (\<lambda>name. lower (trim name)) (split_char CHR '','' value))
      | None \<Rightarrow> []),
      rl_domains = List.map_filter (\<lambda>name.
        map_option (\<lambda>list. (name, map (\<lambda>d. lower (trim d)) (split_char CHR '','' list)))
          (non_empty env (to_ascii_uppercase name @ ''_DOMAINS''))) DEFAULT_ORDER,
      rl_sink = (case non_empty env ''EMAIL_SINK'' of
        Some value \<Rightarrow>
          if lower value \<in> {''1'', ''true'', ''yes'', ''dry-run''}
          then Some (case non_empty env ''EMAIL_SINK_DIR'' of
            Some dir \<Rightarrow> dir | None \<Rightarrow> temp_dir @ ''/email-sink'')
          else None
      | None \<Rightarrow> None),
      rl_endpoints = default_endpoints\<rparr>"

subsection \<open>Addresses and codes\<close>

definition rfind :: "char \<Rightarrow> string \<Rightarrow> nat option" where
  "rfind c s = map_option (\<lambda>(a, b). length a) (rsplit_once c s)"

definition bare :: "string \<Rightarrow> string" where
  "bare address =
     (case (rfind CHR ''<'' address, rfind CHR ''>'' address) of
        (Some start, Some end) \<Rightarrow>
          if start < end then drop (start + 1) (take end address) else trim address
      | _ \<Rightarrow> trim address)"

definition sender_name :: "string \<Rightarrow> string option" where
  "sender_name address =
     (let name = trim (trim_matches_char CHR 0x22 (trim (hd (split_char CHR ''<'' address)))) in
      if CHR ''<'' \<in> set address \<and> name \<noteq> [] then Some name else None)"

definition safe_code :: "json option \<Rightarrow> string option" where
  "safe_code value =
     (case Option.bind value as_str of
        None \<Rightarrow> None
      | Some code \<Rightarrow>
          if code \<noteq> [] \<and> length code \<le> 80 \<and> (\<forall>c\<in>set code. is_alnum c \<or> c \<in> set ''_.:-'')
          then Some code else None)"

text \<open>\<open>Value::pointer\<close>: a token is a key of an object or an index of an array, without leading zeros.\<close>

definition pointer_step :: "string \<Rightarrow> json \<Rightarrow> json option" where
  "pointer_step token v =
     (case v of
        JObj m \<Rightarrow> map_of m token
      | JArr xs \<Rightarrow>
          (case parse_digits token of
             Some i \<Rightarrow> if length token = 1 \<or> hd token \<noteq> CHR ''0'' then jnth i v else None
           | None \<Rightarrow> None)
      | _ \<Rightarrow> None)"

fun pointer :: "string list \<Rightarrow> json \<Rightarrow> json option" where
  "pointer [] v = Some v"
| "pointer (t # ts) v = Option.bind (pointer_step t v) (pointer ts)"

subsection \<open>Requests\<close>

definition relay_order :: "relay \<Rightarrow> string list" where
  "relay_order r = (if rl_order r = [] then DEFAULT_ORDER else rl_order r)"

definition has_key :: "relay \<Rightarrow> string \<Rightarrow> bool" where
  "has_key r name \<longleftrightarrow>
     (if name = ''resend'' then rl_resend r \<noteq> None
      else if name = ''smtp2go'' then rl_smtp2go r \<noteq> None
      else if name = ''mailjet'' then rl_mailjet r \<noteq> None
      else False)"

definition ready_providers :: "relay \<Rightarrow> string list" where
  "ready_providers r = filter (has_key r) (relay_order r)"

definition relay_is_configured :: "relay \<Rightarrow> bool" where
  "relay_is_configured r \<longleftrightarrow> rl_sink r \<noteq> None \<or> ready_providers r \<noteq> []"

definition domain_enabled :: "(string \<Rightarrow> string) \<Rightarrow> relay \<Rightarrow> string \<Rightarrow> string \<Rightarrow> bool" where
  "domain_enabled lower r name from_addr \<longleftrightarrow>
     (let domain = lower (last (split_char CHR ''@'' (bare from_addr))) in
      case find (\<lambda>(provider, _). provider = name) (rl_domains r) of
        None \<Rightarrow> True
      | Some (_, list) \<Rightarrow> domain \<in> set list)"

definition resend_request :: "relay \<Rightarrow> string \<Rightarrow> outgoing \<Rightarrow> request" where
  "resend_request r key mail =
     \<lparr>rq_url = ep_resend (rl_endpoints r),
      rq_headers = [(''Authorization'', ''Bearer '' @ key), (''Idempotency-Key'', og_key mail)],
      rq_basic = None,
      rq_body = JObj ([(''from'', JStr (og_from mail)), (''to'', JArr [JStr (og_to mail)]),
        (''subject'', JStr (og_subject mail)), (''html'', JStr (og_html mail)),
        (''text'', JStr (og_text mail))]
        @ (case og_reply_to mail of None \<Rightarrow> [] | Some reply \<Rightarrow> [(''reply_to'', JStr reply)]))\<rparr>"

definition smtp2go_request :: "relay \<Rightarrow> string \<Rightarrow> outgoing \<Rightarrow> request" where
  "smtp2go_request r key mail =
     \<lparr>rq_url = ep_smtp2go (rl_endpoints r),
      rq_headers = [(''X-Smtp2go-Api-Key'', key)],
      rq_basic = None,
      rq_body = JObj ([(''sender'', JStr (og_from mail)), (''to'', JArr [JStr (og_to mail)]),
        (''subject'', JStr (og_subject mail)), (''html_body'', JStr (og_html mail)),
        (''text_body'', JStr (og_text mail))]
        @ (case og_reply_to mail of
             None \<Rightarrow> []
           | Some reply \<Rightarrow>
               [(''custom_headers'',
                 JArr [JObj [(''header'', JStr ''Reply-To''), (''value'', JStr reply)]])]))\<rparr>"

definition mailjet_request :: "relay \<Rightarrow> string \<times> string \<Rightarrow> outgoing \<Rightarrow> request" where
  "mailjet_request r key_secret mail =
     \<lparr>rq_url = ep_mailjet (rl_endpoints r),
      rq_headers = [],
      rq_basic = Some key_secret,
      rq_body = JObj [(''Messages'', JArr [JObj ([
        (''From'', JObj ((''Email'', JStr (bare (og_from mail)))
          # (case sender_name (og_from mail) of None \<Rightarrow> [] | Some name \<Rightarrow> [(''Name'', JStr name)]))),
        (''To'', JArr [JObj [(''Email'', JStr (bare (og_to mail)))]]),
        (''Subject'', JStr (og_subject mail)), (''HTMLPart'', JStr (og_html mail)),
        (''TextPart'', JStr (og_text mail)), (''CustomID'', JStr (take_chars 250 (og_key mail)))]
        @ (case og_reply_to mail of
             None \<Rightarrow> [] | Some reply \<Rightarrow> [(''ReplyTo'', JObj [(''Email'', JStr (bare reply))])]))])]\<rparr>"

definition request_for ::
  "(string \<Rightarrow> string) \<Rightarrow> relay \<Rightarrow> string \<Rightarrow> outgoing \<Rightarrow> request option" where
  "request_for lower r name mail =
     (if \<not> domain_enabled lower r name (og_from mail) then None
      else if name = ''resend'' then map_option (\<lambda>key. resend_request r key mail) (rl_resend r)
      else if name = ''smtp2go'' then map_option (\<lambda>key. smtp2go_request r key mail) (rl_smtp2go r)
      else if name = ''mailjet'' then map_option (\<lambda>ks. mailjet_request r ks mail) (rl_mailjet r)
      else None)"

subsection \<open>One attempt\<close>

text \<open>What a POST with a ten second limit comes to; the body may fail to arrive.\<close>

datatype answer = PostTimedOut | PostFailed | Answered nat "string option"

record net =
  nt_post :: "request list \<Rightarrow> request \<Rightarrow> answer"
  nt_json :: "string \<Rightarrow> json option"
  nt_lower :: "string \<Rightarrow> string"
  nt_client_error :: "string option"
  nt_mkdir_error :: "string \<Rightarrow> string option"
  nt_write_error :: "string \<Rightarrow> string option"

definition was_refused :: "string \<Rightarrow> json option \<Rightarrow> bool" where
  "was_refused name body \<longleftrightarrow>
     (case body of
        None \<Rightarrow> False
      | Some b \<Rightarrow>
          if name = ''smtp2go'' then pointer [''data'', ''succeeded''] b = Some (JInt 0)
          else if name = ''mailjet''
          then Option.bind (pointer [''Messages'', ''0'', ''Status''] b) as_str = Some ''error''
          else False)"

definition error_code :: "string \<Rightarrow> json option \<Rightarrow> string option" where
  "error_code name body =
     safe_code (Option.bind body
       (if name = ''resend'' then jget ''name''
        else if name = ''smtp2go'' then pointer [''data'', ''error_code'']
        else pointer [''Messages'', ''0'', ''Errors'', ''0'', ''ErrorCode'']))"

definition outcome_of :: "nat \<Rightarrow> bool \<Rightarrow> outcome" where
  "outcome_of status no =
     (if 200 \<le> status \<and> status \<le> 299 then (if no then Rejected else Sent)
      else if status = 409 then Conflict
      else if 500 \<le> status then Ambiguous
      else Rejected)"

definition judge :: "net \<Rightarrow> string \<Rightarrow> answer \<Rightarrow> outcome \<times> nat option \<times> string option" where
  "judge n name a =
     (case a of
        PostTimedOut \<Rightarrow> (Ambiguous, None, Some ''timeout'')
      | PostFailed \<Rightarrow> (Ambiguous, None, Some ''network_error'')
      | Answered status bytes \<Rightarrow>
          let body = (case bytes of
            Some b \<Rightarrow> if length b \<le> BODY_LIMIT then nt_json n b else None | None \<Rightarrow> None)
          in (outcome_of status (was_refused name body), Some status, error_code name body))"

record exchange =
  ex_provider :: string
  ex_request :: request
  ex_outcome :: outcome

record post =
  po_log :: "exchange list"
  po_files :: "(string \<times> string) list"

definition relay_attempt ::
  "net \<Rightarrow> string \<Rightarrow> request \<Rightarrow> post \<Rightarrow> (outcome \<times> nat option \<times> string option) \<times> post" where
  "relay_attempt n name rq p =
     (let result = judge n name (nt_post n (map ex_request (po_log p)) rq) in
      (result, p\<lparr>po_log := po_log p @ [\<lparr>ex_provider = name, ex_request = rq, ex_outcome = fst result\<rparr>]\<rparr>))"

subsection \<open>The chain\<close>

definition show_outcome :: "outcome \<Rightarrow> string" where
  "show_outcome o' = (case o' of Sent \<Rightarrow> ''Sent'' | Rejected \<Rightarrow> ''Rejected''
     | Ambiguous \<Rightarrow> ''Ambiguous'' | Conflict \<Rightarrow> ''Conflict'')"

definition tried_entry :: "string \<Rightarrow> outcome \<times> nat option \<times> string option \<Rightarrow> string" where
  "tried_entry name result =
     (case result of (o', status, code) \<Rightarrow>
        name @ '' '' @ show_outcome o' @ '' ''
        @ (case status of
             Some s \<Rightarrow> show_nat s
           | None \<Rightarrow> (case code of Some c \<Rightarrow> c | None \<Rightarrow> [])))"

text \<open>A first request that did arrive is answered with the first message: Resend is asked again.\<close>

definition ask_provider ::
  "net \<Rightarrow> string \<Rightarrow> request \<Rightarrow> post \<Rightarrow> (outcome \<times> nat option \<times> string option) \<times> post" where
  "ask_provider n name rq p =
     (case relay_attempt n name rq p of
        (result, p') \<Rightarrow>
          if fst result = Ambiguous \<and> name = ''resend'' then relay_attempt n name rq p'
          else (result, p'))"

fun try_providers ::
  "net \<Rightarrow> relay \<Rightarrow> outgoing \<Rightarrow> string list \<Rightarrow> string list \<Rightarrow> post \<Rightarrow> (string + string) \<times> post" where
  "try_providers n r mail tried [] p =
     (Inl (if tried = [] then ''email provider is not configured''
           else ''email provider refused ('' @ join '', '' tried @ '')''), p)"
| "try_providers n r mail tried (name # names) p =
     (case request_for (nt_lower n) r name mail of
        None \<Rightarrow> try_providers n r mail tried names p
      | Some rq \<Rightarrow>
          (case ask_provider n name rq p of
             (result, p') \<Rightarrow>
               (case fst result of
                  Sent \<Rightarrow> (Inr name, p')
                | Conflict \<Rightarrow>
                    (Inl (''email provider '' @ name @ '' already has this message in flight''), p')
                | _ \<Rightarrow> try_providers n r mail (tried @ [tried_entry name result]) names p')))"

text \<open>The sink: a folder for the two bodies, under the instant and the key of the message.\<close>

definition write_file :: "net \<Rightarrow> string \<Rightarrow> string \<Rightarrow> post \<Rightarrow> (string + unit) \<times> post" where
  "write_file n path content p =
     (case nt_write_error n path of
        Some e \<Rightarrow> (Inl e, p)
      | None \<Rightarrow> (Inr (), p\<lparr>po_files := po_files p @ [(path, content)]\<rparr>))"

definition sink_mail ::
  "net \<Rightarrow> string \<Rightarrow> string \<Rightarrow> outgoing \<Rightarrow> post \<Rightarrow> (string + string) \<times> post" where
  "sink_mail n dir stamp mail p =
     (case nt_mkdir_error n dir of
        Some e \<Rightarrow> (Inl e, p)
      | None \<Rightarrow>
          let stem = dir @ ''/'' @ stamp @ ''-'' @ og_key mail in
          case write_file n (stem @ ''.html'') (og_html mail) p of
            (Inl e, p') \<Rightarrow> (Inl e, p')
          | (Inr _, p') \<Rightarrow>
              (case write_file n (stem @ ''.txt'') (og_text mail) p' of
                 (Inl e, p'') \<Rightarrow> (Inl e, p'')
               | (Inr _, p'') \<Rightarrow> (Inr ''sink'', p'')))"

definition relay_send ::
  "net \<Rightarrow> relay \<Rightarrow> string \<Rightarrow> outgoing \<Rightarrow> post \<Rightarrow> (string + string) \<times> post" where
  "relay_send n r stamp mail p =
     (case rl_sink r of
        Some dir \<Rightarrow> sink_mail n dir stamp mail p
      | None \<Rightarrow>
          (case nt_client_error n of
             Some e \<Rightarrow> (Inl e, p)
           | None \<Rightarrow> try_providers n r mail [] (relay_order r) p))"

subsection \<open>The mailer\<close>

text \<open>A rendered message, and \<open>Mailer\<close> with its two optional addresses and the flag of the last attempt.\<close>

record rendered =
  rm_subject :: string
  rm_html :: string
  rm_text :: string

record mailer =
  ml_relay :: relay
  ml_from :: "string option"
  ml_public_url :: string
  ml_reply_to :: "string option"
  ml_last_ok :: bool

definition mailer_from_env ::
  "(string \<Rightarrow> string option) \<Rightarrow> (string \<Rightarrow> string) \<Rightarrow> string \<Rightarrow> mailer" where
  "mailer_from_env env lower temp_dir =
     \<lparr>ml_relay = relay_from_env env lower temp_dir,
      ml_from = non_empty env ''MAIL_FROM'',
      ml_public_url = trim_end_char CHR ''/'' (case env ''PUBLIC_URL'' of
        Some url \<Rightarrow> url | None \<Rightarrow> ''http://localhost:5173''),
      ml_reply_to = non_empty env ''MAIL_REPLY_TO'',
      ml_last_ok = True\<rparr>"

definition mailer_is_configured :: "mailer \<Rightarrow> bool" where
  "mailer_is_configured m \<longleftrightarrow> relay_is_configured (ml_relay m) \<and> ml_from m \<noteq> None"

definition last_send_ok :: "mailer \<Rightarrow> bool" where
  "last_send_ok m \<longleftrightarrow> mailer_is_configured m \<and> ml_last_ok m"

definition mailer_deliver ::
  "net \<Rightarrow> string \<Rightarrow> string \<Rightarrow> mailer \<Rightarrow> string \<Rightarrow> rendered \<Rightarrow> post \<Rightarrow> (string + unit) \<times> post" where
  "mailer_deliver n stamp key m to message p =
     (if \<not> relay_is_configured (ml_relay m) then (Inl ''email provider is not configured'', p)
      else case ml_from m of
        None \<Rightarrow> (Inl ''MAIL_FROM is not set'', p)
      | Some from_addr \<Rightarrow>
          (case relay_send n (ml_relay m) stamp
              \<lparr>og_from = from_addr, og_to = to, og_subject = rm_subject message, og_html = rm_html message,
               og_text = rm_text message, og_reply_to = ml_reply_to m, og_key = key\<rparr> p of
             (Inl e, p') \<Rightarrow> (Inl e, p')
           | (Inr _, p') \<Rightarrow> (Inr (), p')))"

definition mailer_send ::
  "net \<Rightarrow> string \<Rightarrow> string \<Rightarrow> mailer \<Rightarrow> string \<Rightarrow> rendered \<Rightarrow> post
     \<Rightarrow> (string + unit) \<times> mailer \<times> post" where
  "mailer_send n stamp key m to message p =
     (case mailer_deliver n stamp key m to message p of
        (r, p') \<Rightarrow> (r, m\<lparr>ml_last_ok := (case r of Inl _ \<Rightarrow> False | Inr _ \<Rightarrow> True)\<rparr>, p'))"

subsection \<open>Who is asked, and how often\<close>

text \<open>An answer after which nobody else is asked.\<close>

definition final :: "outcome \<Rightarrow> bool" where
  "final o' \<longleftrightarrow> o' = Sent \<or> o' = Conflict"

definition taker :: "exchange list \<Rightarrow> string option" where
  "taker log = (if log \<noteq> [] \<and> ex_outcome (last log) = Sent then Some (ex_provider (last log)) else None)"

definition fits :: "net \<Rightarrow> relay \<Rightarrow> outgoing \<Rightarrow> exchange \<Rightarrow> bool" where
  "fits n r mail e \<longleftrightarrow> ex_provider e \<in> set (ready_providers r)
     \<and> request_for (nt_lower n) r (ex_provider e) mail = Some (ex_request e)"

lemma request_for_has_key: "request_for lower r name mail = Some rq \<Longrightarrow> has_key r name"
  by (auto simp: request_for_def has_key_def split: if_splits)

lemma ask_provider_log:
  assumes "ask_provider n name rq p = (result, p')"
  shows "\<exists>l e. po_log p' = po_log p @ l @ [e] \<and> list_all (\<lambda>x. \<not> final (ex_outcome x)) l
     \<and> ex_outcome e = fst result \<and> ex_provider e = name
     \<and> list_all (\<lambda>x. ex_provider x = name \<and> ex_request x = rq) (l @ [e])
     \<and> length l \<le> (if name = ''resend'' then 1 else 0)"
proof (cases "fst (fst (relay_attempt n name rq p)) = Ambiguous \<and> name = ''resend''")
  case True
  then show ?thesis
    using assms by (auto simp: ask_provider_def relay_attempt_def Let_def final_def split: prod.splits)
next
  case False
  then have "po_log p' = po_log p @ [] @ [\<lparr>ex_provider = name, ex_request = rq, ex_outcome = fst result\<rparr>]"
    using assms by (auto simp: ask_provider_def relay_attempt_def Let_def split: prod.splits if_splits)
  then show ?thesis by fastforce
qed

text \<open>What a chain over \<open>names\<close> adds to the log, and what it answers.\<close>

definition chain_run ::
  "net \<Rightarrow> relay \<Rightarrow> outgoing \<Rightarrow> string list \<Rightarrow> exchange list \<Rightarrow> string + string \<Rightarrow> bool" where
  "chain_run n r mail names l res \<longleftrightarrow>
     list_all (\<lambda>e. \<not> final (ex_outcome e)) (butlast l)
     \<and> list_all (\<lambda>e. ex_provider e \<in> set names
          \<and> request_for (nt_lower n) r (ex_provider e) mail = Some (ex_request e)) l
     \<and> taker l = (case res of Inl _ \<Rightarrow> None | Inr name \<Rightarrow> Some name)
     \<and> length l \<le> length (filter (has_key r) names) + count_list (filter (has_key r) names) ''resend''"

lemma chain_run_step:
  assumes run: "chain_run n r mail names l res"
    and first: "list_all (\<lambda>e. \<not> final (ex_outcome e)) k"
      "list_all (\<lambda>e. ex_provider e = name \<and> ex_request e = rq) k" "k \<noteq> []"
    and rq: "request_for (nt_lower n) r name mail = Some rq"
    and size: "length k \<le> (if name = ''resend'' then 2 else 1)"
  shows "chain_run n r mail (name # names) (k @ l) res"
proof -
  have "has_key r name" by (rule request_for_has_key[OF rq])
  then have bound: "length (k @ l) \<le> length (filter (has_key r) (name # names)) + count_list (filter (has_key r) (name # names)) ''resend''"
    using run size by (auto simp: chain_run_def split: if_splits)
  have "taker (k @ l) = taker l"
    using first by (cases "l = []") (auto simp: taker_def final_def list_all_iff)
  moreover have "list_all (\<lambda>e. \<not> final (ex_outcome e)) (butlast (k @ l))"
    using run first(1) by (auto simp: chain_run_def butlast_append list_all_iff dest: in_set_butlastD)
  moreover have "list_all (\<lambda>e. ex_provider e \<in> set (name # names)
      \<and> request_for (nt_lower n) r (ex_provider e) mail = Some (ex_request e)) (k @ l)"
    using run first(2) rq by (auto simp: chain_run_def list_all_iff)
  ultimately show ?thesis using run bound by (simp add: chain_run_def)
qed

lemma try_providers_run:
  "\<exists>l. po_log (snd (try_providers n r mail tried names p)) = po_log p @ l
     \<and> chain_run n r mail names l (fst (try_providers n r mail tried names p))"
proof (induction names arbitrary: tried p)
  case Nil
  show ?case by (auto simp: chain_run_def taker_def)
next
  case (Cons name names)
  show ?case
  proof (cases "request_for (nt_lower n) r name mail")
    case None
    then show ?thesis using Cons.IH[of tried p] by (fastforce simp: chain_run_def list_all_iff)
  next
    case (Some rq)
    obtain result p' where ask: "ask_provider n name rq p = (result, p')" by fastforce
    obtain l e where log: "po_log p' = po_log p @ l @ [e]" "list_all (\<lambda>x. \<not> final (ex_outcome x)) l"
        "ex_outcome e = fst result" "ex_provider e = name"
        "list_all (\<lambda>x. ex_provider x = name \<and> ex_request x = rq) (l @ [e])"
        "length l \<le> (if name = ''resend'' then 1 else 0)"
      using ask_provider_log[OF ask] by blast
    show ?thesis
    proof (cases "final (fst result)")
      case True
      then have "chain_run n r mail (name # names) (l @ [e])
          (fst (try_providers n r mail tried (name # names) p))"
        using Some ask log request_for_has_key[OF Some]
        by (auto simp: chain_run_def taker_def final_def list_all_iff split: if_splits)
      then show ?thesis using True Some ask log(1) by (auto simp: final_def)
    next
      case False
      define tried' where "tried' = tried @ [tried_entry name result]"
      have next_step: "try_providers n r mail tried (name # names) p = try_providers n r mail tried' names p'"
        using False Some ask by (cases "fst result") (auto simp: final_def tried'_def)
      obtain l' where l': "po_log (snd (try_providers n r mail tried' names p')) = po_log p' @ l'"
          "chain_run n r mail names l' (fst (try_providers n r mail tried' names p'))"
        using Cons.IH by blast
      have "chain_run n r mail (name # names) ((l @ [e]) @ l')
          (fst (try_providers n r mail tried (name # names) p))"
        unfolding next_step
        by (rule chain_run_step[OF l'(2) _ log(5) _ Some])
          (use False log in \<open>auto split: if_splits\<close>)
      then show ?thesis using l'(1) log(1) unfolding next_step by auto
    qed
  qed
qed

lemma write_file_log:
  "write_file n path content p = (r, p') \<Longrightarrow> po_log p' = po_log p"
  by (auto simp: write_file_def split: option.splits)

lemma taker_Nil [simp]: "taker [] = None"
  by (simp add: taker_def)

lemma relay_send_run:
  assumes "relay_send n r stamp mail p = (res, p')"
  shows "case rl_sink r of
     None \<Rightarrow> \<exists>l. po_log p' = po_log p @ l \<and> chain_run n r mail (relay_order r) l res
   | Some _ \<Rightarrow> po_log p' = po_log p"
proof (cases "rl_sink r")
  case None
  show ?thesis
  proof (cases "nt_client_error n")
    case None
    then show ?thesis
      using assms \<open>rl_sink r = None\<close> try_providers_run[of n r mail "[]" "relay_order r" p]
      by (simp add: relay_send_def)
  next
    case (Some e)
    then show ?thesis
      using assms \<open>rl_sink r = None\<close> by (auto simp: relay_send_def chain_run_def taker_def)
  qed
next
  case (Some dir)
  have "po_log (snd (sink_mail n dir stamp mail p)) = po_log p"
    unfolding sink_mail_def Let_def by (auto dest!: write_file_log split: option.split prod.split sum.split)
  then show ?thesis
    using assms Some by (simp add: relay_send_def)
qed

definition unsent :: post where
  "unsent = \<lparr>po_log = [], po_files = []\<rparr>"

lemma unsent_log [simp]: "po_log unsent = []"
  by (simp add: unsent_def)


text \<open>C39: A send comes to its end whatever the providers do: it asks each provider with a key once, and
  Resend once more, so at most four times with the built-in order.\<close>

theorem relay_send_bounded:
  "length (po_log (snd (relay_send n r stamp mail unsent)))
     \<le> length (ready_providers r) + count_list (ready_providers r) ''resend''
   \<and> length (po_log (snd (relay_send n (r\<lparr>rl_order := []\<rparr>) stamp mail unsent))) \<le> 4"
proof -
  have bound: "length (po_log (snd (relay_send n r stamp mail unsent)))
      \<le> length (ready_providers r) + count_list (ready_providers r) ''resend''" for r
    using relay_send_run[of n r stamp mail unsent]
    by (cases "relay_send n r stamp mail unsent")
      (auto simp: chain_run_def ready_providers_def split: option.splits)
  have "length (ready_providers (r\<lparr>rl_order := []\<rparr>)) + count_list (ready_providers (r\<lparr>rl_order := []\<rparr>)) ''resend'' \<le> 4"
    by (simp add: ready_providers_def relay_order_def DEFAULT_ORDER_def)
  with bound[of "r\<lparr>rl_order := []\<rparr>"] bound[of r] show ?thesis by linarith
qed

subsection \<open>What an error says\<close>

text \<open>A line about a provider that did not take the mail: its name, what became of the request, and a
  status or one of the two words for a request that got no answer.\<close>

definition plain_line :: "string \<Rightarrow> bool" where
  "plain_line s \<longleftrightarrow>
     (\<exists>name o' status. s = name @ '' '' @ show_outcome o' @ '' '' @ status
        \<and> name \<in> {''resend'', ''smtp2go'', ''mailjet''}
        \<and> (status \<in> {''timeout'', ''network_error''} \<or> (\<exists>k. status = show_nat k)))"

lemma tried_entry_plain:
  assumes "ask_provider n name rq p = (result, p')" "has_key r name"
  shows "plain_line (tried_entry name result)"
proof -
  obtain a where "result = judge n name a"
    using assms(1) by (auto simp: ask_provider_def relay_attempt_def Let_def split: if_splits)
  then obtain o' status code where r: "result = (o', status, code)"
      "status = None \<longrightarrow> code = Some ''timeout'' \<or> code = Some ''network_error''"
    by (cases a) (auto simp: judge_def Let_def)
  have "name \<in> {''resend'', ''smtp2go'', ''mailjet''}"
    using assms(2) by (simp add: has_key_def split: if_splits)
  moreover have "\<exists>shown. tried_entry name result = name @ '' '' @ show_outcome o' @ '' '' @ shown
      \<and> (shown \<in> {''timeout'', ''network_error''} \<or> (\<exists>k. shown = show_nat k))"
    using r by (cases status) (auto simp: tried_entry_def simp del: append.simps)
  ultimately show ?thesis unfolding plain_line_def by blast
qed

definition plain_refusal :: "net \<Rightarrow> string \<Rightarrow> bool" where
  "plain_refusal n e \<longleftrightarrow>
     e = ''email provider is not configured'' \<or> nt_client_error n = Some e
     \<or> (\<exists>name. name \<in> {''resend'', ''smtp2go'', ''mailjet''}
          \<and> e = ''email provider '' @ name @ '' already has this message in flight'')
     \<or> (\<exists>tried. list_all plain_line tried \<and> e = ''email provider refused ('' @ join '', '' tried @ '')'')"

lemma try_providers_plain:
  "list_all plain_line tried \<Longrightarrow>
     case fst (try_providers n r mail tried names p) of Inl e \<Rightarrow> plain_refusal n e | Inr _ \<Rightarrow> True"
proof (induction names arbitrary: tried p)
  case Nil
  then show ?case by (auto simp: plain_refusal_def)
next
  case (Cons name names)
  show ?case
  proof (cases "request_for (nt_lower n) r name mail")
    case None
    then show ?thesis using Cons by simp
  next
    case (Some rq)
    have key: "has_key r name" by (rule request_for_has_key[OF Some])
    obtain result p' where ask: "ask_provider n name rq p = (result, p')" by fastforce
    have "list_all plain_line (tried @ [tried_entry name result])"
      using Cons.prems tried_entry_plain[OF ask key] by simp
    from Cons.IH[OF this, of p'] show ?thesis
      using Some ask key by (cases "fst result") (auto simp: plain_refusal_def has_key_def split: if_splits)
  qed
qed

text \<open>What a failed send tells its caller names providers, outcomes and statuses and nothing else:
  neither the address, the subject and the body of the mail nor anything a provider wrote is in it.\<close>

lemma send_errors_are_plain:
  "case fst (relay_send n (r\<lparr>rl_sink := None\<rparr>) stamp mail p) of
     Inl e \<Rightarrow> plain_refusal n e | Inr _ \<Rightarrow> True"
proof (cases "nt_client_error n")
  case None
  then show ?thesis
    using try_providers_plain[of "[]" n "r\<lparr>rl_sink := None\<rparr>" mail] by (simp add: relay_send_def)
next
  case (Some e)
  then show ?thesis by (simp add: relay_send_def plain_refusal_def)
qed

subsection \<open>The mailer\<close>

lemma mailer_send_asks_nobody_unconfigured:
  "\<not> mailer_is_configured m \<Longrightarrow> snd (snd (mailer_send n stamp key m to message p)) = p
     \<and> \<not> last_send_ok (fst (snd (mailer_send n stamp key m to message p)))"
  by (auto simp: mailer_send_def mailer_deliver_def mailer_is_configured_def last_send_ok_def)

lemma last_send_ok_is_the_outcome:
  "case mailer_send n stamp key m to message p of
     (r, m', _) \<Rightarrow> mailer_is_configured m' = mailer_is_configured m
       \<and> (last_send_ok m' \<longleftrightarrow> (\<exists>x. r = Inr x))"
  by (auto simp: mailer_send_def mailer_deliver_def mailer_is_configured_def last_send_ok_def
      split: prod.splits option.splits sum.splits)

end
