(* ===== verification/MailText.thy ===== *)
theory MailText
  imports Report Policy MailRelay
begin

text \<open>
  The templates of \<open>crates/orchestrator/src/mailer.rs\<close>: subject, HTML and plain text of every message.  Its
  \<open>escape\<close> is character for character the one of the report.  The address of the site (\<open>PUBLIC_URL\<close>) and
  chrono's \<open>format\<close> are arguments.
\<close>

definition euro :: string where "euro = [CHR 0xE2, CHR 0x82, CHR 0xAC]"

text \<open>\<open>str::replace\<close>.\<close>

fun replace_all :: "string \<Rightarrow> string \<Rightarrow> string \<Rightarrow> string" where
  "replace_all pat rep [] = []"
| "replace_all pat rep (c # s) =
     (if pat \<noteq> [] \<and> prefix pat (c # s) then rep @ replace_all pat rep (drop (length pat - 1) s)
      else c # replace_all pat rep s)"

subsection \<open>The frame\<close>

definition BG :: "string" where
  \<open>BG =
     ''#1a0a22''\<close>

definition RAISE :: "string" where
  \<open>RAISE =
     ''#2d103a''\<close>

definition SINK :: "string" where
  \<open>SINK =
     ''#24102f''\<close>

definition PANEL :: "string" where
  \<open>PANEL =
     ''#3a1a4a''\<close>

definition RULE :: "string" where
  \<open>RULE =
     ''#4d2a5e''\<close>

definition INK :: "string" where
  \<open>INK =
     ''#f4eef7''\<close>

definition INK_3 :: "string" where
  \<open>INK_3 =
     ''#c9b8d2''\<close>

definition SOFT :: "string" where
  \<open>SOFT =
     ''#e3d6ec''\<close>

definition NIGHT :: "string" where
  \<open>NIGHT =
     ''#120618''\<close>

definition ALARM :: "string" where
  \<open>ALARM =
     ''#ff6b57''\<close>

definition AMBER :: "string" where
  \<open>AMBER =
     ''#e0a63a''\<close>

definition VIOLET :: "string" where
  \<open>VIOLET =
     ''#7345b2''\<close>

definition LAVENDER :: "string" where
  \<open>LAVENDER =
     ''#b58fe0''\<close>

definition SIGNAL :: "string" where
  \<open>SIGNAL =
     ''#52c78d''\<close>

definition FONT :: "string" where
  \<open>FONT =
     ''Manrope,'Segoe UI',Arial,sans-serif''\<close>

definition MONO :: "string" where
  \<open>MONO =
     ''ui-monospace,Menlo,Consolas,monospace''\<close>

datatype tone = Brand | Warning | Alarm | Security

record chrome_parts =
  ch_preview :: string
  ch_eyebrow :: string
  ch_heading :: string
  ch_body :: string
  ch_cta :: "(string \<times> string) option"
  ch_after :: string
  ch_footer :: string
  ch_help :: "string \<times> string"
  ch_moment :: "(string \<times> string \<times> string) option"
  ch_tone :: tone

record mail_parts =
  m_subject :: string
  m_html :: string
  m_text :: string

definition site_url :: "(string \<Rightarrow> string option) \<Rightarrow> string" where
  \<open>site_url env =
     trim_end_char CHR ''/'' (case env ''PUBLIC_URL'' of Some url \<Rightarrow> url | None \<Rightarrow> ''https://glarion.app'')\<close>

definition radar :: "string \<Rightarrow> string \<Rightarrow> string" where
  \<open>radar ring dot =
     ''<table role="presentation" cellpadding="0" cellspacing="0" border="0" ''
     @ ''style="border-collapse:separate"><tr><td align="center" width="64" height="64" ''
     @ ''style="width:64px;height:64px;border:2px solid '' @ ring
     @ '';border-radius:34px"><table role="presentation" align="center" cellpadding="0" ''
     @ ''cellspacing="0" border="0" style="border-collapse:separate"><tr><td align="center" ''
     @ ''width="40" height="40" style="width:40px;height:40px;border:2px solid '' @ ring
     @ '';border-radius:22px"><table role="presentation" align="center" cellpadding="0" ''
     @ ''cellspacing="0" border="0" style="border-collapse:separate"><tr><td width="14" ''
     @ ''height="14" bgcolor="'' @ dot
     @ ''" style="width:14px;height:14px;border-radius:7px;background:'' @ dot
     @ '';font-size:0;line-height:0">&nbsp;</td></tr></table></td></tr></table></td></tr></table>''\<close>

definition accent :: "tone \<Rightarrow> string" where
  \<open>accent tone =
     (case tone of Brand \<Rightarrow> LAVENDER | Warning \<Rightarrow> AMBER | _ \<Rightarrow> ALARM)\<close>

definition hero_look :: "tone \<Rightarrow> string \<times> string \<times> string \<times> string list" where
  \<open>hero_look tone =
     (if tone = Security then
        (''#4a1838'', ''linear-gradient(160deg,#3a1230 0%,#5c2030 100%)'', ''linear-gradient(135deg,#5c2030 0%,#3a1230 100%)'',
         [''#55243A'', ''#441C3F'', ''#34143D''])
      else
        (''#3b1750'', ''linear-gradient(160deg,#2d103a 0%,#4a1d63 100%)'', ''linear-gradient(135deg,#4a1d63 0%,#2d103a 100%)'',
         [''#43205A'', ''#36184A'', ''#2A1238'']))\<close>

definition band_rows :: "string list \<Rightarrow> string" where
  \<open>band_rows bands =
     concat (map (\<lambda>band.
     ''<tr><td bgcolor="'' @ band @ ''" style="height:6px;font-size:0;line-height:0;background:'' @ band
     @ ''">&nbsp;</td></tr>'') bands)\<close>

definition dots :: "string" where
  \<open>dots =
     ''<table role="presentation" cellpadding="0" cellspacing="0" border="0" ''
     @ ''style="border-collapse:separate"><tr><td width="8" height="8" bgcolor="'' @ SIGNAL
     @ ''" style="width:8px;height:8px;border-radius:4px;background:'' @ SIGNAL
     @ '';font-size:0;line-height:0">&nbsp;</td><td width="6" style="font-size:0">&nbsp;</td><td ''
     @ ''width="8" height="8" bgcolor="'' @ AMBER
     @ ''" style="width:8px;height:8px;border-radius:4px;background:'' @ AMBER
     @ '';font-size:0;line-height:0">&nbsp;</td><td width="6" style="font-size:0">&nbsp;</td><td ''
     @ ''width="8" height="8" bgcolor="'' @ ALARM
     @ ''" style="width:8px;height:8px;border-radius:4px;background:'' @ ALARM
     @ '';font-size:0;line-height:0">&nbsp;</td><td width="8" style="font-size:0">&nbsp;</td><td ''
     @ ''width="16" height="16" style="width:16px;height:16px;border:2px solid '' @ LAVENDER
     @ '';border-radius:9px;font-size:0;line-height:0">&nbsp;</td></tr></table>''\<close>

definition moment_band :: "tone \<Rightarrow> (string \<times> string \<times> string) option \<Rightarrow> string" where
  \<open>moment_band tone moment =
     (case moment of
        None \<Rightarrow> []
      | Some (label, big, line) \<Rightarrow>
          (let (hero_bg, hero_image, moment_image, bands) = hero_look tone in
           ''<tr><td class="pad" bgcolor="'' @ hero_bg @ ''" style="background:'' @ hero_bg
           @ '';background-image:'' @ moment_image
           @ '';padding:22px 36px"><table role="presentation" width="100%" cellpadding="0" ''
           @ ''cellspacing="0" border="0"><tr><td valign="middle"><p style="margin:0 0 4px;font-family:''
           @ FONT @ '';font-size:12px;line-height:16px;font-weight:700;letter-spacing:1.2px;''
           @ ''text-transform:uppercase;color:'' @ accent tone @ ''">'' @ escape label
           @ ''</p><p class="big" style="margin:0 0 4px;font-family:'' @ FONT
           @ '';font-size:30px;line-height:36px;font-weight:800;letter-spacing:-0.6px;color:#ffffff">''
           @ escape big @ ''</p><p style="margin:0;font-family:'' @ FONT
           @ '';font-size:14px;line-height:20px;color:'' @ SOFT @ ''">'' @ escape line
           @ ''</p></td><td class="hide-sm" width="80" align="right" valign="middle">''
           @ radar (if tone = Security then ALARM else LAVENDER) (if tone = Security then ALARM else SIGNAL)
           @ ''</td></tr></table></td></tr>''))\<close>

definition after_row :: "string \<Rightarrow> string" where
  \<open>after_row after =
     (if after = [] then [] else
        ''<tr><td class="alt pad" bgcolor="'' @ SINK @ ''" style="background:'' @ SINK
        @ '';padding:24px 36px 8px">'' @ after @ ''</td></tr>'')\<close>

definition button :: "(string \<times> string) option \<Rightarrow> string" where
  \<open>button cta =
     (case cta of
        None \<Rightarrow> []
      | Some (l, u) \<Rightarrow>
          (let url = escape u; label = escape l; width = show_nat (min (chars_count label * 9 + 68) 520) in
           ''<table role="presentation" cellpadding="0" cellspacing="0" border="0" class="btn" ''
           @ ''style="margin:4px 0 24px"><tr><td align="center" bgcolor="'' @ VIOLET
           @ ''" style="border-radius:10px;background:'' @ VIOLET
           @ ''"><!--[if mso]><v:roundrect xmlns:v="urn:schemas-microsoft-com:vml" ''
           @ ''xmlns:w="urn:schemas-microsoft-com:office:word" href="'' @ url
           @ ''" style="height:50px;v-text-anchor:middle;width:'' @ width
           @ ''px" arcsize="20%" stroke="f" fillcolor="'' @ VIOLET
           @ ''"><w:anchorlock/><center style="color:#ffffff;font-family:Arial,sans-serif;''
           @ ''font-size:16px;font-weight:700">'' @ label
           @ ''</center></v:roundrect><![endif]--><!--[if !mso]><!--><a href="'' @ url
           @ ''" style="display:inline-block;padding:15px 34px;font-family:'' @ FONT
           @ '';font-size:16px;line-height:20px;font-weight:700;color:#ffffff;text-decoration:none;''
           @ ''border-radius:10px;background:'' @ VIOLET @ ''">'' @ label
           @ ''</a><!--<![endif]--></td></tr></table>''))\<close>

definition dark :: "string" where
  \<open>dark =
     ''.bg{background:'' @ BG @ ''!important}.card{background:'' @ RAISE
     @ ''!important}.alt{background:'' @ SINK @ ''!important}.panel{background:'' @ PANEL
     @ ''!important}.ink{color:'' @ INK @ ''!important}.muted{color:'' @ INK_3
     @ ''!important}.rule{border-color:'' @ RULE @ ''!important}.alarm{color:'' @ ALARM @ ''!important}''\<close>

definition ogsc :: "string" where
  \<open>ogsc =
     replace_all ''.bg{'' ''[data-ogsc] .bg{'' (replace_all ''}.'' ''}[data-ogsc] .'' dark)\<close>

definition chrome_head :: "string \<Rightarrow> chrome_parts \<Rightarrow> string" where
  \<open>chrome_head site p =
     ''<!doctype html><html lang="en" dir="ltr"><head><meta charset="utf-8"><meta ''
     @ ''name="viewport" content="width=device-width,initial-scale=1"><meta ''
     @ ''name="x-apple-disable-message-reformatting"><meta name="color-scheme" content="light ''
     @ ''dark"><meta name="supported-color-schemes" content="light dark"><meta ''
     @ ''name="format-detection" content="telephone=no,date=no,address=no,email=no"><title>''
     @ escape (ch_preview p) @ ''</title><style>@font-face{font-family:Manrope;src:url('' @ [CHR 0x27]
     @ site @ ''/fonts/manrope.woff2') format('woff2');font-weight:200 800}body,table,td,p,''
     @ ''a{-webkit-text-size-adjust:100%;-ms-text-size-adjust:100%}table,td{mso-table-lspace:0;''
     @ ''mso-table-rspace:0;border-collapse:collapse}img{border:0;outline:none;''
     @ ''text-decoration:none;display:block}body{margin:0;padding:0;width:100%!important}''
     @ ''a[x-apple-data-detectors]{color:inherit!important;text-decoration:none!important}@media ''
     @ ''only screen and (max-width:620px){.wrap{padding:10px 6px!important}''
     @ ''.pad{padding-left:20px!important;padding-right:20px!important}''
     @ ''.hero{padding-top:24px!important;padding-bottom:22px!important}''
     @ ''.h1{font-size:26px!important;line-height:32px!important}.big{font-size:26px!important;''
     @ ''line-height:32px!important}.btn,.btn td,.btn a{width:100%!important;''
     @ ''display:block!important;text-align:center!important;box-sizing:border-box!important}''
     @ ''.hide-sm{display:none!important}}@media (prefers-color-scheme:dark){'' @ dark @ ''}'' @ ogsc
     @ ''</style></head>''\<close>

definition chrome_hero :: "string \<Rightarrow> chrome_parts \<Rightarrow> string" where
  \<open>chrome_hero site p =
     (let tone = ch_tone p; (hero_bg, hero_image, moment_image, bands) = hero_look tone in
      ''<body class="bg" style="margin:0;padding:0;background:'' @ BG
      @ ''"><div style="display:none;max-height:0;max-width:0;overflow:hidden;opacity:0;''
      @ ''mso-hide:all;font-size:1px;line-height:1px;color:'' @ BG @ ''">'' @ escape (ch_preview p)
      @ concat (replicate 60 ''&#8199;&#847;'')
      @ ''</div><table role="presentation" width="100%" cellpadding="0" cellspacing="0" ''
      @ ''border="0" class="bg" bgcolor="'' @ BG @ ''" style="background:'' @ BG
      @ ''" lang="en" dir="ltr"><tr><td align="center" class="wrap" style="padding:28px 14px">''
      @ ''<!--[if mso]><table role="presentation" width="600" cellpadding="0" cellspacing="0" ''
      @ ''border="0" align="center"><tr><td><![endif]--><table role="presentation" width="100%" ''
      @ ''cellpadding="0" cellspacing="0" border="0" align="center" style="max-width:600px;''
      @ ''margin:0 auto"><tr><td bgcolor="'' @ accent tone
      @ ''" style="height:6px;font-size:0;line-height:0;background:'' @ accent tone
      @ '';border-radius:16px 16px 0 0">&nbsp;</td></tr><tr><td class="hero pad" bgcolor="'' @ hero_bg
      @ ''" style="background:'' @ hero_bg @ '';background-image:'' @ hero_image
      @ '';padding:28px 36px 26px"><table role="presentation" width="100%" cellpadding="0" ''
      @ ''cellspacing="0" border="0" style="border-collapse:separate"><tr><td class="mark" ''
      @ ''width="44" height="44" align="center" valign="middle" style="width:44px;height:44px;''
      @ ''border-radius:22px;background:#ffffff;color:#2d103a;font-family:'' @ FONT
      @ '';font-size:16px;font-weight:800"><a href="'' @ site
      @ ''" style="text-decoration:none;color:#2d103a"><img src="'' @ site
      @ ''/glarion-mark-64.png" width="34" height="34" alt="Glarion" style="display:block;''
      @ ''width:34px;height:34px;margin:5px;border:0;border-radius:17px"></a></td><td ''
      @ ''valign="middle" style="padding-left:12px;font-family:'' @ FONT
      @ '';font-size:14px;line-height:18px;font-weight:800;letter-spacing:1.6px;''
      @ ''text-transform:uppercase"><a href="'' @ site
      @ ''" style="color:#d9c6ea;text-decoration:none">Glarion</a></td><td align="right" ''
      @ ''valign="middle" class="hide-sm" style="font-family:'' @ FONT
      @ '';font-size:12px;line-height:16px;font-weight:700;letter-spacing:1.2px;''
      @ ''text-transform:uppercase;color:'' @ accent tone @ ''">'' @ escape (ch_eyebrow p)
      @ ''</td></tr></table><h1 class="h1" style="margin:22px 0 10px;font-family:'' @ FONT
      @ '';font-size:30px;line-height:36px;font-weight:800;letter-spacing:-0.6px;color:#ffffff">''
      @ escape (ch_heading p) @ ''</h1><p style="margin:0;font-family:'' @ FONT
      @ '';font-size:16px;line-height:25px;color:'' @ SOFT @ ''">'' @ escape (ch_preview p)
      @ ''</p></td></tr>'' @ band_rows bands)\<close>

definition chrome_card :: "chrome_parts \<Rightarrow> string" where
  \<open>chrome_card p =
     (let tone = ch_tone p in
      ''<tr><td class="card pad" bgcolor="'' @ RAISE @ ''" style="background:'' @ RAISE
      @ '';padding:28px 36px 8px">'' @ ch_body p @ button (ch_cta p) @ ''</td></tr>''
      @ moment_band tone (ch_moment p) @ after_row (ch_after p))\<close>

definition chrome_foot :: "string \<Rightarrow> chrome_parts \<Rightarrow> string" where
  \<open>chrome_foot site p =
     (let tone = ch_tone p;
          (help_class, help_bg) = (if after_row (ch_after p) = [] \<and> moment_band tone (ch_moment p) = []
             then (''alt'', SINK) else (''card'', RAISE)) in
      ''<tr><td class="'' @ help_class @ '' pad" bgcolor="'' @ help_bg @ ''" style="background:''
      @ help_bg @ '';padding:22px 36px 26px"><table role="presentation" width="100%" cellpadding="0" ''
      @ ''cellspacing="0" border="0" class="panel" bgcolor="'' @ PANEL @ ''" style="background:'' @ PANEL
      @ '';border-left:4px solid '' @ accent tone
      @ '';border-radius:0 12px 12px 0"><tr><td style="padding:14px 20px"><p class="ink" ''
      @ ''style="margin:0 0 4px;font-family:'' @ FONT
      @ '';font-size:14px;line-height:21px;font-weight:700;color:'' @ INK @ ''">''
      @ escape (fst (ch_help p)) @ ''</p><p class="muted" style="margin:0;font-family:'' @ FONT
      @ '';font-size:14px;line-height:21px;color:'' @ INK_3 @ ''">'' @ escape (snd (ch_help p)) @ '' ''
      @ (if prefix ''Reply'' (snd (ch_help p)) then ''Or write to'' else ''Write to'')
      @ '' <a href="mailto:hello@glarion.app" class="link" style="color:'' @ LAVENDER
      @ ''">hello@glarion.app</a>. Never send a password by email.</p></td></tr></table></td></tr>''
      @ ''<tr><td class="pad" bgcolor="'' @ NIGHT @ ''" style="background:'' @ NIGHT
      @ '';padding:20px 36px 22px;border-radius:0 0 16px 16px"><table role="presentation" ''
      @ ''width="100%" cellpadding="0" cellspacing="0" border="0" ''
      @ ''style="border-collapse:separate"><tr><td width="32" height="32" align="center" ''
      @ ''valign="middle" style="width:32px;height:32px;border-radius:16px;background:#ffffff">''
      @ ''<img src="'' @ site
      @ ''/glarion-mark-64.png" width="24" height="24" alt="" style="display:block;width:24px;''
      @ ''height:24px;margin:4px;border:0;border-radius:12px"></td><td valign="middle" ''
      @ ''style="padding-left:10px;font-family:'' @ FONT
      @ '';font-size:15px;line-height:20px;font-weight:800;color:'' @ SOFT
      @ ''">Glarion<br><span style="font-size:12px;line-height:18px;font-weight:400;''
      @ ''color:#a893b8">Website security monitoring for agencies</span></td><td class="hide-sm" ''
      @ ''align="right" valign="middle">'' @ dots
      @ ''</td></tr></table><p style="margin:14px 0 6px;font-family:'' @ FONT
      @ '';font-size:12px;line-height:18px;color:#a893b8">'' @ escape (ch_footer p)
      @ ''</p><p style="margin:0;font-family:'' @ FONT @ '';font-size:12px;line-height:18px;color:''
      @ SOFT @ ''"><a href="'' @ site @ ''" style="color:'' @ SOFT
      @ ''">glarion.app</a> &middot; <a href="'' @ site @ ''/privacy.html" style="color:'' @ SOFT
      @ ''">Privacy</a> &middot; <a href="'' @ site @ ''/terms.html" style="color:'' @ SOFT
      @ ''">Terms</a> &middot; <a href="mailto:hello@glarion.app" style="color:'' @ SOFT
      @ ''">Support</a></p></td></tr></table><!--[if mso]></td></tr></table><![endif]--></td></tr>''
      @ ''</table></body></html>'')\<close>

definition chrome :: "string \<Rightarrow> chrome_parts \<Rightarrow> string" where
  \<open>chrome site p =
     chrome_head site p @ chrome_hero site p @ chrome_card p @ chrome_foot site p\<close>

subsection \<open>Pieces of a body\<close>

definition para :: "string \<Rightarrow> string" where
  \<open>para s =
     ''<p class="ink" style="margin:0 0 18px;font-family:'' @ FONT
     @ '';font-size:16px;line-height:25px;color:'' @ INK @ ''">'' @ escape s @ ''</p>''\<close>

definition small_print :: "string \<Rightarrow> string" where
  \<open>small_print s =
     ''<p class="muted" style="margin:0 0 20px;font-family:'' @ FONT
     @ '';font-size:13px;line-height:19px;color:'' @ INK_3 @ ''">'' @ escape s @ ''</p>''\<close>

definition rows_item :: "nat \<times> string \<times> string \<Rightarrow> string" where
  \<open>rows_item item =
     (case item of (i, label, value) \<Rightarrow>
        (let rule = (if i > 0 then (''border-top:1px solid '' @ RULE @ '';'') else []) in
         ''<tr><td class="muted rule" width="40%" valign="top" style="padding:9px 12px 9px 0;'' @ rule
         @ ''font-family:'' @ FONT @ '';font-size:13px;line-height:20px;color:'' @ INK_3 @ ''">''
         @ escape label @ ''</td><td class="ink rule" valign="top" style="padding:9px 0;'' @ rule
         @ ''font-family:'' @ FONT @ '';font-size:15px;line-height:20px;font-weight:700;color:'' @ INK
         @ '';word-break:break-word">'' @ escape value @ ''</td></tr>''))\<close>

definition rows_foot :: "(string \<times> string) option \<Rightarrow> string" where
  \<open>rows_foot foot =
     (case foot of
        None \<Rightarrow> []
      | Some (label, value) \<Rightarrow>
          ''<tr><td bgcolor="'' @ VIOLET @ ''" style="background:'' @ VIOLET
          @ '';padding:12px 20px;border-radius:0 0 11px 11px"><table role="presentation" width="100%" ''
          @ ''cellpadding="0" cellspacing="0" border="0"><tr><td width="40%" style="font-family:'' @ FONT
          @ '';font-size:13px;line-height:20px;font-weight:700;color:#ffffff">'' @ escape label
          @ ''</td><td style="font-family:'' @ FONT
          @ '';font-size:16px;line-height:20px;font-weight:800;color:#ffffff;word-break:break-word">''
          @ escape value @ ''</td></tr></table></td></tr>'')\<close>

definition rows_card :: "(string \<times> string) list \<Rightarrow> (string \<times> string) option \<Rightarrow> string" where
  \<open>rows_card items foot =
     ''<table role="presentation" width="100%" cellpadding="0" cellspacing="0" border="0" ''
     @ ''class="panel" bgcolor="'' @ PANEL @ ''" style="background:'' @ PANEL @ '';border:1px solid ''
     @ RULE @ '';border-radius:12px;margin:0 0 24px;border-collapse:separate"><tr><td ''
     @ ''style="padding:6px 20px"><table role="presentation" width="100%" cellpadding="0" ''
     @ ''cellspacing="0" border="0">'' @ concat (map rows_item (enumerate 0 items))
     @ ''</table></td></tr>'' @ rows_foot foot @ ''</table>''\<close>

definition detail_rows :: "(string \<times> string) list \<Rightarrow> string" where
  \<open>detail_rows items =
     rows_card items None\<close>

definition marked_card :: "string \<Rightarrow> string \<Rightarrow> string \<Rightarrow> string" where
  \<open>marked_card marker ring content =
     ''<table role="presentation" width="100%" cellpadding="0" cellspacing="0" border="0" ''
     @ ''class="panel" bgcolor="'' @ PANEL @ ''" style="background:'' @ PANEL @ '';border:1px solid ''
     @ RULE @ '';border-radius:12px;margin:0 0 10px;border-collapse:separate"><tr><td width="50" ''
     @ ''valign="top" style="padding:14px 0 14px 14px"><table role="presentation" ''
     @ ''cellpadding="0" cellspacing="0" border="0" style="border-collapse:separate"><tr><td ''
     @ ''align="center" width="34" height="34" style="width:34px;height:34px;border:2px solid '' @ ring
     @ '';border-radius:19px;font-family:Arial,sans-serif;font-size:14px;line-height:34px;''
     @ ''font-weight:700;color:'' @ ring @ ''">'' @ marker
     @ ''</td></tr></table></td><td class="ink" valign="top" style="padding:16px 16px 14px 10px;''
     @ ''font-family:'' @ FONT @ '';font-size:15px;line-height:22px;color:'' @ INK @ ''">'' @ content
     @ ''</td></tr></table>''\<close>

definition numbered_steps :: "string \<Rightarrow> string list \<Rightarrow> string" where
  \<open>numbered_steps heading items =
     ''<p class="eyebrow" style="margin:0 0 12px;font-family:'' @ FONT
     @ '';font-size:12px;line-height:16px;font-weight:700;letter-spacing:1.2px;''
     @ ''text-transform:uppercase;color:'' @ LAVENDER @ ''">'' @ escape heading @ ''</p>''
     @ concat (map (\<lambda>(i, item). marked_card (show_nat (i + 1)) LAVENDER (escape item)) (enumerate 0 items))
     @ ''<div style="height:12px;font-size:0;line-height:0">&nbsp;</div>''\<close>

definition panel :: "string \<Rightarrow> string \<Rightarrow> string" where
  \<open>panel title s =
     ''<table role="presentation" width="100%" cellpadding="0" cellspacing="0" border="0" ''
     @ ''class="panel" bgcolor="'' @ PANEL @ ''" style="background:'' @ PANEL @ '';border:1px solid ''
     @ RULE @ '';border-radius:12px;margin:0 0 24px;border-collapse:separate"><tr><td ''
     @ ''style="padding:16px 20px"><p class="ink" style="margin:0 0 6px;font-family:'' @ FONT
     @ '';font-size:15px;line-height:22px;font-weight:700;color:'' @ INK @ ''">'' @ escape title
     @ ''</p><p class="ink" style="margin:0;font-family:'' @ FONT
     @ '';font-size:14px;line-height:21px;color:'' @ INK @ ''">'' @ escape s @ ''</p></td></tr></table>''\<close>

definition security :: "string \<Rightarrow> string \<Rightarrow> string" where
  \<open>security if_you if_not =
     marked_card ''&#10003;'' SIGNAL (''<strong>If this was you:</strong> '' @ escape if_you)
     @ marked_card ''&#10007;'' ALARM (''<strong>If it was not:</strong> '' @ escape if_not)
     @ ''<div style="height:12px;font-size:0;line-height:0">&nbsp;</div>''\<close>

definition fallback :: "string \<Rightarrow> string" where
  \<open>fallback link =
     ''<p class="muted" style="margin:-8px 0 24px;font-family:'' @ FONT
     @ '';font-size:13px;line-height:19px;color:'' @ INK_3
     @ ''">If the button does not open, copy this address into your browser:<br><span ''
     @ ''class="ink" style="color:'' @ INK @ '';word-break:break-all">'' @ escape link @ ''</span></p>''\<close>

definition greeting :: "string \<Rightarrow> string" where
  \<open>greeting first_name =
     (if trim first_name = [] then ''Hello,'' else ''Hello '' @ trim first_name @ '','')\<close>

definition CONSENT_LINE :: "string" where
  \<open>CONSENT_LINE =
     ''At checkout, you agreed to the Terms and asked for immediate access to this digital ''
     @ ''content, ending your 14-day right of withdrawal.''\<close>

definition trial_moment :: "(string \<Rightarrow> time \<Rightarrow> string) \<Rightarrow> time \<Rightarrow> string" where
  \<open>trial_moment strftime at =
     strftime ''%-d %B %Y at %H:%M UTC'' at\<close>

definition billed :: "string \<Rightarrow> string" where
  \<open>billed interval =
     (if interval = ''year'' then ''billed yearly'' else ''billed monthly'')\<close>

subsection \<open>Templates\<close>

definition verification_email :: "string \<Rightarrow> string \<Rightarrow> string \<Rightarrow> mail_parts" where
  \<open>verification_email site first_name link =
     (let hello = greeting first_name in
      \<lparr>m_subject = ''Confirm your email for Glarion'',
       m_html = chrome site
         \<lparr>ch_preview = ''One step left: confirm this address, then add the first site you look after'',
          ch_eyebrow = ''Confirm your email'',
          ch_heading = ''Confirm your email address'',
          ch_body = para hello @ para (''Confirm this address to finish setting up your Glarion account. You are signed in as ''
                 @ ''soon as you do.''),
          ch_cta = Some (''Confirm my email'', link),
          ch_after = fallback link @ small_print (''The link is valid for 24 hours and works once. If you did not create an account, ignore ''
                 @ ''this message: nothing happens without the link.''),
          ch_footer = ''You received this email because this address was used to create a Glarion account.'',
          ch_help = (''Link expired?'',
          ''Sign in with your email and password and Glarion offers to send a new one.''),
          ch_moment = None,
          ch_tone = Brand\<rparr>,
       m_text = hello @ nl @ nl @ ''Confirm this address to finish setting up your Glarion account:''
                @ nl @ link @ nl @ nl
                @ ''The link is valid for 24 hours. If you did not create an account, you can ignore this ''
                @ ''message.''\<rparr>)\<close>

definition welcome_email :: "string \<Rightarrow> string \<Rightarrow> string \<Rightarrow> mail_parts" where
  \<open>welcome_email site first_name link =
     (let hello = greeting first_name in
      \<lparr>m_subject = ''Your Glarion account is ready'',
       m_html = chrome site
         \<lparr>ch_preview = ''Add your first site and Glarion starts watching it'',
          ch_eyebrow = ''Account ready'',
          ch_heading = ''Your account is ready'',
          ch_body = para hello @ para (''One account covers every site you look after. Add the first one and the free check, ''
                 @ ''everything the site publishes to any visitor, runs in a couple of minutes.''),
          ch_cta = Some (''Add your first site'', link),
          ch_after = numbered_steps ''Three steps to the first report''
             [''Add a site you look after'', ''Prove you are allowed to scan it: one DNS record or one file'', ''Run the full scan, on a plan'']
           @ panel ''Why ownership comes first'' (''We only scan domains whose ownership has been proven, which is why step 2 exists. It is ''
                 @ ''also what makes the report something you can hand to a client. The full scan, the one ''
                 @ ''that goes looking rather than reading, is what a plan pays for.''),
          ch_footer = ''You received this email because you just confirmed a Glarion account. It is sent once.'',
          ch_help = (''Not sure how to prove ownership?'',
          ''Reply with the domain and where its DNS is managed, and we will tell you which record ''
                @ ''to add.''),
          ch_moment = Some (''Free check'', ''A couple of minutes'',
            ''Headers, certificate, DNS and email security of the first site you add, with nothing to ''
                @ ''install.''),
          ch_tone = Brand\<rparr>,
       m_text = hello @ nl @ nl
                @ ''Your Glarion account is ready. One account covers every site you look after.'' @ nl
                @ nl @ ''1. Add a site you look after'' @ nl
                @ ''2. Prove you are allowed to scan it: one DNS record or one file'' @ nl
                @ ''3. Run the full scan, on a plan'' @ nl @ nl
                @ ''The free check reads what a site publishes to any visitor and costs nothing. The full ''
                @ ''scan goes looking instead, and that is what a plan pays for. We only scan domains whose ''
                @ ''ownership has been proven, which is what makes the report something you can hand to a ''
                @ ''client.'' @ nl @ nl @ ''Start here: '' @ link\<rparr>)\<close>

definition ownership_lapsing_email :: "(string \<Rightarrow> time \<Rightarrow> string) \<Rightarrow> string \<Rightarrow> string \<Rightarrow> string \<Rightarrow> time \<Rightarrow> string \<Rightarrow> mail_parts" where
  \<open>ownership_lapsing_email strftime site first_name domain expires_at link =
     (let hello = greeting first_name;
          when = strftime ''%-d %B %Y, %H:%M UTC'' expires_at in
      \<lparr>m_subject = ''Scheduled scans of '' @ domain @ '' stop on '' @ strftime ''%-d %B'' expires_at,
       m_html = chrome site
         \<lparr>ch_preview = ''The ownership record or file is missing, so the next scheduled scan cannot run'',
          ch_eyebrow = ''Action needed'',
          ch_heading = ''Ownership proof is about to lapse'',
          ch_body = para hello
           @ para (''We checked '' @ domain
                 @ '' again and could not find the DNS record or file that proves you may scan it. After the ''
                 @ ''date below, its scheduled scans stop.'')
           @ detail_rows [(''Site'', domain), (''Proof lapses'', when)],
          ch_cta = Some (''Open your sites'', link),
          ch_after = small_print (''If the record or file was removed by mistake, put it back and nothing else is needed: ''
                 @ ''we check again every hour. If the site has moved, verify it again from Glarion.''),
          ch_footer = ''You received this email because this site is on a scan schedule in your Glarion account.'',
          ch_help = (''Record still in place?'',
          ''Reply with the domain and we will check what Glarion sees.''),
          ch_moment = None,
          ch_tone = Warning\<rparr>,
       m_text = hello @ nl @ nl @ ''We checked '' @ domain
                @ '' again and could not find the DNS record or file that proves you may scan it. Proof ''
                @ ''lapses on '' @ when @ ''; after that, its scheduled scans stop.'' @ nl @ nl
                @ ''If it was removed by mistake, put it back: we check again every hour. If the site has ''
                @ ''moved, verify it again from Glarion.'' @ nl @ nl @ link\<rparr>)\<close>

definition subscription_email :: "(string \<Rightarrow> time \<Rightarrow> string) \<Rightarrow> string \<Rightarrow> string \<Rightarrow> string \<Rightarrow> int \<Rightarrow> bool \<Rightarrow> string \<Rightarrow> time option \<Rightarrow> bool \<Rightarrow> mail_parts" where
  \<open>subscription_email strftime site first_name plan_name max_targets scheduling link trial_ends consented =
     (let hello = greeting first_name;
          cadence = (if scheduling then ''Your sites are re-checked on a schedule, without you asking.''
             else ''Scans stay manual on this plan.'');
          sites = (''Up to '' @ show_int max_targets);
          schedule = (if scheduling then ''Weekly or monthly, your choice'' else ''Manual'');
          consent = (if consented then '' '' @ CONSENT_LINE else []) in
      (case trial_ends of
        Some ends \<Rightarrow>
          (let when = strftime ''%-d %B %Y'' ends in
          \<lparr>m_subject = ''Your Glarion trial has started'',
           m_html = chrome site
             \<lparr>ch_preview = (''Everything on the '' @ plan_name @ '' plan is yours until '' @ when),
              ch_eyebrow = ''Trial started'',
              ch_heading = (''Your '' @ plan_name @ '' trial has started''),
              ch_body = para hello
           @ para (''Everything on the '' @ plan_name @ '' plan is available until '' @ when
                 @ ''. The first payment is taken that day unless you cancel before then, which you can do ''
                 @ ''yourself from your account.'')
           @ rows_card [(''Plan'', plan_name), (''Sites monitored'', sites), (''Scheduled checks'', schedule)] (Some (''First payment'', when)),
              ch_cta = Some (''Open Glarion'', link),
              ch_after = small_print (cadence
                 @ '' Nothing has been charged yet. To cancel before the first payment, open Pricing in ''
                 @ ''Glarion and choose Manage billing.'' @ consent),
              ch_footer = ''You received this email because you started a Glarion trial with this address.'',
              ch_help = (''Billing question?'',
          ''Reply to this email from the address on the account.''),
              ch_moment = Some (plan_name @ '' trial'', ''Up to '' @ show_int max_targets @ '' sites'', ''Everything on the plan until '' @ when @ ''. '' @ cadence),
              ch_tone = Brand\<rparr>,
           m_text = hello @ nl @ nl @ ''Your Glarion '' @ plan_name
                @ '' trial has started. Everything on the plan is available until '' @ when
                @ ''. The first payment is taken that day unless you cancel before then, which you can do ''
                @ ''yourself from your account.'' @ nl @ nl @ ''Up to '' @ show_int max_targets
                @ '' sites monitored. '' @ cadence @ nl @ nl @ ''Open Glarion: '' @ link @ nl @ nl
                @ ''Nothing has been charged yet. To cancel before the first payment, open Pricing in ''
                @ ''Glarion and choose Manage billing.'' @ consent\<rparr>)
      | None \<Rightarrow>
          \<lparr>m_subject = ''Your Glarion plan is active'',
           m_html = chrome site
             \<lparr>ch_preview = ''Nothing else needs setting up. Here is what the plan covers.'',
              ch_eyebrow = ''Plan active'',
              ch_heading = (''Your '' @ plan_name @ '' plan is active''),
              ch_body = para hello
           @ para (''Your '' @ plan_name @ '' plan is active. '' @ cadence
                 @ '' Nothing else needs setting up.'')
           @ rows_card [(''Plan'', plan_name), (''Scheduled checks'', schedule)] (Some (''Sites monitored'', sites)),
              ch_cta = Some (''Open Glarion'', link),
              ch_after = small_print (''You can change or cancel the plan yourself at any time: open Pricing in Glarion and ''
                 @ ''choose Manage billing.'' @ consent),
              ch_footer = ''You received this email because a Glarion subscription on this address changed.'',
              ch_help = (''Billing question?'',
          ''Reply to this email from the address on the account.''),
              ch_moment = Some (plan_name @ '' plan'', ''Up to '' @ show_int max_targets @ '' sites'', cadence),
              ch_tone = Brand\<rparr>,
           m_text = hello @ nl @ nl @ ''Your Glarion '' @ plan_name
                @ '' plan is active. Nothing else needs setting up.'' @ nl @ nl @ ''Up to ''
                @ show_int max_targets @ '' sites monitored. '' @ cadence @ nl @ nl @ ''Open Glarion: ''
                @ link @ nl @ nl
                @ ''You can change or cancel the plan yourself at any time: open Pricing in Glarion and ''
                @ ''choose Manage billing.'' @ consent\<rparr>))\<close>

definition trial_started_email :: "(string \<Rightarrow> time \<Rightarrow> string) \<Rightarrow> string \<Rightarrow> string \<Rightarrow> string \<Rightarrow> time \<Rightarrow> string option \<Rightarrow> string \<Rightarrow> int \<Rightarrow> int \<Rightarrow> bool \<Rightarrow> string \<Rightarrow> mail_parts" where
  \<open>trial_started_email strftime site first_name plan_name ends_at first_charge interval sites scans consented link =
     (let hello = greeting first_name;
          when = trial_moment strftime ends_at;
          day = strftime ''%-d %B'' ends_at;
          every = (if interval = ''year'' then ''year'' else ''month'');
          charge_sentence = (case first_charge of
             Some amount \<Rightarrow> ''On '' @ when @ '' the '' @ plan_name @ '' plan starts and '' @ amount
                    @ '' is taken from the card you added, unless you cancel before then.''
           | None \<Rightarrow> ''On '' @ when @ '' the '' @ plan_name @ '' plan starts and its first '' @ every
                    @ '' is charged to the card you added, unless you cancel before then.'');
          limits = (''Up to '' @ show_int sites @ '' sites, '' @ show_int scans @ '' full scans per site a day'');
          first = map_option (\<lambda>amount. amount @ '' on '' @ day) first_charge;
          plan_row = (plan_name @ '', '' @ billed interval);
          thereafter = (case first_charge of
             Some amount \<Rightarrow> ''First payment '' @ amount @ '', then '' @ plan_name @ '' renews every '' @ every
                    @ '' until you cancel.''
           | None \<Rightarrow> ''Then '' @ plan_name @ '' renews every '' @ every @ '' until you cancel.'');
          consent = (if consented then '' '' @ CONSENT_LINE else []);
          later = (''Branded reports, the plan's full site allowance and up to ''
             @ show_int MAX_SCANS_PER_TARGET_PER_DAY
             @ '' full scans per site a day start with the first payment. To cancel, open Pricing in ''
             @ ''Glarion and choose Manage billing: cancel before the trial ends and nothing is charged.''
             @ consent) in
      \<lparr>m_subject = ''Your 3-day Glarion trial has started'',
       m_html = chrome site
         \<lparr>ch_preview = (''Nothing is charged until '' @ day @ ''. Here is what the trial includes.''),
          ch_eyebrow = ''Trial started'',
          ch_heading = (''Your '' @ plan_name @ '' trial has started''),
          ch_body = para hello
           @ para (''You have three days to run full scans of the sites you prove are yours. Nothing has ''
                 @ ''been charged.'')
           @ para charge_sentence
           @ rows_card [(''Plan'', plan_row), (''Trial ends'', when), (''During the trial'', limits)]
               (map_option (\<lambda>value. (''First payment'', value)) first),
          ch_cta = Some (''Add your first site'', link),
          ch_after = numbered_steps ''Make the most of the three days''
             [''Add a site, then prove you control it with a DNS record or a file.'', ''Run a full scan and work through the findings in the order shown.'',
              ''Turn on weekly checks, so monitoring is already in place when the plan starts.'']
           @ small_print later,
          ch_footer = ''You received this email because you started a Glarion trial with this address.'',
          ch_help = (''Billing question?'',
          ''Reply to this email from the address on the account.''),
          ch_moment = Some (''Trial ends'', day, thereafter),
          ch_tone = Brand\<rparr>,
       m_text = hello @ nl @ nl
                @ ''You have three days to run full scans of the sites you prove are yours. Nothing has ''
                @ ''been charged.'' @ nl @ nl @ charge_sentence @ nl @ nl @ ''Plan: '' @ plan_row @ nl
                @ ''Trial ends: '' @ when @ nl @ ''During the trial: '' @ limits @ nl @ nl @ thereafter
                @ nl @ nl @ ''Add your first site: '' @ link @ nl @ nl @ later\<rparr>)\<close>

definition trial_ending_email :: "(string \<Rightarrow> time \<Rightarrow> string) \<Rightarrow> string \<Rightarrow> string \<Rightarrow> string \<Rightarrow> time \<Rightarrow> string option \<Rightarrow> string \<Rightarrow> string \<Rightarrow> mail_parts" where
  \<open>trial_ending_email strftime site first_name plan_name ends_at first_charge interval link =
     (let hello = greeting first_name;
          when = trial_moment strftime ends_at;
          day = strftime ''%-d %B'' ends_at;
          every = (if interval = ''year'' then ''year'' else ''month'');
          charge = (case first_charge of
             Some amount \<Rightarrow> amount @ '' is taken from the card you added''
           | None \<Rightarrow> ''the first '' @ every @ '' is charged to the card you added'');
          explain = (''Your Glarion '' @ plan_name @ '' trial ends on '' @ when @ ''. The plan then starts and ''
             @ charge @ ''. To keep monitoring your sites, there is nothing to do.'');
          stop = (''Open Pricing in Glarion and choose Manage billing to cancel before '' @ when
             @ ''. Nothing is charged, and your sites and reports stay on the free plan.'');
          plan_row = (plan_name @ '', '' @ billed interval) in
      \<lparr>m_subject = ''Your Glarion trial ends on '' @ day,
       m_html = chrome site
         \<lparr>ch_preview = (case first_charge of
             Some amount \<Rightarrow> amount @ '' is taken on '' @ day @ '' unless you cancel before then''
           | None \<Rightarrow> ''The '' @ plan_name @ '' plan starts on '' @ day
                    @ '' unless you cancel before then''),
          ch_eyebrow = ''Trial ending'',
          ch_heading = ''Your trial ends in a day'',
          ch_body = para hello @ para explain
           @ rows_card [(''Plan'', plan_row), (''Trial ends'', when)]
               (map_option (\<lambda>amount. (''First payment'', amount)) first_charge),
          ch_cta = Some (''Review your plan'', link),
          ch_after = panel ''Not continuing?'' stop,
          ch_footer = ''You received this email because a Glarion trial on this address ends soon. It is sent ''
                @ ''once per trial.'',
          ch_help = (''Question about the charge?'',
          ''Reply to this email from the address on the account.''),
          ch_moment = None,
          ch_tone = Brand\<rparr>,
       m_text = hello @ nl @ nl @ explain @ nl @ nl @ ''Not continuing? '' @ stop @ nl @ nl
                @ ''Review your plan: '' @ link\<rparr>)\<close>

definition trial_rejected_email :: "string \<Rightarrow> string \<Rightarrow> string \<Rightarrow> string \<Rightarrow> mail_parts" where
  \<open>trial_rejected_email site first_name plan_name link =
     (let hello = greeting first_name;
          explain = (''Glarion offers one free trial per person: one per account, per email address and per ''
             @ ''card. This one matched a trial that has already been used, so we cancelled the new ''
             @ ''subscription straight away. Nothing was charged, and nothing will be.'');
          instead = (''You can still subscribe to '' @ plan_name
             @ '' directly from Pricing in Glarion: the plan starts at once and the first payment is ''
             @ ''taken that day.'') in
      \<lparr>m_subject = ''Your Glarion trial could not start'',
       m_html = chrome site
         \<lparr>ch_preview = ''A free trial was already used here. Nothing was charged.'',
          ch_eyebrow = ''Trial not started'',
          ch_heading = ''This trial could not start'',
          ch_body = para hello @ para explain @ para instead,
          ch_cta = Some (''Open Pricing'', link),
          ch_after = [],
          ch_footer = ''You received this email because a Glarion trial was started with this address.'',
          ch_help = (''Think this is a mistake?'',
          ''Reply to this email from the address on the account.''),
          ch_moment = None,
          ch_tone = Brand\<rparr>,
       m_text = hello @ nl @ nl @ explain @ nl @ nl @ instead @ nl @ nl @ ''Open Pricing: '' @ link\<rparr>)\<close>

definition checkout_failed_email :: "string \<Rightarrow> string \<Rightarrow> string \<Rightarrow> string \<Rightarrow> mail_parts" where
  \<open>checkout_failed_email site first_name plan_name link =
     (let hello = greeting first_name;
          explain = (''Your payment for the Glarion '' @ plan_name
             @ '' plan didn't go through, so nothing was charged and no subscription was started.'');
          instead = (''This usually comes from the card issuer or an automatic security check, not from ''
             @ ''anything you did. Try another card, Apple Pay, Google Pay or Link: most payments then ''
             @ ''go through straight away.'');
          how = (''The button opens Pricing in Glarion with '' @ plan_name
             @ '' selected. Sign in if asked, then choose Continue to secure checkout.'') in
      \<lparr>m_subject = ''Your Glarion payment didn't go through'',
       m_html = chrome site
         \<lparr>ch_preview = ''Nothing was charged. Try another card, Apple Pay, Google Pay or Link.'',
          ch_eyebrow = ''Payment not completed'',
          ch_heading = ''Your payment didn't go through'',
          ch_body = para hello @ para explain @ para instead,
          ch_cta = Some (''Resume checkout'', link),
          ch_after = small_print how,
          ch_footer = ''You received this email because a Glarion checkout with this address did not complete. ''
                @ ''We send it once.'',
          ch_help = (''Still not going through?'',
          ''Reply to this email from the address on the account.''),
          ch_moment = None,
          ch_tone = Brand\<rparr>,
       m_text = hello @ nl @ nl @ explain @ nl @ nl @ instead @ nl @ nl @ ''Resume checkout: '' @ link
                @ nl @ nl @ how\<rparr>)\<close>

definition email_change_confirmation :: "string \<Rightarrow> string \<Rightarrow> string \<Rightarrow> int \<Rightarrow> mail_parts" where
  \<open>email_change_confirmation site first_name link valid_minutes =
     (let hello = greeting first_name in
      \<lparr>m_subject = ''Confirm your new Glarion address'',
       m_html = chrome site
         \<lparr>ch_preview = ''Confirm this address to finish moving your Glarion account to it'',
          ch_eyebrow = ''Confirm the change'',
          ch_heading = ''Confirm your new address'',
          ch_body = para hello
           @ para (''Someone asked to move a Glarion account to this address. Confirming finishes the move; ''
                 @ ''everywhere the account is currently signed in will be signed out.''),
          ch_cta = Some (''Confirm this address'', link),
          ch_after = fallback link @ small_print (''The link works once and expires in '' @ show_int valid_minutes
                 @ '' minutes. Until it is followed, the account keeps its current address.''),
          ch_footer = ''If you were not expecting this, ignore it: nothing changes until the link is followed, ''
                @ ''and whoever asked cannot read this message.'',
          ch_help = (''Not expecting this?'',
          ''Ignore it. Nothing moves without the link.''),
          ch_moment = None,
          ch_tone = Brand\<rparr>,
       m_text = hello @ nl @ nl
                @ ''Someone asked to move a Glarion account to this address. Confirming finishes the move; ''
                @ ''everywhere the account is currently signed in will be signed out.'' @ nl @ nl @ link
                @ nl @ nl @ ''The link works once and expires in '' @ show_int valid_minutes
                @ '' minutes. Until it is followed, the account keeps its current address.'' @ nl @ nl
                @ ''If you were not expecting this, ignore it: nothing changes until the link is followed.''\<rparr>)\<close>

definition email_change_alert :: "string \<Rightarrow> string \<Rightarrow> string \<Rightarrow> mail_parts" where
  \<open>email_change_alert site first_name new_email =
     (let hello = greeting first_name in
      \<lparr>m_subject = ''Someone asked to change your Glarion address'',
       m_html = chrome site
         \<lparr>ch_preview = ''A request was made to move your Glarion account to another address'',
          ch_eyebrow = ''Security notice'',
          ch_heading = ''A change of address was requested'',
          ch_body = para hello
           @ para (''Your Glarion account is being moved to another address. It has not moved yet: the new ''
                 @ ''address has to confirm first, and until it does, this one is still the account's.'')
           @ detail_rows [(''Requested new address'', new_email)]
           @ security ''nothing else is needed.'' (''change your password now, because someone is signed in who should not be, and reply to ''
                 @ ''this message.''),
          ch_cta = None,
          ch_after = [],
          ch_footer = ''This security notice is sent to the address currently on the account whenever a change ''
                @ ''is requested, and cannot be turned off.'',
          ch_help = (''Did not ask for this?'',
          ''Reply to this message straight away and we will help you secure the account.''),
          ch_moment = None,
          ch_tone = Security\<rparr>,
       m_text = hello @ nl @ nl @ ''Your Glarion account is being moved to '' @ new_email
                @ ''. It has not moved yet: the new address has to confirm first, and until it does, this ''
                @ ''one is still the account's.'' @ nl @ nl
                @ ''If this was you, nothing else is needed. If it was not, change your password now, ''
                @ ''because someone is signed in who should not be, and reply to this message.''\<rparr>)\<close>

definition subscription_ended_email :: "string \<Rightarrow> string \<Rightarrow> string \<Rightarrow> bool \<Rightarrow> string \<Rightarrow> mail_parts" where
  \<open>subscription_ended_email site first_name plan_name payment_problem link =
     (let hello = greeting first_name;
          heading = (if payment_problem then ''Your payment did not go through'' else ''Your plan has ended'');
          explain = (if payment_problem
           then ''We could not take payment for your Glarion '' @ plan_name
            @ '' plan, so scheduled scanning is paused and your account is back on the free plan. ''
            @ ''Updating the card puts it back exactly as it was: open Pricing in Glarion and choose ''
            @ ''Manage billing.''
           else ''Your Glarion '' @ plan_name
            @ '' plan has ended, so scheduled scanning is off and your account is back on the free ''
            @ ''plan. Subscribing again turns it back on.'');
          action = (if payment_problem then ''Open Pricing in Glarion'' else ''Subscribe again'');
          kept = (''Nothing has been deleted. Your sites, their verifications and every report stay exactly ''
             @ ''where they are, and start being checked again the moment the plan does.'') in
      \<lparr>m_subject = (if payment_problem then ''Your Glarion payment did not go through'' else ''Your Glarion plan has ended''),
       m_html = chrome site
         \<lparr>ch_preview = (if payment_problem then ''Scheduled scanning is paused until the card is updated'' else ''Scheduled scanning is off until the plan is renewed''),
          ch_eyebrow = (if payment_problem then ''Payment failed'' else ''Plan ended''),
          ch_heading = heading,
          ch_body = para hello @ para explain,
          ch_cta = Some (action, link),
          ch_after = panel ''What you keep'' kept,
          ch_footer = ''You received this email because a Glarion plan on this address changed state. Stripe ''
                @ ''holds the payment record.'',
          ch_help = (''Card updated but still paused?'',
          ''Reply to this email from the address on the account.''),
          ch_moment = None,
          ch_tone = (if payment_problem then Warning else Brand)\<rparr>,
       m_text = hello @ nl @ nl @ explain @ nl @ nl @ kept @ nl @ nl @ action @ '': '' @ link\<rparr>)\<close>

subsection \<open>Notices to the owner\<close>

definition notice_row :: "string \<times> string \<Rightarrow> string" where
  \<open>notice_row row =
     (case row of (label, value) \<Rightarrow>
        ''<tr><td style="padding:4px 16px 4px 0;font-family:'' @ FONT
        @ '';font-size:14px;color:#63656f;vertical-align:top">'' @ escape label
        @ ''</td><td style="padding:4px 0;font-family:'' @ FONT @ '';font-size:14px;color:#1d1e24">''
        @ escape value @ ''</td></tr>'')\<close>

definition notice_line :: "string \<times> string \<Rightarrow> string" where
  \<open>notice_line row =
     (case row of (label, value) \<Rightarrow> label @ '': '' @ value)\<close>

definition cancellation_notice_email :: "(string \<Rightarrow> time \<Rightarrow> string) \<Rightarrow> string \<Rightarrow> string \<Rightarrow> string option \<Rightarrow> time \<Rightarrow> string option \<Rightarrow> string option \<Rightarrow> string \<Rightarrow> mail_parts" where
  \<open>cancellation_notice_email strftime plan email country ends_at reason comment reference =
     (let ends = strftime ''%-d %b %Y'' ends_at;
          items = [(''Product'', ''Glarion''), (''Plan'', plan), (''Customer'', email),
            (''Country'', (case country of Some x \<Rightarrow> x | None \<Rightarrow> ''Unknown'')),
            (''Access until'', ends),
            (''Reason'', (case reason of Some x \<Rightarrow> x | None \<Rightarrow> ''No reason given'')),
            (''Comment'', (case comment of Some x \<Rightarrow> x | None \<Rightarrow> ''None'')),
            (''Subscription'', reference)] in
      \<lparr>m_subject = ''Cancellation scheduled '' @ middle_dot @ '' Glarion '' @ plan @ '' '' @ middle_dot
            @ '' ends '' @ ends @ '' '' @ middle_dot @ '' '' @ reference,
       m_html = ''<!doctype html><html lang="en"><body style="margin:0;padding:24px;background:#ffffff">''
            @ ''<p style="margin:0 0 16px;font-family:'' @ FONT
            @ '';font-size:16px;font-weight:700;color:#1d1e24">A customer scheduled a cancellation. ''
            @ ''Access continues until '' @ escape ends
            @ ''; nothing is charged after it.</p><table role="presentation" cellpadding="0" ''
            @ ''cellspacing="0" border="0">'' @ concat (map notice_row items)
            @ ''</table></body></html>'',
       m_text = ''A customer scheduled a cancellation. Access continues until '' @ ends
            @ ''; nothing is charged after it.'' @ nl @ nl @ join nl (map notice_line items)\<rparr>)\<close>

definition duplicate_subscription_notice_email :: "string \<Rightarrow> string \<Rightarrow> string \<Rightarrow> mail_parts" where
  \<open>duplicate_subscription_notice_email email kept cancelled =
     (let lead = (''A customer paid for a second Glarion subscription before the first was confirmed. The ''
             @ ''second was cancelled at once; the account keeps the first. Check the cancelled ''
             @ ''subscription's first payment in Stripe.'');
          items = [(''Customer'', email), (''Kept'', kept), (''Cancelled'', cancelled)] in
      \<lparr>m_subject = ''Duplicate subscription cancelled '' @ middle_dot @ '' Glarion '' @ middle_dot @ '' ''
            @ cancelled,
       m_html = ''<!doctype html><html lang="en"><body style="margin:0;padding:24px;background:#ffffff">''
            @ ''<p style="margin:0 0 16px;font-family:'' @ FONT
            @ '';font-size:16px;font-weight:700;color:#1d1e24">'' @ lead
            @ ''</p><table role="presentation" cellpadding="0" cellspacing="0" border="0">''
            @ concat (map notice_row items) @ ''</table></body></html>'',
       m_text = lead @ nl @ nl @ join nl (map notice_line items)\<rparr>)\<close>

subsection \<open>What changed, and the free report\<close>

definition changed_site_email :: "string \<Rightarrow> string \<Rightarrow> string \<Rightarrow> string \<Rightarrow> string \<Rightarrow> mail_parts" where
  \<open>changed_site_email site domain summary detail link =
     (let domain_line = (''<p class="muted" style="margin:-6px 0 18px;font-family:'' @ MONO
             @ '';font-size:14px;line-height:20px;color:'' @ INK_3 @ ''">'' @ escape domain @ ''</p>'') in
      \<lparr>m_subject = summary,
       m_html = chrome site
         \<lparr>ch_preview = (summary @ '' on '' @ domain),
          ch_eyebrow = ''Site changed'',
          ch_heading = summary,
          ch_body = domain_line @ para detail,
          ch_cta = Some (''See what changed'', link),
          ch_after = [],
          ch_footer = ''You are getting this because this site is on a scanning schedule. Turn it off on the ''
                @ ''site's page.'',
          ch_help = (''Expected change?'',
          ''Open the site's page to see the latest scan, or reply if the result looks wrong.''),
          ch_moment = None,
          ch_tone = Alarm\<rparr>,
       m_text = summary @ nl @ domain @ nl @ nl @ detail @ nl @ nl @ ''See what changed: '' @ link @ nl
                @ nl
                @ ''You are getting this because this site is on a scanning schedule. Turn it off on the ''
                @ ''site's page.''\<rparr>)\<close>

definition report_rows :: "(string \<times> string \<times> bool) list \<Rightarrow> string" where
  \<open>report_rows ls =
     concat (map (\<lambda>(i, label, value, is_finding).
     (let (colour, class) = (if is_finding then (ALARM, ''alarm'') else (INK, ''ink''));
          rule = (if i < length ls - 1 then ''border-bottom:1px solid '' @ RULE @ '';'' else []) in
      ''<tr><td class="muted rule" width="38%" valign="top" style="padding:10px 12px 10px 0;'' @ rule
      @ ''font-family:'' @ FONT @ '';font-size:13px;line-height:20px;color:'' @ INK_3 @ ''">''
      @ escape label @ ''</td><td class="'' @ class @ '' rule" valign="top" style="padding:10px 0;''
      @ rule @ ''font-family:'' @ FONT @ '';font-size:15px;line-height:20px;font-weight:700;color:''
      @ colour @ '';word-break:break-word">'' @ escape value @ ''</td></tr>'')) (enumerate 0 ls))\<close>

definition plain_rows :: "(string \<times> string \<times> bool) list \<Rightarrow> string" where
  \<open>plain_rows ls =
     concat (map (\<lambda>(label, value, is_finding).
     (if is_finding then ''! '' else ''  '') @ label @ '': '' @ value @ nl) ls)\<close>

definition preview_report_email :: "string \<Rightarrow> string \<Rightarrow> (string \<times> string \<times> bool) list \<Rightarrow> string \<Rightarrow> mail_parts" where
  \<open>preview_report_email site domain ls site_link =
     (let pricing_link = (site_link @ ''/pricing.html'');
          sample_link = (site_link @ ''/sample-report.html'');
          findings = length (filter (\<lambda>(_, _, is_finding). is_finding) ls);
          headline = (if findings = 0 then ''Nothing obvious from the outside''
             else if findings = 1 then ''1 thing worth fixing''
             else show_nat findings @ '' things worth fixing'');
          scope = (''This read only what '' @ domain
             @ '' publishes to any visitor: its headers, its certificate, its DNS, and the files it ''
             @ ''offers to automated readers. It did not examine the application itself: outdated ''
             @ ''components with known vulnerabilities, exposed administrative paths, or misconfigured ''
             @ ''storage. That is the full scan: it needs the domain's owner to confirm the request, and ''
             @ ''it needs a plan, from '' @ euro @ ''19 a month.'');
          preview = (''What any visitor can see on '' @ domain @ '', and what this check did not look at'');
          body = (''<p class="muted" style="margin:-6px 0 18px;font-family:'' @ MONO
             @ '';font-size:14px;line-height:20px;color:'' @ INK_3 @ ''">'' @ escape domain @ ''</p>''
             @ para (''This is your requested partial public check. It is useful on its own, but it is not a ''
                 @ ''full security scan.'')
             @ ''<table role="presentation" width="100%" cellpadding="0" cellspacing="0" border="0" ''
             @ ''class="panel" bgcolor="'' @ PANEL @ ''" style="background:'' @ PANEL
             @ '';border:1px solid '' @ RULE
             @ '';border-radius:12px;margin:0 0 24px;border-collapse:separate"><tr><td ''
             @ ''style="padding:6px 20px"><table role="presentation" width="100%" cellpadding="0" ''
             @ ''cellspacing="0" border="0">'' @ report_rows ls @ ''</table></td></tr></table>'');
          after = (panel ''What this did not look at'' scope
             @ ''<p class="muted" style="margin:0 0 20px;font-family:'' @ FONT
             @ '';font-size:13px;line-height:19px;color:'' @ INK_3
             @ ''">Want to see the format before choosing a plan? <a class="link" href="'' @ sample_link
             @ ''" style="color:'' @ LAVENDER
             @ '';font-weight:700">View a sample full report</a>. The sample uses fictional findings.</p>'') in
      \<lparr>m_subject = ''Your partial website check: '' @ domain,
       m_html = chrome site
         \<lparr>ch_preview = preview,
          ch_eyebrow = ''Your partial public check'',
          ch_heading = headline,
          ch_body = body,
          ch_cta = Some (''Compare paid plans for the full scan'', pricing_link),
          ch_after = after,
          ch_footer = ''You received this because this report was requested from your address. We do not add ''
                @ ''you to anything by sending it.'',
          ch_help = (''Questions about a result?'',
          ''Reply with the line that puzzles you and we will explain what it means for the site.''),
          ch_moment = None,
          ch_tone = Brand\<rparr>,
       m_text = headline @ nl @ domain @ nl @ nl
                @ ''This is your requested partial public check. It is useful on its own, but it is not a ''
                @ ''full security scan.'' @ nl @ nl @ plain_rows ls @ nl @ ''What this did not look at''
                @ nl @ scope @ nl @ nl @ ''Compare paid plans for the full scan: '' @ pricing_link @ nl
                @ ''View a sample full report (fictional findings): '' @ sample_link @ nl @ nl
                @ ''You received this because this report was requested from your address. We do not add ''
                @ ''you to anything by sending it.''\<rparr>)\<close>

subsection \<open>Passwords\<close>

definition password_reset_email :: "string \<Rightarrow> string \<Rightarrow> string \<Rightarrow> int \<Rightarrow> mail_parts" where
  \<open>password_reset_email site first_name link valid_minutes =
     (let hello = greeting first_name in
      \<lparr>m_subject = ''Reset your Glarion password'',
       m_html = chrome site
         \<lparr>ch_preview = ''Choose a new password for your Glarion account'',
          ch_eyebrow = ''Account recovery'',
          ch_heading = ''Reset your password'',
          ch_body = para hello
           @ para (''Use the button to choose a new password. Signing in everywhere else stops working as ''
                 @ ''soon as you do.''),
          ch_cta = Some (''Choose a new password'', link),
          ch_after = fallback link @ small_print (''The link works once and expires in '' @ show_int valid_minutes
                 @ '' minutes. If you did not ask for this, ignore it: your password stays unchanged, and ''
                 @ ''nobody was told whether this address has an account.''),
          ch_footer = ''We will never ask you for your password by email, and we will never ask you to send it ''
                @ ''back to us.'',
          ch_help = (''Link expired?'',
          ''Ask for a new one with Forgot your password? on the sign-in page.''),
          ch_moment = None,
          ch_tone = Brand\<rparr>,
       m_text = hello @ nl @ nl
                @ ''Use the link below to choose a new password for your Glarion account. Signing in ''
                @ ''everywhere else stops working as soon as you do.'' @ nl @ nl @ link @ nl @ nl
                @ ''The link works once and expires in '' @ show_int valid_minutes
                @ '' minutes. If you did not ask for this, ignore it: your password stays unchanged.''
                @ nl @ nl @ ''We will never ask you for your password by email.''\<rparr>)\<close>

definition password_changed_email :: "string \<Rightarrow> string \<Rightarrow> mail_parts" where
  \<open>password_changed_email site first_name =
     (let hello = greeting first_name in
      \<lparr>m_subject = ''Your Glarion password was changed'',
       m_html = chrome site
         \<lparr>ch_preview = ''The password on your Glarion account was changed'',
          ch_eyebrow = ''Security notice'',
          ch_heading = ''Your password was changed'',
          ch_body = para hello
           @ para (''The password on your Glarion account was changed, and every device that was signed in ''
                 @ ''has been signed out.'')
           @ security ''nothing else is needed. Sign in again with the new password.'' ''reply to this message straight away. Someone else set that password.''
           @ small_print ''We will never ask you for your password by email.'',
          ch_cta = None,
          ch_after = [],
          ch_footer = ''This security notice is sent every time the password changes and cannot be turned off.'',
          ch_help = (''Did not change it?'',
          ''Reply to this message straight away from this address.''),
          ch_moment = None,
          ch_tone = Security\<rparr>,
       m_text = hello @ nl @ nl
                @ ''The password on your Glarion account was changed, and every device that was signed in ''
                @ ''has been signed out.'' @ nl @ nl
                @ ''If this was you, nothing else is needed. If it was not, reply to this message straight ''
                @ ''away: someone else set that password.'' @ nl @ nl
                @ ''We will never ask you for your password by email.''\<rparr>)\<close>

subsection \<open>The messages of \<open>Mail\<close>\<close>

text \<open>What the call sites build and send.\<close>

fun message_parts :: "(string \<Rightarrow> time \<Rightarrow> string) \<Rightarrow> string \<Rightarrow> message \<Rightarrow> mail_parts" where
  "message_parts strftime site (ChangeEmail domain summary detail link) = changed_site_email site domain summary detail link"
| "message_parts strftime site (OwnershipLapsingEmail name domain ends link) =
     ownership_lapsing_email strftime site name domain ends link"
| "message_parts strftime site (TrialEndingEmail name plan ends charge interval link) =
     trial_ending_email strftime site name plan ends charge interval link"
| "message_parts strftime site (TrialStartedEmail name plan ends charge interval link sites scans consented) =
     trial_started_email strftime site name plan ends charge interval sites scans consented link"
| "message_parts strftime site (TrialRejectedEmail name plan link) = trial_rejected_email site name plan link"
| "message_parts strftime site (CheckoutFailedEmail name plan link) = checkout_failed_email site name plan link"
| "message_parts strftime site (SubscriptionEmail name plan sites scheduling link trial consented) =
     subscription_email strftime site name plan sites scheduling link trial consented"
| "message_parts strftime site (SubscriptionEndedEmail name plan problem link) =
     subscription_ended_email site name plan problem link"
| "message_parts strftime site (DuplicateSubscriptionNotice address kept cancelled) =
     duplicate_subscription_notice_email address kept cancelled"
| "message_parts strftime site (CancellationNoticeEmail plan address country ends reason comment reference) =
     cancellation_notice_email strftime plan address country ends reason comment reference"
| "message_parts strftime site (VerificationEmail name link) = verification_email site name link"
| "message_parts strftime site (WelcomeEmail name link) = welcome_email site name link"
| "message_parts strftime site (PasswordResetEmail name link valid) = password_reset_email site name link valid"
| "message_parts strftime site (PasswordChangedEmail name) = password_changed_email site name"
| "message_parts strftime site (EmailChangeConfirmation name link valid) = email_change_confirmation site name link valid"
| "message_parts strftime site (EmailChangeAlert name address) = email_change_alert site name address"
| "message_parts strftime site (PreviewReportEmail domain ls link) = preview_report_email site domain ls link"

subsection \<open>Nothing typed or scanned becomes markup of a mail\<close>

lemma markup_chars: "(\<And>c. c \<in> set s \<Longrightarrow> \<not> marks c) \<Longrightarrow> markup s = []"
  by (simp add: markup_Nil_iff)

lemma markup_both: "markup a = markup a' \<Longrightarrow> markup b = markup b' \<Longrightarrow> markup (a @ b) = markup (a' @ b')"
  by (simp add: markup_append)

lemma markup_write: "markup (if c then ''Or write to'' else ''Write to'') = []"
  by (simp add: markup_def marks_def)

lemma markup_button: "(cta = None) = (cta' = None) \<Longrightarrow> markup (button cta) = markup (button cta')"
  by (cases cta; cases cta') (simp_all add: button_def Let_def markup_simps split: prod.split del: append.simps)

lemma markup_moment: "(m = None) = (m' = None) \<Longrightarrow> markup (moment_band tone m) = markup (moment_band tone m')"
  by (cases m; cases m') (simp_all add: moment_band_def Let_def markup_simps split: prod.split del: append.simps)

lemma moment_band_Nil: "moment_band tone m = [] \<longleftrightarrow> m = None"
  by (simp add: moment_band_def Let_def split: option.split prod.split)

lemma after_row_Nil: "after_row s = [] \<longleftrightarrow> s = []"
  by (simp add: after_row_def)

lemma markup_after: "(s = []) = (s' = []) \<Longrightarrow> markup s = markup s' \<Longrightarrow> markup (after_row s) = markup (after_row s')"
  by (simp add: after_row_def markup_append del: append.simps)

lemma markup_head: "markup (chrome_head site p) = markup (chrome_head site q)"
  by (simp add: chrome_head_def markup_simps del: append.simps)

lemma markup_hero: "ch_tone p = ch_tone q \<Longrightarrow> markup (chrome_hero site p) = markup (chrome_hero site q)"
  by (simp add: chrome_hero_def Let_def markup_simps split: prod.split del: append.simps)

lemma markup_foot:
  assumes "ch_tone p = ch_tone q" "(ch_after p = []) = (ch_after q = [])" "(ch_moment p = None) = (ch_moment q = None)"
  shows "markup (chrome_foot site p) = markup (chrome_foot site q)"
  using assms
  by (simp add: chrome_foot_def Let_def after_row_Nil moment_band_Nil markup_simps markup_write split: prod.split
      del: append.simps)

lemma markup_chrome:
  assumes "markup b = markup b'" "(cta = None) = (cta' = None)" "markup af = markup af'" "(af = []) = (af' = [])"
    "(mo = None) = (mo' = None)"
  shows "markup (chrome site \<lparr>ch_preview = p, ch_eyebrow = e, ch_heading = h, ch_body = b, ch_cta = cta, ch_after = af,
      ch_footer = f, ch_help = he, ch_moment = mo, ch_tone = t\<rparr>)
    = markup (chrome site \<lparr>ch_preview = p', ch_eyebrow = e', ch_heading = h', ch_body = b', ch_cta = cta', ch_after = af',
      ch_footer = f', ch_help = he', ch_moment = mo', ch_tone = t\<rparr>)"
proof -
  note pieces = markup_button[OF assms(2)] markup_after[OF assms(4,3)] markup_moment[OF assms(5)]
  show ?thesis
    unfolding chrome_def
    by (intro markup_both markup_head markup_hero markup_foot)
      (simp_all add: assms pieces chrome_card_def Let_def markup_append del: append.simps)
qed

lemma markup_para: "markup (para s) = markup (para t)"
  by (simp add: para_def markup_simps del: append.simps)

lemma markup_small_print: "markup (small_print s) = markup (small_print t)"
  by (simp add: small_print_def markup_simps del: append.simps)

lemma markup_panel: "markup (panel s t) = markup (panel s' t')"
  by (simp add: panel_def markup_simps del: append.simps)

lemma markup_fallback: "markup (fallback s) = markup (fallback t)"
  by (simp add: fallback_def markup_simps del: append.simps)

lemma markup_rows_item: "markup (rows_item (i, l, v)) = markup (rows_item (i, l', v'))"
  by (simp add: rows_item_def Let_def markup_simps del: append.simps)

lemma markup_concat_map:
  "length xs = length ys \<Longrightarrow> (\<And>i x y. markup (f (i, x)) = markup (f (i, y))) \<Longrightarrow>
   markup (concat (map f (enumerate n xs))) = markup (concat (map f (enumerate n ys)))"
  by (induction xs ys arbitrary: n rule: list_induct2) (simp_all add: markup_append)

lemma markup_rows_foot: "(s = None) = (t = None) \<Longrightarrow> markup (rows_foot s) = markup (rows_foot t)"
  by (cases s; cases t) (simp_all add: rows_foot_def markup_simps split: prod.split del: append.simps)

lemma markup_rows_card:
  assumes "length xs = length ys" "(s = None) = (t = None)"
  shows "markup (rows_card xs s) = markup (rows_card ys t)"
proof -
  have "markup (rows_item (i, x)) = markup (rows_item (i, y))" for i x y
    using markup_rows_item by (cases x; cases y) simp
  then have "markup (concat (map rows_item (enumerate 0 xs))) = markup (concat (map rows_item (enumerate 0 ys)))"
    by (rule markup_concat_map[OF assms(1)])
  then show ?thesis using markup_rows_foot[OF assms(2)] by (simp add: rows_card_def markup_append del: append.simps)
qed

lemma markup_detail_rows: "length xs = length ys \<Longrightarrow> markup (detail_rows xs) = markup (detail_rows ys)"
  unfolding detail_rows_def by (rule markup_rows_card) simp_all

lemma pieces_written [simp]:
  "small_print s \<noteq> []" "panel s t \<noteq> []" "fallback s \<noteq> []" "numbered_steps s ss \<noteq> []"
  by (simp_all add: small_print_def panel_def fallback_def numbered_steps_def)

lemma markup_notice_rows:
  "length xs = length ys \<Longrightarrow> markup (concat (map notice_row xs)) = markup (concat (map notice_row ys))"
proof (induction xs ys rule: list_induct2)
  case (Cons x xs y ys)
  have "markup (notice_row x) = markup (notice_row y)"
    by (cases x; cases y) (simp add: notice_row_def markup_simps del: append.simps)
  then show ?case using Cons(2) by (simp add: markup_append)
qed simp

lemma markup_report_rows:
  assumes "length xs = length ys"
  shows "markup (report_rows xs) = markup (report_rows ys)"
proof -
  have colours: "markup ALARM = []" "markup INK = []" "markup ''alarm'' = []" "markup ''ink'' = []"
    by (simp_all add: ALARM_def INK_def markup_def marks_def)
  show ?thesis
    unfolding report_rows_def assms
    by (rule markup_concat_map[OF assms]) (simp add: Let_def markup_simps colours split: prod.split del: append.simps)
qed

lemmas markup_intros = refl markup_both markup_chrome markup_para markup_small_print markup_panel markup_fallback
  markup_rows_card markup_detail_rows

text \<open>What the layout of a mail depends on: which mail it is, which of its optional parts it has, how many lines
  a report has, and the address of the operator's own site, which is put into a link as it is.\<close>

fun mail_shape :: "message \<Rightarrow> nat \<times> bool list \<times> string" where
  "mail_shape (ChangeEmail _ _ _ _) = (0, [], [])"
| "mail_shape (OwnershipLapsingEmail _ _ _ _) = (1, [], [])"
| "mail_shape (TrialEndingEmail _ _ _ charge _ _) = (2, [charge = None], [])"
| "mail_shape (TrialStartedEmail _ _ _ charge _ _ _ _ _) = (3, [charge = None], [])"
| "mail_shape (TrialRejectedEmail _ _ _) = (4, [], [])"
| "mail_shape (CheckoutFailedEmail _ _ _) = (5, [], [])"
| "mail_shape (SubscriptionEmail _ _ _ _ _ trial _) = (6, [trial = None], [])"
| "mail_shape (SubscriptionEndedEmail _ _ problem _) = (7, [problem], [])"
| "mail_shape (DuplicateSubscriptionNotice _ _ _) = (8, [], [])"
| "mail_shape (CancellationNoticeEmail _ _ _ _ _ _ _) = (9, [], [])"
| "mail_shape (VerificationEmail _ _) = (10, [], [])"
| "mail_shape (WelcomeEmail _ _) = (11, [], [])"
| "mail_shape (PasswordResetEmail _ _ _) = (12, [], [])"
| "mail_shape (PasswordChangedEmail _) = (13, [], [])"
| "mail_shape (EmailChangeConfirmation _ _ _) = (14, [], [])"
| "mail_shape (EmailChangeAlert _ _) = (15, [], [])"
| "mail_shape (PreviewReportEmail _ ls site) = (16, map (\<lambda>_. True) ls, site)"

named_theorems fixed_markup

lemma option_cases:
  assumes "(e = None) = (e' = None)"
  obtains "e = None" "e' = None" | x x' where "e = Some x" "e' = Some x'"
  using assms by (cases e; cases e') auto

lemma change_fixed [fixed_markup]:
  "markup (m_html (changed_site_email site d s t l)) = markup (m_html (changed_site_email site d' s' t' l'))"
  unfolding changed_site_email_def Let_def mail_parts.simps
  by (intro markup_intros) (simp_all add: markup_simps del: append.simps)

lemma ownership_fixed [fixed_markup]:
  "markup (m_html (ownership_lapsing_email fmt site n d t l)) = markup (m_html (ownership_lapsing_email fmt site n' d' t' l'))"
  unfolding ownership_lapsing_email_def Let_def mail_parts.simps by (intro markup_intros) simp_all

lemma trial_ending_fixed [fixed_markup]:
  "(c = None) = (c' = None) \<Longrightarrow> markup (m_html (trial_ending_email fmt site n p e c i l))
     = markup (m_html (trial_ending_email fmt site n' p' e' c' i' l'))"
  unfolding trial_ending_email_def Let_def mail_parts.simps by (intro markup_intros) simp_all

lemma trial_started_fixed [fixed_markup]:
  "(c = None) = (c' = None) \<Longrightarrow> markup (m_html (trial_started_email fmt site n p e c i s k b l))
     = markup (m_html (trial_started_email fmt site n' p' e' c' i' s' k' b' l'))"
  unfolding trial_started_email_def Let_def mail_parts.simps by (intro markup_intros) simp_all

lemma trial_rejected_fixed [fixed_markup]:
  "markup (m_html (trial_rejected_email site n p l)) = markup (m_html (trial_rejected_email site n' p' l'))"
  unfolding trial_rejected_email_def Let_def mail_parts.simps by (intro markup_intros) simp_all

lemma checkout_failed_fixed [fixed_markup]:
  "markup (m_html (checkout_failed_email site n p l)) = markup (m_html (checkout_failed_email site n' p' l'))"
  unfolding checkout_failed_email_def Let_def mail_parts.simps by (intro markup_intros) simp_all

lemma subscription_fixed [fixed_markup]:
  assumes "(e = None) = (e' = None)"
  shows "markup (m_html (subscription_email fmt site n p k s l e c))
     = markup (m_html (subscription_email fmt site n' p' k' s' l' e' c'))"
  using assms
proof (cases rule: option_cases)
  case 1
  show ?thesis
    unfolding subscription_email_def Let_def 1 option.case mail_parts.simps by (intro markup_intros) simp_all
next
  case (2 t t')
  show ?thesis
    unfolding subscription_email_def Let_def 2 option.case mail_parts.simps by (intro markup_intros) simp_all
qed

lemma subscription_ended_fixed [fixed_markup]:
  "markup (m_html (subscription_ended_email site n p b l)) = markup (m_html (subscription_ended_email site n' p' b l'))"
  unfolding subscription_ended_email_def Let_def mail_parts.simps by (intro markup_intros) simp_all

lemma duplicate_fixed [fixed_markup]:
  "markup (m_html (duplicate_subscription_notice_email e k c))
     = markup (m_html (duplicate_subscription_notice_email e' k' c'))"
  unfolding duplicate_subscription_notice_email_def Let_def mail_parts.simps
  by (intro markup_both refl markup_notice_rows) simp_all

lemma cancellation_fixed [fixed_markup]:
  "markup (m_html (cancellation_notice_email fmt p e c t r k x))
     = markup (m_html (cancellation_notice_email fmt p' e' c' t' r' k' x'))"
  unfolding cancellation_notice_email_def Let_def mail_parts.simps
  by (intro markup_both refl markup_notice_rows) (simp_all add: markup_escape)

lemma verification_fixed [fixed_markup]:
  "markup (m_html (verification_email site n l)) = markup (m_html (verification_email site n' l'))"
  unfolding verification_email_def Let_def mail_parts.simps by (intro markup_intros) simp_all

lemma welcome_fixed [fixed_markup]:
  "markup (m_html (welcome_email site n l)) = markup (m_html (welcome_email site n' l'))"
  unfolding welcome_email_def Let_def mail_parts.simps by (intro markup_intros) simp_all

lemma reset_fixed [fixed_markup]:
  "markup (m_html (password_reset_email site n l k)) = markup (m_html (password_reset_email site n' l' k'))"
  unfolding password_reset_email_def Let_def mail_parts.simps by (intro markup_intros) simp_all

lemma changed_fixed [fixed_markup]:
  "markup (m_html (password_changed_email site n)) = markup (m_html (password_changed_email site n'))"
  unfolding password_changed_email_def Let_def mail_parts.simps by (intro markup_intros)

lemma move_fixed [fixed_markup]:
  "markup (m_html (email_change_confirmation site n l k)) = markup (m_html (email_change_confirmation site n' l' k'))"
  unfolding email_change_confirmation_def Let_def mail_parts.simps by (intro markup_intros) simp_all

lemma alert_fixed [fixed_markup]:
  "markup (m_html (email_change_alert site n e)) = markup (m_html (email_change_alert site n' e'))"
  unfolding email_change_alert_def Let_def mail_parts.simps by (intro markup_intros) simp

lemma preview_fixed [fixed_markup]:
  "length ls = length ls' \<Longrightarrow> markup (m_html (preview_report_email site d ls s))
     = markup (m_html (preview_report_email site d' ls' s))"
  unfolding preview_report_email_def Let_def mail_parts.simps
  by (intro markup_intros markup_report_rows) (simp_all add: markup_simps del: append.simps)

text \<open>C13: nothing a customer typed and nothing read from a site becomes markup of a mail.  The characters of any of
  the seventeen messages that can open or close a tag or an attribute are the same, in the same order, whatever
  the names, addresses, domains, comments, report lines, amounts, dates and links in it say.\<close>

theorem mail_markup_fixed:
  assumes "mail_shape m = mail_shape m'"
  shows "markup (m_html (message_parts strftime site m)) = markup (m_html (message_parts strftime site m'))"
  using assms
  by (cases m; cases m') (auto intro!: fixed_markup dest: map_eq_imp_length_eq)

theorem mail_markup_fixed_witness:
  "markup (m_html (message_parts (\<lambda>_ _. ''1 May'') ''https://g.app'' (ChangeEmail ''a.b'' ''<b>'' ''<script>'' ''x''))) =
   markup (m_html (message_parts (\<lambda>_ _. ''1 May'') ''https://g.app'' (ChangeEmail ''a.b'' ''ok'' ''one'' ''y'')))"
  by (rule mail_markup_fixed) simp

text \<open>Without \<open>PUBLIC_URL\<close> the logo of a mail and the button under it name two hosts.\<close>

lemma logo_and_button_differ:
  assumes "env ''PUBLIC_URL'' = None"
  shows "site_url env = ''https://glarion.app''
    \<and> app_link (ml_public_url (mailer_from_env env lower tmp)) h = ''http://localhost:5173/app#'' @ h"
  using assms by (simp add: site_url_def mailer_from_env_def app_link_def, code_simp)

end
