(* ===== verification/Web.thy ===== *)
theory Web
  imports MailText Results Signature
begin

text \<open>
  \<open>crates/api/src/lib.rs\<close> and \<open>config.rs\<close>: what the process refuses to start with, which handler a
  request reaches, and what is put around every answer.  The HTTP library is an argument: a router's choice
  of a pattern and of a method, its header layers, its file services and its redirects.  A router is the list of
  what has been added to it, and a layer wraps what is there when it is added, as the library documents.
\<close>

subsection \<open>Configuration\<close>

record config =
  cf_database :: string
  cf_secret :: string
  cf_origins :: "string list"
  cf_port :: nat

definition FIRST_PARTY_ORIGINS :: "string list" where
  "FIRST_PARTY_ORIGINS = [''https://glarion.app'', ''https://www.glarion.app'']"

definition required :: "environment \<Rightarrow> string \<Rightarrow> string + string" where
  "required env key = ok_or (key @ '' must be set'') (env key)"

text \<open>\<open>str::parse::<u16>\<close>.\<close>

definition parse_u16 :: "string \<Rightarrow> nat option" where
  "parse_u16 s =
     (let digits = (case s of c # rest \<Rightarrow> if c = CHR ''+'' then rest else s | [] \<Rightarrow> s) in
      case parse_digits digits of
        Some n \<Rightarrow> if n < 2 ^ 16 then Some n else None
      | None \<Rightarrow> None)"

definition config_from_env :: "environment \<Rightarrow> string + config" where
  "config_from_env env =
     bind_res (required env ''DATABASE_URL'') (\<lambda>database.
     bind_res (required env ''JWT_SECRET'') (\<lambda>secret.
     if length secret < 32 then Inl ''JWT_SECRET must be at least 32 characters''
     else
       let origins = filter (\<lambda>s. s \<noteq> []) (map trim
             (split_char CHR '','' (case env ''CORS_EXTRA_ORIGINS'' of None \<Rightarrow> [] | Some s \<Rightarrow> s))) in
       bind_res (ok_or ''PORT must be a valid port number''
           (parse_u16 (case env ''PORT'' of None \<Rightarrow> ''8080'' | Some s \<Rightarrow> s))) (\<lambda>port.
       Inr \<lparr>cf_database = database, cf_secret = secret, cf_origins = origins, cf_port = port\<rparr>)))"

definition allowed_origins :: "config \<Rightarrow> string list" where
  "allowed_origins c = FIRST_PARTY_ORIGINS @ cf_origins c"

subsection \<open>The schema\<close>

text \<open>The rows of \<open>_sqlx_migrations\<close>: version, success, checksum.  The migrations are what the build embeds.\<close>

type_synonym applied_migration = "int \<times> bool \<times> string"

fun check_migrations :: "applied_migration list \<Rightarrow> (int \<times> string) list \<Rightarrow> string + unit" where
  "check_migrations applied [] = Inr ()"
| "check_migrations applied ((version, checksum) # rest) =
     (case find (\<lambda>row. fst row = version) applied of
        None \<Rightarrow> Inl (''database migration '' @ show_int version @ '' must be applied by an operator'')
      | Some (_, _, found) \<Rightarrow>
          if found \<noteq> checksum then Inl (''database migration '' @ show_int version @ '' checksum mismatch'')
          else check_migrations applied rest)"

definition verify_database :: "applied_migration list \<Rightarrow> (int \<times> string) list \<Rightarrow> string + unit" where
  "verify_database applied migrations =
     (if \<not> list_all (\<lambda>(_, success, _). success) applied then Inl ''incomplete database migration''
      else check_migrations applied migrations)"

subsection \<open>Requests and answers\<close>

text \<open>\<open>rq_uri\<close> is the request target as it is displayed; \<open>rq_headers\<close> the first value of a header.\<close>

record http_request =
  rq_verb :: string
  rq_uri :: string
  rq_path :: string
  rq_headers :: headers
  rq_peer :: ip
  rq_body :: string

record http_answer =
  ha_status :: nat
  ha_headers :: "(string \<times> string) list"
  ha_body :: string

type_synonym 's responder = "http_request \<Rightarrow> 's \<Rightarrow> http_answer \<times> 's"

definition header_of :: "http_answer \<Rightarrow> string \<Rightarrow> string option" where
  "header_of r name = map_of (ha_headers r) name"

record tower =
  tw_route :: "string list \<Rightarrow> string \<Rightarrow> string option"
  tw_pick :: "string list \<Rightarrow> string \<Rightarrow> string option"
  tw_set :: "string \<Rightarrow> string \<Rightarrow> http_answer \<Rightarrow> http_answer"
  tw_default :: "string \<Rightarrow> string \<Rightarrow> http_answer \<Rightarrow> http_answer"
  tw_redirect :: "string \<Rightarrow> http_answer"
  tw_refused :: "nat \<Rightarrow> http_answer"
  tw_file :: "string \<Rightarrow> http_request \<Rightarrow> http_answer"
  tw_dir :: "string \<Rightarrow> http_request \<Rightarrow> http_answer"

record 's router =
  rt_routes :: "(string \<times> 's responder) list"
  rt_fallback :: "'s responder"

definition answering :: "http_answer \<Rightarrow> 's responder" where
  "answering r = (\<lambda>_ s. (r, s))"

definition serving :: "(http_request \<Rightarrow> http_answer) \<Rightarrow> 's responder" where
  "serving f = (\<lambda>rq s. (f rq, s))"

definition new_router :: "tower \<Rightarrow> 's router" where
  "new_router t = \<lparr>rt_routes = [], rt_fallback = answering (tw_refused t 404)\<rparr>"

definition route :: "string \<Rightarrow> 's responder \<Rightarrow> 's router \<Rightarrow> 's router" where
  "route pattern h r = r\<lparr>rt_routes := rt_routes r @ [(pattern, h)]\<rparr>"

definition layer :: "('s responder \<Rightarrow> 's responder) \<Rightarrow> 's router \<Rightarrow> 's router" where
  "layer f r = \<lparr>rt_routes = map (apsnd f) (rt_routes r), rt_fallback = f (rt_fallback r)\<rparr>"

definition fallback_service :: "'s responder \<Rightarrow> 's router \<Rightarrow> 's router" where
  "fallback_service h r = r\<lparr>rt_fallback := h\<rparr>"

definition service_for :: "tower \<Rightarrow> 's router \<Rightarrow> string \<Rightarrow> 's responder" where
  "service_for t r path =
     (case tw_route t (map fst (rt_routes r)) path of
        None \<Rightarrow> rt_fallback r
      | Some pattern \<Rightarrow> (case map_of (rt_routes r) pattern of None \<Rightarrow> rt_fallback r | Some h \<Rightarrow> h))"

definition run_router :: "tower \<Rightarrow> 's router \<Rightarrow> 's responder" where
  "run_router t r rq = service_for t r (rq_path rq) rq"

definition set_header :: "tower \<Rightarrow> string \<Rightarrow> string \<Rightarrow> 's responder \<Rightarrow> 's responder" where
  "set_header t name value next = (\<lambda>rq s. apfst (tw_set t name value) (next rq s))"

definition default_header :: "tower \<Rightarrow> string \<Rightarrow> string \<Rightarrow> 's responder \<Rightarrow> 's responder" where
  "default_header t name value next = (\<lambda>rq s. apfst (tw_default t name value) (next rq s))"

subsection \<open>The address a request comes from\<close>

definition eq_ignore_ascii_case :: "string \<Rightarrow> string \<Rightarrow> bool" where
  "eq_ignore_ascii_case a b \<longleftrightarrow> to_ascii_lowercase a = to_ascii_lowercase b"

definition trusted_proxy_header :: "environment \<Rightarrow> string option" where
  "trusted_proxy_header env =
     (case env ''TRUST_PROXY_CLIENT_IP'' of
        None \<Rightarrow> None
      | Some value \<Rightarrow>
          if value = ''1'' \<or> eq_ignore_ascii_case value ''true'' then Some CLIENT_IP_HEADER
          else if value = ''cloudflare'' then Some ''cf-connecting-ip''
          else None)"

definition use_forwarded_client_ip :: "string \<Rightarrow> 's responder \<Rightarrow> 's responder" where
  "use_forwarded_client_ip header next =
     (\<lambda>rq. next (case forwarded_client_ip (header_text (rq_headers rq)) header of
        None \<Rightarrow> rq
      | Some client \<Rightarrow> rq\<lparr>rq_peer := client\<rparr>))"

text \<open>\<open>bind_ip\<close>: a connector on the same machine is the only one that may reach the port.\<close>

definition bind_ip :: "string option \<Rightarrow> nat list" where
  "bind_ip proxy_header = (if proxy_header = Some ''cf-connecting-ip'' then [127, 0, 0, 1] else [0, 0, 0, 0])"

subsection \<open>One public origin\<close>

definition is_www :: "headers \<Rightarrow> bool" where
  "is_www h \<longleftrightarrow> (case header_text h ''host'' of
     None \<Rightarrow> False | Some host \<Rightarrow> eq_ignore_ascii_case host ''www.glarion.app'')"

definition redirect_www_to_apex :: "tower \<Rightarrow> 's responder \<Rightarrow> 's responder" where
  "redirect_www_to_apex t next =
     (\<lambda>rq s. if is_www (rq_headers rq) then (tw_redirect t (''https://glarion.app'' @ rq_uri rq), s)
       else next rq s)"

subsection \<open>The routes of the API\<close>

datatype endpoint =
    HandleHealth | HandleWebhook | HandleGetSubscription | HandleStartCheckout | HandleOpenPortal
  | HandleManageSubscription | HandleScheduleCancellation | HandleResumeSubscription | HandlePublicPrices
  | HandlePublicPromo | HandleGrowthPage | HandleRunPreview | HandleEmailPreview | HandleSignup | HandleLogin
  | HandleLogout | HandleVerifyEmail | HandleResendVerification | HandleForgotPassword | HandleResetPassword
  | HandleChangeEmail | HandleChangePassword | HandleConfirmEmailChange | HandleDeleteAccount
  | HandleListTargets | HandleCreateTarget | HandleSetCadence | HandleStartVerification
  | HandleCheckVerification | HandleListScans | HandleCreateScan | HandleGetScan | HandleGetScanReport
  | HandleGetProfile | HandleUpdateProfile

definition api_routes :: "(string \<times> (string \<times> endpoint) list) list" where
  "api_routes =
    [(''/health'', [(''GET'', HandleHealth)]),
     (''/api/billing/webhook'', [(''POST'', HandleWebhook)]),
     (''/api/billing'', [(''GET'', HandleGetSubscription)]),
     (''/api/billing/checkout'', [(''POST'', HandleStartCheckout)]),
     (''/api/billing/portal'', [(''POST'', HandleOpenPortal)]),
     (''/api/billing/subscription'', [(''GET'', HandleManageSubscription)]),
     (''/api/billing/subscription/cancel'', [(''POST'', HandleScheduleCancellation)]),
     (''/api/billing/subscription/resume'', [(''POST'', HandleResumeSubscription)]),
     (''/api/billing/prices'', [(''GET'', HandlePublicPrices)]),
     (''/api/promo'', [(''GET'', HandlePublicPromo)]),
     (''/api/growth/page'', [(''POST'', HandleGrowthPage)]),
     (''/api/preview'', [(''POST'', HandleRunPreview)]),
     (''/api/preview/email'', [(''POST'', HandleEmailPreview)]),
     (''/api/auth/signup'', [(''POST'', HandleSignup)]),
     (''/api/auth/login'', [(''POST'', HandleLogin)]),
     (''/api/auth/logout'', [(''POST'', HandleLogout)]),
     (''/api/auth/verify'', [(''POST'', HandleVerifyEmail)]),
     (''/api/auth/resend-verification'', [(''POST'', HandleResendVerification)]),
     (''/api/auth/forgot-password'', [(''POST'', HandleForgotPassword)]),
     (''/api/auth/reset-password'', [(''POST'', HandleResetPassword)]),
     (''/api/account/email'', [(''POST'', HandleChangeEmail)]),
     (''/api/account/password'', [(''POST'', HandleChangePassword)]),
     (''/api/auth/confirm-email-change'', [(''POST'', HandleConfirmEmailChange)]),
     (''/api/account'', [(''DELETE'', HandleDeleteAccount)]),
     (''/api/targets'', [(''GET'', HandleListTargets), (''POST'', HandleCreateTarget)]),
     (''/api/targets/:id/cadence'', [(''PUT'', HandleSetCadence)]),
     (''/api/targets/:id/verification'', [(''POST'', HandleStartVerification)]),
     (''/api/targets/:id/verification/check'', [(''POST'', HandleCheckVerification)]),
     (''/api/scans'', [(''GET'', HandleListScans), (''POST'', HandleCreateScan)]),
     (''/api/scans/:id'', [(''GET'', HandleGetScan)]),
     (''/api/scans/:id/report'', [(''GET'', HandleGetScanReport)]),
     (''/api/profile'', [(''GET'', HandleGetProfile), (''PUT'', HandleUpdateProfile)])]"

definition method_router :: "tower \<Rightarrow> (endpoint \<Rightarrow> 's responder) \<Rightarrow> (string \<times> endpoint) list \<Rightarrow> 's responder" where
  "method_router t handle ms rq s =
     (case Option.bind (tw_pick t (map fst ms) (rq_verb rq)) (map_of ms) of
        None \<Rightarrow> (tw_refused t 405, s)
      | Some e \<Rightarrow> handle e rq s)"

text \<open>\<open>get(handler)\<close> alone.\<close>

definition get_only :: "tower \<Rightarrow> 's responder \<Rightarrow> 's responder" where
  "get_only t h rq s = (if tw_pick t [''GET''] (rq_verb rq) = None then (tw_refused t 405, s) else h rq s)"

definition api_router :: "tower \<Rightarrow> (endpoint \<Rightarrow> 's responder) \<Rightarrow> 's router" where
  "api_router t handle =
     layer (set_header t ''cache-control'' ''no-store'')
       (foldl (\<lambda>r (pattern, ms). route pattern (method_router t handle ms) r) (new_router t) api_routes)"

subsection \<open>The site\<close>

text \<open>\<open>Path::join\<close> with a relative name.\<close>

definition join_path :: "string \<Rightarrow> string \<Rightarrow> string" where
  "join_path root name = (if root = [] \<or> last root = CHR ''/'' then root @ name else root @ ''/'' @ name)"

definition security_txt ::
    "(string \<Rightarrow> time \<Rightarrow> string) \<Rightarrow> environment \<Rightarrow> time \<Rightarrow> http_answer" where
  "security_txt strftime env now =
     \<lparr>ha_status = 200, ha_headers = [(''content-type'', ''text/plain; charset=utf-8'')],
      ha_body = ''Contact: mailto:support@pctweaker.app'' @ nl
        @ ''Expires: '' @ strftime ''%Y-%m-%dT%H:%M:%SZ'' (now + days 90) @ nl
        @ ''Preferred-Languages: en'' @ nl
        @ ''Canonical: '' @ site_url env @ ''/.well-known/security.txt'' @ nl
        @ ''Policy: https://github.com/AurelioAvila/glarion/blob/master/SECURITY.md'' @ nl\<rparr>"

text \<open>The page's policy, with the source's single quotes.\<close>

definition quoted :: "string \<Rightarrow> string" where
  "quoted s = [CHR 0x27] @ s @ [CHR 0x27]"

definition SITE_POLICY :: string where
  "SITE_POLICY =
     ''default-src '' @ quoted ''self'' @ ''; base-uri '' @ quoted ''none'' @ ''; object-src '' @ quoted ''none''
     @ ''; frame-ancestors '' @ quoted ''none'' @ ''; form-action '' @ quoted ''self'' @ ''; script-src ''
     @ quoted ''self'' @ '' '' @ quoted ''sha256-WLJsZgWYV6G+rcHqpPVxt4ubAAbZ46TYUXUFnDlN0W4=''
     @ '' https://static.cloudflareinsights.com; style-src '' @ quoted ''self'' @ '' '' @ quoted ''unsafe-inline''
     @ ''; img-src '' @ quoted ''self'' @ '' data: https:; connect-src '' @ quoted ''self''
     @ '' https://cloudflareinsights.com; font-src '' @ quoted ''self'' @ ''; upgrade-insecure-requests''"

text \<open>The headers that are set on every answer; the policy is set on an answer that has none.\<close>

definition fixed_headers :: "(string \<times> string) list" where
  "fixed_headers =
    [(''strict-transport-security'', ''max-age=31536000; includeSubDomains''),
     (''x-content-type-options'', ''nosniff''),
     (''x-frame-options'', ''DENY''),
     (''referrer-policy'', ''strict-origin-when-cross-origin''),
     (''permissions-policy'', ''camera=(), microphone=(), geolocation=(), payment=()''),
     (''cross-origin-opener-policy'', ''same-origin'')]"

definition security_headers :: "tower \<Rightarrow> 's responder \<Rightarrow> 's responder" where
  "security_headers t next =
     set_header t ''strict-transport-security'' ''max-age=31536000; includeSubDomains''
       (default_header t ''content-security-policy'' SITE_POLICY
         (foldr (\<lambda>(name, value). set_header t name value) (tl fixed_headers) next))"

definition with_static_files ::
    "tower \<Rightarrow> (string \<Rightarrow> bool) \<Rightarrow> string \<Rightarrow> http_answer \<Rightarrow> 's router \<Rightarrow> 's router" where
  "with_static_files t exists_file web_root contact r =
     (let landing = join_path web_root ''landing.html'';
          shell = join_path web_root ''index.html'';
          revalidate = set_header t ''cache-control'' ''no-cache'';
          noindex = set_header t ''x-robots-tag'' ''noindex'' in
      if \<not> exists_file landing \<or> \<not> exists_file shell then r
      else
        layer (security_headers t)
          (fallback_service (revalidate (serving (tw_dir t web_root)))
          (route ''/app/'' (noindex (revalidate (serving (tw_file t shell))))
          (route ''/app'' (noindex (revalidate (serving (tw_file t shell))))
          (route ''/.well-known/security.txt'' (get_only t (answering contact))
          (route ''/check'' (noindex (revalidate (serving (tw_file t landing))))
          (route ''/about-our-checks'' (get_only t (answering (tw_redirect t ''/about-our-checks.html'')))
          (route ''/index.html'' (get_only t (answering (tw_redirect t ''/app'')))
          (route ''/landing.html'' (get_only t (answering (tw_redirect t ''/'')))
          (route ''/'' (revalidate (serving (tw_file t landing))) r))))))))))"

subsection \<open>The process\<close>

text \<open>The layer for other origins is an argument too: which origins, headers and methods it lets through.\<close>

type_synonym 's cross_origin = "string list \<Rightarrow> string list \<Rightarrow> string list \<Rightarrow> 's responder \<Rightarrow> 's responder"

definition api_for_browsers ::
    "tower \<Rightarrow> 's cross_origin \<Rightarrow> config \<Rightarrow> (endpoint \<Rightarrow> 's responder) \<Rightarrow> 's router" where
  "api_for_browsers t cors c handle =
     layer (cors (List.map_filter to_str (allowed_origins c))
         [''authorization'', ''content-type'', ''x-glarion-csrf'', ''x-glarion-source'']
         [''GET'', ''POST'', ''PUT'', ''DELETE''])
       (api_router t handle)"

definition web_root :: "environment \<Rightarrow> string" where
  "web_root env = (case env ''WEB_ROOT'' of None \<Rightarrow> ''web'' | Some root \<Rightarrow> root)"

definition application ::
    "tower \<Rightarrow> 's cross_origin \<Rightarrow> environment \<Rightarrow> (string \<Rightarrow> bool) \<Rightarrow> (string \<Rightarrow> time \<Rightarrow> string) \<Rightarrow> time \<Rightarrow> config
     \<Rightarrow> (endpoint \<Rightarrow> 's responder) \<Rightarrow> 's router" where
  "application t cors env exists_file strftime now c handle =
     (let site = layer (redirect_www_to_apex t)
            (with_static_files t exists_file (web_root env) (security_txt strftime env now)
              (api_for_browsers t cors c handle)) in
      case trusted_proxy_header env of
        None \<Rightarrow> site
      | Some header \<Rightarrow> layer (use_forwarded_client_ip header) site)"

subsection \<open>What the library promises\<close>

definition tower_ok :: "tower \<Rightarrow> bool" where
  "tower_ok t \<longleftrightarrow>
     (\<forall>n v r. ha_status (tw_set t n v r) = ha_status r \<and> ha_body (tw_set t n v r) = ha_body r
        \<and> (\<forall>m. header_of (tw_set t n v r) m = (if m = n then Some v else header_of r m)))
   \<and> (\<forall>n v r. ha_status (tw_default t n v r) = ha_status r \<and> ha_body (tw_default t n v r) = ha_body r
        \<and> (\<forall>m. header_of (tw_default t n v r) m =
              (if m = n \<and> header_of r n = None then Some v else header_of r m)))"

text \<open>A request that is no preflight goes through; only headers of the protocol itself are added.\<close>

definition cors_header :: "string \<Rightarrow> bool" where
  "cors_header n \<longleftrightarrow> prefix ''access-control-'' n \<or> n = ''vary''"

definition cors_ok :: "'s cross_origin \<Rightarrow> bool" where
  "cors_ok cors \<longleftrightarrow> (\<forall>origins hs ms next rq s. rq_verb rq \<noteq> ''OPTIONS'' \<longrightarrow>
     snd (cors origins hs ms next rq s) = snd (next rq s)
     \<and> ha_status (fst (cors origins hs ms next rq s)) = ha_status (fst (next rq s))
     \<and> ha_body (fst (cors origins hs ms next rq s)) = ha_body (fst (next rq s))
     \<and> (\<forall>n. \<not> cors_header n \<longrightarrow> header_of (fst (cors origins hs ms next rq s)) n = header_of (fst (next rq s)) n))"

lemma set_header_facts:
  assumes "tower_ok t"
  shows "snd (set_header t n v next rq s) = snd (next rq s)"
    and "ha_status (fst (set_header t n v next rq s)) = ha_status (fst (next rq s))"
    and "ha_body (fst (set_header t n v next rq s)) = ha_body (fst (next rq s))"
    and "header_of (fst (set_header t n v next rq s)) m = (if m = n then Some v else header_of (fst (next rq s)) m)"
  using assms by (simp_all add: set_header_def tower_ok_def)

lemma default_header_facts:
  assumes "tower_ok t"
  shows "snd (default_header t n v next rq s) = snd (next rq s)"
    and "ha_status (fst (default_header t n v next rq s)) = ha_status (fst (next rq s))"
    and "ha_body (fst (default_header t n v next rq s)) = ha_body (fst (next rq s))"
    and "header_of (fst (default_header t n v next rq s)) m =
      (if m = n \<and> header_of (fst (next rq s)) n = None then Some v else header_of (fst (next rq s)) m)"
  using assms by (simp_all add: default_header_def tower_ok_def)

lemmas header_facts = set_header_facts default_header_facts

lemma security_headers_facts:
  assumes "tower_ok t"
  shows "snd (security_headers t next rq s) = snd (next rq s)"
    and "ha_status (fst (security_headers t next rq s)) = ha_status (fst (next rq s))"
    and "ha_body (fst (security_headers t next rq s)) = ha_body (fst (next rq s))"
    and "header_of (fst (security_headers t next rq s)) n =
      (case map_of fixed_headers n of
         Some v \<Rightarrow> Some v
       | None \<Rightarrow> if n = ''content-security-policy'' \<and> header_of (fst (next rq s)) n = None then Some SITE_POLICY
           else header_of (fst (next rq s)) n)"
  by (simp_all add: security_headers_def fixed_headers_def header_facts[OF assms]) auto

lemma service_for_layer: "service_for t (layer f r) path = f (service_for t r path)"
proof -
  have "map_of (map (apsnd f) rs) p = map_option f (map_of rs p)" for rs p
    by (induction rs) auto
  note this[simp]
  show ?thesis
    by (simp add: service_for_def layer_def map_map comp_def split: option.split)
qed

subsection \<open>Which service a path reaches\<close>

definition site_patterns :: "string list" where
  "site_patterns = [''/'', ''/landing.html'', ''/index.html'', ''/about-our-checks'', ''/check'',
     ''/.well-known/security.txt'', ''/app'', ''/app/'']"

definition all_patterns :: "string list" where
  "all_patterns = map fst api_routes @ site_patterns"

definition installed :: "(string \<Rightarrow> bool) \<Rightarrow> environment \<Rightarrow> bool" where
  "installed exists_file env \<longleftrightarrow>
     exists_file (join_path (web_root env) ''landing.html'') \<and> exists_file (join_path (web_root env) ''index.html'')"

lemma foldl_routes:
  "rt_routes (foldl (\<lambda>r (p, ms). route p (f ms) r) r0 ps) = rt_routes r0 @ map (apsnd f) ps"
  by (induction ps arbitrary: r0) (auto simp: route_def)

lemma api_router_routes:
  "rt_routes (api_router t handle) =
     map (apsnd (\<lambda>ms. set_header t ''cache-control'' ''no-store'' (method_router t handle ms))) api_routes"
  by (simp add: api_router_def layer_def foldl_routes new_router_def map_map comp_def apsnd_compose)

lemma routes_of_layer [simp]: "map fst (rt_routes (layer f r)) = map fst (rt_routes r)"
  by (simp add: layer_def comp_def)

text \<open>No pattern is added twice: the library stops the process at start otherwise.\<close>

lemma patterns_distinct: "distinct all_patterns"
  by code_simp

text \<open>The site with everything up to the security headers added.\<close>

definition site_parts :: "tower \<Rightarrow> string \<Rightarrow> http_answer \<Rightarrow> 's router \<Rightarrow> 's router" where
  "site_parts t root contact r =
     (let revalidate = set_header t ''cache-control'' ''no-cache'';
          noindex = set_header t ''x-robots-tag'' ''noindex'';
          landing = tw_file t (join_path root ''landing.html'');
          shell = tw_file t (join_path root ''index.html'') in
      \<lparr>rt_routes = rt_routes r @
         [(''/'', revalidate (serving landing)),
          (''/landing.html'', get_only t (answering (tw_redirect t ''/''))),
          (''/index.html'', get_only t (answering (tw_redirect t ''/app''))),
          (''/about-our-checks'', get_only t (answering (tw_redirect t ''/about-our-checks.html''))),
          (''/check'', noindex (revalidate (serving landing))),
          (''/.well-known/security.txt'', get_only t (answering contact)),
          (''/app'', noindex (revalidate (serving shell))),
          (''/app/'', noindex (revalidate (serving shell)))],
       rt_fallback = revalidate (serving (tw_dir t root))\<rparr>)"

lemma with_static_files_parts:
  assumes "exists_file (join_path root ''landing.html'')" "exists_file (join_path root ''index.html'')"
  shows "with_static_files t exists_file root contact r = layer (security_headers t) (site_parts t root contact r)"
  using assms by (simp add: with_static_files_def site_parts_def route_def fallback_service_def layer_def Let_def)

lemma site_parts_patterns:
  "map fst (rt_routes (site_parts t root contact r)) = map fst (rt_routes r) @ site_patterns"
  by (simp add: site_parts_def site_patterns_def Let_def)

lemma api_patterns: "map fst (rt_routes (api_for_browsers t cors c handle)) = map fst api_routes"
  by (simp add: api_for_browsers_def api_router_routes)

text \<open>A path the library gives to a route of the API.\<close>

lemma service_for_api:
  assumes "tw_route t all_patterns path = Some p" "map_of api_routes p = Some ms"
  shows "service_for t (site_parts t root contact (api_for_browsers t cors c handle)) path =
    cors (List.map_filter to_str (allowed_origins c))
      [''authorization'', ''content-type'', ''x-glarion-csrf'', ''x-glarion-source'']
      [''GET'', ''POST'', ''PUT'', ''DELETE'']
      (set_header t ''cache-control'' ''no-store'' (method_router t handle ms))"
proof -
  have m: "map_of (map (apsnd f) ps @ qs) p = Some (f x)" if "map_of ps p = Some x" for f :: "'x \<Rightarrow> 'y" and ps qs x
    using that by (induction ps) (auto split: if_splits)
  have routes: "rt_routes (api_for_browsers t cors c handle) =
      map (apsnd (\<lambda>ms. cors (List.map_filter to_str (allowed_origins c))
        [''authorization'', ''content-type'', ''x-glarion-csrf'', ''x-glarion-source'']
        [''GET'', ''POST'', ''PUT'', ''DELETE'']
        (set_header t ''cache-control'' ''no-store'' (method_router t handle ms)))) api_routes"
    by (simp add: api_for_browsers_def layer_def api_router_routes map_map comp_def apsnd_compose)
  have "map_of (rt_routes (site_parts t root contact (api_for_browsers t cors c handle))) p =
      Some (cors (List.map_filter to_str (allowed_origins c))
        [''authorization'', ''content-type'', ''x-glarion-csrf'', ''x-glarion-source'']
        [''GET'', ''POST'', ''PUT'', ''DELETE'']
        (set_header t ''cache-control'' ''no-store'' (method_router t handle ms)))"
    unfolding site_parts_def Let_def router.simps routes by (rule m[OF assms(2)])
  then show ?thesis
    unfolding service_for_def site_parts_patterns api_patterns all_patterns_def[symmetric] assms(1) by simp
qed

lemma layer_layer: "layer f (layer g r) = layer (f \<circ> g) r"
  by (simp add: layer_def comp_def apsnd_compose)

text \<open>The whole process, where the site is installed.\<close>

lemma application_parts:
  assumes "installed exists_file env"
  shows "application t cors env exists_file strftime now c handle =
    (let site = layer (redirect_www_to_apex t \<circ> security_headers t)
        (site_parts t (web_root env)
          (security_txt strftime env now) (api_for_browsers t cors c handle)) in
     case trusted_proxy_header env of None \<Rightarrow> site | Some header \<Rightarrow> layer (use_forwarded_client_ip header) site)"
  using assms by (simp add: application_def installed_def with_static_files_parts layer_layer Let_def split: option.split)

text \<open>The address a handler is given.\<close>

definition client_address :: "environment \<Rightarrow> http_request \<Rightarrow> ip" where
  "client_address env rq =
     (case Option.bind (trusted_proxy_header env) (forwarded_client_ip (header_text (rq_headers rq))) of
        None \<Rightarrow> rq_peer rq
      | Some client \<Rightarrow> client)"

lemma run_application:
  assumes "installed exists_file env" "\<not> is_www (rq_headers rq)"
  shows "run_router t (application t cors env exists_file strftime now c handle) rq =
    security_headers t
      (service_for t (site_parts t (web_root env)
         (security_txt strftime env now) (api_for_browsers t cors c handle)) (rq_path rq))
      (rq\<lparr>rq_peer := client_address env rq\<rparr>)"
proof (cases "trusted_proxy_header env")
  case None
  then show ?thesis
    using assms by (simp add: application_parts run_router_def service_for_layer redirect_www_to_apex_def
        client_address_def fun_eq_iff Let_def)
next
  case (Some header)
  then show ?thesis
    using assms by (simp add: application_parts run_router_def service_for_layer redirect_www_to_apex_def
        client_address_def use_forwarded_client_ip_def fun_eq_iff Let_def split: option.split)
qed

text \<open>An answer of the API is the handler's, with what is put around it.\<close>

lemma api_answer:
  assumes "tower_ok t" "cors_ok cors" "installed exists_file env" "\<not> is_www (rq_headers rq)"
    and "rq_verb rq \<noteq> ''OPTIONS''" "tw_route t all_patterns (rq_path rq) = Some p"
    and "map_of api_routes p = Some ms" "tw_pick t (map fst ms) (rq_verb rq) = Some verb"
    and "map_of ms verb = Some e"
    and "handle e (rq\<lparr>rq_peer := client_address env rq\<rparr>) s = (handled, s'')"
  obtains inner where
    "run_router t (application t cors env exists_file strftime now c handle) rq s =
       security_headers t inner (rq\<lparr>rq_peer := client_address env rq\<rparr>) s"
    "snd (inner (rq\<lparr>rq_peer := client_address env rq\<rparr>) s) = s''"
    "ha_status (fst (inner (rq\<lparr>rq_peer := client_address env rq\<rparr>) s)) = ha_status handled"
    "ha_body (fst (inner (rq\<lparr>rq_peer := client_address env rq\<rparr>) s)) = ha_body handled"
    "\<And>n. \<not> cors_header n \<Longrightarrow> header_of (fst (inner (rq\<lparr>rq_peer := client_address env rq\<rparr>) s)) n =
       (if n = ''cache-control'' then Some ''no-store'' else header_of handled n)"
proof -
  let ?rq = "rq\<lparr>rq_peer := client_address env rq\<rparr>"
  have picked: "method_router t handle ms ?rq s = (handled, s'')"
    using assms(8,9,10) by (simp add: method_router_def)
  let ?inner = "service_for t (site_parts t (web_root env)
     (security_txt strftime env now) (api_for_browsers t cors c handle)) (rq_path rq)"
  show thesis
  proof (rule that[of ?inner])
    show "run_router t (application t cors env exists_file strftime now c handle) rq s = security_headers t ?inner ?rq s"
      unfolding run_application[OF assms(3,4)] ..
  qed (use assms(2,5) in \<open>simp_all add: service_for_api[OF assms(6,7)] cors_ok_def header_facts[OF assms(1)] picked\<close>)
qed


text \<open>A library that keeps headers in a list, and a handler that answers with a report.\<close>

definition demo_tower :: tower where
  "demo_tower =
     \<lparr>tw_route = (\<lambda>ps path. if path = ''/api/scans/1/report'' then Some ''/api/scans/:id/report''
        else if path \<in> set ps then Some path else None),
      tw_pick = (\<lambda>ms m. if m \<in> set ms then Some m else None),
      tw_set = (\<lambda>n v r. r\<lparr>ha_headers := (n, v) # ha_headers r\<rparr>),
      tw_default = (\<lambda>n v r. if header_of r n = None then r\<lparr>ha_headers := (n, v) # ha_headers r\<rparr> else r),
      tw_redirect = (\<lambda>target. \<lparr>ha_status = 308, ha_headers = [(''location'', target)], ha_body = []\<rparr>),
      tw_refused = (\<lambda>status. \<lparr>ha_status = status, ha_headers = [], ha_body = []\<rparr>),
      tw_file = (\<lambda>name _. \<lparr>ha_status = 200, ha_headers = [], ha_body = name\<rparr>),
      tw_dir = (\<lambda>_ _. \<lparr>ha_status = 404, ha_headers = [], ha_body = []\<rparr>)\<rparr>"

lemma demo_tower_ok: "tower_ok demo_tower"
  by (auto simp: tower_ok_def demo_tower_def header_of_def)

definition demo_report_answer :: http_answer where
  "demo_report_answer = \<lparr>ha_status = 200, ha_headers = report_headers ''r.html'', ha_body = ''report''\<rparr>"

definition demo_ask :: http_request where
  "demo_ask = \<lparr>rq_verb = ''GET'', rq_uri = ''/api/scans/1/report'', rq_path = ''/api/scans/1/report'',
     rq_headers = (\<lambda>n. if n = ''host'' then Some ''glarion.app'' else None), rq_peer = V4 (192, 0, 2, 1), rq_body = []\<rparr>"

definition demo_env :: environment where
  "demo_env = (\<lambda>_. None)"

definition demo_config :: config where
  "demo_config = \<lparr>cf_database = [], cf_secret = [], cf_origins = [], cf_port = 8080\<rparr>"

definition demo_answer :: http_answer where
  "demo_answer = fst (run_router demo_tower
     (application demo_tower (\<lambda>_ _ _ next. next) demo_env (\<lambda>_. True) (\<lambda>_ _. []) 0 demo_config
        (\<lambda>_. answering demo_report_answer)) demo_ask ())"


text \<open>Whatever the path, the answer is protected.\<close>

lemma every_answer_guarded:
  assumes "tower_ok t" "installed exists_file env" "\<not> is_www (rq_headers rq)"
    and "run_router t (application t cors env exists_file strftime now c handle) rq s = (answer, s')"
  shows "list_all (\<lambda>(n, v). header_of answer n = Some v) fixed_headers
    \<and> header_of answer ''content-security-policy'' \<noteq> None"
proof -
  let ?rq = "rq\<lparr>rq_peer := client_address env rq\<rparr>"
  obtain inner where "answer = fst (security_headers t inner ?rq s)"
    using assms(4) unfolding run_application[OF assms(2,3)] by (metis fst_conv)
  then show ?thesis
    by (simp add: security_headers_facts[OF assms(1)], simp add: fixed_headers_def)
qed

text \<open>A visitor's request target is a path: the www name is sent to the same path of the one public origin.  A
  client that writes its target out in full is sent to another host.\<close>

lemma absolute_target_leaves_the_site:
  assumes "is_www (rq_headers rq)" "rq_uri rq = ''http://www.glarion.app/pricing.html''"
  shows "fst (redirect_www_to_apex t next rq s) =
    tw_redirect t ''https://glarion.apphttp://www.glarion.app/pricing.html''"
  using assms by (simp add: redirect_www_to_apex_def)

text \<open>Without a proxy the operator named, no header changes the address a client is known by.\<close>

lemma forged_headers_ignored:
  "trusted_proxy_header env = None \<Longrightarrow> client_address env rq = rq_peer rq"
  by (simp add: client_address_def)

text \<open>The process starts only with a database, a key of at least 32 bytes and a port, and always lets its own two
  origins in.\<close>

lemma config_checked:
  assumes "config_from_env env = Inr c"
  shows "env ''DATABASE_URL'' = Some (cf_database c) \<and> env ''JWT_SECRET'' = Some (cf_secret c)
    \<and> 32 \<le> length (cf_secret c) \<and> cf_port c < 65536 \<and> set FIRST_PARTY_ORIGINS \<subseteq> set (allowed_origins c)"
  using assms
  by (auto simp: config_from_env_def required_def bind_res_Inr_iff ok_or_def parse_u16_def allowed_origins_def Let_def
      split: option.splits if_splits list.splits)

lemma find_version: "find (\<lambda>row. fst row = k) rs = map_option (Pair k) (map_of rs k)"
  by (induction rs) auto

lemma check_migrations_Inr:
  "isl (check_migrations applied ms) \<longleftrightarrow>
     \<not> list_all (\<lambda>(v, c). \<exists>success. map_of applied v = Some (success, c)) ms"
  by (induction ms) (auto simp: find_version split: option.split)

text \<open>A schema is taken for complete exactly when it is.  The process that may not change the schema starts
  exactly when no applied migration failed and every migration it was built with was applied with the same
  contents.\<close>

lemma schema_verified:
  assumes "distinct (map fst applied)"
  shows "isl (verify_database applied migrations) \<longleftrightarrow>
    \<not> (list_all (\<lambda>(_, success, _). success) applied
       \<and> list_all (\<lambda>(version, checksum). (version, True, checksum) \<in> set applied) migrations)"
proof (cases "list_all (\<lambda>(_, success, _). success) applied")
  case True
  then have "(\<exists>success. map_of applied v = Some (success, c)) \<longleftrightarrow> (v, True, c) \<in> set applied" for v c
    using assms by (auto simp: map_of_eq_Some_iff list_all_iff)
  then show ?thesis using True by (simp add: verify_database_def check_migrations_Inr)
qed (simp add: verify_database_def)

lemma schema_verified_witness:
  "\<not> isl (verify_database [(1, True, ''a''), (2, True, ''b'')] [(2, ''b''), (1, ''a'')])
   \<and> isl (verify_database [(1, True, ''a''), (2, True, ''b'')] [(2, ''c'')])"
  using schema_verified[of "[(1, True, ''a''), (2, True, ''b'')]" "[(2, ''b''), (1, ''a'')]"]
    schema_verified[of "[(1, True, ''a''), (2, True, ''b'')]" "[(2, ''c'')]"]
  by simp

end
