(* ===== verification/CrossSite.thy ===== *)
theory CrossSite
  imports Web Service
begin

text \<open>
  The handlers behind the routes of \<open>Web\<close> that take an account from the request (\<open>user: AuthUser\<close> in their
  signatures), with what each does to the process, and what a page of another site can do with the cookie a
  browser sends along.
\<close>

fun needs_session :: "endpoint \<Rightarrow> bool" where
  "needs_session e \<longleftrightarrow> e \<in>
     {HandleGetSubscription, HandleStartCheckout, HandleOpenPortal, HandleManageSubscription,
      HandleScheduleCancellation, HandleResumeSubscription, HandleChangeEmail, HandleChangePassword,
      HandleDeleteAccount, HandleListTargets, HandleCreateTarget, HandleSetCadence, HandleStartVerification,
      HandleCheckVerification, HandleListScans, HandleCreateScan, HandleGetScan, HandleGetScanReport,
      HandleGetProfile, HandleUpdateProfile}"

text \<open>The extractor runs first; its refusal is the answer.\<close>

definition with_session ::
    "vault \<Rightarrow> time \<Rightarrow> (api_error \<Rightarrow> http_answer) \<Rightarrow> (uid \<Rightarrow> Stripe.world responder) \<Rightarrow> Stripe.world responder" where
  "with_session v now refusal inner rq w =
     (case auth_user v now (rq_verb rq) (http_request.rq_headers rq) (w_db w) of
        Inl e \<Rightarrow> (refusal e, w)
      | Inr user \<Rightarrow> inner user rq w)"

text \<open>A handler that works on the tables alone.\<close>

definition on_db :: "(db \<Rightarrow> 'r \<times> db) \<Rightarrow> Stripe.world \<Rightarrow> Stripe.world" where
  "on_db m w = w\<lparr>w_db := snd (m (w_db w))\<rparr>"

text \<open>\<open>session_act a v now user e f\<close>: for \<open>user\<close>, the handler of \<open>e\<close> may take the process from \<open>w\<close> to \<open>f w\<close>; what
  else it was sent is of no account.  Five of them only read rows.\<close>

inductive session_act :: "app \<Rightarrow> vault \<Rightarrow> time \<Rightarrow> uid \<Rightarrow> endpoint \<Rightarrow> (Stripe.world \<Rightarrow> Stripe.world) \<Rightarrow> bool"
  for a v now user where
  "session_act a v now user HandleGetSubscription (\<lambda>w. snd (get_subscription a user w))"
| "session_act a v now user HandleManageSubscription (\<lambda>w. snd (manage_subscription a now user w))"
| "session_act a v now user HandleListTargets (\<lambda>w. w)"
| "session_act a v now user HandleListScans (\<lambda>w. w)"
| "session_act a v now user HandleGetScan (\<lambda>w. w)"
| "session_act a v now user HandleGetScanReport (\<lambda>w. w)"
| "session_act a v now user HandleGetProfile (\<lambda>w. w)"
| "session_act a v now user HandleStartCheckout (\<lambda>w. snd (start_checkout a new_id now peer h user wanted w))"
| "session_act a v now user HandleOpenPortal (\<lambda>w. snd (open_portal a cell user w))"
| "session_act a v now user HandleScheduleCancellation (\<lambda>w. snd (schedule_cancellation a now user reason comment w))"
| "session_act a v now user HandleResumeSubscription (\<lambda>w. snd (resume_subscription a now user w))"
| "session_act a v now user HandleChangeEmail (\<lambda>w. snd (change_email a v token now user address password w))"
| "session_act a v now user HandleChangePassword (\<lambda>w. snd (change_password a v salt now user passwords w))"
| "session_act a v now user HandleDeleteAccount (\<lambda>w. snd (delete_account a v salt nobody user password w))"
| "session_act a v now user HandleUpdateProfile (\<lambda>w. snd (update_profile user name logo w))"
| "session_act a v now user HandleCreateTarget (on_db (create_target new_id now user site client))"
| "session_act a v now user HandleSetCadence (on_db (set_cadence now user tid body))"
| "session_act a v now user HandleStartVerification (on_db (start_verification new_id token now user tid))"
| "session_act a v now user HandleCheckVerification (on_db (check_verification sha net h peer now user tid m))"
| "session_act a v now user HandleCreateScan (on_db (create_scan auth_id job_id now
     \<lparr>cl_user = user, cl_peer = peer, cl_agent = agent\<rparr> body))"

text \<open>What \<open>GET\<close> reaches only looks.\<close>

lemma get_subscription_observes: "moves observes (get_subscription a user)"
proof -
  have "moves observes (trial_available a user None)"
    unfolding trial_available_def
    by (intro observing.plain)
      (simp add: moves_def account_email_def of_option_def done_with_def stop_with_def observing.stay split: option.split)
  then have "moves observes (if b then trial_available a user None else done_with False)" for b
    by (simp add: observing.finish)
  then have "moves observes (and_then (if b then trial_available a user None else done_with False)
      (\<lambda>x. done_with (g x)))" for b and g :: "bool \<Rightarrow> subscription_view"
    by (intro observing.seq observing.finish)
  note looks = this[unfolded moves_def, THEN spec]
  show ?thesis unfolding moves_def get_subscription_def Let_def by (rule allI, rule looks)
qed

lemma reading_acts:
  assumes "session_act a v now user e f"
    and "e \<in> {HandleGetSubscription, HandleManageSubscription, HandleListTargets, HandleListScans, HandleGetScan,
      HandleGetScanReport, HandleGetProfile}"
  shows "observes w (f w)"
  using assms(1)
  by (cases rule: session_act.cases)
    (use assms(2) get_subscription_observes manage_subscription_observes in
      \<open>auto simp: moves_def intro: observing.stay\<close>)

lemma get_routes_read:
  "list_all (\<lambda>(p, ms). case map_of ms ''GET'' of None \<Rightarrow> True | Some e \<Rightarrow> needs_session e \<longrightarrow>
     e \<in> {HandleGetSubscription, HandleManageSubscription, HandleListTargets, HandleListScans, HandleGetScan,
      HandleGetScanReport, HandleGetProfile}) api_routes"
  by code_simp

text \<open>The library gives a request to a handler of its own method; \<open>get\<close> also answers \<open>HEAD\<close>.\<close>

definition picks_ok :: "tower \<Rightarrow> bool" where
  "picks_ok t \<longleftrightarrow> (\<forall>ms verb m. tw_pick t ms verb = Some m \<longrightarrow>
     m \<in> set ms \<and> (m = verb \<or> (verb = ''HEAD'' \<and> m = ''GET'')))"

text \<open>A request a page elsewhere can make a browser send: the cookie goes along, a header of its own does not.\<close>

definition cross_site :: "headers \<Rightarrow> bool" where
  "cross_site h \<longleftrightarrow> bearer_of h = None \<and> header_text h ''x-glarion-csrf'' \<noteq> Some ''1''"

lemma cross_site_refused:
  assumes "cross_site h" "verb \<notin> {''GET'', ''HEAD'', ''OPTIONS''}"
  shows "\<exists>e. auth_user v now verb h d = Inl e"
  using assms by (auto simp: cross_site_def auth_user_def ok_or_def bind_res_def Let_def split: option.split)

lemma picked_get:
  assumes "map_of api_routes p = Some ms" "map_of ms ''GET'' = Some e" "needs_session e"
  shows "e \<in> {HandleGetSubscription, HandleManageSubscription, HandleListTargets, HandleListScans, HandleGetScan,
      HandleGetScanReport, HandleGetProfile}"
  using get_routes_read map_of_SomeD[OF assms(1)] assms(2,3) by (fastforce simp: list_all_iff)

text \<open>C18: a page of another site changes nothing for somebody who is signed in.  Whatever request for a route with
  a session a browser can be made to send with its cookie, through the whole process from the socket to the
  handler, either it is refused or the handler it reaches only looks: it asks Stripe for facts and counts the
  attempt, and writes nothing else.\<close>

theorem cross_site_changes_nothing:
  assumes "tower_ok t" "cors_ok cors" "picks_ok t" "installed exists_file env" "\<not> is_www (http_request.rq_headers rq)"
    and "rq_verb rq \<noteq> ''OPTIONS''" "tw_route t all_patterns (rq_path rq) = Some p"
    and "map_of api_routes p = Some ms" "tw_pick t (map fst ms) (rq_verb rq) = Some verb"
    and "map_of ms verb = Some e" "needs_session e" "cross_site (http_request.rq_headers rq)"
    and "handle e = with_session v now refusal inner"
    and "\<And>user rq w. \<exists>f. session_act a v now user e f \<and> snd (inner user rq w) = f w"
  shows "observes w (snd (run_router t (application t cors env exists_file strftime at c handle) rq w))"
proof -
  let ?rq = "rq\<lparr>rq_peer := client_address env rq\<rparr>"
  obtain handled w' where h: "handle e ?rq w = (handled, w')" by (cases "handle e ?rq w")
  obtain inner' where "run_router t (application t cors env exists_file strftime at c handle) rq w =
      security_headers t inner' ?rq w" "snd (inner' ?rq w) = w'"
    by (rule api_answer[where handle = handle and rq = rq and s = w and strftime = strftime and now = at and c = c,
        OF assms(1,2,4-10) h])
  then have run: "snd (run_router t (application t cors env exists_file strftime at c handle) rq w) = w'"
    by (simp add: security_headers_facts[OF assms(1)])
  have picked: "verb = rq_verb rq \<or> (rq_verb rq = ''HEAD'' \<and> verb = ''GET'')"
    using assms(3,9) by (simp add: picks_ok_def)
  show ?thesis
  proof (cases "auth_user v now (rq_verb rq) (http_request.rq_headers rq) (w_db w)")
    case (Inl x)
    then show ?thesis using h run by (simp add: assms(13) with_session_def observing.stay)
  next
    case (Inr user)
    then have "rq_verb rq \<in> {''GET'', ''HEAD'', ''OPTIONS''}"
      using cross_site_refused[OF assms(12)] by (metis Inl_Inr_False)
    then have "verb = ''GET'' \<or> verb = ''HEAD''" using picked assms(6) by auto
    moreover have "verb \<noteq> ''HEAD''"
    proof
      assume "verb = ''HEAD''"
      moreover have "list_all (\<lambda>(p, ms). map_of ms ''HEAD'' = None) api_routes" by code_simp
      ultimately show False using map_of_SomeD[OF assms(8)] assms(10) by (fastforce simp: list_all_iff)
    qed
    ultimately have "e \<in> {HandleGetSubscription, HandleManageSubscription, HandleListTargets, HandleListScans,
        HandleGetScan, HandleGetScanReport, HandleGetProfile}"
      using picked_get[OF assms(8) _ assms(11)] assms(10) by blast
    then show ?thesis
      using assms(14)[of user ?rq w] h run reading_acts by (auto simp: assms(13) with_session_def Inr)
  qed
qed

definition forged_change :: "uid \<Rightarrow> (string \<times> string) action" where
  "forged_change user = change_password demo_app demo_vault ''s'' 1 user
     \<lparr>pr_current = ''Old-pass!'', pr_new = ''New-pass!'', pr_confirmation = ''New-pass!''\<rparr>"

definition demo_forged :: http_request where
  "demo_forged = demo_ask\<lparr>rq_verb := ''POST'', rq_path := ''/api/account/password'',
     rq_headers := (\<lambda>n. if n = ''cookie'' then Some ''glarion_session=t'' else None)\<rparr>"

theorem cross_site_changes_nothing_witness:
  "observes demo_accounts (snd (run_router demo_tower
     (application demo_tower (\<lambda>_ _ _ next. next) demo_env (\<lambda>_. True) (\<lambda>_ _. []) 0 demo_config
        (\<lambda>_. with_session demo_vault 1 (\<lambda>_. demo_report_answer) (\<lambda>user _ w. (demo_report_answer, snd (forged_change user w)))))
     demo_forged demo_accounts))"
proof (rule cross_site_changes_nothing[OF demo_tower_ok, where ms = "[(''POST'', HandleChangePassword)]"
      and verb = "''POST''" and e = HandleChangePassword and p = "''/api/account/password''"])
  show "cors_ok (\<lambda>_ _ _ next. next)" by (simp add: cors_ok_def)
  show "installed (\<lambda>_. True) demo_env" by (simp add: installed_def)
  show "picks_ok demo_tower" by (simp add: picks_ok_def demo_tower_def)
  show "\<exists>f. session_act demo_app demo_vault 1 user HandleChangePassword f \<and>
      snd ((\<lambda>user _ w. (demo_report_answer, snd (forged_change user w))) user rq w) = f w"
    for user :: uid and rq :: http_request and w
    unfolding forged_change_def by (auto intro: session_act.intros)
qed (rule refl | code_simp)+

end
