(* ===== verification/Coupons.thy ===== *)
theory Coupons
  imports Promo Json
begin

text \<open>
  \<open>crates/api/src/bin/halloween_coupons.rs\<close>: the operator's tool that creates and checks the coupons of the
  offer.  The Stripe CLI is a function of the commands run so far; \<open>None\<close> is a panic of the process, on an
  answer that is no JSON.
\<close>

type_synonym stripe_cli = "string list list \<Rightarrow> string list \<Rightarrow> json option"

definition run_stripe ::
    "stripe_cli \<Rightarrow> bool \<Rightarrow> string list \<Rightarrow> string list list \<Rightarrow> (json \<times> string list list) option" where
  "run_stripe cli live args calls =
     (let command = args @ (if live then [''--live''] else []) in
      case cli calls command of None \<Rightarrow> None | Some answer \<Rightarrow> Some (answer, calls @ [command]))"

record flags =
  fl_live :: bool
  fl_apply :: bool
  fl_verify :: bool

definition read_flags :: "string list \<Rightarrow> flags" where
  "read_flags args = \<lparr>fl_live = (''--live'' \<in> set args), fl_apply = (''--apply'' \<in> set args),
     fl_verify = (''--verify-session'' \<in> set args)\<rparr>"

definition redeem_by :: int where
  "redeem_by = timestamp promo_end + GRACE_SECONDS + 300"

definition amount_off :: "offer \<Rightarrow> int" where
  "amount_off o' = of_regular o' - of_price o'"

definition offer_coupon :: "offer \<Rightarrow> string" where
  "offer_coupon o' = coupon_id (of_plan o') (of_interval o')"

definition price_matches :: "bool \<Rightarrow> offer \<Rightarrow> json \<Rightarrow> bool" where
  "price_matches live o' price \<longleftrightarrow>
     as_i64 (jidx price ''unit_amount'') = Some (of_regular o') \<and> jidx price ''currency'' = JStr ''eur''
     \<and> as_bool (jidx price ''livemode'') = Some live \<and> as_bool (jidx price ''active'') = Some True"

definition price_product :: "json \<Rightarrow> string" where
  "price_product price = (case as_str (jidx price ''product'') of None \<Rightarrow> [] | Some p \<Rightarrow> p)"

definition coupon_products :: "json \<Rightarrow> json list" where
  "coupon_products coupon =
     (case as_array (jidx (jidx coupon ''applies_to'') ''products'') of None \<Rightarrow> [] | Some ps \<Rightarrow> ps)"

definition coupon_matches :: "bool \<Rightarrow> offer \<Rightarrow> string \<Rightarrow> json \<Rightarrow> bool" where
  "coupon_matches live o' product coupon \<longleftrightarrow>
     as_i64 (jidx coupon ''amount_off'') = Some (amount_off o') \<and> jidx coupon ''currency'' = JStr ''eur''
     \<and> jidx coupon ''duration'' = JStr ''once'' \<and> as_i64 (jidx coupon ''redeem_by'') = Some redeem_by
     \<and> as_bool (jidx coupon ''valid'') = Some True \<and> as_bool (jidx coupon ''livemode'') = Some live
     \<and> length (coupon_products coupon) = 1 \<and> hd (coupon_products coupon) = JStr product"

definition with_fields :: "string list \<Rightarrow> string list \<Rightarrow> string list" where
  "with_fields args pairs = args @ concat (map (\<lambda>f. [''-d'', f]) pairs)"

definition create_coupon :: "offer \<Rightarrow> string \<Rightarrow> string list" where
  "create_coupon o' product =
     with_fields [''coupons'', ''create'']
       [''id='' @ offer_coupon o', ''amount_off='' @ show_int (amount_off o'), ''currency=eur'', ''duration=once'',
        ''redeem_by='' @ show_int redeem_by, ''applies_to[products][0]='' @ product, ''name=Halloween offer'',
        ''metadata[promo]='' @ PROMO_ID, ''metadata[product]=glarion'',
        ''metadata[plan]='' @ plan_db_str (of_plan o'),
        ''metadata[interval]='' @ interval_str (of_interval o'), ''expand[]=applies_to'']"

definition create_session :: "time \<Rightarrow> offer \<Rightarrow> string \<Rightarrow> string list" where
  "create_session now o' price_id =
     with_fields [''checkout'', ''sessions'', ''create'']
       [''mode=subscription'', ''line_items[0][price]='' @ price_id, ''line_items[0][quantity]=1'',
        ''discounts[0][coupon]='' @ offer_coupon o', ''automatic_tax[enabled]=true'',
        ''success_url=https://glarion.app/app/#/plan'', ''cancel_url=https://glarion.app/app/#/plan'',
        ''expires_at='' @ show_int (timestamp now + GRACE_SECONDS + 60),
        ''metadata[promo_verification]='' @ PROMO_ID]"

text \<open>\<open>&session_id[..16]\<close>, in the line that reports success.\<close>

definition first_sixteen :: "string \<Rightarrow> bool" where
  "first_sixteen s \<longleftrightarrow> length s = 16 \<or> (length s > 16 \<and> \<not> continues (s ! 16))"

definition verify_session ::
    "stripe_cli \<Rightarrow> bool \<Rightarrow> time \<Rightarrow> offer \<Rightarrow> string \<Rightarrow> string list list \<Rightarrow> (bool \<times> string list list) option" where
  "verify_session cli live now o' price_id calls =
     Option.bind (run_stripe cli live (create_session now o' price_id) calls) (\<lambda>(session, calls).
     case as_str (jidx session ''id'') of
       None \<Rightarrow> Some (False, calls)
     | Some session_id \<Rightarrow>
         Option.bind (run_stripe cli live [''checkout'', ''sessions'', ''expire'', session_id] calls) (\<lambda>(_, calls).
         if as_i64 (jidx session ''amount_subtotal'') \<noteq> Some (of_regular o')
            \<or> as_i64 (jidx (jidx session ''total_details'') ''amount_discount'') \<noteq> Some (amount_off o')
         then Some (False, calls)
         else if first_sixteen session_id then Some (True, calls) else None))"

text \<open>One offer: whether its line reads ok, and the commands run.\<close>

definition check_offer ::
    "stripe_cli \<Rightarrow> environment \<Rightarrow> flags \<Rightarrow> time \<Rightarrow> offer \<Rightarrow> string list list \<Rightarrow> (bool \<times> string list list) option" where
  "check_offer cli env f now o' calls =
     Option.bind (price_env_var (of_plan o') (of_interval o')) (\<lambda>var.
     case env var of
        None \<Rightarrow> Some (False, calls)
      | Some price_id \<Rightarrow>
          Option.bind (run_stripe cli (fl_live f) [''prices'', ''retrieve'', price_id] calls) (\<lambda>(price, calls).
          if \<not> price_matches (fl_live f) o' price then Some (False, calls)
          else
            Option.bind (run_stripe cli (fl_live f)
                [''coupons'', ''retrieve'', offer_coupon o', ''-d'', ''expand[]=applies_to''] calls) (\<lambda>(found, calls).
            if jidx (jidx found ''error'') ''code'' = JStr ''resource_missing'' \<and> \<not> fl_apply f
            then Some (False, calls)
            else
              Option.bind (if jidx (jidx found ''error'') ''code'' = JStr ''resource_missing''
                  then run_stripe cli (fl_live f) (create_coupon o' (price_product price)) calls
                  else Some (found, calls)) (\<lambda>(coupon, calls).
              if jidx coupon ''error'' \<noteq> JNull then Some (False, calls)
              else if \<not> coupon_matches (fl_live f) o' (price_product price) coupon then Some (False, calls)
              else if fl_verify f then verify_session cli (fl_live f) now o' price_id calls
              else Some (True, calls)))))"

fun check_offers ::
    "stripe_cli \<Rightarrow> environment \<Rightarrow> flags \<Rightarrow> time \<Rightarrow> offer list \<Rightarrow> bool \<times> string list list \<Rightarrow> (bool \<times> string list list) option" where
  "check_offers cli env f now [] st = Some st"
| "check_offers cli env f now (o' # os) (ok, calls) =
     Option.bind (check_offer cli env f now o' calls) (\<lambda>(ok', calls). check_offers cli env f now os (ok \<and> ok', calls))"

text \<open>The exit code, as success, and every command run.\<close>

definition halloween_coupons ::
    "stripe_cli \<Rightarrow> environment \<Rightarrow> time \<Rightarrow> string list \<Rightarrow> (bool \<times> string list list) option" where
  "halloween_coupons cli env now args = check_offers cli env (read_flags args) now OFFERS (True, [])"

subsection \<open>What the tool does\<close>

definition only_retrieves :: "string list list \<Rightarrow> bool" where
  "only_retrieves calls \<longleftrightarrow> list_all (\<lambda>c. take 2 c \<in> {[''prices'', ''retrieve''], [''coupons'', ''retrieve'']}) calls"

lemma run_stripe_Some:
  "run_stripe cli live args calls = Some (answer, calls') \<longleftrightarrow>
     (\<exists>command. command = args @ (if live then [''--live''] else []) \<and> cli calls command = Some answer
        \<and> calls' = calls @ [command])"
  by (auto simp: run_stripe_def Let_def split: option.splits)

lemma run_retrieves:
  "run_stripe cli live (a # ''retrieve'' # rest) calls = Some (x, calls') \<Longrightarrow> a \<in> {''prices'', ''coupons''} \<Longrightarrow>
   only_retrieves calls \<Longrightarrow> only_retrieves calls'"
  by (auto simp: run_stripe_Some only_retrieves_def numeral_2_eq_2)

lemma check_offer_retrieves:
  assumes "check_offer cli env f now o' calls = Some (ok, calls')" "\<not> fl_apply f" "\<not> fl_verify f"
    "only_retrieves calls"
  shows "only_retrieves calls'"
proof (cases "Option.bind (price_env_var (of_plan o') (of_interval o')) env")
  case None
  then show ?thesis using assms
    by (cases "price_env_var (of_plan o') (of_interval o')") (auto simp: check_offer_def)
next
  case (Some price_id)
  then obtain var where var: "price_env_var (of_plan o') (of_interval o') = Some var" "env var = Some price_id"
    by (auto simp: bind_eq_Some_conv)
  show ?thesis
    using assms(1) unfolding check_offer_def var bind.bind_lunit option.case bind_eq_Some_conv
    by (elim exE conjE) (use assms(2-4) in \<open>auto simp: bind_eq_Some_conv dest!: run_retrieves split: if_splits\<close>)
qed

text \<open>Without being told to, the tool changes nothing at Stripe.\<close>

lemma check_only_writes_nothing:
  assumes "halloween_coupons cli env now args = Some (ok, calls)" "''--apply'' \<notin> set args"
    "''--verify-session'' \<notin> set args"
  shows "only_retrieves calls"
proof -
  have "only_retrieves calls'" if "check_offers cli env f now os (b, calls) = Some (ok', calls')"
      "\<not> fl_apply f" "\<not> fl_verify f" "only_retrieves calls" for f os b calls ok' calls'
    using that
    by (induction os arbitrary: b calls) (auto simp: bind_eq_Some_conv dest: check_offer_retrieves)
  then show ?thesis
    using assms by (simp add: halloween_coupons_def read_flags_def only_retrieves_def)
qed

text \<open>An offer that is reported ready: the price is the one the offer is struck from, and Stripe holds a coupon that
  takes exactly the difference, once, from that product.\<close>

definition offer_ready :: "stripe_cli \<Rightarrow> environment \<Rightarrow> bool \<Rightarrow> offer \<Rightarrow> bool" where
  "offer_ready cli env live o' \<longleftrightarrow>
     (\<exists>price_id price coupon h h' command. Option.bind (price_env_var (of_plan o') (of_interval o')) env = Some price_id
        \<and> cli h ([''prices'', ''retrieve'', price_id] @ (if live then [''--live''] else [])) = Some price
        \<and> price_matches live o' price \<and> cli h' command = Some coupon
        \<and> coupon_matches live o' (price_product price) coupon)"

lemma check_offer_ready:
  assumes "check_offer cli env f now o' calls = Some (True, calls')"
  shows "offer_ready cli env (fl_live f) o'"
proof (cases "Option.bind (price_env_var (of_plan o') (of_interval o')) env")
  case None
  then show ?thesis using assms
    by (cases "price_env_var (of_plan o') (of_interval o')") (auto simp: check_offer_def)
next
  case (Some price_id)
  then obtain var where var: "price_env_var (of_plan o') (of_interval o') = Some var" "env var = Some price_id"
    by (auto simp: bind_eq_Some_conv)
  obtain price calls1 where price: "run_stripe cli (fl_live f) [''prices'', ''retrieve'', price_id] calls = Some (price, calls1)"
      "price_matches (fl_live f) o' price"
    using assms unfolding check_offer_def var bind.bind_lunit option.case bind_eq_Some_conv by (auto split: if_splits)
  obtain found calls2 where found: "run_stripe cli (fl_live f)
      [''coupons'', ''retrieve'', offer_coupon o', ''-d'', ''expand[]=applies_to''] calls1 = Some (found, calls2)"
    using assms price unfolding check_offer_def var bind.bind_lunit option.case by (auto simp: bind_eq_Some_conv split: if_splits)
  obtain args calls0 coupon calls3 where "run_stripe cli (fl_live f) args calls0 = Some (coupon, calls3)"
      "coupon_matches (fl_live f) o' (price_product price) coupon"
    using assms price found unfolding check_offer_def var bind.bind_lunit option.case
    by (auto simp: bind_eq_Some_conv split: if_splits)
  then show ?thesis using price Some unfolding offer_ready_def run_stripe_Some by blast
qed

lemma success_means_ready:
  assumes "halloween_coupons cli env now args = Some (True, calls)"
  shows "list_all (offer_ready cli env (''--live'' \<in> set args)) OFFERS"
proof -
  have "b \<and> list_all (offer_ready cli env (fl_live f)) os"
    if "check_offers cli env f now os (b, calls) = Some (True, calls')" for f os b calls calls'
    using that by (induction os arbitrary: b calls) (fastforce simp: bind_eq_Some_conv dest: check_offer_ready)+
  then show ?thesis
    using assms by (fastforce simp: halloween_coupons_def read_flags_def)
qed

text \<open>A discounted checkout that was given an end closes before its coupon lapses.\<close>

lemma coupon_outlives_checkouts:
  assumes "expires_at now = Some t" "now < promo_end"
  shows "t < redeem_by"
  using assms
  by (auto simp: expires_at_def redeem_by_def GRACE_SECONDS_def Let_def timestamp_def promo_end_def duration_defs
      split: if_splits)

end
