(* ===== verification/Nuclei.thy ===== *)
theory Nuclei
  imports Tls
begin

text \<open>
  \<open>crates/orchestrator/src/tools/nuclei.rs\<close>: the arguments the scanner is started with, the checks
  before it is started, and how its output is read.  Starting a process is an argument: the program,
  its arguments and what came of it.
\<close>

definition RATE_LIMIT_PER_SECOND :: nat where "RATE_LIMIT_PER_SECOND = 20"
definition SCAN_TIMEOUT_SECS :: nat where "SCAN_TIMEOUT_SECS = 2400"
definition MAX_OUTPUT_BYTES :: nat where "MAX_OUTPUT_BYTES = 16 * 1024 * 1024"
definition EXCLUDED_TAGS :: string where "EXCLUDED_TAGS = ''fuzz,brute-force,dos,intrusive''"

definition build_args :: "string \<Rightarrow> string list" where
  "build_args domain =
     [''-target'', domain, ''-jsonl'', ''-rate-limit'', show_nat RATE_LIMIT_PER_SECOND,
      ''-concurrency'', ''10'', ''-timeout'', ''10'', ''-retries'', ''1'',
      ''-exclude-tags'', EXCLUDED_TAGS, ''-no-interactsh'', ''-disable-update-check'',
      ''-restrict-local-network-access'', ''-silent'']"

text \<open>\<open>str::lines\<close>: without the end of line, a carriage return before it included, and without an
  empty line after the last one.\<close>

definition strip_cr :: "string \<Rightarrow> string" where
  "strip_cr line = (if line \<noteq> [] \<and> last line = CHR 0x0D then butlast line else line)"

definition str_lines :: "string \<Rightarrow> string list" where
  "str_lines s =
     (let parts = split_char CHR 0x0A s in
      map strip_cr (butlast parts) @ (if last parts = [] then [] else [last parts]))"

definition finding_of_value :: "json \<Rightarrow> finding" where
  "finding_of_value v =
     (let info = jget ''info'' v in
      \<lparr>f_severity = (case Option.bind (Option.bind info (jget ''severity'')) as_str of
         Some s \<Rightarrow> from_tool_label s | None \<Rightarrow> Info),
       f_title = (case Option.bind (Option.bind info (jget ''name'')) as_str of
         Some n \<Rightarrow> n
       | None \<Rightarrow> (case get_str ''template-id'' v of Some t \<Rightarrow> t | None \<Rightarrow> ''Unnamed finding'')),
       f_description = Option.bind (Option.bind info (jget ''description'')) as_str,
       f_raw = v\<rparr>)"

definition parse_jsonl :: "(string \<Rightarrow> json option) \<Rightarrow> string \<Rightarrow> finding list" where
  "parse_jsonl from_json output =
     map finding_of_value
       (List.map_filter from_json (filter (\<lambda>line. trim line \<noteq> []) (str_lines output)))"

datatype nuclei_error =
    NucleiInvalidTarget string
  | NucleiRefused string
  | NotInstalled
  | ScanTimedOut
  | NucleiFailed string

fun nuclei_error_msg :: "nuclei_error \<Rightarrow> string" where
  "nuclei_error_msg (NucleiInvalidTarget m) = ''invalid target: '' @ m"
| "nuclei_error_msg (NucleiRefused m) = ''refusing to scan: '' @ m"
| "nuclei_error_msg NotInstalled = ''nuclei is not installed or not on PATH''"
| "nuclei_error_msg ScanTimedOut = ''scan timed out after '' @ show_nat SCAN_TIMEOUT_SECS @ ''s''"
| "nuclei_error_msg (NucleiFailed m) = ''nuclei failed: '' @ m"

text \<open>How a process ends: not found, not started, killed at the time limit, lost, or done with a
  status and its two streams.\<close>

datatype process_end =
    NotFound
  | NotStarted string
  | Killed
  | Lost string
  | Exited bool string string

record machine =
  ma_net :: tls_net
  ma_spawn :: "string \<Rightarrow> string list \<Rightarrow> process_end"
  ma_json :: "string \<Rightarrow> json option"
  ma_dates :: date_format

definition read_output :: "(string \<Rightarrow> json option) \<Rightarrow> bool \<Rightarrow> string \<Rightarrow> string \<Rightarrow> nuclei_error + finding list" where
  "read_output from_json ok out err =
     (if out = [] \<and> \<not> ok then Inl (NucleiFailed (take_chars 500 (from_utf8_lossy err)))
      else Inr (parse_jsonl from_json (from_utf8_lossy
        (if length out > MAX_OUTPUT_BYTES then take MAX_OUTPUT_BYTES out else out))))"

definition nuclei_run :: "machine \<Rightarrow> string \<Rightarrow> nuclei_error + finding list" where
  "nuclei_run m domain =
     bind_res (map_err (\<lambda>e. NucleiInvalidTarget (domain_error_msg e)) (normalize_target domain)) (\<lambda>host.
     bind_res (map_err (\<lambda>e. NucleiRefused (net_guard_msg (tn_show_ip (ma_net m)) e))
         (resolve_public_addresses (tn_lookup (ma_net m)) host)) (\<lambda>_.
       case ma_spawn m ''nuclei'' (build_args host) of
         NotFound \<Rightarrow> Inl NotInstalled
       | NotStarted err \<Rightarrow> Inl (NucleiFailed err)
       | Killed \<Rightarrow> Inl ScanTimedOut
       | Lost err \<Rightarrow> Inl (NucleiFailed err)
       | Exited ok out err \<Rightarrow> read_output (ma_json m) ok out err))"

subsection \<open>Reading the output\<close>

lemma parse_jsonl_raw:
  "map f_raw (parse_jsonl from_json output) =
     List.map_filter from_json (filter (\<lambda>line. trim line \<noteq> []) (str_lines output))"
  by (simp add: parse_jsonl_def finding_of_value_def Let_def comp_def)

lemma str_lines_append_line:
  assumes "CHR 0x0A \<notin> set line"
  shows "str_lines (line @ CHR 0x0A # rest) = strip_cr line # str_lines rest"
proof -
  have "split_char CHR 0x0A line = [line]"
    using assms split_on_id[of line "\<lambda>c. c = CHR 0x0A"] by (auto simp: split_char_def)
  moreover have "split_char CHR 0x0A rest \<noteq> []" by (simp add: split_char_def)
  ultimately show ?thesis by (simp add: str_lines_def split_char_sep Let_def)
qed

text \<open>A line that is not JSON takes nothing with it: what is read is what the other lines hold.\<close>

lemma malformed_line_skipped:
  assumes "CHR 0x0A \<notin> set line" "from_json (strip_cr line) = None"
  shows "parse_jsonl from_json (line @ CHR 0x0A # rest) = parse_jsonl from_json rest"
  using assms by (simp add: parse_jsonl_def str_lines_append_line map_filter_simps)

text \<open>What a scanner writes, one document a line.\<close>

definition jsonl :: "string list \<Rightarrow> string" where
  "jsonl docs = concat (map (\<lambda>d. d @ [CHR 0x0A]) docs)"

text \<open>The findings of a scan are those the scanner wrote: documents written one a line are read back
  one finding each, in order, with the document kept whole as the raw output.\<close>

lemma jsonl_roundtrip:
  assumes "list_all (\<lambda>d. CHR 0x0A \<notin> set d \<and> CHR 0x0D \<notin> set d \<and> trim d \<noteq> []) docs"
    and "map from_json docs = map Some values"
  shows "parse_jsonl from_json (jsonl docs) = map finding_of_value values
     \<and> map f_raw (parse_jsonl from_json (jsonl docs)) = values"
proof -
  have lines: "str_lines (jsonl docs) = docs"
    using assms(1)
  proof (induction docs)
    case Nil
    then show ?case by (simp add: jsonl_def str_lines_def split_char_def Let_def)
  next
    case (Cons d docs)
    have "strip_cr d = d" using Cons.prems by (auto simp: strip_cr_def dest: last_in_set)
    then show ?case
      using Cons str_lines_append_line[of d "jsonl docs"] by (simp add: jsonl_def)
  qed
  have keep: "filter (\<lambda>line. trim line \<noteq> []) docs = docs"
    using assms(1) by (auto simp: list_all_iff filter_id_conv)
  have "List.map_filter from_json docs = values"
    using assms(2) by (induction docs arbitrary: "values") (auto simp: map_filter_simps Cons_eq_map_conv)
  then show ?thesis
    by (simp add: parse_jsonl_def lines keep comp_def finding_of_value_def Let_def)
qed

lemma jsonl_roundtrip_witness:
  "let from_json = (\<lambda>s. if s = ''a'' then Some (JObj [(''template-id'', JStr ''a'')])
       else if s = ''b'' then Some (JObj [(''template-id'', JStr ''b'')]) else None) in
   map f_title (parse_jsonl from_json (jsonl [''a'', ''b''])) = [''a'', ''b'']"
proof -
  define from_json where "from_json = (\<lambda>s. if s = ''a'' then Some (JObj [(''template-id'', JStr ''a'')])
       else if s = ''b'' then Some (JObj [(''template-id'', JStr ''b'')]) else None)"
  have "trim ''a'' = ''a''" "trim ''b'' = ''b''" by code_simp+
  then have "parse_jsonl from_json (jsonl [''a'', ''b'']) =
      map finding_of_value [JObj [(''template-id'', JStr ''a'')], JObj [(''template-id'', JStr ''b'')]]"
    using jsonl_roundtrip[of "[''a'', ''b'']" from_json
        "[JObj [(''template-id'', JStr ''a'')], JObj [(''template-id'', JStr ''b'')]]"]
    by (simp add: from_json_def)
  then show ?thesis by (simp add: from_json_def[symmetric] finding_of_value_def get_str_def)
qed

subsection \<open>What a scan contacts\<close>

text \<open>Two machines that agree on a host and on what starting the scanner for it does, once its
  addresses are known to be public.\<close>

definition same_machine_at :: "string \<Rightarrow> machine \<Rightarrow> machine \<Rightarrow> bool" where
  "same_machine_at host m m' \<longleftrightarrow>
     same_net_at host (ma_net m) (ma_net m') \<and> ma_json m' = ma_json m \<and> ma_dates m' = ma_dates m
     \<and> (case resolve_public_addresses (tn_lookup (ma_net m)) host of
          Inl _ \<Rightarrow> True
        | Inr _ \<Rightarrow> ma_spawn m' ''nuclei'' (build_args host) = ma_spawn m ''nuclei'' (build_args host))"

lemma nuclei_contacts_only_public:
  assumes "\<And>host. normalize_target domain = Inr host \<Longrightarrow> same_machine_at host m m'"
  shows "nuclei_run m' domain = nuclei_run m domain"
proof (cases "normalize_target domain")
  case (Inl e)
  then show ?thesis by (simp add: nuclei_run_def)
next
  case (Inr host)
  then have same: "same_machine_at host m m'" by (rule assms)
  then have net: "same_net_at host (ma_net m) (ma_net m')" and json: "ma_json m' = ma_json m"
    by (simp_all add: same_machine_at_def)
  have show_ip: "tn_show_ip (ma_net m') = tn_show_ip (ma_net m)" using net by (simp add: same_net_at_def)
  show ?thesis
    using same Inr
    by (cases "resolve_public_addresses (tn_lookup (ma_net m)) host")
      (auto simp: nuclei_run_def resolve_same[OF net] show_ip json same_machine_at_def split: process_end.split)
qed

end
