(* ===== verification/Scan.thy ===== *)
theory Scan
  imports Runner Nuclei
begin

text \<open>
  Executing a job with the program's own two scanners: \<open>runner.rs\<close> over \<open>tools/nuclei.rs\<close> and
  \<open>tools/tls.rs\<close>.  What leaves the machine is what the arguments of those two are asked.
\<close>

definition nuclei_scanner :: "machine \<Rightarrow> scanner" where
  "nuclei_scanner m domain = map_err nuclei_error_msg (nuclei_run m domain)"

definition tls_scanner :: "machine \<Rightarrow> time \<Rightarrow> scanner" where
  "tls_scanner m now domain = map_err tls_error_msg (tls_run (ma_net m) (ma_dates m) now domain)"

text \<open>\<open>now\<close> is when the gate is checked, \<open>read\<close> when the certificate was, \<open>later\<close> when the tool ended.\<close>

definition execute_on ::
  "machine \<Rightarrow> string \<Rightarrow> time \<Rightarrow> time \<Rightarrow> time \<Rightarrow> claimed_job \<Rightarrow> db \<Rightarrow> db \<times> outbox" where
  "execute_on m public_url now read later job d =
     execute (nuclei_scanner m) (tls_scanner m read) public_url now later job d"


definition quiet_machine :: machine where
  "quiet_machine =
     \<lparr>ma_net = \<lparr>tn_lookup = (\<lambda>_. Some [(V4 (1, 1, 1, 1), 443)]), tn_connects = (\<lambda>_. False),
        tn_config_error = None, tn_name_error = (\<lambda>_. None), tn_handshake = (\<lambda>_ _. HandshakeTimeout),
        tn_x509 = (\<lambda>_. Inl ''empty''), tn_show_ip = (\<lambda>_. ''1.1.1.1'')\<rparr>,
      ma_spawn = (\<lambda>_ _. NotFound), ma_json = (\<lambda>_. None),
      ma_dates = \<lparr>df_long = (\<lambda>_. []), df_rfc3339 = (\<lambda>_. [])\<rparr>\<rparr>"

definition watched_db :: db where
  "watched_db = empty_db
     \<lparr>targets := [\<lparr>tg_id = 2, tg_user = 1, tg_domain = ''example.com'', tg_client = None,
        tg_cadence = ''manual'', tg_last_scheduled = None, tg_created = 0\<rparr>],
      proofs := [\<lparr>v_id = 5, v_target = 2, v_method = ''dns_txt'', v_token = ''t'', v_verified_at = Some 1,
        v_expires_at = Some 9, v_created = 0\<rparr>]\<rparr>"


end
