(* ===== verification/Spec2Isabelle.thy ===== *)
theory Spec2Isabelle
  imports Worker Registration CrossSite Coupons Signature Scan MailText
begin

text \<open>
  Glarion watches the public web sites of its customers.  An account registers a site, proves that it
  owns it (a DNS TXT record or a file at a fixed URL), and then has it scanned by hand or on a
  schedule; the findings are triaged into a report and the owner is told what changed.  Plans are paid
  through Stripe.  The program is a Rust workspace: \<open>crates/orchestrator\<close> holds the scanning side and the
  worker's loops, \<open>crates/api\<close> the HTTP handlers and \<open>crates/report\<close> the page a client gets.  One PostgreSQL
  database is the only shared state.

  \<^bold>\<open>Parts and theories.\<close>  Each theory names its source file in its first lines; names of definitions are
  those of the source where HOL has them free.
    \<^item> \<open>Prelude\<close>, \<open>Strs\<close>, \<open>Clock\<close>, \<open>IpParse\<close>, \<open>Json\<close>: the pieces of Rust's standard library and of
      \<open>chrono\<close> and \<open>serde_json\<close> that the source calls, over strings as UTF-8 bytes and time stamps as
      microseconds.
    \<^item> \<open>Finding\<close>, \<open>Triage\<close>, \<open>Schedule\<close>, \<open>Policy\<close>: the data of a scan (\<open>finding.rs\<close>), the report's
      sections (\<open>triage.rs\<close>), when a target is due and what changed (\<open>schedule.rs\<close>), the caps
      (\<open>policy.rs\<close>).  They are pure functions.
    \<^item> \<open>Domain\<close>, \<open>NetGuard\<close>, \<open>Verification\<close>: which names may be registered (\<open>domain.rs\<close>), which addresses
      may be contacted (\<open>net_guard.rs\<close>, on machine words), when an ownership proof holds and how it is
      read (\<open>verification.rs\<close>).
    \<^item> \<open>Tls\<close>, \<open>Nuclei\<close>, \<open>Scan\<close>, \<open>Preview\<close>: the two scanners (\<open>tools/tls.rs\<close>, \<open>tools/nuclei.rs\<close>), a job executed
      with them, and the check that needs no permission (\<open>preview.rs\<close>).
    \<^item> \<open>ApiError\<close>, \<open>RateLimit\<close>, \<open>Growth\<close>, \<open>Plans\<close>, \<open>Signature\<close>: errors and their responses (\<open>error.rs\<close>),
      the two window counters (\<open>rate_limit.rs\<close>), the anonymous counters (\<open>growth.rs\<close>), plans, prices and
      webhook signatures (\<open>billing.rs\<close>).
    \<^item> \<open>Store\<close>: the tables as a record of row lists, and the queries several components share.  A new
      primary key is an argument of the operation that inserts.
    \<^item> \<open>ScanGate\<close>, \<open>Targets\<close>, \<open>Results\<close>, \<open>FreeReport\<close> (\<open>routes/scans.rs\<close>, \<open>targets.rs\<close>, \<open>results.rs\<close> and
      \<open>profile.rs\<close>, \<open>preview.rs\<close>): handlers, from the database to the answer and the next database.  Their error
      paths are the left side of a sum.
    \<^item> \<open>Stripe\<close>, \<open>Subscriptions\<close>, \<open>Webhook\<close>, \<open>Checkout\<close>, \<open>ManageBilling\<close>, \<open>Portal\<close>, \<open>Promo\<close>, \<open>Coupons\<close>: the billing
      routes (\<open>routes/billing.rs\<close>, \<open>promo.rs\<close>, \<open>bin/halloween_coupons.rs\<close>).  A handler is an action on the process
      (tables, requests made, mail sent) that may fail; Stripe is a function from the requests it has had so far
      and the new one to its reply.
    \<^item> \<open>Auth\<close>, \<open>Accounts\<close>, \<open>Credentials\<close>, \<open>Registration\<close>: sessions (\<open>auth.rs\<close>), the account routes
      (\<open>routes/accounts.rs\<close>), what they promise, and the way in from the first request to the first session.
    \<^item> \<open>Mail\<close>, \<open>MailText\<close>, \<open>MailRelay\<close>, \<open>Report\<close>: which mail is sent, how it reads (\<open>mailer.rs\<close>), the chain of
      providers it goes through (\<open>mail_relay.rs\<close>), and the report (\<open>html.rs\<close>).
    \<^item> \<open>Scheduler\<close>, \<open>Runner\<close>, \<open>Renewal\<close>, \<open>TrialReminder\<close>: the background work, one tick each, with the mail a
      tick sends as its second result.
    \<^item> \<open>System\<close>, \<open>Service\<close>, \<open>Worker\<close>: the background and the scan handlers as one step relation over the clock and the
      tables; that relation with every other handler as steps of one process; the worker's two endless loops,
      statement by statement, with the rest of the service going on in between.
    \<^item> \<open>Web\<close>, \<open>CrossSite\<close>: what the process starts with, the route table, the layers around every answer (\<open>lib.rs\<close>,
      \<open>config.rs\<close>), and what a page of another site can reach through them.

  \<^bold>\<open>Interfaces.\<close>  \<open>window_limiter\<close> (\<open>RateLimit\<close>) states what a window counter promises and derives the bound
  of twice the limit; the shared table and the in-process limiter are its instances.  \<open>scan_source\<close>
  (\<open>ScanGate\<close>) states what every way of queueing a scan promises (a job comes with an authorization on a
  proof in force); the handler and the scheduler are its instances.  \<open>action_relation\<close> (\<open>Stripe\<close>) is a relation
  between worlds that the elementary actions of a handler go along; \<open>account_relation\<close> (\<open>Accounts\<close>),
  \<open>service_relation\<close> and \<open>served_relation\<close> (\<open>Service\<close>) add the writes on accounts, the rest of the handlers and the
  background.  Their instances say which tables a handler leaves alone, that session versions only grow, that
  addresses and trials stay unique, which requests to Stripe are ever made.

  \<^bold>\<open>What the lemmas show.\<close>  The gate: a scan is queued exactly under the conditions the handler lists, by
  hand or by the scheduler; in every world of the service each job can be traced to an authorization and
  a completed proof of its own target; a scan reaches only public addresses of the proved site.  The worker: a
  waiting job is settled after as many turns as jobs were ahead of it; a settled job stays; a job follows the
  life of the abstract machine.  Names and addresses: exactly the public host names can be registered and exactly
  the public addresses contacted.  Triage: nothing is lost, the order of the scanner's output does not matter.
  Billing: what an account may do rests on what Stripe says it pays for, an event is applied once, checkout and
  cancellation pass only through their guards.  Accounts: who is signed out by what and for good, links work once,
  answers do not say who has an account, whoever registers and follows the link is in.  Pages and mail: nothing
  scanned or typed becomes markup, at most one provider takes a mail, a send ends.  The front door: every answer of
  the API carries the headers the layers set, and a page of another site changes nothing.  Lemmas named in their
  text as an oddity of the code (\<open>tick_overshoots_daily_limit\<close>, \<open>interrupted_scan_doubles\<close>,
  \<open>deletion_leaves_links\<close>, \<open>absolute_target_leaves_the_site\<close> and others) prove what it does on such an input.

  \<^bold>\<open>Parameters.\<close>  DNS, connections, the HTTP client, rustls and the X.509 parser, process starting, the mail
  providers, Stripe, Argon2, SHA-256, HMAC, base64url, the JSON of a session's claims, \<open>chrono\<close>'s date formats,
  Unicode case, the style sheet, random values, the order of an unordered query, and the HTTP library (its
  choice of a route and a method, its layers, its file services).  What a property needs of one of them is a
  named hypothesis (\<open>tower_ok\<close>, \<open>cors_ok\<close>, \<open>picks_ok\<close>, \<open>base64url\<close>), met by a concrete function in its witness.

  \<^bold>\<open>Bounds.\<close>  Recursion is structural or over the length of a string.  The loops of the background tasks are
  modelled turn by turn, so no fuel is needed; that a turn can always be made is \<open>runner_never_stuck\<close>, and how many
  are enough is \<open>waiting_job_is_settled\<close>.  Integers are unbounded where the source cannot overflow them and words or
  explicit wrap-around where it can (addresses, counters, time stamps).  The version of a session is a column that
  is taken not to overflow.

  \<^bold>\<open>Not modelled.\<close>  Logging, connection pooling, applying migrations, opening sockets and files, the browser
  client, the two operator programs that only print (\<open>growth_report.rs\<close>, \<open>mail_preview.rs\<close>), and failures of the
  database itself (each statement succeeds).  A transaction is one step and a request is one step, so two requests
  never interleave inside; there is one runner.
\<close>

end
